(* ===== verification/Prelude.thy ===== *)
theory Prelude
  imports Complex_Main "HOL-Library.Char_ord" "HOL-Library.List_Lexorder"
begin

text \<open>
  The vocabulary every component of the operator shares: the theorem collections, Go's 64-bit
  integers and its truncating division, strings and decimal formatting, errors as values with
  wrapping (\<open>fmt.Errorf\<close> with \<open>%w\<close>), and the interface of a component that keeps an
  invariant under its operations.
\<close>

section \<open>Theorem collections\<close>

named_theorems go_defs \<open>small Go helpers, unfolded by the component proofs\<close>
named_theorems inv_keeps \<open>operations that keep the invariant of their component\<close>

section \<open>Integers\<close>

text \<open>
  Go's \<open>int\<close>, \<open>int64\<close> and \<open>time.Duration\<close> are 64-bit two's complement numbers.
  They are modelled as \<open>int\<close> with the wrap-around written out at every operation that can
  leave the range.
\<close>

type_synonym int64 = int

definition wrap64 :: "int \<Rightarrow> int64" where
  "wrap64 i = (i + 2 ^ 63) mod 2 ^ 64 - 2 ^ 63"

definition in_int64 :: "int \<Rightarrow> bool" where
  "in_int64 i \<longleftrightarrow> - (2 ^ 63) \<le> i \<and> i < 2 ^ 63"

lemma wrap64_id [simp]: "in_int64 i \<Longrightarrow> wrap64 i = i"
  by (simp add: wrap64_def in_int64_def)

lemma in_int64_wrap64 [simp]: "in_int64 (wrap64 i)"
  by (simp add: wrap64_def in_int64_def)

lemma wrap64_mod: "wrap64 i mod 2 ^ 64 = i mod 2 ^ 64"
  by (simp add: wrap64_def mod_diff_left_eq)

text \<open>Go's \<open>/\<close> and \<open>%\<close> on integers round towards zero (the divisors here are constants).\<close>

definition go_div :: "int \<Rightarrow> int \<Rightarrow> int" where
  "go_div a b = sgn a * sgn b * (\<bar>a\<bar> div \<bar>b\<bar>)"

definition go_mod :: "int \<Rightarrow> int \<Rightarrow> int" where
  "go_mod a b = a - go_div a b * b"

lemma go_div_nonneg: "0 \<le> a \<Longrightarrow> 0 < b \<Longrightarrow> go_div a b = a div b"
  by (cases "a = 0") (simp_all add: go_div_def)

lemma go_mod_nonneg: "0 \<le> a \<Longrightarrow> 0 < b \<Longrightarrow> go_mod a b = a mod b"
  by (simp add: go_mod_def go_div_nonneg minus_div_mult_eq_mod)

section \<open>Strings\<close>

text \<open>\<open>strings.HasPrefix\<close>, and the decimal form of an integer (\<open>%d\<close>).\<close>

definition has_prefix :: "string \<Rightarrow> string \<Rightarrow> bool" where
  "has_prefix s p \<longleftrightarrow> take (length p) s = p"

lemma has_prefix_iff: "has_prefix s p \<longleftrightarrow> (\<exists>t. s = p @ t)"
  unfolding has_prefix_def by (metis append_take_drop_id append_eq_conv_conj)

definition digit_char :: "nat \<Rightarrow> char" where
  "digit_char d = char_of (48 + d)"

fun show_nat :: "nat \<Rightarrow> string" where
  "show_nat n = (if n < 10 then [digit_char n] else show_nat (n div 10) @ [digit_char (n mod 10)])"

declare show_nat.simps [simp del]

definition show_int :: "int \<Rightarrow> string" where
  "show_int i = (if i < 0 then ''-'' @ show_nat (nat (- i)) else show_nat (nat i))"

definition show_bool :: "bool \<Rightarrow> string" where
  "show_bool b = (if b then ''true'' else ''false'')"

section \<open>Errors\<close>

text \<open>
  An error value. The sentinels are the package variables that the code compares with
  \<open>errors.Is\<close>; \<open>ErrNew\<close> is an opaque error with its text, \<open>ErrWrap p e\<close> is
  \<open>fmt.Errorf(p + "%w", e)\<close>. A Go \<open>error\<close> that may be nil is a \<open>go_error option\<close>.
\<close>

datatype go_error =
    CtxCanceled
  | CtxDeadlineExceeded
  | ErrCircuitBreakerOpen
  | ErrRateLimited
  | ErrNew string
  | ErrWrap string go_error

fun err_text :: "go_error \<Rightarrow> string" where
  "err_text CtxCanceled = ''context canceled''"
| "err_text CtxDeadlineExceeded = ''context deadline exceeded''"
| "err_text ErrCircuitBreakerOpen = ''circuit breaker is open''"
| "err_text ErrRateLimited = ''rate limit exceeded''"
| "err_text (ErrNew s) = s"
| "err_text (ErrWrap p e) = p @ err_text e"

text \<open>\<open>errors.Is(e, target)\<close> for a sentinel target: the wrap chain is followed to its end.\<close>

fun err_is :: "go_error \<Rightarrow> go_error \<Rightarrow> bool" where
  "err_is (ErrWrap p e) t = err_is e t"
| "err_is e t = (e = t)"

fun err_root :: "go_error \<Rightarrow> go_error" where
  "err_root (ErrWrap p e) = err_root e"
| "err_root e = e"

lemma err_is_root: "(\<And>p e. t \<noteq> ErrWrap p e) \<Longrightarrow> err_is e t \<longleftrightarrow> err_root e = t"
  by (induction e) auto

section \<open>A component that keeps an invariant\<close>

text \<open>
  The contract shared by every stateful component below: each operation, applied to a state that
  satisfies the invariant, gives a state that satisfies it. A run is a list of operations in the
  order in which the component's mutex admitted them.
\<close>

fun run_ops :: "('op \<Rightarrow> 's \<Rightarrow> 's) \<Rightarrow> 'op list \<Rightarrow> 's \<Rightarrow> 's" where
  "run_ops step [] s = s"
| "run_ops step (x # xs) s = run_ops step xs (step x s)"

lemma run_ops_append: "run_ops step (xs @ ys) s = run_ops step ys (run_ops step xs s)"
  by (induction xs arbitrary: s) auto

text \<open>\<open>run_ok ok step xs s\<close>: every operation of the run is called where \<open>ok\<close> allows it.\<close>

fun run_ok :: "('op \<Rightarrow> 's \<Rightarrow> bool) \<Rightarrow> ('op \<Rightarrow> 's \<Rightarrow> 's) \<Rightarrow> 'op list \<Rightarrow> 's \<Rightarrow> bool" where
  "run_ok ok step [] s = True"
| "run_ok ok step (x # xs) s = (ok x s \<and> run_ok ok step xs (step x s))"

lemma run_ok_always [simp]: "run_ok (\<lambda>_ _. True) step xs s"
  by (induction xs arbitrary: s) auto

lemma run_ok_append:
  "run_ok ok step (xs @ ys) s \<longleftrightarrow> run_ok ok step xs s \<and> run_ok ok step ys (run_ops step xs s)"
  by (induction xs arbitrary: s) auto

locale invariant_machine =
  fixes step :: "'op \<Rightarrow> 's \<Rightarrow> 's"
    and ok :: "'op \<Rightarrow> 's \<Rightarrow> bool"
    and inv :: "'s \<Rightarrow> bool"
  assumes inv_step: "inv s \<Longrightarrow> ok x s \<Longrightarrow> inv (step x s)"
begin

lemma inv_run: "inv s \<Longrightarrow> run_ok ok step xs s \<Longrightarrow> inv (run_ops step xs s)"
  by (induction xs arbitrary: s) (auto intro: inv_step)

lemma inv_every_state: "inv s \<Longrightarrow> run_ok ok step (xs @ ys) s \<Longrightarrow> inv (run_ops step xs s)"
  by (simp add: run_ok_append inv_run)

end

end
