(* ===== verification/Float64.thy ===== *)
theory Float64
  imports Prelude "HOL-Library.Log_Nat"
begin

text \<open>
  Go's \<open>float64\<close>: IEEE 754 binary64 with the default rounding, to nearest with ties to even.
  A finite value is the rational number it denotes, so every operation is the exact rational
  operation followed by one rounding (\<open>rnd\<close>), with overflow to an infinity. The sign of a
  zero is not kept: it can only be observed as a divisor, and no divisor of the code is a negative
  zero. Infinities and NaN are values of their own, and comparisons with NaN are false.
  The theory proves the facts about rounding that the components use: it is monotone, it keeps
  every value of the format (all integers up to \<open>2 ^ 53\<close> are), and its relative error is at
  most \<open>2 powi (-53)\<close>.
\<close>

section \<open>Rounding a rational number to the format\<close>

text \<open>
  \<open>ilog2 q\<close> is the binary exponent of \<open>q > 0\<close>; \<open>2 powi (ulp_exp q)\<close> is the distance of
  neighbouring values of the format around \<open>q\<close> (subnormal numbers included).
\<close>

definition round_half_even :: "rat \<Rightarrow> int" where
  "round_half_even x =
     (let f = \<lfloor>x\<rfloor>; r = x - of_int f in
      if r < 1/2 then f
      else if 1/2 < r then f + 1
      else if even f then f else f + 1)"

definition ilog2 :: "rat \<Rightarrow> int" where
  "ilog2 q =
     (let (n, d) = quotient_of q; e = bitlen n - bitlen d in
      if 2 powi e \<le> q then e else e - 1)"

definition ulp_exp :: "rat \<Rightarrow> int" where
  "ulp_exp q = max (ilog2 q - 52) (- 1074)"

definition rnd_pos :: "rat \<Rightarrow> rat" where
  "rnd_pos q = (let u = 2 powi (ulp_exp q) in of_int (round_half_even (q / u)) * u)"

definition rnd :: "rat \<Rightarrow> rat" where
  "rnd q = (if q = 0 then 0 else if q < 0 then - rnd_pos (- q) else rnd_pos q)"

lemma round_half_even_le: "x \<le> of_int n \<Longrightarrow> round_half_even x \<le> n"
proof -
  assume h: "x \<le> of_int n"
  show ?thesis
  proof (cases "x = of_int n")
    case True
    then show ?thesis by (simp add: round_half_even_def)
  next
    case False
    with h have "\<lfloor>x\<rfloor> < n" by linarith
    then show ?thesis by (auto simp: round_half_even_def Let_def)
  qed
qed

lemma round_half_even_ge: "of_int n \<le> x \<Longrightarrow> n \<le> round_half_even x"
proof -
  assume "of_int n \<le> x"
  then have "n \<le> \<lfloor>x\<rfloor>" by (simp add: le_floor_iff)
  then show ?thesis by (auto simp: round_half_even_def Let_def)
qed

lemma round_half_even_mono: "x \<le> y \<Longrightarrow> round_half_even x \<le> round_half_even y"
proof -
  assume h: "x \<le> y"
  then have f: "\<lfloor>x\<rfloor> \<le> \<lfloor>y\<rfloor>" by (rule floor_mono)
  show ?thesis
  proof (cases "\<lfloor>x\<rfloor> = \<lfloor>y\<rfloor>")
    case True
    with h show ?thesis by (auto simp: round_half_even_def Let_def)
  next
    case False
    with f have "\<lfloor>x\<rfloor> + 1 \<le> \<lfloor>y\<rfloor>" by linarith
    moreover have "round_half_even x \<le> \<lfloor>x\<rfloor> + 1" by (auto simp: round_half_even_def Let_def)
    moreover have "\<lfloor>y\<rfloor> \<le> round_half_even y" by (auto simp: round_half_even_def Let_def)
    ultimately show ?thesis by linarith
  qed
qed

lemma round_half_even_error: "\<bar>of_int (round_half_even x) - x\<bar> \<le> 1/2"
  unfolding round_half_even_def Let_def
  using of_int_floor_le [of x] floor_correct [of x]
  by (auto simp: abs_le_iff) 

lemma round_half_even_of_int [simp]: "round_half_even (of_int n) = n"
  by (simp add: round_half_even_def)

lemma powi_of_int: "0 \<le> e \<Longrightarrow> (2::rat) powi e = of_int (2 ^ nat e)"
  by (simp add: power_int_def)

lemma ilog2_bounds:
  assumes "0 < q"
  shows "2 powi (ilog2 q) \<le> q" and "q < 2 powi (ilog2 q + 1)"
proof -
  obtain n d where nd: "quotient_of q = (n, d)" by (cases "quotient_of q")
  then have q: "q = of_int n / of_int d" and d: "0 < d"
    by (simp_all add: quotient_of_div quotient_of_denom_pos)
  with assms have n: "0 < n" by (simp add: zero_less_divide_iff)
  let ?a = "bitlen n" and ?b = "bitlen d"
  have a: "(1::int) \<le> ?a" and b: "(1::int) \<le> ?b"
    using n d bitlen_nonneg bitlen_eq_zero_iff by (smt (verit))+
  have n1: "2 ^ nat (?a - 1) \<le> n" and n2: "n < 2 ^ nat ?a"
    using bitlen_bounds [OF n] by auto
  have d1: "2 ^ nat (?b - 1) \<le> d" and d2: "d < 2 ^ nat ?b"
    using bitlen_bounds [OF d] by auto
  have n1': "(2::rat) powi (?a - 1) \<le> of_int n"
    using n1 a by (subst powi_of_int) (simp_all only: of_int_le_iff)
  have n2': "of_int n < (2::rat) powi ?a"
    using n2 a by (subst powi_of_int) (simp_all only: of_int_less_iff)
  have d1': "(2::rat) powi (?b - 1) \<le> of_int d"
    using d1 b by (subst powi_of_int) (simp_all only: of_int_le_iff)
  have d2': "of_int d < (2::rat) powi ?b"
    using d2 b by (subst powi_of_int) (simp_all only: of_int_less_iff)
  have dp: "(0::rat) < of_int d" using d by simp
  have lo: "2 powi (?a - ?b - 1) \<le> q"
  proof -
    have "2 powi (?a - ?b - 1) * of_int d \<le> 2 powi (?a - ?b - 1) * (2::rat) powi ?b"
      using d2' by (intro mult_left_mono) auto
    also have "\<dots> = 2 powi (?a - 1)" by (simp flip: power_int_add)
    also have "\<dots> \<le> of_int n" by (rule n1')
    finally show ?thesis using dp by (simp add: q pos_le_divide_eq)
  qed
  have hi: "q < 2 powi (?a - ?b + 1)"
  proof -
    have "of_int n < (2::rat) powi ?a" by (rule n2')
    also have "\<dots> = 2 powi (?a - ?b + 1) * (2::rat) powi (?b - 1)" by (simp flip: power_int_add)
    also have "\<dots> \<le> 2 powi (?a - ?b + 1) * of_int d"
      using d1' by (intro mult_left_mono) auto
    finally show ?thesis using dp by (simp add: q pos_divide_less_eq)
  qed
  show "2 powi (ilog2 q) \<le> q" and "q < 2 powi (ilog2 q + 1)"
    using lo hi by (auto simp: ilog2_def nd Let_def)
qed


lemma powi_less_iff [simp]: "(2::rat) powi a < 2 powi b \<longleftrightarrow> a < b"
proof
  assume h: "(2::rat) powi a < 2 powi b"
  show "a < b"
  proof (rule ccontr)
    assume "\<not> a < b"
    then have "(2::rat) powi b \<le> 2 powi a" by (intro power_int_increasing) auto
    with h show False by linarith
  qed
qed (intro power_int_strict_increasing, auto)

lemma powi_le_iff [simp]: "(2::rat) powi a \<le> 2 powi b \<longleftrightarrow> a \<le> b"
  by (simp flip: not_less)

lemma ilog2_mono: "0 < p \<Longrightarrow> p \<le> q \<Longrightarrow> ilog2 p \<le> ilog2 q"
proof -
  assume "0 < p" and "p \<le> q"
  then have "2 powi (ilog2 p) \<le> p" and "q < 2 powi (ilog2 q + 1)"
    using ilog2_bounds by simp_all
  with \<open>p \<le> q\<close> have "(2::rat) powi (ilog2 p) < 2 powi (ilog2 q + 1)" by linarith
  then have "ilog2 p < ilog2 q + 1" by simp
  then show ?thesis by simp
qed

lemma ilog2_unique: "2 powi e \<le> q \<Longrightarrow> q < 2 powi (e + 1) \<Longrightarrow> ilog2 q = e"
proof -
  assume h: "2 powi e \<le> q" "q < 2 powi (e + 1)"
  moreover have "(0::rat) < 2 powi e" by simp
  ultimately have q: "0 < q" by linarith
  note b = ilog2_bounds [OF q]
  from h(1) b(2) have "(2::rat) powi e < 2 powi (ilog2 q + 1)" by linarith
  moreover from h(2) b(1) have "(2::rat) powi (ilog2 q) < 2 powi (e + 1)" by linarith
  ultimately show ?thesis by simp
qed

lemma powi_diff_of_int: "a \<le> b \<Longrightarrow> (2::rat) powi b = of_int (2 ^ nat (b - a)) * 2 powi a"
  by (simp add: power_int_add [of _ "b - a" a, simplified] power_int_def [of _ "b - a"])

text \<open>A multiple of the spacing at \<open>q\<close> bounds the rounded value when it bounds \<open>q\<close>.\<close>

lemma rnd_pos_le_multiple:
  assumes "0 < q" and "q \<le> of_int m * 2 powi (ulp_exp q)"
  shows "rnd_pos q \<le> of_int m * 2 powi (ulp_exp q)"
proof -
  have "round_half_even (q / 2 powi (ulp_exp q)) \<le> m"
    using assms by (intro round_half_even_le) (simp add: pos_divide_le_eq)
  then show ?thesis unfolding rnd_pos_def Let_def by (intro mult_right_mono) simp_all
qed

lemma rnd_pos_ge_multiple:
  assumes "0 < q" and "of_int m * 2 powi (ulp_exp q) \<le> q"
  shows "of_int m * 2 powi (ulp_exp q) \<le> rnd_pos q"
proof -
  have "m \<le> round_half_even (q / 2 powi (ulp_exp q))"
    using assms by (intro round_half_even_ge) (simp add: pos_le_divide_eq)
  then show ?thesis unfolding rnd_pos_def Let_def by (intro mult_right_mono) simp_all
qed

lemma rnd_pos_le_powi:
  assumes "0 < q" and "q \<le> 2 powi b" and "ulp_exp q \<le> b"
  shows "rnd_pos q \<le> 2 powi b"
  using assms rnd_pos_le_multiple [OF assms(1), of "2 ^ nat (b - ulp_exp q)"] powi_diff_of_int [OF assms(3)] by simp

lemma rnd_pos_ge_powi:
  assumes "0 < q" and "2 powi b \<le> q" and "ulp_exp q \<le> b"
  shows "2 powi b \<le> rnd_pos q"
  using assms rnd_pos_ge_multiple [OF assms(1), of "2 ^ nat (b - ulp_exp q)"] powi_diff_of_int [OF assms(3)] by simp

lemma rnd_pos_nonneg: "0 < q \<Longrightarrow> 0 \<le> rnd_pos q"
  using rnd_pos_ge_multiple [of q 0] by simp

lemma rnd_pos_mono:
  assumes "0 < p" and "p \<le> q"
  shows "rnd_pos p \<le> rnd_pos q"
proof -
  have q: "0 < q" using assms by simp
  have l: "ilog2 p \<le> ilog2 q" by (rule ilog2_mono [OF assms])
  show ?thesis
  proof (cases "ulp_exp p = ulp_exp q")
    case True
    then show ?thesis unfolding rnd_pos_def Let_def
      using assms by (auto intro!: mult_right_mono round_half_even_mono divide_right_mono)
  next
    case False
    with l have e: "ulp_exp p < ulp_exp q" "ulp_exp q = ilog2 q - 52" "ilog2 p < ilog2 q"
      by (auto simp: ulp_exp_def max_def split: if_splits)
    have "p < 2 powi (ilog2 p + 1)" by (rule ilog2_bounds [OF assms(1)])
    also have "\<dots> \<le> (2::rat) powi (ilog2 q)"
      using e by (intro power_int_increasing) auto
    finally have "rnd_pos p \<le> 2 powi (ilog2 q)"
      using assms e by (intro rnd_pos_le_powi) auto
    also have "\<dots> \<le> rnd_pos q"
      using e by (intro rnd_pos_ge_powi [OF q] ilog2_bounds(1) [OF q]) auto
    finally show ?thesis .
  qed
qed

lemma rnd_0 [simp]: "rnd 0 = 0"
  by (simp add: rnd_def)

lemma rnd_uminus [simp]: "rnd (- q) = - rnd q"
  by (simp add: rnd_def)

lemma rnd_nonneg: "0 \<le> q \<Longrightarrow> 0 \<le> rnd q"
  by (auto simp: rnd_def rnd_pos_nonneg)

lemma rnd_nonpos: "q \<le> 0 \<Longrightarrow> rnd q \<le> 0"
  using rnd_nonneg [of "- q"] by simp

theorem rnd_mono: "p \<le> q \<Longrightarrow> rnd p \<le> rnd q"
proof -
  assume h: "p \<le> q"
  consider "0 < p" | "q < 0" | "p \<le> 0" "0 \<le> q" by linarith
  then show ?thesis
  proof cases
    case 1
    with h show ?thesis by (simp add: rnd_def rnd_pos_mono)
  next
    case 2
    with h show ?thesis by (simp add: rnd_def rnd_pos_mono)
  next
    case 3
    then show ?thesis using rnd_nonpos [of p] rnd_nonneg [of q] by linarith
  qed
qed

text \<open>Values of the format are fixed by rounding: the integers up to \<open>2 ^ 53\<close> and their multiples
  by a power of two not below \<open>2 powi (-1074)\<close>.\<close>

lemma rnd_pos_representable:
  assumes "0 < m" and "m \<le> 2 ^ 53" and "- 1074 \<le> e"
  shows "rnd_pos (of_int m * 2 powi e) = of_int m * 2 powi e"
proof -
  let ?q = "of_int m * (2::rat) powi e"
  have q: "0 < ?q" using assms by simp
  have "?q \<le> of_int (2 ^ 53) * 2 powi e"
    using assms by (intro mult_right_mono) (simp_all only: of_int_le_iff, simp)
  also have "\<dots> = (2::rat) powi (53 + e)" by (simp add: power_int_add)
  finally have hi: "?q \<le> 2 powi (53 + e)" .
  then have "(2::rat) powi (ilog2 ?q) \<le> 2 powi (53 + e)"
    using ilog2_bounds(1) [OF q] by linarith
  then have l: "ilog2 ?q \<le> 53 + e" by simp
  have "ulp_exp ?q \<le> e \<or> (?q = 2 powi (53 + e))"
  proof (cases "ilog2 ?q = 53 + e")
    case True
    with ilog2_bounds(1) [OF q] hi have "?q = 2 powi (53 + e)" by (intro order_antisym) simp_all
    then show ?thesis ..
  next
    case False
    with l assms show ?thesis by (simp add: ulp_exp_def)
  qed
  then obtain m' where m': "?q = of_int m' * 2 powi (ulp_exp ?q)"
  proof
    assume "ulp_exp ?q \<le> e"
    then have "?q = of_int (m * 2 ^ nat (e - ulp_exp ?q)) * 2 powi (ulp_exp ?q)"
      using powi_diff_of_int [of "ulp_exp ?q" e] by simp
    then show thesis by (rule that)
  next
    assume eq: "?q = 2 powi (53 + e)"
    have "ilog2 ?q = 53 + e"
      by (rule ilog2_unique) (simp_all only: eq, simp_all)
    then have "ulp_exp ?q \<le> 53 + e" using assms by (simp add: ulp_exp_def)
    then have "?q = of_int (2 ^ nat (53 + e - ulp_exp ?q)) * 2 powi (ulp_exp ?q)"
      using powi_diff_of_int [of "ulp_exp ?q" "53 + e"] eq by simp
    then show thesis by (rule that)
  qed
  show ?thesis
    using rnd_pos_le_multiple [OF q, of m'] rnd_pos_ge_multiple [OF q, of m'] m'
    by (intro order_antisym) simp_all
qed

text \<open>The numbers of the format, but for its largest exponent.\<close>

definition representable :: "rat \<Rightarrow> bool" where
  "representable q \<longleftrightarrow> (\<exists>m e. q = of_int m * 2 powi e \<and> \<bar>m\<bar> \<le> 2 ^ 53 \<and> - 1074 \<le> e)"

lemma rnd_representable: "representable q \<Longrightarrow> rnd q = q"
proof -
  assume "representable q"
  then obtain m e where q: "q = of_int m * 2 powi e" "\<bar>m\<bar> \<le> 2 ^ 53" "- 1074 \<le> e"
    by (auto simp: representable_def)
  consider "m = 0" | "0 < m" | "m < 0" by linarith
  then show ?thesis
  proof cases
    case 3
    with q have "rnd_pos (of_int (- m) * 2 powi e) = of_int (- m) * 2 powi e"
      by (intro rnd_pos_representable) auto
    with 3 q show ?thesis by (simp add: rnd_def mult_less_0_iff)
  next
    case 2
    then have "\<not> of_int m * (2::rat) powi e < 0" by (simp add: not_less)
    with 2 q show ?thesis by (simp add: rnd_def rnd_pos_representable)
  qed (use q in simp)
qed

lemma representable_rnd: "representable (rnd q)"
proof -
  have pos: "representable (rnd_pos q)" if "0 < q" for q
  proof -
    let ?u = "ulp_exp q"
    have "q \<le> 2 powi (ilog2 q + 1)" using ilog2_bounds(2) [OF that] by simp
    also have "\<dots> \<le> 2 powi (53 + ?u)" unfolding powi_le_iff by (simp add: ulp_exp_def)
    also have "\<dots> = of_int (2 ^ 53) * 2 powi ?u" by (simp add: power_int_add)
    finally have "round_half_even (q / 2 powi ?u) \<le> 2 ^ 53"
      by (intro round_half_even_le) (simp add: divide_le_eq)
    moreover have "0 \<le> round_half_even (q / 2 powi ?u)"
      using that by (intro round_half_even_ge) simp
    ultimately show ?thesis
      unfolding representable_def rnd_pos_def Let_def
      by (intro exI [of _ "round_half_even (q / 2 powi ?u)"] exI [of _ ?u]) (simp add: ulp_exp_def)
  qed
  have neg: "representable (- x)" if "representable x" for x
  proof -
    from that obtain m e where "x = of_int m * 2 powi e" "\<bar>m\<bar> \<le> 2 ^ 53" "- 1074 \<le> e"
      by (auto simp: representable_def)
    then show ?thesis
      unfolding representable_def by (intro exI [of _ "- m"] exI [of _ e]) simp
  qed
  have "representable 0" unfolding representable_def by (intro exI [of _ 0]) simp
  with pos [of q] neg [OF pos [of "- q"]] show ?thesis by (simp add: rnd_def)
qed

lemma representable_of_int: "\<bar>i\<bar> \<le> 2 ^ 53 \<Longrightarrow> representable (of_int i)"
  unfolding representable_def by (rule exI [of _ i], rule exI [of _ 0]) simp

lemma rnd_of_int: "\<bar>i\<bar> \<le> 2 ^ 53 \<Longrightarrow> rnd (of_int i) = of_int i"
  by (intro rnd_representable representable_of_int)

lemma rnd_1 [simp]: "rnd 1 = 1"
  using rnd_of_int [of 1] by simp

lemma rnd_error:
  assumes "0 < q"
  shows "\<bar>rnd q - q\<bar> \<le> 2 powi (ulp_exp q - 1)"
proof -
  let ?u = "(2::rat) powi (ulp_exp q)"
  have "\<bar>of_int (round_half_even (q / ?u)) - q / ?u\<bar> * ?u \<le> 1/2 * ?u"
    by (intro mult_right_mono round_half_even_error) simp
  also have "\<bar>of_int (round_half_even (q / ?u)) - q / ?u\<bar> * ?u = \<bar>rnd q - q\<bar>"
    using assms by (simp add: rnd_def rnd_pos_def Let_def abs_mult_pos left_diff_distrib)
  also have "1/2 * ?u = 2 powi (ulp_exp q - 1)" by (simp add: power_int_diff)
  finally show ?thesis .
qed

lemma rnd_rel_error:
  assumes "2 powi (- 1022) \<le> q"
  shows "\<bar>rnd q - q\<bar> \<le> q * 2 powi (- 53)"
proof -
  have "(0::rat) < 2 powi (- 1022)" by simp
  with assms have q: "0 < q" by linarith
  have "(2::rat) powi (- 1022) < 2 powi (ilog2 q + 1)"
    using assms ilog2_bounds(2) [OF q] by linarith
  then have "- 1022 \<le> ilog2 q" by (simp only: powi_less_iff)
  then have "ulp_exp q = ilog2 q - 52" by (simp add: ulp_exp_def)
  then have "\<bar>rnd q - q\<bar> \<le> 2 powi (ilog2 q - 53)"
    using rnd_error [OF q] by simp
  also have "\<dots> = 2 powi (ilog2 q + - 53)" by (simp only: diff_conv_add_uminus)
  also have "\<dots> = 2 powi (ilog2 q) * 2 powi (- 53)" by (rule power_int_add) simp
  also have "\<dots> \<le> q * 2 powi (- 53)"
    by (intro mult_right_mono ilog2_bounds(1) [OF q]) simp
  finally show ?thesis .
qed


section \<open>The values and operations of float64\<close>

text \<open>
  The operations instantiate the syntactic classes of the arithmetic operators, so that the models
  of the components read like the Go text; no algebraic law of a ring or an order is claimed.
\<close>

datatype f64 = Fin rat | PInf | NInf | NaN

definition max_f64 :: rat where
  "max_f64 = of_int (2 ^ 53 - 1) * 2 powi 971"

definition f64_of_rat :: "rat \<Rightarrow> f64" where
  "f64_of_rat q =
     (let r = rnd q in
      if max_f64 < r then PInf else if r < - max_f64 then NInf else Fin r)"

definition f64_of_int :: "int \<Rightarrow> f64" where
  "f64_of_int i = f64_of_rat (of_int i)"

instantiation f64 :: "{zero, one, plus, minus, uminus, times, inverse, ord}"
begin

definition zero_f64 :: f64 where
  "zero_f64 = Fin 0"

definition one_f64 :: f64 where
  "one_f64 = Fin 1"

fun uminus_f64 :: "f64 \<Rightarrow> f64" where
  "uminus_f64 (Fin a) = Fin (- a)"
| "uminus_f64 PInf = NInf"
| "uminus_f64 NInf = PInf"
| "uminus_f64 NaN = NaN"

fun plus_f64 :: "f64 \<Rightarrow> f64 \<Rightarrow> f64" where
  "plus_f64 NaN _ = NaN"
| "plus_f64 _ NaN = NaN"
| "plus_f64 (Fin a) (Fin b) = f64_of_rat (a + b)"
| "plus_f64 PInf NInf = NaN"
| "plus_f64 NInf PInf = NaN"
| "plus_f64 PInf _ = PInf"
| "plus_f64 _ PInf = PInf"
| "plus_f64 NInf _ = NInf"
| "plus_f64 _ NInf = NInf"

definition minus_f64 :: "f64 \<Rightarrow> f64 \<Rightarrow> f64" where
  "minus_f64 x y = x + (- y)"

definition inf_of_sign :: "bool \<Rightarrow> f64" where
  "inf_of_sign neg = (if neg then NInf else PInf)"

fun times_f64 :: "f64 \<Rightarrow> f64 \<Rightarrow> f64" where
  "times_f64 NaN _ = NaN"
| "times_f64 _ NaN = NaN"
| "times_f64 (Fin a) (Fin b) = f64_of_rat (a * b)"
| "times_f64 (Fin a) y = (if a = 0 then NaN else inf_of_sign ((a < 0) \<noteq> (y = NInf)))"
| "times_f64 x (Fin b) = (if b = 0 then NaN else inf_of_sign ((b < 0) \<noteq> (x = NInf)))"
| "times_f64 x y = inf_of_sign ((x = NInf) \<noteq> (y = NInf))"

fun divide_f64 :: "f64 \<Rightarrow> f64 \<Rightarrow> f64" where
  "divide_f64 NaN _ = NaN"
| "divide_f64 _ NaN = NaN"
| "divide_f64 (Fin a) (Fin b) =
     (if b = 0 then (if a = 0 then NaN else inf_of_sign (a < 0)) else f64_of_rat (a / b))"
| "divide_f64 (Fin a) _ = Fin 0"
| "divide_f64 x (Fin b) = inf_of_sign ((x = NInf) \<noteq> (b < 0))"
| "divide_f64 _ _ = NaN"

definition inverse_f64 :: "f64 \<Rightarrow> f64" where
  "inverse_f64 x = divide (Fin 1) x"

fun less_f64 :: "f64 \<Rightarrow> f64 \<Rightarrow> bool" where
  "less_f64 (Fin a) (Fin b) = (a < b)"
| "less_f64 NaN _ = False"
| "less_f64 _ NaN = False"
| "less_f64 PInf _ = False"
| "less_f64 _ NInf = False"
| "less_f64 _ _ = True"

fun less_eq_f64 :: "f64 \<Rightarrow> f64 \<Rightarrow> bool" where
  "less_eq_f64 (Fin a) (Fin b) = (a \<le> b)"
| "less_eq_f64 NaN _ = False"
| "less_eq_f64 _ NaN = False"
| "less_eq_f64 NInf _ = True"
| "less_eq_f64 _ PInf = True"
| "less_eq_f64 _ _ = False"

instance ..

end



text \<open>Go's \<open>==\<close> on floats.\<close>

definition f64_eq :: "f64 \<Rightarrow> f64 \<Rightarrow> bool" where
  "f64_eq x y \<longleftrightarrow> x = y \<and> x \<noteq> NaN"

text \<open>
  The conversion \<open>int64(x)\<close>: truncation towards zero. The language leaves the result of an
  out-of-range conversion to the implementation; amd64 gives the least \<open>int64\<close>.
\<close>

definition f64_to_int64 :: "f64 \<Rightarrow> int64" where
  "f64_to_int64 x =
     (case x of
        Fin q \<Rightarrow> (let t = (if q < 0 then \<lceil>q\<rceil> else \<lfloor>q\<rfloor>) in if in_int64 t then t else - (2 ^ 63))
      | _ \<Rightarrow> - (2 ^ 63))"

section \<open>Facts about the operations\<close>

lemma representable_uminus: "representable q \<Longrightarrow> representable (- q)"
proof -
  assume "representable q"
  then obtain m e where "q = of_int m * 2 powi e" "\<bar>m\<bar> \<le> 2 ^ 53" "- 1074 \<le> e"
    by (auto simp: representable_def)
  then have "- q = of_int (- m) * 2 powi e" "\<bar>- m\<bar> \<le> 2 ^ 53" by simp_all
  with \<open>- 1074 \<le> e\<close> show ?thesis unfolding representable_def by blast
qed

lemma rnd_max_f64: "rnd max_f64 = max_f64"
  unfolding max_f64_def
  by (rule rnd_representable, unfold representable_def, rule exI [of _ "2 ^ 53 - 1"], rule exI [of _ 971]) simp

lemma max_f64_ge: "\<bar>i\<bar> \<le> 2 ^ 1000 \<Longrightarrow> \<bar>of_int i\<bar> \<le> max_f64"
proof -
  assume "\<bar>i\<bar> \<le> 2 ^ 1000"
  then have "\<bar>of_int i\<bar> \<le> (of_int (2 ^ 1000) :: rat)" by (simp only: of_int_abs [symmetric] of_int_le_iff)
  also have "\<dots> \<le> max_f64" by (simp add: max_f64_def)
  finally show ?thesis .
qed

lemma of_int_le_max_f64: "i \<le> 2 ^ 1000 \<Longrightarrow> of_int i \<le> max_f64"
proof -
  assume "i \<le> 2 ^ 1000"
  then have "(of_int i :: rat) \<le> of_int (2 ^ 1000)" by (simp only: of_int_le_iff)
  also have "\<dots> \<le> max_f64" by (simp add: max_f64_def)
  finally show ?thesis .
qed

lemma max_f64_pos [simp]: "0 \<le> max_f64" "1 \<le> max_f64"
  using of_int_le_max_f64 [of 0] of_int_le_max_f64 [of 1] by simp_all

lemma f64_of_rat_bounded: "\<bar>q\<bar> \<le> max_f64 \<Longrightarrow> f64_of_rat q = Fin (rnd q)"
proof -
  assume "\<bar>q\<bar> \<le> max_f64"
  then have "q \<le> max_f64" and "- max_f64 \<le> q" by (simp_all add: abs_le_iff)
  then have "rnd q \<le> max_f64" and "- max_f64 \<le> rnd q"
    using rnd_mono [of q max_f64] rnd_mono [of "- max_f64" q] by (simp_all add: rnd_max_f64)
  then show ?thesis by (simp add: f64_of_rat_def Let_def)
qed

lemma f64_of_rat_exact: "representable q \<Longrightarrow> \<bar>q\<bar> \<le> max_f64 \<Longrightarrow> f64_of_rat q = Fin q"
  by (simp add: f64_of_rat_bounded rnd_representable)

lemma f64_of_int_exact: "\<bar>i\<bar> \<le> 2 ^ 53 \<Longrightarrow> f64_of_int i = Fin (of_int i)"
  unfolding f64_of_int_def
  by (intro f64_of_rat_exact representable_of_int max_f64_ge) (auto intro: order_trans)

lemma f64_of_rat_of_int: "\<bar>i\<bar> \<le> 2 ^ 53 \<Longrightarrow> f64_of_rat (of_int i) = Fin (of_int i)"
  using f64_of_int_exact by (simp add: f64_of_int_def)

lemma f64_of_rat_0 [simp]: "f64_of_rat 0 = Fin 0" and f64_of_rat_1 [simp]: "f64_of_rat 1 = Fin 1"
  using f64_of_rat_of_int [of 0] f64_of_rat_of_int [of 1] by simp_all

lemma f64_of_rat_numeral [simp]:
  "(numeral k :: int) \<le> 2 ^ 53 \<Longrightarrow> f64_of_rat (numeral k) = Fin (numeral k)"
  using f64_of_rat_of_int [of "numeral k"] by simp

lemma f64_of_rat_not_NaN [simp]: "f64_of_rat q \<noteq> NaN" "NaN \<noteq> f64_of_rat q"
  by (simp_all add: f64_of_rat_def Let_def)

lemma f64_of_rat_FinD: "f64_of_rat q = Fin r \<Longrightarrow> r = rnd q \<and> representable r"
  by (auto simp: f64_of_rat_def Let_def representable_rnd split: if_splits)

lemma f64_of_rat_nonneg:
  "0 \<le> q \<Longrightarrow> f64_of_rat q = PInf \<or> (\<exists>u. f64_of_rat q = Fin u \<and> 0 \<le> u \<and> representable u)"
  using rnd_nonneg [of q] max_f64_pos(1)
  by (auto simp: f64_of_rat_def Let_def representable_rnd simp del: max_f64_pos)

text \<open>A quotient of two exact integers is rounded once.\<close>

lemma f64_int_ratio:
  assumes "0 \<le> a" and "a \<le> 2 ^ 53" and "0 < b" and "b \<le> 2 ^ 53"
  shows "f64_of_int a / f64_of_int b = Fin (rnd (of_int a / of_int b))"
proof -
  have "1 \<le> b" using assms(3) by simp
  then have "(1 :: rat) \<le> of_int b" by (simp only: of_int_1_le_iff)
  then have "of_int a / of_int b \<le> of_int a / (1 :: rat)" using assms(1) by (intro frac_le) simp_all
  also have "\<dots> \<le> max_f64" using assms(2) by (simp only: div_by_1, intro of_int_le_max_f64) simp
  finally have "\<bar>of_int a / of_int b\<bar> \<le> max_f64" using assms by simp
  with assms show ?thesis by (simp add: f64_of_int_exact f64_of_rat_bounded)
qed

lemma f64_of_rat_mono: "p \<le> q \<Longrightarrow> f64_of_rat p \<le> f64_of_rat q"
  using rnd_mono [of p q] by (auto simp: f64_of_rat_def Let_def)

text \<open>A result that lies between two values of the format stays between them after rounding.\<close>

lemma f64_of_rat_between:
  assumes "representable lo" and "representable hi" and "lo \<le> q" and "q \<le> hi"
    and "- max_f64 \<le> lo" and "hi \<le> max_f64"
  shows "\<exists>r. f64_of_rat q = Fin r \<and> r = rnd q \<and> lo \<le> r \<and> r \<le> hi"
proof -
  have "lo \<le> rnd q" and "rnd q \<le> hi"
    using assms rnd_mono [of lo q] rnd_mono [of q hi] by (simp_all add: rnd_representable)
  moreover have "f64_of_rat q = Fin (rnd q)"
    using assms by (intro f64_of_rat_bounded) (simp add: abs_le_iff)
  ultimately show ?thesis by blast
qed

lemma f64_not_less: "x \<noteq> NaN \<Longrightarrow> y \<noteq> NaN \<Longrightarrow> \<not> x < y \<longleftrightarrow> y \<le> (x :: f64)"
  by (cases x; cases y) auto

lemma f64_le_refl: "x \<noteq> NaN \<Longrightarrow> x \<le> (x :: f64)"
  by (cases x) auto

lemma f64_less_imp_le: "x < y \<Longrightarrow> x \<le> (y :: f64)"
  by (cases x; cases y) auto

lemma f64_le_trans: "x \<le> y \<Longrightarrow> y \<le> z \<Longrightarrow> x \<le> (z :: f64)"
  by (cases x; cases y; cases z) auto

lemma f64_le_not_NaN: "x \<le> y \<Longrightarrow> x \<noteq> NaN \<and> y \<noteq> (NaN :: f64)"
  by (cases x; cases y) auto

text \<open>
  Evaluation in the kernel: to round a positive number, give the significand \<open>m\<close> and the exponent
  \<open>k\<close> of the result; the premises are comparisons of numerals.
\<close>

lemma round_half_even_nearest: "\<bar>x - of_int m\<bar> < 1/2 \<Longrightarrow> round_half_even x = m"
proof -
  assume "\<bar>x - of_int m\<bar> < 1/2"
  with round_half_even_error [of x] have "\<bar>of_int (round_half_even x) - (of_int m :: rat)\<bar> < 1"
    by linarith
  then have "of_int \<bar>round_half_even x - m\<bar> < (of_int 1 :: rat)" by simp
  then show ?thesis by (simp only: of_int_less_iff)
qed

lemma rnd_nearest:
  assumes "2 powi (52 + k) \<le> q" and "q < 2 powi (53 + k)" and "- 1074 \<le> k"
    and "\<bar>q / 2 powi k - of_int m\<bar> < 1/2"
  shows "rnd q = of_int m * 2 powi k"
proof -
  have "(0::rat) < 2 powi (52 + k)" by simp
  with assms(1) have q: "0 < q" by linarith
  have "ilog2 q = 52 + k" by (rule ilog2_unique) (use assms(1,2) in \<open>simp_all add: add.commute\<close>)
  with assms(3) have "ulp_exp q = k" by (simp add: ulp_exp_def)
  with q round_half_even_nearest [OF assms(4)] show ?thesis
    by (simp add: rnd_def rnd_pos_def Let_def)
qed

lemma rnd_3_5: "rnd (3/5) = 5404319552844595 / 2 ^ 53"
  by (subst rnd_nearest [where k = "- 53" and m = 5404319552844595]) (simp_all add: power_int_minus)

text \<open>Taking 1 away from a number of the format between 1 and \<open>2 ^ 53\<close> is exact.\<close>

lemma representable_minus_1: "representable t \<Longrightarrow> 1 \<le> t \<Longrightarrow> t \<le> 2 ^ 53 \<Longrightarrow> representable (t - 1)"
proof -
  assume "representable t" and t1: "1 \<le> t" and t53: "t \<le> 2 ^ 53"
  then obtain m e where t: "t = of_int m * 2 powi e" "\<bar>m\<bar> \<le> 2 ^ 53" "- 1074 \<le> e"
    by (auto simp: representable_def)
  have m: "0 < m"
  proof (rule ccontr)
    assume "\<not> 0 < m"
    then have "of_int m * (2 powi e :: rat) \<le> 0" by (simp add: mult_nonpos_nonneg)
    with t t1 show False by simp
  qed
  show ?thesis
  proof (cases "0 \<le> e")
    case True
    then have two: "2 powi e = (of_int (2 ^ nat e) :: rat)" by (rule powi_of_int)
    have i: "t = of_int (m * 2 ^ nat e)" by (simp add: t(1) two)
    have "of_int (m * 2 ^ nat e) \<le> (of_int (2 ^ 53) :: rat)" using t53 by (simp only: i) simp
    then have "m * 2 ^ nat e \<le> 2 ^ 53" by (simp only: of_int_le_iff)
    moreover have "0 < m * 2 ^ nat e" using m by simp
    ultimately have "\<bar>m * 2 ^ nat e - 1\<bar> \<le> 2 ^ 53" by linarith
    from representable_of_int [OF this] show ?thesis by (simp add: i)
  next
    case False
    define k where "k = nat (- e)"
    have e: "2 powi e = 1 / (2 ^ k :: rat)" using False by (simp add: k_def power_int_def power_one_over)
    have "2 ^ k \<le> (of_int m :: rat)" using t1 by (simp add: t(1) e divide_simps)
    then have "of_int (2 ^ k) \<le> (of_int m :: rat)" by simp
    then have km: "2 ^ k \<le> m" by (simp only: of_int_le_iff)
    have "t - 1 = of_int (m - 2 ^ k) * 2 powi e" by (simp add: t(1) e field_simps)
    moreover have "0 < (2::int) ^ k" by simp
    then have "\<bar>m - 2 ^ k\<bar> \<le> 2 ^ 53" using km t(2) by linarith
    ultimately show ?thesis unfolding representable_def using t(3) by blast
  qed
qed

section \<open>The contract of a rounding\<close>

text \<open>
  What the components use of the rounding, stated on its own: monotone, and the identity on the
  values of the format. Ratios of counts and clamped sums are bounded by these laws alone.
\<close>

locale rounding =
  fixes r :: "rat \<Rightarrow> rat"
    and rep :: "rat \<Rightarrow> bool"
  assumes r_mono: "p \<le> q \<Longrightarrow> r p \<le> r q"
    and r_rep: "rep q \<Longrightarrow> r q = q"
    and rep_0: "rep 0"
    and rep_1: "rep 1"
begin

lemma r_between: "rep lo \<Longrightarrow> rep hi \<Longrightarrow> lo \<le> q \<Longrightarrow> q \<le> hi \<Longrightarrow> lo \<le> r q \<and> r q \<le> hi"
  using r_mono [of lo q] r_mono [of q hi] by (simp add: r_rep)

lemma r_nonneg: "0 \<le> q \<Longrightarrow> 0 \<le> r q"
  using r_mono [of 0 q] by (simp add: r_rep rep_0)

lemma r_ratio: "0 \<le> a \<Longrightarrow> a \<le> b \<Longrightarrow> 0 \<le> r (a / b) \<and> r (a / b) \<le> 1"
proof (cases "b = 0")
  case False
  moreover assume "0 \<le> a" "a \<le> b"
  ultimately show ?thesis by (intro r_between rep_0 rep_1) simp_all
qed (simp add: r_rep rep_0)

lemma r_ratio_eq_1: "rep (a / b) \<Longrightarrow> a = b \<Longrightarrow> b \<noteq> 0 \<Longrightarrow> r (a / b) = 1"
  by (simp add: r_rep rep_1)

end

interpretation binary64: rounding rnd representable
proof unfold_locales
  show "representable 0" and "representable 1"
    using representable_of_int [of 0] representable_of_int [of 1] by simp_all
qed (simp_all add: rnd_mono rnd_representable)

end
