(* ===== verification/GoRuntime.thy ===== *)
theory GoRuntime
  imports Float64
begin

text \<open>
  The parts of Go's \<open>time\<close> and \<open>context\<close> packages that the components use, and the calls they
  make on their Prometheus collectors. Instants are nanoseconds since Go's zero time; a duration
  is an \<open>int64\<close> number of nanoseconds. Every call of \<open>time.Now()\<close> is an argument of the
  operation that makes it. Metric calls are recorded, in order, as data of the component.
\<close>

section \<open>Time\<close>

type_synonym duration = int64
type_synonym gotime = int

abbreviation Millisecond :: duration where "Millisecond \<equiv> 1000000"
abbreviation Second :: duration where "Second \<equiv> 1000000000"
abbreviation Minute :: duration where "Minute \<equiv> 60000000000"
abbreviation Hour :: duration where "Hour \<equiv> 3600000000000"

text \<open>\<open>t.Add(d)\<close>, \<open>t.IsZero()\<close>, \<open>t.Before(u)\<close>; \<open>t.Sub(u)\<close> saturates at the limits of a duration.\<close>

definition time_add :: "gotime \<Rightarrow> duration \<Rightarrow> gotime" where
  "time_add t d = t + d"

definition time_is_zero :: "gotime \<Rightarrow> bool" where
  "time_is_zero t \<longleftrightarrow> t = 0"

definition time_before :: "gotime \<Rightarrow> gotime \<Rightarrow> bool" where
  "time_before t u \<longleftrightarrow> t < u"

definition time_sub :: "gotime \<Rightarrow> gotime \<Rightarrow> duration" where
  "time_sub t u = max (- (2 ^ 63)) (min (2 ^ 63 - 1) (t - u))"

lemma in_int64_time_sub [simp]: "in_int64 (time_sub t u)"
  by (simp add: time_sub_def in_int64_def)

lemma time_sub_exact: "in_int64 (t - u) \<Longrightarrow> time_sub t u = t - u"
  by (simp add: time_sub_def in_int64_def)

lemma time_sub_nonneg: "u \<le> t \<Longrightarrow> 0 \<le> time_sub t u"
  by (simp add: time_sub_def)

lemma time_sub_self [simp]: "time_sub t t = 0"
  by (simp add: time_sub_def)

text \<open>\<open>d.Seconds()\<close> and \<open>d.Hours()\<close>: the whole part and the remainder are converted apart.\<close>

definition dur_Seconds :: "duration \<Rightarrow> f64" where
  "dur_Seconds d =
     f64_of_int (go_div d Second) + f64_of_int (go_mod d Second) / f64_of_int Second"

definition dur_Hours :: "duration \<Rightarrow> f64" where
  "dur_Hours d = f64_of_int (go_div d Hour) + f64_of_int (go_mod d Hour) / f64_of_int Hour"

lemmas time_defs [go_defs] = time_add_def time_is_zero_def time_before_def

text \<open>
  For a nonnegative duration the result is a finite nonnegative number, and no smaller than the
  number of whole units.
\<close>

lemma whole_plus_fraction:
  assumes "0 \<le> d" and "in_int64 d" and "1024 \<le> u" and "u \<le> 2 ^ 53"
  shows "\<exists>s. f64_of_int (go_div d u) + f64_of_int (go_mod d u) / f64_of_int u = Fin s
    \<and> 0 \<le> s \<and> of_int (d div u) \<le> s"
proof -
  let ?w = "d div u" and ?m = "d mod u"
  have u: "0 < u" using assms(3) by simp
  have "?w \<le> d div 1024" using assms(1,3) by (intro zdiv_mono2) auto
  also have "\<dots> \<le> (2 ^ 63 - 1) div 1024"
    using assms(2) by (intro zdiv_mono1) (simp_all add: in_int64_def)
  also have "\<dots> \<le> 2 ^ 53" by simp
  finally have w: "\<bar>?w\<bar> \<le> 2 ^ 53" "0 \<le> ?w"
    using assms(1) u by (simp_all add: pos_imp_zdiv_nonneg_iff)
  have m: "0 \<le> ?m" "?m < u" using u by simp_all
  have c1: "f64_of_int (go_div d u) = Fin (of_int ?w)"
    using assms(1) u w by (simp add: go_div_nonneg f64_of_int_exact)
  have "\<bar>?m\<bar> \<le> 2 ^ 53" using m assms(4) by linarith
  then have c2: "f64_of_int (go_mod d u) = Fin (of_int ?m)"
    using go_mod_nonneg [OF assms(1) u] by (simp only: f64_of_int_exact)
  have c3: "f64_of_int u = Fin (of_int u)" using assms u by (simp add: f64_of_int_exact)
  define f where "f = rnd (of_int ?m / of_int u)"
  have f: "0 \<le> f" "f \<le> 1"
    unfolding f_def using binary64.r_ratio [of "of_int ?m" "of_int u"] m less_imp_le [OF m(2)] by simp_all
  have "\<bar>of_int ?m / of_int u\<bar> \<le> (1::rat)" using m u less_imp_le [OF m(2)] by simp
  also have "(1::rat) \<le> max_f64" by simp
  finally have "f64_of_rat (of_int ?m / of_int u) = Fin f"
    unfolding f_def by (rule f64_of_rat_bounded)
  then have c4: "f64_of_int (go_mod d u) / f64_of_int u = Fin f"
    using u by (simp add: c2 c3)
  have rw: "representable (of_int ?w)" by (rule representable_of_int [OF w(1)])
  have rs: "representable (of_int (2 ^ 54))"
    unfolding representable_def by (rule exI [of _ "2 ^ 53"], rule exI [of _ 1]) simp
  have lo: "- max_f64 \<le> (of_int ?w :: rat)"
    by (rule order_trans [of "- max_f64" 0]) (simp, use w(2) in simp)
  have hi: "of_int (2 ^ 54) \<le> max_f64"
    by (rule of_int_le_max_f64) simp
  have wf: "of_int ?w + f \<le> of_int (2 ^ 54)"
  proof -
    have "(of_int ?w :: rat) \<le> of_int (2 ^ 53)" using w by (simp only: of_int_le_iff)
    with f show ?thesis by simp
  qed
  have "\<exists>r. f64_of_rat (of_int ?w + f) = Fin r \<and> r = rnd (of_int ?w + f) \<and> of_int ?w \<le> r \<and> r \<le> of_int (2 ^ 54)"
    using f by (intro f64_of_rat_between rw rs wf lo hi) simp
  then obtain s where "f64_of_rat (of_int ?w + f) = Fin s" "of_int ?w \<le> s" by blast
  moreover have "(0::rat) \<le> of_int ?w" using w by simp
  ultimately show ?thesis using c1 c4 by (auto intro: order_trans)
qed

lemma dur_Seconds_nonneg: "0 \<le> d \<Longrightarrow> in_int64 d \<Longrightarrow> \<exists>s. dur_Seconds d = Fin s \<and> 0 \<le> s"
  unfolding dur_Seconds_def using whole_plus_fraction [of d Second] by auto

lemma dur_Hours_nonneg: "0 \<le> d \<Longrightarrow> in_int64 d \<Longrightarrow> \<exists>s. dur_Hours d = Fin s \<and> 0 \<le> s"
  unfolding dur_Hours_def using whole_plus_fraction [of d Hour] by auto

lemma dur_Seconds_whole: "\<bar>n\<bar> \<le> 2 ^ 53 \<Longrightarrow> 0 \<le> n \<Longrightarrow> dur_Seconds (n * Second) = Fin (of_int n)"
  by (simp add: dur_Seconds_def go_div_nonneg go_mod_nonneg f64_of_int_exact
      f64_of_rat_of_int)

section \<open>Metrics\<close>

text \<open>
  A call on a Prometheus collector: the collector's name, the label values and the value. The
  collectors themselves are not under src/; the models record the calls they receive.
\<close>

datatype metric_op =
    MetricInc string "string list"
  | MetricSet string "string list" f64
  | MetricObserve string "string list" f64

end
