(* ===== verification/CircuitBreaker.thy ===== *)
theory CircuitBreaker
  imports GoRuntime "HOL-Library.Word"
begin

text \<open>
  The circuit breaker of \<open>internal/reliability/circuit_breaker.go\<close>. Every method runs under the
  breaker's mutex, so it is one step on the breaker's state; the function passed to
  \<open>Execute\<close> runs between two such steps (\<open>beforeRequest\<close> and \<open>afterRequest\<close>), with the
  mutex released. The request counts are \<open>uint32\<close>, the generation is \<open>uint64\<close>.
\<close>

section \<open>States, counts and configuration\<close>

datatype CircuitBreakerState = StateClosed | StateOpen | StateHalfOpen

fun cbs_String :: "CircuitBreakerState \<Rightarrow> string" where
  "cbs_String StateClosed = ''closed''"
| "cbs_String StateOpen = ''open''"
| "cbs_String StateHalfOpen = ''half-open''"

text \<open>The numbering of the constants by \<open>iota\<close>, which the state gauge exports.\<close>

fun cbs_iota :: "CircuitBreakerState \<Rightarrow> int" where
  "cbs_iota StateClosed = 0"
| "cbs_iota StateOpen = 1"
| "cbs_iota StateHalfOpen = 2"

record Counts =
  Requests :: "32 word"
  TotalSuccesses :: "32 word"
  TotalFailures :: "32 word"
  ConsecutiveSuccesses :: "32 word"
  ConsecutiveFailures :: "32 word"

definition Counts_Reset :: "Counts \<Rightarrow> Counts" where
  "Counts_Reset c = c\<lparr>Requests := 0, TotalSuccesses := 0, TotalFailures := 0,
     ConsecutiveSuccesses := 0, ConsecutiveFailures := 0\<rparr>"

definition OnRequest :: "Counts \<Rightarrow> Counts" where
  "OnRequest c = c\<lparr>Requests := Requests c + 1\<rparr>"

definition OnSuccess :: "Counts \<Rightarrow> Counts" where
  "OnSuccess c = c\<lparr>TotalSuccesses := TotalSuccesses c + 1,
     ConsecutiveSuccesses := ConsecutiveSuccesses c + 1, ConsecutiveFailures := 0\<rparr>"

definition OnFailure :: "Counts \<Rightarrow> Counts" where
  "OnFailure c = c\<lparr>TotalFailures := TotalFailures c + 1,
     ConsecutiveFailures := ConsecutiveFailures c + 1, ConsecutiveSuccesses := 0\<rparr>"

definition SuccessRate :: "Counts \<Rightarrow> f64" where
  "SuccessRate c =
     (if Requests c = 0 then Fin 0
      else f64_of_int (uint (TotalSuccesses c)) / f64_of_int (uint (Requests c)))"

definition FailureRate :: "Counts \<Rightarrow> f64" where
  "FailureRate c =
     (if Requests c = 0 then Fin 0
      else f64_of_int (uint (TotalFailures c)) / f64_of_int (uint (Requests c)))"

text \<open>
  The configuration. A function field that may be nil is an option; \<open>cbOnStateChange\<close> says whether
  the callback is set, and the breaker records the calls it makes.
\<close>

record CircuitBreakerConfig =
  cbName :: string
  cbMaxRequests :: "32 word"
  cbInterval :: duration
  cbTimeout :: duration
  cbReadyToTrip :: "(Counts \<Rightarrow> bool) option"
  cbOnStateChange :: bool
  cbIsSuccessful :: "(go_error option \<Rightarrow> bool) option"

record CircuitBreaker =
  cb_config :: CircuitBreakerConfig
  cb_state :: CircuitBreakerState
  cb_generation :: "64 word"
  cb_counts :: Counts
  cb_expiry :: gotime
  cb_metrics :: "metric_op list"
  cb_changes :: "(CircuitBreakerState \<times> CircuitBreakerState) list"

definition defaultReadyToTrip :: "Counts \<Rightarrow> bool" where
  "defaultReadyToTrip c \<longleftrightarrow> 5 \<le> Requests c \<and> f64_of_rat (3/5) \<le> FailureRate c"

definition defaultIsSuccessful :: "go_error option \<Rightarrow> bool" where
  "defaultIsSuccessful err \<longleftrightarrow> err = None"

section \<open>Construction\<close>

definition cb_defaults :: "CircuitBreakerConfig \<Rightarrow> CircuitBreakerConfig" where
  "cb_defaults c0 =
     (let c1 = (if cbMaxRequests c0 = 0 then c0\<lparr>cbMaxRequests := 1\<rparr> else c0);
          c2 = (if cbInterval c1 = 0 then c1\<lparr>cbInterval := 60 * Second\<rparr> else c1);
          c3 = (if cbTimeout c2 = 0 then c2\<lparr>cbTimeout := 60 * Second\<rparr> else c2);
          c4 = (if cbReadyToTrip c3 = None
                then c3\<lparr>cbReadyToTrip := Some defaultReadyToTrip\<rparr> else c3)
      in if cbIsSuccessful c4 = None
         then c4\<lparr>cbIsSuccessful := Some defaultIsSuccessful\<rparr> else c4)"

definition zero_counts :: Counts where
  "zero_counts = \<lparr>Requests = 0, TotalSuccesses = 0, TotalFailures = 0,
     ConsecutiveSuccesses = 0, ConsecutiveFailures = 0\<rparr>"

definition NewCircuitBreaker :: "CircuitBreakerConfig \<Rightarrow> gotime \<Rightarrow> CircuitBreaker" where
  "NewCircuitBreaker config0 now =
     (let config = cb_defaults config0 in
      \<lparr>cb_config = config, cb_state = StateClosed, cb_generation = 0, cb_counts = zero_counts,
       cb_expiry = time_add now (cbInterval config),
       cb_metrics = [MetricSet ''circuit_breaker_current_state'' [cbName config] (f64_of_int (cbs_iota StateClosed))],
       cb_changes = []\<rparr>)"

section \<open>State changes\<close>

definition cb_emit :: "metric_op \<Rightarrow> CircuitBreaker \<Rightarrow> CircuitBreaker" where
  "cb_emit m cb = cb\<lparr>cb_metrics := cb_metrics cb @ [m]\<rparr>"

definition toNewGeneration :: "CircuitBreaker \<Rightarrow> gotime \<Rightarrow> CircuitBreaker" where
  "toNewGeneration cb now =
     (let cb1 = cb\<lparr>cb_generation := cb_generation cb + 1, cb_counts := Counts_Reset (cb_counts cb)\<rparr>;
          expiry = (case cb_state cb1 of
             StateClosed \<Rightarrow> (if cbInterval (cb_config cb1) = 0 then 0
                             else time_add now (cbInterval (cb_config cb1)))
           | StateOpen \<Rightarrow> time_add now (cbTimeout (cb_config cb1))
           | StateHalfOpen \<Rightarrow> 0)
      in cb1\<lparr>cb_expiry := expiry\<rparr>)"

definition setState :: "CircuitBreaker \<Rightarrow> CircuitBreakerState \<Rightarrow> gotime \<Rightarrow> CircuitBreaker" where
  "setState cb st now =
     (if cb_state cb = st then cb
      else
        let prev = cb_state cb;
            cb1 = toNewGeneration (cb\<lparr>cb_state := st\<rparr>) now;
            name = cbName (cb_config cb1);
            cb2 = cb_emit (MetricInc ''circuit_breaker_state_changes_total''
                    [name, cbs_String prev, cbs_String st]) cb1;
            cb3 = cb_emit (MetricSet ''circuit_breaker_current_state'' [name]
                    (f64_of_int (cbs_iota st))) cb2
        in if cbOnStateChange (cb_config cb3)
           then cb3\<lparr>cb_changes := cb_changes cb3 @ [(prev, st)]\<rparr> else cb3)"

definition currentState ::
  "CircuitBreaker \<Rightarrow> gotime \<Rightarrow> (CircuitBreakerState \<times> 64 word) \<times> CircuitBreaker" where
  "currentState cb now =
     (let cb1 = (case cb_state cb of
            StateClosed \<Rightarrow>
              (if \<not> time_is_zero (cb_expiry cb) \<and> time_before (cb_expiry cb) now
               then toNewGeneration cb now else cb)
          | StateOpen \<Rightarrow>
              (if time_before (cb_expiry cb) now then setState cb StateHalfOpen now else cb)
          | StateHalfOpen \<Rightarrow> cb)
      in ((cb_state cb1, cb_generation cb1), cb1))"

section \<open>Requests\<close>

definition beforeRequest ::
  "CircuitBreaker \<Rightarrow> gotime \<Rightarrow> (64 word \<times> go_error option) \<times> CircuitBreaker" where
  "beforeRequest cb now =
     (let ((state, generation), cb1) = currentState cb now;
          name = cbName (cb_config cb1)
      in if state = StateOpen then
           ((generation, Some ErrCircuitBreakerOpen),
            cb_emit (MetricInc ''circuit_breaker_requests_total'' [name, ''open'']) cb1)
         else if state = StateHalfOpen \<and> cbMaxRequests (cb_config cb1) \<le> Requests (cb_counts cb1) then
           ((generation, Some ErrCircuitBreakerOpen),
            cb_emit (MetricInc ''circuit_breaker_requests_total'' [name, ''half-open-rejected'']) cb1)
         else
           ((generation, None),
            cb_emit (MetricInc ''circuit_breaker_requests_total'' [name, cbs_String state])
              (cb1\<lparr>cb_counts := OnRequest (cb_counts cb1)\<rparr>)))"

definition cb_onSuccess :: "CircuitBreaker \<Rightarrow> CircuitBreakerState \<Rightarrow> gotime \<Rightarrow> CircuitBreaker" where
  "cb_onSuccess cb state now =
     (let cb1 = cb_emit (MetricInc ''circuit_breaker_successes_total'' [cbName (cb_config cb)])
                  (cb\<lparr>cb_counts := OnSuccess (cb_counts cb)\<rparr>)
      in if state = StateHalfOpen
            \<and> cbMaxRequests (cb_config cb1) \<le> ConsecutiveSuccesses (cb_counts cb1)
         then setState cb1 StateClosed now else cb1)"

definition cb_onFailure :: "CircuitBreaker \<Rightarrow> CircuitBreakerState \<Rightarrow> gotime \<Rightarrow> CircuitBreaker" where
  "cb_onFailure cb state now =
     (let cb1 = cb_emit (MetricInc ''circuit_breaker_failures_total'' [cbName (cb_config cb)])
                  (cb\<lparr>cb_counts := OnFailure (cb_counts cb)\<rparr>)
      in case state of
           StateClosed \<Rightarrow>
             (if the (cbReadyToTrip (cb_config cb1)) (cb_counts cb1)
              then setState cb1 StateOpen now else cb1)
         | StateHalfOpen \<Rightarrow> setState cb1 StateOpen now
         | StateOpen \<Rightarrow> cb1)"

definition afterRequest ::
  "CircuitBreaker \<Rightarrow> gotime \<Rightarrow> 64 word \<Rightarrow> go_error option \<Rightarrow> CircuitBreaker" where
  "afterRequest cb now before err =
     (let ((state, generation), cb1) = currentState cb now in
      if generation \<noteq> before then cb1
      else if the (cbIsSuccessful (cb_config cb1)) err then cb_onSuccess cb1 state now
      else cb_onFailure cb1 state now)"

text \<open>
  The function passed to \<open>Execute\<close> returns or panics. It works on the world \<open>'w\<close>, which may hold
  the breaker itself: other goroutines use it meanwhile. A panic is recorded as a failure and
  raised again.
\<close>

datatype fn_outcome = Returned "go_error option" | Panicked string

definition Execute ::
  "('w \<Rightarrow> gotime) \<Rightarrow> (CircuitBreaker \<times> 'w \<Rightarrow> fn_outcome \<times> (CircuitBreaker \<times> 'w))
     \<Rightarrow> CircuitBreaker \<times> 'w \<Rightarrow> fn_outcome \<times> (CircuitBreaker \<times> 'w)" where
  "Execute clock fn s =
     (let ((generation, err), cb1) = beforeRequest (fst s) (clock (snd s)) in
      case err of
        Some e \<Rightarrow> (Returned (Some e), (cb1, snd s))
      | None \<Rightarrow>
          (let (out, (cb2, w2)) = fn (cb1, snd s) in
           case out of
             Returned e \<Rightarrow> (Returned e, (afterRequest cb2 (clock w2) generation e, w2))
           | Panicked r \<Rightarrow>
               (Panicked r, (afterRequest cb2 (clock w2) generation
                  (Some (ErrNew (''panic recovered: '' @ r))), w2))))"

section \<open>The other methods\<close>

definition cb_State :: "CircuitBreaker \<Rightarrow> gotime \<Rightarrow> CircuitBreakerState \<times> CircuitBreaker" where
  "cb_State cb now = (let ((state, _), cb1) = currentState cb now in (state, cb1))"

definition cb_Counts :: "CircuitBreaker \<Rightarrow> Counts" where
  "cb_Counts cb = cb_counts cb"

definition cb_Name :: "CircuitBreaker \<Rightarrow> string" where
  "cb_Name cb = cbName (cb_config cb)"

text \<open>\<open>Reset\<close> reads the clock twice.\<close>

definition cb_Reset :: "CircuitBreaker \<Rightarrow> gotime \<Rightarrow> gotime \<Rightarrow> CircuitBreaker" where
  "cb_Reset cb now1 now2 = setState (toNewGeneration cb now1) StateClosed now2"


section \<open>What each step changes\<close>

lemma Counts_Reset_eq [simp]: "Counts_Reset c = zero_counts"
  by (cases c) (simp add: Counts_Reset_def zero_counts_def)

lemma cb_emit_frame [simp]:
  "cb_config (cb_emit m cb) = cb_config cb" "cb_state (cb_emit m cb) = cb_state cb"
  "cb_generation (cb_emit m cb) = cb_generation cb" "cb_counts (cb_emit m cb) = cb_counts cb"
  "cb_expiry (cb_emit m cb) = cb_expiry cb" "cb_changes (cb_emit m cb) = cb_changes cb"
  by (simp_all add: cb_emit_def)

lemma toNewGeneration_frame [simp]:
  "cb_config (toNewGeneration cb now) = cb_config cb"
  "cb_state (toNewGeneration cb now) = cb_state cb"
  "cb_generation (toNewGeneration cb now) = cb_generation cb + 1"
  "cb_counts (toNewGeneration cb now) = zero_counts"
  "cb_changes (toNewGeneration cb now) = cb_changes cb"
  by (simp_all add: toNewGeneration_def Let_def)

lemma setState_frame [simp]:
  "cb_config (setState cb st now) = cb_config cb"
  "cb_state (setState cb st now) = st"
  by (simp_all add: setState_def Let_def)

lemma setState_same [simp]: "cb_state cb = st \<Longrightarrow> setState cb st now = cb"
  by (simp add: setState_def)

lemma setState_change:
  assumes "cb_state cb \<noteq> st"
  shows "cb_generation (setState cb st now) = cb_generation cb + 1"
    and "cb_counts (setState cb st now) = zero_counts"
    and "cb_changes (setState cb st now) =
      cb_changes cb @ (if cbOnStateChange (cb_config cb) then [(cb_state cb, st)] else [])"
    and "cb_expiry (setState cb st now) =
      (case st of StateClosed \<Rightarrow> (if cbInterval (cb_config cb) = 0 then 0
                                 else now + cbInterval (cb_config cb))
        | StateOpen \<Rightarrow> now + cbTimeout (cb_config cb) | StateHalfOpen \<Rightarrow> 0)"
  using assms
  by (simp_all add: setState_def Let_def toNewGeneration_def go_defs split: CircuitBreakerState.split)

lemma zero_counts_simps [simp]:
  "Requests zero_counts = 0" "TotalSuccesses zero_counts = 0" "TotalFailures zero_counts = 0"
  "ConsecutiveSuccesses zero_counts = 0" "ConsecutiveFailures zero_counts = 0"
  by (simp_all add: zero_counts_def)

text \<open>The three outcomes of \<open>currentState\<close>: nothing, a fresh closed generation, or half-open.\<close>

lemma currentState_cases:
  obtains (same) "currentState cb now = ((cb_state cb, cb_generation cb), cb)"
      "cb_state cb = StateOpen \<Longrightarrow> now \<le> cb_expiry cb"
    | (renew) "cb_state cb = StateClosed" "cb_expiry cb \<noteq> 0" "cb_expiry cb < now"
      "currentState cb now = ((StateClosed, cb_generation cb + 1), toNewGeneration cb now)"
    | (probe) "cb_state cb = StateOpen" "cb_expiry cb < now"
      "currentState cb now = ((StateHalfOpen, cb_generation cb + 1), setState cb StateHalfOpen now)"
proof (cases "cb_state cb")
  case StateClosed
  show thesis
  proof (cases "cb_expiry cb \<noteq> 0 \<and> cb_expiry cb < now")
    case True
    with StateClosed renew show thesis by (simp add: currentState_def go_defs Let_def)
  next
    case False
    with StateClosed same show thesis by (auto simp: currentState_def go_defs Let_def)
  qed
next
  case StateOpen
  show thesis
  proof (cases "cb_expiry cb < now")
    case True
    with StateOpen probe show thesis
      by (simp add: currentState_def go_defs Let_def setState_change)
  next
    case False
    with StateOpen same show thesis by (simp add: currentState_def go_defs Let_def)
  qed
next
  case StateHalfOpen
  with same show thesis by (simp add: currentState_def Let_def)
qed

lemma currentState_result:
  "currentState cb now = ((state, g), cb1) \<Longrightarrow>
     cb_state cb1 = state \<and> cb_generation cb1 = g \<and> cb_config cb1 = cb_config cb"
  by (cases rule: currentState_cases [of cb now]) (auto simp: setState_change)

section \<open>The default trip condition\<close>

lemma rate_value:
  fixes a b :: "32 word"
  assumes "b \<noteq> 0"
  shows "f64_of_int (uint a) / f64_of_int (uint b) = Fin (rnd (of_int (uint a) / of_int (uint b)))"
  using assms uint_bounded [of a] uint_bounded [of b]
  by (intro f64_int_ratio) (simp_all add: word_neq_0_conv word_less_def)

lemma rnd_ratio_vs_3_5:
  fixes f n :: int
  assumes "0 < n" and "n < 2 ^ 32" and "0 \<le> f" and "f \<le> 2 ^ 32"
  shows "rnd (3/5) \<le> rnd (of_int f / of_int n) \<longleftrightarrow> 3 * n \<le> 5 * f"
proof
  assume "3 * n \<le> 5 * f"
  then have "(of_int (3 * n) :: rat) \<le> of_int (5 * f)" by (simp only: of_int_le_iff)
  then have "3/5 \<le> (of_int f / of_int n :: rat)" using assms(1) by (simp add: field_simps)
  then show "rnd (3/5) \<le> rnd (of_int f / of_int n)" by (rule rnd_mono)
next
  let ?q = "of_int f / of_int n :: rat"
  assume h: "rnd (3/5) \<le> rnd ?q"
  show "3 * n \<le> 5 * f"
  proof (rule ccontr)
    assume "\<not> 3 * n \<le> 5 * f"
    then have "5 * f + 1 \<le> 3 * n" by simp
    then have "(of_int (5 * f + 1) :: rat) \<le> of_int (3 * n)" by (simp only: of_int_le_iff)
    then have le: "?q \<le> 3/5 - 1 / (5 * of_int n)" using assms(1) by (simp add: field_simps)
    have "(of_int n :: rat) \<le> of_int (2 ^ 32)" using assms(2) by (simp only: of_int_le_iff)
    then have n32: "(of_int n :: rat) \<le> 2 ^ 32" by simp
    have "1 / (5 * 2 ^ 32) \<le> 1 / (5 * of_int n :: rat)"
      using n32 assms(1) by (intro divide_left_mono) simp_all
    with le have "?q \<le> 3/5 - 1 / (5 * 2 ^ 32)" by linarith
    then have "rnd ?q \<le> rnd (3/5 - 1 / (5 * 2 ^ 32))" by (rule rnd_mono)
    also have "rnd (3/5 - 1 / (5 * 2 ^ 32)) = of_int 5404319552425165 * 2 powi (- 53)"
      by (rule rnd_nearest) (simp_all add: power_int_minus)
    also have "\<dots> < rnd (3/5)" by (simp add: rnd_3_5 power_int_minus)
    finally show False using h by simp
  qed
qed

lemma defaultReadyToTrip_exact:
  "defaultReadyToTrip c \<longleftrightarrow>
     5 \<le> uint (Requests c) \<and> 3 * uint (Requests c) \<le> 5 * uint (TotalFailures c)"
proof (cases "Requests c = 0")
  case True
  then show ?thesis by (simp add: defaultReadyToTrip_def)
next
  case False
  let ?n = "uint (Requests c)" and ?f = "uint (TotalFailures c)"
  have b: "0 < ?n" "?n < 2 ^ 32" "0 \<le> ?f" "?f \<le> 2 ^ 32"
    using False uint_bounded [of "Requests c"] uint_bounded [of "TotalFailures c"]
    by (simp_all add: word_neq_0_conv word_less_def)
  have "f64_of_rat (3/5) = Fin (rnd (3/5))" by (intro f64_of_rat_bounded) (simp add: max_f64_def)
  then have "f64_of_rat (3/5) \<le> FailureRate c \<longleftrightarrow> 3 * ?n \<le> 5 * ?f"
    using False rnd_ratio_vs_3_5 [OF b] by (simp add: FailureRate_def rate_value)
  moreover have "5 \<le> Requests c \<longleftrightarrow> 5 \<le> ?n" by (simp add: word_le_def)
  ultimately show ?thesis by (simp add: defaultReadyToTrip_def)
qed

end
