(* ===== verification/BreakerMachine.thy ===== *)
theory BreakerMachine
  imports CircuitBreaker
begin

text \<open>
  The circuit breaker under concurrent use: any interleaving of the two halves of
  \<open>Execute\<close> (any number of calls in flight), \<open>State\<close> and \<open>Reset\<close>. The state holds the breaker
  and the generations of the admitted calls whose function has not returned yet; the number of
  steps taken is kept to state the bound under which the 64-bit generation cannot wrap around.
\<close>

section \<open>The machine\<close>

record breaker_sys =
  sys_cb :: CircuitBreaker
  sys_flight :: "64 word list"
  sys_steps :: nat

datatype breaker_op =
    OpBefore gotime
  | OpAfter nat gotime "go_error option"
  | OpState gotime
  | OpReset gotime gotime

definition finish_call :: "nat \<Rightarrow> 'a list \<Rightarrow> 'a list" where
  "finish_call i fl = take i fl @ drop (Suc i) fl"

definition admit :: "breaker_sys \<Rightarrow> (64 word \<times> go_error option) \<times> CircuitBreaker \<Rightarrow> breaker_sys" where
  "admit s r = (case r of ((g, err), cb) \<Rightarrow>
     s\<lparr>sys_cb := cb, sys_flight := (if err = None then sys_flight s @ [g] else sys_flight s)\<rparr>)"

fun breaker_move :: "breaker_op \<Rightarrow> breaker_sys \<Rightarrow> breaker_sys" where
  "breaker_move (OpBefore now) s = admit s (beforeRequest (sys_cb s) now)"
| "breaker_move (OpAfter i now err) s =
     (if i < length (sys_flight s)
      then s\<lparr>sys_cb := afterRequest (sys_cb s) now (sys_flight s ! i) err,
             sys_flight := finish_call i (sys_flight s)\<rparr>
      else s)"
| "breaker_move (OpState now) s = s\<lparr>sys_cb := snd (cb_State (sys_cb s) now)\<rparr>"
| "breaker_move (OpReset now1 now2) s = s\<lparr>sys_cb := cb_Reset (sys_cb s) now1 now2\<rparr>"

definition breaker_step :: "breaker_op \<Rightarrow> breaker_sys \<Rightarrow> breaker_sys" where
  "breaker_step x s = (breaker_move x s)\<lparr>sys_steps := Suc (sys_steps s)\<rparr>"

definition breaker_start :: "CircuitBreakerConfig \<Rightarrow> gotime \<Rightarrow> breaker_sys" where
  "breaker_start cfg now =
     \<lparr>sys_cb = NewCircuitBreaker cfg now, sys_flight = [], sys_steps = 0\<rparr>"

definition no_wrap :: "breaker_op \<Rightarrow> breaker_sys \<Rightarrow> bool" where
  "no_wrap x s \<longleftrightarrow> 2 * sys_steps s + 2 < 2 ^ 64"

section \<open>The invariant\<close>

definition config_ok :: "CircuitBreakerConfig \<Rightarrow> bool" where
  "config_ok cfg \<longleftrightarrow> cbMaxRequests cfg \<noteq> 0 \<and> cbInterval cfg \<noteq> 0 \<and> cbTimeout cfg \<noteq> 0
     \<and> cbReadyToTrip cfg \<noteq> None \<and> cbIsSuccessful cfg \<noteq> None"

text \<open>
  Requests, successes, failures and calls in flight of the current generation balance. In the closed
  state the 32-bit counts may wrap and the balance is one of words; in the half-open state they
  cannot, and fewer than \<open>MaxRequests\<close> calls have succeeded; in the open state nothing is counted.
\<close>

definition counts_ok ::
  "CircuitBreakerConfig \<Rightarrow> CircuitBreakerState \<Rightarrow> Counts \<Rightarrow> nat \<Rightarrow> bool" where
  "counts_ok cfg st c n \<longleftrightarrow>
     Requests c = TotalSuccesses c + TotalFailures c + of_nat n
     \<and> (st = StateOpen \<longrightarrow> c = zero_counts \<and> n = 0)
     \<and> (st = StateHalfOpen \<longrightarrow>
          unat (Requests c) = unat (TotalSuccesses c) + n \<and> Requests c \<le> cbMaxRequests cfg
          \<and> TotalFailures c = 0 \<and> ConsecutiveSuccesses c = TotalSuccesses c
          \<and> TotalSuccesses c < cbMaxRequests cfg)"

definition tokens_ok :: "CircuitBreaker \<Rightarrow> 64 word list \<Rightarrow> bool" where
  "tokens_ok cb fl \<longleftrightarrow> config_ok (cb_config cb) \<and> (\<forall>g \<in> set fl. g \<le> cb_generation cb)"

definition cb_flight_ok :: "CircuitBreaker \<Rightarrow> 64 word list \<Rightarrow> bool" where
  "cb_flight_ok cb fl \<longleftrightarrow>
     tokens_ok cb fl
     \<and> counts_ok (cb_config cb) (cb_state cb) (cb_counts cb) (count_list fl (cb_generation cb))"

definition breaker_inv :: "breaker_sys \<Rightarrow> bool" where
  "breaker_inv s \<longleftrightarrow>
     cb_flight_ok (sys_cb s) (sys_flight s)
     \<and> unat (cb_generation (sys_cb s)) \<le> 2 * sys_steps s"

lemma counts_ok_half_openD:
  assumes "counts_ok cfg StateHalfOpen c n"
  shows "unat (Requests c) = unat (TotalSuccesses c) + n" and "Requests c \<le> cbMaxRequests cfg"
    and "TotalSuccesses c < cbMaxRequests cfg"
  using assms unfolding counts_ok_def by blast+

text \<open>A generation number has room to grow by \<open>n\<close>.\<close>

definition gen_room :: "nat \<Rightarrow> CircuitBreaker \<Rightarrow> bool" where
  "gen_room n cb \<longleftrightarrow> unat (cb_generation cb) + n < 2 ^ 64"

lemma unat_next: "unat (g :: 64 word) + 1 < 2 ^ 64 \<Longrightarrow> unat (g + 1) = unat g + 1"
  by (simp add: unat_word_ariths)

lemma next_fresh:
  assumes "unat (g :: 64 word) + 1 < 2 ^ 64" and "\<forall>x \<in> set fl. x \<le> g"
  shows "(\<forall>x \<in> set fl. x \<le> g + 1) \<and> count_list fl (g + 1) = 0"
proof -
  have lt: "g < g + 1" using assms(1) by (simp add: word_less_nat_alt unat_next)
  with assms(2) have "\<forall>x \<in> set fl. x < g + 1" by (auto intro: le_less_trans)
  then show ?thesis by (auto simp: count_list_0_iff)
qed

lemma counts_ok_zero: "config_ok cfg \<Longrightarrow> counts_ok cfg st zero_counts 0"
  by (simp add: counts_ok_def config_ok_def word_neq_0_conv)

text \<open>
  One lemma for every way a new generation starts: whatever the state becomes, the invariant holds
  and the generation has grown by one.
\<close>

lemma fresh_generation_ok:
  assumes "tokens_ok cb fl" and "gen_room 1 cb"
    and "cb_config cb' = cb_config cb" and "cb_generation cb' = cb_generation cb + 1"
    and "cb_counts cb' = zero_counts"
  shows "cb_flight_ok cb' fl \<and> unat (cb_generation cb') = unat (cb_generation cb) + 1"
  using assms next_fresh [of "cb_generation cb" fl]
  by (simp add: cb_flight_ok_def tokens_ok_def gen_room_def counts_ok_zero unat_next)

lemma toNewGeneration_ok:
  "tokens_ok cb fl \<Longrightarrow> gen_room 1 cb \<Longrightarrow>
     cb_flight_ok (toNewGeneration cb now) fl
     \<and> unat (cb_generation (toNewGeneration cb now)) = unat (cb_generation cb) + 1"
  by (rule fresh_generation_ok) simp_all

lemma setState_fresh_ok:
  assumes "tokens_ok cb fl" and "gen_room 1 cb" and "cb_state cb \<noteq> st"
  shows "cb_flight_ok (setState cb st now) fl
    \<and> unat (cb_generation (setState cb st now)) = unat (cb_generation cb) + 1"
  by (rule fresh_generation_ok [OF assms(1,2)]) (simp_all add: setState_change [OF assms(3)])

lemma setState_ok:
  assumes "cb_flight_ok cb fl" and "gen_room 1 cb"
  shows "cb_flight_ok (setState cb st now) fl
    \<and> unat (cb_generation (setState cb st now)) \<le> unat (cb_generation cb) + 1"
proof (cases "cb_state cb = st")
  case True
  with assms show ?thesis by simp
next
  case False
  with setState_fresh_ok [of cb fl st now] assms show ?thesis by (simp add: cb_flight_ok_def)
qed

lemma currentState_ok:
  assumes "cb_flight_ok cb fl" and "gen_room 1 cb"
    and "currentState cb now = (r, cb1)"
  shows "cb_flight_ok cb1 fl \<and> unat (cb_generation cb1) \<le> unat (cb_generation cb) + 1"
  using assms toNewGeneration_ok [of cb fl now] setState_ok [OF assms(1,2)]
  by (cases rule: currentState_cases [of cb now]) (auto simp: cb_flight_ok_def)

section \<open>Every operation keeps the invariant\<close>

lemma unat32_less: "unat (w :: 32 word) < 2 ^ 32"
proof -
  have "unat w < 2 ^ LENGTH(32)" by (rule unsigned_less)
  then show ?thesis by simp
qed

lemma counts_ok_OnRequest:
  assumes "counts_ok cfg st c n" and "st \<noteq> StateOpen"
    and "st = StateHalfOpen \<longrightarrow> Requests c < cbMaxRequests cfg"
  shows "counts_ok cfg st (OnRequest c) (Suc n)"
proof -
  have "unat (Requests c + 1) = unat (Requests c) + 1 \<and> Requests c + 1 \<le> cbMaxRequests cfg"
    if "Requests c < cbMaxRequests cfg"
  proof -
    have "unat (Requests c) + 1 < 2 ^ 32"
      using that unat32_less [of "cbMaxRequests cfg"] by (simp add: word_less_nat_alt)
    then have "unat (Requests c + 1) = unat (Requests c) + 1" by (simp add: unat_word_ariths)
    with that show ?thesis by (simp add: word_less_nat_alt word_le_nat_alt)
  qed
  with assms show ?thesis by (cases st) (auto simp: counts_ok_def OnRequest_def)
qed

lemma beforeRequest_ok:
  assumes "cb_flight_ok cb fl" and "gen_room 1 cb"
    and "beforeRequest cb now = ((g, err), cb')"
  shows "cb_flight_ok cb' (if err = None then fl @ [g] else fl)
    \<and> unat (cb_generation cb') \<le> unat (cb_generation cb) + 1"
proof -
  obtain state g1 cb1 where cs: "currentState cb now = ((state, g1), cb1)"
    by (metis surj_pair)
  note ok = currentState_ok [OF assms(1,2) cs] and res = currentState_result [OF cs]
  show ?thesis
  proof (cases "state = StateOpen
      \<or> state = StateHalfOpen \<and> cbMaxRequests (cb_config cb1) \<le> Requests (cb_counts cb1)")
    case True
    with cs assms(3) have "err \<noteq> None" and "\<exists>m. cb' = cb_emit m cb1"
      by (auto simp: beforeRequest_def Let_def split: if_splits)
    with ok show ?thesis by (auto simp: cb_flight_ok_def tokens_ok_def)
  next
    case False
    with cs assms(3) have err: "err = None" "g = g1"
      and "\<exists>m. cb' = cb_emit m (cb1\<lparr>cb_counts := OnRequest (cb_counts cb1)\<rparr>)"
      by (auto simp: beforeRequest_def Let_def split: if_splits)
    then obtain m where cb': "cb' = cb_emit m (cb1\<lparr>cb_counts := OnRequest (cb_counts cb1)\<rparr>)"
      by blast
    have "counts_ok (cb_config cb1) state (cb_counts cb1) (count_list fl g1)"
      using ok res by (simp add: cb_flight_ok_def)
    then have "counts_ok (cb_config cb1) state (OnRequest (cb_counts cb1)) (Suc (count_list fl g1))"
      using False by (intro counts_ok_OnRequest) (simp_all add: not_le)
    moreover have "count_list (fl @ [g1]) g1 = Suc (count_list fl g1)" by simp
    moreover have "tokens_ok cb' (fl @ [g1])"
      using ok res by (simp add: cb' cb_flight_ok_def tokens_ok_def)
    ultimately have "cb_flight_ok cb' (fl @ [g1])"
      using res by (simp add: cb' cb_flight_ok_def)
    with ok err cb' show ?thesis by simp
  qed
qed

lemma count_list_finish_call:
  "i < length xs \<Longrightarrow> count_list (finish_call i xs) y = count_list xs y - (if xs ! i = y then 1 else 0)"
  using count_list_append [of "take i xs" "xs ! i # drop (Suc i) xs" y]
  by (simp add: finish_call_def id_take_nth_drop [symmetric])

lemma set_finish_call: "set (finish_call i xs) \<subseteq> set xs"
  using set_take_subset [of i xs] set_drop_subset [of "Suc i" xs] by (auto simp: finish_call_def)

lemma count_list_nth_pos: "i < length xs \<Longrightarrow> 0 < count_list xs (xs ! i)"
  using count_list_0_iff [of xs "xs ! i"] by auto


lemma tokens_ok_subset: "tokens_ok cb fl \<Longrightarrow> set fl' \<subseteq> set fl \<Longrightarrow> tokens_ok cb fl'"
  by (auto simp: tokens_ok_def)

lemma counts_ok_OnSuccess:
  assumes "counts_ok cfg st c (Suc n)"
    and "st = StateHalfOpen \<longrightarrow> \<not> cbMaxRequests cfg \<le> ConsecutiveSuccesses (OnSuccess c)"
  shows "counts_ok cfg st (OnSuccess c) n"
proof -
  have "unat (TotalSuccesses c + 1) = unat (TotalSuccesses c) + 1"
    if "TotalSuccesses c < cbMaxRequests cfg"
  proof -
    have "unat (TotalSuccesses c) + 1 < 2 ^ 32"
      using that unat32_less [of "cbMaxRequests cfg"] by (simp add: word_less_nat_alt)
    then show ?thesis by (simp add: unat_word_ariths)
  qed
  with assms show ?thesis by (cases st) (auto simp: counts_ok_def OnSuccess_def not_le)
qed

lemma counts_ok_OnFailure:
  "counts_ok cfg StateClosed c (Suc n) \<Longrightarrow> counts_ok cfg StateClosed (OnFailure c) n"
  by (simp add: counts_ok_def OnFailure_def)

lemma cb_onSuccess_ok:
  assumes "tokens_ok cb fl" and "gen_room 1 cb"
    and "counts_ok (cb_config cb) (cb_state cb) (cb_counts cb) (Suc (count_list fl (cb_generation cb)))"
  shows "cb_flight_ok (cb_onSuccess cb (cb_state cb) now) fl
    \<and> unat (cb_generation (cb_onSuccess cb (cb_state cb) now)) \<le> unat (cb_generation cb) + 1"
proof -
  let ?cb1 = "cb_emit (MetricInc ''circuit_breaker_successes_total'' [cbName (cb_config cb)])
                (cb\<lparr>cb_counts := OnSuccess (cb_counts cb)\<rparr>)"
  have t: "tokens_ok ?cb1 fl" and room: "gen_room 1 ?cb1"
    using assms by (simp_all add: tokens_ok_def gen_room_def)
  show ?thesis
  proof (cases "cb_state cb = StateHalfOpen
      \<and> cbMaxRequests (cb_config cb) \<le> ConsecutiveSuccesses (OnSuccess (cb_counts cb))")
    case True
    with setState_fresh_ok [OF t room, of StateClosed now] show ?thesis
      by (simp add: cb_onSuccess_def Let_def)
  next
    case False
    then have eq: "cb_onSuccess cb (cb_state cb) now = ?cb1"
      unfolding cb_onSuccess_def Let_def by (intro if_not_P) simp
    from counts_ok_OnSuccess [OF assms(3)] False t show ?thesis
      unfolding eq by (simp add: cb_flight_ok_def)
  qed
qed

lemma cb_onFailure_ok:
  assumes "tokens_ok cb fl" and "gen_room 1 cb"
    and "counts_ok (cb_config cb) (cb_state cb) (cb_counts cb) (Suc (count_list fl (cb_generation cb)))"
  shows "cb_flight_ok (cb_onFailure cb (cb_state cb) now) fl
    \<and> unat (cb_generation (cb_onFailure cb (cb_state cb) now)) \<le> unat (cb_generation cb) + 1"
proof -
  let ?cb1 = "cb_emit (MetricInc ''circuit_breaker_failures_total'' [cbName (cb_config cb)])
                (cb\<lparr>cb_counts := OnFailure (cb_counts cb)\<rparr>)"
  have t: "tokens_ok ?cb1 fl" and room: "gen_room 1 ?cb1"
    using assms by (simp_all add: tokens_ok_def gen_room_def)
  note trip = setState_fresh_ok [OF t room, of StateOpen now]
  show ?thesis
  proof (cases "cb_state cb")
    case StateClosed
    with counts_ok_OnFailure [of "cb_config cb" "cb_counts cb"] assms(3) t
    have "cb_flight_ok ?cb1 fl" by (simp add: cb_flight_ok_def)
    with trip StateClosed show ?thesis by (simp add: cb_onFailure_def Let_def)
  next
    case StateOpen
    with assms(3) show ?thesis by (simp add: counts_ok_def)
  next
    case StateHalfOpen
    with trip show ?thesis by (simp add: cb_onFailure_def Let_def)
  qed
qed

lemma afterRequest_ok:
  assumes "cb_flight_ok cb fl" and "gen_room 2 cb" and "i < length fl"
  shows "cb_flight_ok (afterRequest cb now (fl ! i) err) (finish_call i fl)
    \<and> unat (cb_generation (afterRequest cb now (fl ! i) err)) \<le> unat (cb_generation cb) + 2"
proof -
  obtain state g cb1 where cs: "currentState cb now = ((state, g), cb1)"
    by (metis surj_pair)
  have "gen_room 1 cb" using assms(2) by (simp add: gen_room_def)
  note ok = currentState_ok [OF assms(1) this cs] and res = currentState_result [OF cs]
  have room: "gen_room 1 cb1" using ok assms(2) by (simp add: gen_room_def)
  have t: "tokens_ok cb1 (finish_call i fl)"
    using ok by (simp add: cb_flight_ok_def tokens_ok_subset [OF _ set_finish_call])
  show ?thesis
  proof (cases "g = fl ! i")
    case False
    with cs have eq: "afterRequest cb now (fl ! i) err = cb1" by (simp add: afterRequest_def)
    have "count_list (finish_call i fl) g = count_list fl g"
      using False assms(3) by (simp add: count_list_finish_call)
    with ok t res show ?thesis unfolding eq by (simp add: cb_flight_ok_def)
  next
    case True
    have "count_list fl g = Suc (count_list (finish_call i fl) g)"
      using True assms(3) count_list_nth_pos [OF assms(3)] by (simp add: count_list_finish_call)
    then have "counts_ok (cb_config cb1) (cb_state cb1) (cb_counts cb1)
        (Suc (count_list (finish_call i fl) (cb_generation cb1)))"
      using ok res by (simp add: cb_flight_ok_def)
    note ok' = cb_onSuccess_ok [OF t room this, of now] cb_onFailure_ok [OF t room this, of now]
    have "afterRequest cb now (fl ! i) err
        = (if the (cbIsSuccessful (cb_config cb1)) err then cb_onSuccess cb1 (cb_state cb1) now
           else cb_onFailure cb1 (cb_state cb1) now)"
      using True cs res by (simp add: afterRequest_def)
    with ok ok' show ?thesis by (auto split: if_splits)
  qed
qed

lemma cb_State_ok:
  "cb_flight_ok cb fl \<Longrightarrow> gen_room 1 cb \<Longrightarrow>
     cb_flight_ok (snd (cb_State cb now)) fl
     \<and> unat (cb_generation (snd (cb_State cb now))) \<le> unat (cb_generation cb) + 1"
  by (cases "currentState cb now") (auto simp: cb_State_def split: prod.split dest: currentState_ok)

lemma cb_Reset_ok:
  assumes "cb_flight_ok cb fl" and "gen_room 2 cb"
  shows "cb_flight_ok (cb_Reset cb now1 now2) fl
    \<and> unat (cb_generation (cb_Reset cb now1 now2)) \<le> unat (cb_generation cb) + 2"
proof -
  let ?cb1 = "toNewGeneration cb now1"
  have "tokens_ok cb fl" "gen_room 1 cb"
    using assms by (simp_all add: cb_flight_ok_def gen_room_def)
  note ok = toNewGeneration_ok [OF this, of now1]
  then have "gen_room 1 ?cb1" using assms(2) by (simp add: gen_room_def)
  with ok setState_ok [of ?cb1 fl StateClosed now2] show ?thesis by (simp add: cb_Reset_def)
qed

lemma breaker_move_ok:
  assumes "cb_flight_ok (sys_cb s) (sys_flight s)" and "gen_room 2 (sys_cb s)"
  shows "cb_flight_ok (sys_cb (breaker_move x s)) (sys_flight (breaker_move x s))
    \<and> unat (cb_generation (sys_cb (breaker_move x s))) \<le> unat (cb_generation (sys_cb s)) + 2"
proof -
  have room: "gen_room 1 (sys_cb s)" using assms(2) by (simp add: gen_room_def)
  show ?thesis
  proof (cases x)
    case (OpBefore now)
    obtain g err cb' where br: "beforeRequest (sys_cb s) now = ((g, err), cb')" by (metis surj_pair)
    from beforeRequest_ok [OF assms(1) room br] show ?thesis
      by (simp add: OpBefore br admit_def)
  next
    case (OpAfter i now err)
    with assms afterRequest_ok [OF assms, of i now err] show ?thesis by simp
  next
    case (OpState now)
    with cb_State_ok [OF assms(1) room, of now] show ?thesis by simp
  next
    case (OpReset now1 now2)
    with cb_Reset_ok [OF assms] show ?thesis by simp
  qed
qed

lemma breaker_inv_step:
  "breaker_inv s \<Longrightarrow> no_wrap x s \<Longrightarrow> breaker_inv (breaker_step x s)"
  using breaker_move_ok [of s x]
  by (auto simp: breaker_inv_def breaker_step_def no_wrap_def gen_room_def)

lemma config_ok_defaults: "config_ok (cb_defaults cfg)"
  by (simp add: config_ok_def cb_defaults_def Let_def)

lemma breaker_inv_start: "breaker_inv (breaker_start cfg now)"
  using counts_ok_zero [OF config_ok_defaults]
  by (simp add: breaker_inv_def breaker_start_def NewCircuitBreaker_def Let_def cb_flight_ok_def
      tokens_ok_def config_ok_defaults)

interpretation breaker: invariant_machine breaker_step no_wrap breaker_inv
  by unfold_locales (rule breaker_inv_step)

end
