(* ===== verification/BreakerProps.thy ===== *)
theory BreakerProps
  imports BreakerMachine
begin

text \<open>
  What the circuit breaker promises its callers, proved from the invariant of
  \<open>BreakerMachine\<close> and the step lemmas of \<open>CircuitBreaker\<close>.
\<close>

section \<open>Reachable states\<close>

lemma breaker_step_steps [simp]: "sys_steps (breaker_step x s) = Suc (sys_steps s)"
  by (simp add: breaker_step_def)

lemma no_wrap_run: "2 * (sys_steps s + length xs) < 2 ^ 64 \<Longrightarrow> run_ok no_wrap breaker_step xs s"
  by (induction xs arbitrary: s) (auto simp: no_wrap_def)

lemma reachable_breaker_inv:
  "2 * length xs < 2 ^ 64 \<Longrightarrow> breaker_inv (run_ops breaker_step xs (breaker_start cfg now))"
  by (intro breaker.inv_run breaker_inv_start no_wrap_run) (simp add: breaker_start_def)

text \<open>C1: In every state that any interleaving of at most \<open>2 ^ 63 - 1\<close> breaker operations reaches, the
  request count of the current generation equals its successes plus its failures plus its calls
  still in flight (as 32-bit numbers), and an open breaker counts nothing.\<close>

theorem breaker_counts_balance:
  assumes "2 * length xs < 2 ^ 64"
    and "s = run_ops breaker_step xs (breaker_start cfg now)"
  shows "Requests (cb_counts (sys_cb s))
       = TotalSuccesses (cb_counts (sys_cb s)) + TotalFailures (cb_counts (sys_cb s))
         + of_nat (count_list (sys_flight s) (cb_generation (sys_cb s)))
     \<and> (cb_state (sys_cb s) = StateOpen \<longrightarrow> cb_counts (sys_cb s) = zero_counts)"
  using reachable_breaker_inv [OF assms(1), of cfg now] assms(2)
  by (simp add: breaker_inv_def cb_flight_ok_def counts_ok_def)

definition demo_breaker_config :: CircuitBreakerConfig where
  "demo_breaker_config = \<lparr>cbName = ''cloudflare-api'', cbMaxRequests = 3, cbInterval = 60 * Second,
     cbTimeout = 30 * Second, cbReadyToTrip = None, cbOnStateChange = True, cbIsSuccessful = None\<rparr>"

theorem breaker_counts_balance_witness:
  "let s = run_ops breaker_step [OpBefore 1, OpBefore 2, OpAfter 0 3 None]
         (breaker_start demo_breaker_config 1)
   in Requests (cb_counts (sys_cb s))
       = TotalSuccesses (cb_counts (sys_cb s)) + TotalFailures (cb_counts (sys_cb s))
         + of_nat (count_list (sys_flight s) (cb_generation (sys_cb s)))"
  using breaker_counts_balance [OF _ refl, of "[OpBefore 1, OpBefore 2, OpAfter 0 3 None]"
      demo_breaker_config 1]
  unfolding Let_def by simp

text \<open>C15: A half-open breaker that turns requests away is never stuck: whenever its admission count
  has reached \<open>MaxRequests\<close>, some admitted probe of this generation is still in flight, and at most
  \<open>MaxRequests\<close> of them are.\<close>

theorem half_open_not_stuck:
  assumes "2 * length xs < 2 ^ 64"
    and "s = run_ops breaker_step xs (breaker_start cfg now)"
    and "cb_state (sys_cb s) = StateHalfOpen"
  shows "count_list (sys_flight s) (cb_generation (sys_cb s)) \<le> unat (cbMaxRequests (cb_config (sys_cb s)))
    \<and> (cbMaxRequests (cb_config (sys_cb s)) \<le> Requests (cb_counts (sys_cb s))
        \<longrightarrow> cb_generation (sys_cb s) \<in> set (sys_flight s))"
proof -
  let ?cb = "sys_cb s"
  let ?n = "count_list (sys_flight s) (cb_generation ?cb)"
  have "breaker_inv s" using reachable_breaker_inv [OF assms(1), of cfg now] assms(2) by simp
  then have "counts_ok (cb_config ?cb) StateHalfOpen (cb_counts ?cb) ?n"
    using assms(3) by (simp add: breaker_inv_def cb_flight_ok_def)
  note c = counts_ok_half_openD [OF this]
  then have "?n \<le> unat (cbMaxRequests (cb_config ?cb))"
    by (simp add: word_le_nat_alt)
  moreover have "cb_generation ?cb \<in> set (sys_flight s)"
    if "cbMaxRequests (cb_config ?cb) \<le> Requests (cb_counts ?cb)"
  proof -
    have "0 < ?n" using c(1,3) that by (simp add: word_le_nat_alt word_less_nat_alt)
    then show ?thesis by (metis count_list_0_iff less_not_refl)
  qed
  ultimately show ?thesis by simp
qed

section \<open>Rejection, probing and recovery\<close>

text \<open>While a breaker is open and its timeout has not passed, \<open>Execute\<close> returns
  \<open>ErrCircuitBreakerOpen\<close> without running the function: the world is untouched and the breaker changes
  only by one more recorded metric call.\<close>

theorem open_rejects:
  assumes "cb_state cb = StateOpen" and "clock w \<le> cb_expiry cb"
  shows "Execute clock fn (cb, w) =
    (Returned (Some ErrCircuitBreakerOpen),
     (cb_emit (MetricInc ''circuit_breaker_requests_total'' [cbName (cb_config cb), ''open'']) cb, w))"
  using assms
  by (cases rule: currentState_cases [of cb "clock w"])
    (simp_all add: Execute_def beforeRequest_def Let_def)

text \<open>After the timeout the next request is admitted as the first probe of a fresh half-open
  generation.\<close>

theorem open_probes_after_timeout:
  assumes "cb_state cb = StateOpen" and "cb_expiry cb < now" and "config_ok (cb_config cb)"
    and "beforeRequest cb now = ((g, err), cb')"
  shows "err = None \<and> g = cb_generation cb + 1 \<and> cb_state cb' = StateHalfOpen
    \<and> cb_generation cb' = g \<and> Requests (cb_counts cb') = 1 \<and> cb_expiry cb' = 0"
  using assms
  by (cases rule: currentState_cases [of cb now])
    (auto simp: beforeRequest_def Let_def setState_change OnRequest_def config_ok_def word_le_0_iff)

text \<open>C35: The default trip condition in IEEE arithmetic is the exact one: when a failed call of the current
  generation is recorded in a closed breaker, the breaker opens iff there were at least five
  requests and at least 60 percent of them failed, with no misjudgement by rounding at the boundary.\<close>

theorem breaker_trips_at_60_percent:
  assumes "cb_state cb = StateClosed" and "cb_expiry cb = 0 \<or> now \<le> cb_expiry cb"
    and "cbReadyToTrip (cb_config cb) = Some defaultReadyToTrip"
    and "\<not> the (cbIsSuccessful (cb_config cb)) err"
  shows "cb_state (afterRequest cb now (cb_generation cb) err)
    = (if 5 \<le> uint (Requests (cb_counts cb))
          \<and> 3 * uint (Requests (cb_counts cb)) \<le> 5 * uint (TotalFailures (cb_counts cb) + 1)
       then StateOpen else StateClosed)"
proof -
  have "currentState cb now = ((StateClosed, cb_generation cb), cb)"
    using assms(1,2) by (cases rule: currentState_cases [of cb now]) auto
  then show ?thesis
    using assms by (simp add: afterRequest_def cb_onFailure_def Let_def OnFailure_def defaultReadyToTrip_exact)
qed

text \<open>One call of \<open>Execute\<close> whose function returns \<open>err\<close> at once, at time \<open>now\<close>.\<close>

definition call_returning :: "gotime \<Rightarrow> go_error option \<Rightarrow> CircuitBreaker \<Rightarrow> CircuitBreaker" where
  "call_returning now err cb = fst (snd (Execute (\<lambda>_. now) (\<lambda>s. (Returned err, s)) (cb, ())))"

lemma half_open_admits:
  assumes "cb_state cb = StateHalfOpen" and "Requests (cb_counts cb) < cbMaxRequests (cb_config cb)"
  shows "beforeRequest cb now = ((cb_generation cb, None),
    cb_emit (MetricInc ''circuit_breaker_requests_total'' [cbName (cb_config cb), ''half-open''])
      (cb\<lparr>cb_counts := OnRequest (cb_counts cb)\<rparr>))"
  using assms by (simp add: beforeRequest_def currentState_def Let_def not_le)

lemma half_open_success_step:
  assumes "cb_state cb = StateHalfOpen" and "Requests (cb_counts cb) < cbMaxRequests (cb_config cb)"
    and "the (cbIsSuccessful (cb_config cb)) None"
  shows "if cbMaxRequests (cb_config cb) \<le> ConsecutiveSuccesses (cb_counts cb) + 1
    then cb_state (call_returning now None cb) = StateClosed
      \<and> cb_counts (call_returning now None cb) = zero_counts
    else cb_state (call_returning now None cb) = StateHalfOpen
      \<and> Requests (cb_counts (call_returning now None cb)) = Requests (cb_counts cb) + 1
      \<and> ConsecutiveSuccesses (cb_counts (call_returning now None cb))
          = ConsecutiveSuccesses (cb_counts cb) + 1
      \<and> cb_config (call_returning now None cb) = cb_config cb"
  using assms
  by (auto simp: call_returning_def Execute_def half_open_admits Let_def afterRequest_def
      currentState_def cb_onSuccess_def OnSuccess_def OnRequest_def setState_change)

text \<open>C18: Recovery: from a fresh half-open generation, each of the first \<open>MaxRequests - 1\<close>
  successful calls in a row leaves the breaker half-open, and the \<open>MaxRequests\<close>-th closes it with
  its counts cleared.\<close>

theorem half_open_recovers:
  assumes "cb_state cb = StateHalfOpen" and "cb_counts cb = zero_counts"
    and "the (cbIsSuccessful (cb_config cb)) None"
    and "0 < k" and "k \<le> unat (cbMaxRequests (cb_config cb))"
  shows "cb_state ((call_returning now None ^^ k) cb)
      = (if k = unat (cbMaxRequests (cb_config cb)) then StateClosed else StateHalfOpen)"
proof -
  let ?m = "cbMaxRequests (cb_config cb)"
  let ?at = "\<lambda>k. (call_returning now None ^^ k) cb"
  have before: "cb_state (?at j) = StateHalfOpen \<and> cb_config (?at j) = cb_config cb
      \<and> unat (Requests (cb_counts (?at j))) = j
      \<and> unat (ConsecutiveSuccesses (cb_counts (?at j))) = j" if "j < unat ?m" for j
    using that
  proof (induction j)
    case 0
    then show ?case using assms(1,2) by simp
  next
    case (Suc j)
    then have IH: "cb_state (?at j) = StateHalfOpen" "cb_config (?at j) = cb_config cb"
        "unat (Requests (cb_counts (?at j))) = j"
        "unat (ConsecutiveSuccesses (cb_counts (?at j))) = j" by simp_all
    have "j + 1 < 2 ^ 32" using Suc.prems unat32_less [of ?m] by simp
    then have u: "unat (Requests (cb_counts (?at j)) + 1) = j + 1"
        "unat (ConsecutiveSuccesses (cb_counts (?at j)) + 1) = j + 1"
      using IH by (simp_all add: unat_word_ariths)
    have "\<not> ?m \<le> ConsecutiveSuccesses (cb_counts (?at j)) + 1"
      using u Suc.prems by (simp add: word_le_nat_alt)
    moreover have "Requests (cb_counts (?at j)) < ?m"
      using IH Suc.prems by (simp add: word_less_nat_alt)
    ultimately show ?case
      using half_open_success_step [of "?at j" now] IH u assms(3) by simp
  qed
  show ?thesis
  proof (cases "k = unat ?m")
    case False
    with before [of k] assms(5) show ?thesis by simp
  next
    case True
    then obtain j where j: "k = Suc j" "j < unat ?m" using assms(4) by (metis Suc_pred lessI)
    note b = before [OF j(2)]
    have "unat (ConsecutiveSuccesses (cb_counts (?at j)) + 1) = j + 1"
      using b j(1) True unat32_less [of ?m] by (simp add: unat_word_ariths)
    then have "?m \<le> ConsecutiveSuccesses (cb_counts (?at j)) + 1"
      using True j(1) by (simp add: word_le_nat_alt)
    moreover have "Requests (cb_counts (?at j)) < ?m"
      using b j(2) by (simp add: word_less_nat_alt)
    ultimately show ?thesis
      using half_open_success_step [of "?at j" now] b assms(3) j(1) True by simp
  qed
qed


section \<open>The abstract automaton\<close>

text \<open>
  The contract of the pattern: a closed circuit opens, an open one is probed, a probed one closes or
  opens again. No other change of state happens unless \<open>Reset\<close> is called.
\<close>

inductive cb_edge :: "CircuitBreakerState \<Rightarrow> CircuitBreakerState \<Rightarrow> bool" where
  trip: "cb_edge StateClosed StateOpen"
| probe: "cb_edge StateOpen StateHalfOpen"
| recover: "cb_edge StateHalfOpen StateClosed"
| reopen: "cb_edge StateHalfOpen StateOpen"

inductive_simps cb_edge_simps [simp]: "cb_edge a b"

fun is_path ::
  "CircuitBreakerState \<Rightarrow> (CircuitBreakerState \<times> CircuitBreakerState) list
     \<Rightarrow> CircuitBreakerState \<Rightarrow> bool" where
  "is_path a [] b = (a = b)"
| "is_path a ((x, y) # es) b = (x = a \<and> cb_edge x y \<and> is_path y es b)"

lemma is_path_append: "is_path a es b \<Longrightarrow> is_path b fs c \<Longrightarrow> is_path a (es @ fs) c"
  by (induction a es b rule: is_path.induct) auto

text \<open>\<open>follows cb cb'\<close>: the changes made between the two breakers are a path of the automaton.\<close>

definition follows :: "CircuitBreaker \<Rightarrow> CircuitBreaker \<Rightarrow> bool" where
  "follows cb cb' \<longleftrightarrow> cb_config cb' = cb_config cb
     \<and> (\<exists>es. cb_changes cb' = cb_changes cb @ es \<and> is_path (cb_state cb) es (cb_state cb'))"

lemma follows_trans: "follows a b \<Longrightarrow> follows b c \<Longrightarrow> follows a c"
  unfolding follows_def by (metis append_assoc is_path_append)

lemma follows_quiet:
  "cb_config cb' = cb_config cb \<Longrightarrow> cb_state cb' = cb_state cb \<Longrightarrow>
     cb_changes cb' = cb_changes cb \<Longrightarrow> follows cb cb'"
  by (simp add: follows_def)

lemma follows_setState:
  assumes "cbOnStateChange (cb_config cb)" and "cb_edge (cb_state cb) st"
  shows "follows cb (setState cb st now)"
proof -
  have "cb_state cb \<noteq> st" using assms(2) by auto
  then show ?thesis using assms by (simp add: follows_def setState_change del: cb_edge_simps)
qed

lemma follows_currentState:
  assumes "cbOnStateChange (cb_config cb)" and "currentState cb now = (r, cb1)"
  shows "follows cb cb1"
  using assms follows_setState [of cb StateHalfOpen now]
  by (cases rule: currentState_cases [of cb now]) (auto intro: follows_quiet)

lemma follows_beforeRequest:
  assumes "cbOnStateChange (cb_config cb)"
  shows "follows cb (snd (beforeRequest cb now))"
proof -
  obtain state g cb1 where cs: "currentState cb now = ((state, g), cb1)" by (metis surj_pair)
  have "follows cb1 (snd (beforeRequest cb now))"
    by (auto simp: beforeRequest_def cs Let_def intro: follows_quiet)
  with follows_currentState [OF assms cs] show ?thesis by (rule follows_trans)
qed

lemma follows_outcome:
  assumes "cbOnStateChange (cb_config cb)"
  shows "follows cb (cb_onSuccess cb (cb_state cb) now)"
    and "follows cb (cb_onFailure cb (cb_state cb) now)"
proof -
  let ?s = "cb_emit (MetricInc ''circuit_breaker_successes_total'' [cbName (cb_config cb)])
              (cb\<lparr>cb_counts := OnSuccess (cb_counts cb)\<rparr>)"
  let ?f = "cb_emit (MetricInc ''circuit_breaker_failures_total'' [cbName (cb_config cb)])
              (cb\<lparr>cb_counts := OnFailure (cb_counts cb)\<rparr>)"
  have q: "follows cb ?s" "follows cb ?f" by (simp_all add: follows_quiet)
  have "follows ?s (setState ?s StateClosed now)" if "cb_state cb = StateHalfOpen"
    by (rule follows_setState) (use assms that in simp_all)
  with q show "follows cb (cb_onSuccess cb (cb_state cb) now)"
    by (auto simp: cb_onSuccess_def Let_def intro: follows_trans)
  have "follows ?f (setState ?f StateOpen now)" if "cb_state cb \<noteq> StateOpen"
    using assms that by (cases "cb_state cb") (auto intro!: follows_setState)
  with q show "follows cb (cb_onFailure cb (cb_state cb) now)"
    by (cases "cb_state cb") (auto simp: cb_onFailure_def Let_def intro: follows_trans)
qed

lemma follows_afterRequest:
  assumes "cbOnStateChange (cb_config cb)"
  shows "follows cb (afterRequest cb now g0 err)"
proof -
  obtain state g cb1 where cs: "currentState cb now = ((state, g), cb1)" by (metis surj_pair)
  note f = follows_currentState [OF assms cs] and res = currentState_result [OF cs]
  have "cbOnStateChange (cb_config cb1)" using res assms by simp
  note out = follows_outcome [OF this, of now]
  have "follows cb1 (afterRequest cb now g0 err)"
    using out res by (auto simp: afterRequest_def cs intro: follows_quiet)
  with f show ?thesis by (rule follows_trans)
qed

definition no_reset :: "breaker_op \<Rightarrow> breaker_sys \<Rightarrow> bool" where
  "no_reset x s \<longleftrightarrow> (\<forall>a b. x \<noteq> OpReset a b)"

definition on_path :: "breaker_sys \<Rightarrow> bool" where
  "on_path s \<longleftrightarrow> cbOnStateChange (cb_config (sys_cb s))
     \<and> is_path StateClosed (cb_changes (sys_cb s)) (cb_state (sys_cb s))"

lemma on_path_follows:
  "on_path s \<Longrightarrow> follows (sys_cb s) (sys_cb s') \<Longrightarrow> on_path s'"
  by (auto simp: on_path_def follows_def intro: is_path_append)

lemma on_path_step:
  assumes "on_path s" and "no_reset x s"
  shows "on_path (breaker_step x s)"
proof (rule on_path_follows [OF assms(1)])
  have c: "cbOnStateChange (cb_config (sys_cb s))" using assms(1) by (simp add: on_path_def)
  show "follows (sys_cb s) (sys_cb (breaker_step x s))"
  proof (cases x)
    case (OpBefore now)
    with follows_beforeRequest [OF c, of now] show ?thesis
      by (simp add: breaker_step_def admit_def case_prod_unfold)
  next
    case (OpAfter i now err)
    with follows_afterRequest [OF c] show ?thesis
      by (simp add: breaker_step_def follows_quiet)
  next
    case (OpState now)
    with follows_currentState [OF c] show ?thesis
      by (auto simp: breaker_step_def cb_State_def split: prod.split)
  next
    case (OpReset a b)
    with assms(2) show ?thesis by (simp add: no_reset_def)
  qed
qed

interpretation breaker_paths: invariant_machine breaker_step no_reset on_path
  by unfold_locales (rule on_path_step)

lemma no_reset_run:
  "\<forall>x \<in> set xs. \<forall>a b. x \<noteq> OpReset a b \<Longrightarrow> run_ok no_reset breaker_step xs s"
  by (induction xs arbitrary: s) (auto simp: no_reset_def)


section \<open>Witnesses\<close>

definition demo_half_open :: CircuitBreaker where
  "demo_half_open =
     (NewCircuitBreaker demo_breaker_config 1)\<lparr>cb_state := StateHalfOpen, cb_generation := 2, cb_expiry := 0\<rparr>"

definition demo_open :: CircuitBreaker where
  "demo_open = demo_half_open\<lparr>cb_state := StateOpen, cb_expiry := 100\<rparr>"

lemma demo_config_ok: "config_ok (cb_config demo_open)"
  by (simp add: demo_open_def demo_half_open_def NewCircuitBreaker_def Let_def config_ok_defaults)

definition demo_trip_config :: CircuitBreakerConfig where
  "demo_trip_config = demo_breaker_config\<lparr>cbMaxRequests := 1, cbReadyToTrip := Some (\<lambda>_. True)\<rparr>"

definition demo_probe_run :: "breaker_op list" where
  "demo_probe_run = [OpBefore 2, OpAfter 0 3 (Some CtxCanceled), OpBefore 40000000000]"

lemma demo_probe_state:
  "cb_state (sys_cb (run_ops breaker_step demo_probe_run (breaker_start demo_trip_config 1))) = StateHalfOpen"
  by (simp add: demo_probe_run_def demo_trip_config_def demo_breaker_config_def breaker_start_def
      NewCircuitBreaker_def cb_defaults_def Let_def breaker_step_def admit_def beforeRequest_def
      afterRequest_def currentState_def go_defs cb_onFailure_def setState_def toNewGeneration_def
      OnFailure_def OnRequest_def defaultIsSuccessful_def cb_emit_def)

theorem half_open_not_stuck_witness:
  "let s = run_ops breaker_step demo_probe_run (breaker_start demo_trip_config 1) in
   count_list (sys_flight s) (cb_generation (sys_cb s)) \<le> unat (cbMaxRequests (cb_config (sys_cb s)))
   \<and> (cbMaxRequests (cb_config (sys_cb s)) \<le> Requests (cb_counts (sys_cb s))
        \<longrightarrow> cb_generation (sys_cb s) \<in> set (sys_flight s))"
  unfolding Let_def
  by (rule half_open_not_stuck [OF _ refl demo_probe_state]) (simp add: demo_probe_run_def)

theorem open_rejects_witness:
  "Execute (\<lambda>_. 50) (\<lambda>s. (Returned None, s)) (demo_open, ()) =
    (Returned (Some ErrCircuitBreakerOpen),
     (cb_emit (MetricInc ''circuit_breaker_requests_total''
        [cbName (cb_config demo_open), ''open'']) demo_open, ()))"
  by (rule open_rejects) (simp_all add: demo_open_def)

theorem open_probes_after_timeout_witness:
  "snd (fst (beforeRequest demo_open 101)) = None"
  using open_probes_after_timeout [OF _ _ demo_config_ok, of 101
      "fst (fst (beforeRequest demo_open 101))" "snd (fst (beforeRequest demo_open 101))"
      "snd (beforeRequest demo_open 101)"]
  by (simp add: demo_open_def)

theorem half_open_recovers_witness:
  "cb_state ((call_returning 7 None ^^ 3) demo_half_open) = StateClosed
   \<and> cb_state ((call_returning 7 None ^^ 2) demo_half_open) = StateHalfOpen"
proof -
  have "cb_state demo_half_open = StateHalfOpen" "cb_counts demo_half_open = zero_counts"
    "the (cbIsSuccessful (cb_config demo_half_open)) None"
    "cbMaxRequests (cb_config demo_half_open) = 3"
    by (simp_all add: demo_half_open_def NewCircuitBreaker_def cb_defaults_def Let_def
        demo_breaker_config_def defaultIsSuccessful_def)
  with half_open_recovers [of demo_half_open 3 7] half_open_recovers [of demo_half_open 2 7]
  show ?thesis by simp
qed


definition demo_failing :: CircuitBreaker where
  "demo_failing = (NewCircuitBreaker demo_breaker_config 1)
     \<lparr>cb_counts := zero_counts\<lparr>Requests := 5, TotalSuccesses := 2, TotalFailures := 2\<rparr>\<rparr>"

theorem breaker_trips_at_60_percent_witness:
  "cb_state (afterRequest demo_failing 9 0 (Some ErrRateLimited)) = StateOpen"
proof -
  have "cb_state demo_failing = StateClosed" "cb_expiry demo_failing = 60 * Second + 1"
    "cbReadyToTrip (cb_config demo_failing) = Some defaultReadyToTrip"
    "cbIsSuccessful (cb_config demo_failing) = Some defaultIsSuccessful"
    "cb_generation demo_failing = 0"
    "Requests (cb_counts demo_failing) = 5" "TotalFailures (cb_counts demo_failing) = 2"
    by (simp_all add: demo_failing_def NewCircuitBreaker_def cb_defaults_def Let_def
        demo_breaker_config_def go_defs)
  with breaker_trips_at_60_percent [of demo_failing 9 "Some ErrRateLimited"]
  show ?thesis by (simp add: defaultIsSuccessful_def)
qed

end
