(* ===== verification/Retry.thy ===== *)
theory Retry
  imports GoRuntime
begin

text \<open>
  The retry mechanism of \<open>internal/reliability/retry.go\<close>: exponential backoff with jitter, the
  classification of errors, and the retry loop. The loop is a function over the world \<open>'w\<close> of its
  caller: the retried function, the context, the random source and the timer act on it through a
  record of operations. The calls on the metrics collectors and of \<open>OnRetry\<close> are returned in order.
\<close>

section \<open>math.Pow for an integral exponent\<close>

text \<open>
  The code raises the multiplier to \<open>float64(attempt-1)\<close>, a nonnegative integer. Go's
  \<open>math.Pow\<close> then multiplies significands by repeated squaring and keeps the binary exponents apart;
  \<open>pow_loop\<close> is that loop (\<open>a1 * 2 powi ae\<close> is the result so far, \<open>x1 * 2 powi xe\<close> the current
  square) and \<open>go_ldexp\<close> its final scaling.
\<close>

definition go_ldexp :: "f64 \<Rightarrow> int \<Rightarrow> f64" where
  "go_ldexp x e = (case x of Fin a \<Rightarrow> f64_of_rat (a * 2 powi e) | _ \<Rightarrow> x)"

definition pow_square :: "f64 \<Rightarrow> int \<Rightarrow> f64 \<times> int" where
  "pow_square x1 xe =
     (let y = x1 * x1; ye = 2 * xe in
      if y < Fin (1/2) then (y + y, ye - 1) else (y, ye))"

function pow_loop :: "f64 \<Rightarrow> int \<Rightarrow> f64 \<Rightarrow> int \<Rightarrow> nat \<Rightarrow> f64" where
  "pow_loop a1 ae x1 xe i =
     (if i = 0 then go_ldexp a1 ae
      else if xe < - 4096 \<or> 4096 < xe then go_ldexp a1 (ae + xe)
      else
        let (a1', ae') = (if odd i then (a1 * x1, ae + xe) else (a1, ae));
            (x1', xe') = pow_square x1 xe
        in pow_loop a1' ae' x1' xe' (i div 2))"
  by pat_completeness auto
termination
  by (relation "measure (\<lambda>(a1, ae, x1, xe, i). i)") auto

declare pow_loop.simps [simp del]

definition go_pow :: "f64 \<Rightarrow> nat \<Rightarrow> f64" where
  "go_pow x n =
     (if n = 0 \<or> x = Fin 1 then Fin 1
      else if n = 1 then x
      else case x of
          NaN \<Rightarrow> NaN
        | PInf \<Rightarrow> PInf
        | NInf \<Rightarrow> (if odd n then NInf else PInf)
        | Fin a \<Rightarrow>
            (if a = 0 then Fin 0
             else let e = ilog2 \<bar>a\<bar> + 1 in pow_loop (Fin 1) 0 (Fin (a / 2 powi e)) e n))"

section \<open>Configuration\<close>

record RetryConfig =
  rtMaxRetries :: int
  rtInitialDelay :: duration
  rtMaxDelay :: duration
  rtMultiplier :: f64
  rtJitter :: bool
  rtRetryableChecker :: "(go_error option \<Rightarrow> bool) option"
  rtOnRetry :: bool

definition DefaultRetryConfig :: RetryConfig where
  "DefaultRetryConfig = \<lparr>rtMaxRetries = 3, rtInitialDelay = 100 * Millisecond,
     rtMaxDelay = 30 * Second, rtMultiplier = f64_of_rat 2, rtJitter = True,
     rtRetryableChecker = None, rtOnRetry = False\<rparr>"

definition AggressiveRetryConfig :: RetryConfig where
  "AggressiveRetryConfig = \<lparr>rtMaxRetries = 5, rtInitialDelay = 50 * Millisecond,
     rtMaxDelay = 10 * Second, rtMultiplier = f64_of_rat (3/2), rtJitter = True,
     rtRetryableChecker = None, rtOnRetry = False\<rparr>"

definition ConservativeRetryConfig :: RetryConfig where
  "ConservativeRetryConfig = \<lparr>rtMaxRetries = 2, rtInitialDelay = 500 * Millisecond,
     rtMaxDelay = 60 * Second, rtMultiplier = f64_of_rat 3, rtJitter = True,
     rtRetryableChecker = None, rtOnRetry = False\<rparr>"

section \<open>Classification of errors\<close>

text \<open>
  \<open>contains\<close> and \<open>indexInString\<close> as the file defines them (a prefix test, a suffix test, then a
  search from the left); positions are those of the byte string.
\<close>

function index_from :: "string \<Rightarrow> string \<Rightarrow> nat \<Rightarrow> int" where
  "index_from s sub i =
     (if i + length sub \<le> length s
      then if take (length sub) (drop i s) = sub then int i else index_from s sub (Suc i)
      else - 1)"
  by pat_completeness auto
termination
  by (relation "measure (\<lambda>(s, sub, i). Suc (length s) - i)") auto

declare index_from.simps [simp del]

definition indexInString :: "string \<Rightarrow> string \<Rightarrow> int" where
  "indexInString s sub = index_from s sub 0"

definition contains :: "string \<Rightarrow> string \<Rightarrow> bool" where
  "contains s sub \<longleftrightarrow>
     length sub \<le> length s
     \<and> (s = sub \<or> length sub < length s
          \<and> (take (length sub) s = sub \<or> drop (length s - length sub) s = sub
             \<or> indexInString s sub \<noteq> - 1))"

definition is_ctx_error :: "go_error \<Rightarrow> bool" where
  "is_ctx_error e \<longleftrightarrow> err_is e CtxCanceled \<or> err_is e CtxDeadlineExceeded"

definition defaultRetryableChecker :: "go_error option \<Rightarrow> bool" where
  "defaultRetryableChecker err =
     (case err of None \<Rightarrow> False | Some e \<Rightarrow> if is_ctx_error e then False else True)"

definition cloudflareRetryable :: "go_error option \<Rightarrow> bool" where
  "cloudflareRetryable err =
     (case err of
        None \<Rightarrow> False
      | Some e \<Rightarrow>
          if is_ctx_error e then False
          else
            let errStr = err_text e in
            if contains errStr ''connection refused'' \<or> contains errStr ''timeout''
               \<or> contains errStr ''temporary failure'' \<or> contains errStr ''network is unreachable''
            then True
            else if contains errStr ''500'' \<or> contains errStr ''502''
               \<or> contains errStr ''503'' \<or> contains errStr ''504'' then True
            else if contains errStr ''429'' \<or> contains errStr ''rate limit'' then True
            else if contains errStr ''401'' \<or> contains errStr ''403''
               \<or> contains errStr ''unauthorized'' \<or> contains errStr ''forbidden'' then False
            else if contains errStr ''400'' \<or> contains errStr ''404'' \<or> contains errStr ''422''
            then False
            else True)"

definition CloudflareRetryConfig :: RetryConfig where
  "CloudflareRetryConfig = \<lparr>rtMaxRetries = 3, rtInitialDelay = 200 * Millisecond,
     rtMaxDelay = 30 * Second, rtMultiplier = f64_of_rat 2, rtJitter = True,
     rtRetryableChecker = Some cloudflareRetryable, rtOnRetry = False\<rparr>"

section \<open>The retryer\<close>

record Retryer =
  rt_config :: RetryConfig

definition rt_defaults :: "RetryConfig \<Rightarrow> RetryConfig" where
  "rt_defaults c0 =
     (let c1 = (if rtMaxRetries c0 < 0 then c0\<lparr>rtMaxRetries := 0\<rparr> else c0);
          c2 = (if rtInitialDelay c1 = 0 then c1\<lparr>rtInitialDelay := 100 * Millisecond\<rparr> else c1);
          c3 = (if rtMaxDelay c2 = 0 then c2\<lparr>rtMaxDelay := 30 * Second\<rparr> else c2);
          c4 = (if f64_eq (rtMultiplier c3) (Fin 0) then c3\<lparr>rtMultiplier := f64_of_rat 2\<rparr> else c3)
      in if rtRetryableChecker c4 = None
         then c4\<lparr>rtRetryableChecker := Some defaultRetryableChecker\<rparr> else c4)"

definition NewRetryer :: "RetryConfig \<Rightarrow> Retryer" where
  "NewRetryer config = \<lparr>rt_config = rt_defaults config\<rparr>"

definition SetRetryableChecker :: "Retryer \<Rightarrow> (go_error option \<Rightarrow> bool) option \<Rightarrow> Retryer" where
  "SetRetryableChecker r checker = r\<lparr>rt_config := (rt_config r)\<lparr>rtRetryableChecker := checker\<rparr>\<rparr>"

definition SetOnRetry :: "Retryer \<Rightarrow> bool \<Rightarrow> Retryer" where
  "SetOnRetry r callback = r\<lparr>rt_config := (rt_config r)\<lparr>rtOnRetry := callback\<rparr>\<rparr>"

definition rt_Config :: "Retryer \<Rightarrow> RetryConfig" where
  "rt_Config r = rt_config r"

text \<open>The delay before attempt \<open>attempt\<close>; \<open>rand\<close> is the value \<open>rand.Float64()\<close> returns.\<close>

definition calculateDelay :: "RetryConfig \<Rightarrow> int \<Rightarrow> f64 \<Rightarrow> duration" where
  "calculateDelay cfg attempt rand =
     (let maxd = f64_of_int (rtMaxDelay cfg);
          delay0 = f64_of_int (rtInitialDelay cfg) * go_pow (rtMultiplier cfg) (nat (attempt - 1));
          delay1 = (if maxd < delay0 then maxd else delay0)
      in if rtJitter cfg then
           (let jitterRange = delay1 * f64_of_rat (1/4);
                jitter = (rand * Fin 2 - Fin 1) * jitterRange;
                delay2 = delay1 + jitter;
                delay3 = (if delay2 < Fin 0 then f64_of_int (rtInitialDelay cfg) else delay2);
                delay4 = (if maxd < delay3 then maxd else delay3)
            in f64_to_int64 delay4)
         else f64_to_int64 delay1)"

text \<open>
  What the loop needs of its world: the clock, \<open>ctx.Err()\<close>, \<open>rand.Float64()\<close> and the final
  \<open>select\<close>, which yields the context's error when \<open>ctx.Done()\<close> is chosen and None when the timer is.
\<close>

record 'w retry_env =
  env_now :: "'w \<Rightarrow> gotime"
  env_ctx_err :: "'w \<Rightarrow> go_error option"
  env_rand :: "'w \<Rightarrow> f64 \<times> 'w"
  env_wait :: "duration \<Rightarrow> 'w \<Rightarrow> go_error option \<times> 'w"

datatype retry_event =
    RetryMetric metric_op
  | OnRetryCall int duration go_error

definition exhausted_error :: "int \<Rightarrow> go_error option \<Rightarrow> go_error" where
  "exhausted_error maxRetries lastErr =
     ErrWrap (''operation failed after '' @ show_int (maxRetries + 1) @ '' attempts: '')
       (case lastErr of Some e \<Rightarrow> e | None \<Rightarrow> ErrNew ''%!w(<nil>)'')"

definition retry_give_up ::
  "'w retry_env \<Rightarrow> RetryConfig \<Rightarrow> string \<Rightarrow> gotime \<Rightarrow> go_error option \<Rightarrow> 'w
     \<Rightarrow> go_error option \<times> 'w \<times> retry_event list" where
  "retry_give_up env cfg operation startTime lastErr w =
     (Some (exhausted_error (rtMaxRetries cfg) lastErr), w,
      [RetryMetric (MetricInc ''retry_failures_total'' [operation]),
       RetryMetric (MetricObserve ''retry_duration_seconds'' [operation, ''failure'']
         (dur_Seconds (time_sub (env_now env w) startTime)))])"

definition after_events ::
  "retry_event list \<Rightarrow> go_error option \<times> 'w \<times> retry_event list
     \<Rightarrow> go_error option \<times> 'w \<times> retry_event list" where
  "after_events es r = (case r of (res, w, es') \<Rightarrow> (res, w, es @ es'))"

function retry_loop ::
  "'w retry_env \<Rightarrow> RetryConfig \<Rightarrow> string \<Rightarrow> ('w \<Rightarrow> go_error option \<times> 'w) \<Rightarrow> gotime
     \<Rightarrow> int \<Rightarrow> go_error option \<Rightarrow> 'w \<Rightarrow> go_error option \<times> 'w \<times> retry_event list" where
  "retry_loop env cfg operation fn startTime attempt lastErr w =
     (if \<not> attempt \<le> rtMaxRetries cfg then retry_give_up env cfg operation startTime lastErr w
      else
        let ev0 = [RetryMetric (MetricInc ''retry_attempts_total'' [operation, show_int attempt])];
            (res, w1) = fn w
        in case res of
             None \<Rightarrow>
               (None, w1, ev0 @
                 [RetryMetric (MetricInc ''retry_successes_total'' [operation, show_int attempt]),
                  RetryMetric (MetricObserve ''retry_duration_seconds'' [operation, ''success'']
                    (dur_Seconds (time_sub (env_now env w1) startTime)))])
           | Some err \<Rightarrow>
               if \<not> the (rtRetryableChecker cfg) (Some err) then
                 after_events ev0 (retry_give_up env cfg operation startTime (Some err) w1)
               else if rtMaxRetries cfg \<le> attempt then
                 after_events ev0 (retry_give_up env cfg operation startTime (Some err) w1)
               else case env_ctx_err env w1 of
                   Some c \<Rightarrow> (Some c, w1, ev0)
                 | None \<Rightarrow>
                     let (rand, w2) = (if rtJitter cfg then env_rand env w1 else (Fin 0, w1));
                         delay = calculateDelay cfg (attempt + 1) rand;
                         ev1 = ev0 @ [RetryMetric (MetricObserve ''retry_delay_seconds''
                                  [operation, show_int (attempt + 1)] (dur_Seconds delay))]
                               @ (if rtOnRetry cfg then [OnRetryCall (attempt + 1) delay err] else []);
                         (done, w3) = env_wait env delay w2
                     in case done of
                          Some c \<Rightarrow> (Some c, w3, ev1)
                        | None \<Rightarrow>
                            after_events ev1
                              (retry_loop env cfg operation fn startTime (attempt + 1) (Some err) w3))"
  by pat_completeness auto
termination
  by (relation "measure (\<lambda>(env, cfg, operation, fn, startTime, attempt, lastErr, w).
        nat (rtMaxRetries cfg + 1 - attempt))") auto

declare retry_loop.simps [simp del]

definition Retry_run ::
  "'w retry_env \<Rightarrow> Retryer \<Rightarrow> string \<Rightarrow> ('w \<Rightarrow> go_error option \<times> 'w) \<Rightarrow> 'w
     \<Rightarrow> go_error option \<times> 'w \<times> retry_event list" where
  "Retry_run env r operation fn w = retry_loop env (rt_config r) operation fn (env_now env w) 0 None w"

definition RetryWithBackoff ::
  "'w retry_env \<Rightarrow> Retryer \<Rightarrow> ('w \<Rightarrow> go_error option \<times> 'w) \<Rightarrow> 'w
     \<Rightarrow> go_error option \<times> 'w \<times> retry_event list" where
  "RetryWithBackoff env r fn w = Retry_run env r ''operation'' fn w"

definition RetryOnError ::
  "'w retry_env \<Rightarrow> ('w \<Rightarrow> go_error option \<times> 'w) \<Rightarrow> 'w
     \<Rightarrow> go_error option \<times> 'w \<times> retry_event list" where
  "RetryOnError env fn w = RetryWithBackoff env (NewRetryer DefaultRetryConfig) fn w"

definition RetryCloudflareOperation ::
  "'w retry_env \<Rightarrow> string \<Rightarrow> ('w \<Rightarrow> go_error option \<times> 'w) \<Rightarrow> 'w
     \<Rightarrow> go_error option \<times> 'w \<times> retry_event list" where
  "RetryCloudflareOperation env operation fn w =
     Retry_run env (NewRetryer CloudflareRetryConfig) operation fn w"

definition RetryWithConfig ::
  "'w retry_env \<Rightarrow> RetryConfig \<Rightarrow> string \<Rightarrow> ('w \<Rightarrow> go_error option \<times> 'w) \<Rightarrow> 'w
     \<Rightarrow> go_error option \<times> 'w \<times> retry_event list" where
  "RetryWithConfig env config operation fn w = Retry_run env (NewRetryer config) operation fn w"

end
