(* ===== verification/RetryProps.thy ===== *)
theory RetryProps
  imports Retry
begin

text \<open>
  What the retry mechanism guarantees: the substring search is the search it stands for, the
  number of attempts is bounded, a run ends in one of three ways, transient failures within the
  budget are survived, and every delay lies within the configured limits.
\<close>

section \<open>Substring search\<close>

definition occurs_at :: "string \<Rightarrow> string \<Rightarrow> nat \<Rightarrow> bool" where
  "occurs_at s sub i \<longleftrightarrow> i + length sub \<le> length s \<and> take (length sub) (drop i s) = sub"

lemma occurs_at_iff: "occurs_at s sub i \<longleftrightarrow> (\<exists>p q. s = p @ sub @ q \<and> length p = i)"
proof
  assume "occurs_at s sub i"
  then have h: "i + length sub \<le> length s" "take (length sub) (drop i s) = sub"
    by (simp_all add: occurs_at_def)
  have "s = take i s @ sub @ drop (length sub) (drop i s)"
    using h(2) by (metis append_take_drop_id)
  then show "\<exists>p q. s = p @ sub @ q \<and> length p = i" using h(1) by force
qed (auto simp: occurs_at_def)

lemma index_from_sound: "index_from s sub i = r \<Longrightarrow> r \<noteq> - 1 \<Longrightarrow>
    \<exists>j. r = int j \<and> i \<le> j \<and> occurs_at s sub j \<and> (\<forall>l. i \<le> l \<and> l < j \<longrightarrow> \<not> occurs_at s sub l)"
proof (induction s sub i rule: index_from.induct)
  case (1 s sub i)
  show ?case
  proof (cases "i + length sub \<le> length s \<and> take (length sub) (drop i s) \<noteq> sub")
    case True
    then have "index_from s sub (Suc i) = r" using 1(2) by (subst (asm) index_from.simps) simp
    from 1(1) [OF _ _ this 1(3)] True obtain j where j: "r = int j" "Suc i \<le> j" "occurs_at s sub j"
      "\<forall>l. Suc i \<le> l \<and> l < j \<longrightarrow> \<not> occurs_at s sub l" by auto
    have "\<not> occurs_at s sub i" using True by (simp add: occurs_at_def)
    with j(4) have "\<forall>l. i \<le> l \<and> l < j \<longrightarrow> \<not> occurs_at s sub l" by (metis Suc_leI le_eq_less_or_eq)
    with j show ?thesis by (intro exI [of _ j]) auto
  next
    case False
    with 1(2,3) have "r = int i \<and> occurs_at s sub i"
      by (subst (asm) index_from.simps) (auto simp: occurs_at_def split: if_splits)
    then show ?thesis by (intro exI [of _ i]) auto
  qed
qed

lemma index_from_complete: "index_from s sub i = - 1 \<Longrightarrow> i \<le> j \<Longrightarrow> \<not> occurs_at s sub j"
proof (induction s sub i rule: index_from.induct)
  case (1 s sub i)
  have r: "index_from s sub i = - 1" by (rule 1(2))
  show ?case
  proof (cases "i + length sub \<le> length s")
    case True
    with r have ne: "take (length sub) (drop i s) \<noteq> sub" and "index_from s sub (Suc i) = - 1"
      by (subst (asm) index_from.simps; auto split: if_splits)+
    with 1(1) [OF True ne] 1(3) show ?thesis
      by (cases "i = j") (auto simp: occurs_at_def)
  next
    case False
    with 1(3) show ?thesis by (simp add: occurs_at_def)
  qed
qed

lemma index_found: "indexInString s sub \<noteq> - 1 \<longleftrightarrow> (\<exists>j. occurs_at s sub j)"
  unfolding indexInString_def using index_from_sound index_from_complete by blast

lemma contains_iff: "contains s sub \<longleftrightarrow> (\<exists>p q. s = p @ sub @ q)"
proof -
  have occ: "(\<exists>p q. s = p @ sub @ q) \<longleftrightarrow> (\<exists>j. occurs_at s sub j)"
    by (auto simp: occurs_at_iff)
  have pre: "take (length sub) s = sub \<Longrightarrow> \<exists>p q. s = p @ sub @ q"
    by (metis append_Nil append_take_drop_id)
  have suf: "drop (length s - length sub) s = sub \<Longrightarrow> \<exists>p q. s = p @ sub @ q"
    by (metis append_Nil2 append_take_drop_id)
  have "contains s sub \<longleftrightarrow> (\<exists>p q. s = p @ sub @ q)"
  proof
    assume "contains s sub"
    then show "\<exists>p q. s = p @ sub @ q"
      unfolding contains_def using pre suf occ index_found by (metis append_Nil append_Nil2)
  next
    assume h: "\<exists>p q. s = p @ sub @ q"
    then have "indexInString s sub \<noteq> - 1" using occ index_found by blast
    moreover from h have "length sub \<le> length s" by auto
    moreover from h have "s = sub \<or> length sub < length s" by auto
    ultimately show "contains s sub" by (simp add: contains_def)
  qed
  then show ?thesis .
qed

text \<open>\<open>contains\<close>, with its prefix and suffix shortcuts, is exact substring search: it holds iff
  the second string occurs in the first. When it does, \<open>indexInString\<close> is the position of the first
  occurrence, and otherwise -1.\<close>

theorem contains_is_substring:
  "(contains s sub \<longleftrightarrow> (\<exists>p q. s = p @ sub @ q))
   \<and> (if \<exists>p q. s = p @ sub @ q
      then \<exists>p q. s = p @ sub @ q \<and> indexInString s sub = int (length p)
             \<and> (\<forall>p' q'. s = p' @ sub @ q' \<longrightarrow> length p \<le> length p')
      else indexInString s sub = - 1)"
proof -
  have occ: "(\<exists>p q. s = p @ sub @ q) \<longleftrightarrow> (\<exists>j. occurs_at s sub j)"
    by (auto simp: occurs_at_iff)
  have first: "indexInString s sub \<noteq> - 1 \<Longrightarrow> \<exists>p q. s = p @ sub @ q \<and> indexInString s sub = int (length p)
             \<and> (\<forall>p' q'. s = p' @ sub @ q' \<longrightarrow> length p \<le> length p')"
    unfolding indexInString_def
    by (drule index_from_sound [OF refl])
      (metis le0 linorder_not_less occurs_at_iff of_nat_eq_iff)
  have "\<not> (\<exists>p q. s = p @ sub @ q) \<Longrightarrow> indexInString s sub = - 1"
    using occ index_found by blast
  moreover have "\<exists>p q. s = p @ sub @ q \<Longrightarrow> indexInString s sub \<noteq> - 1"
    using occ index_found by blast
  ultimately show ?thesis using first contains_iff by presburger
qed

section \<open>Classification\<close>

definition transient_markers :: "string list" where
  "transient_markers = [''connection refused'', ''timeout'', ''temporary failure'',
     ''network is unreachable'', ''500'', ''502'', ''503'', ''504'', ''429'', ''rate limit'']"

definition permanent_markers :: "string list" where
  "permanent_markers = [''401'', ''403'', ''unauthorized'', ''forbidden'', ''400'', ''404'', ''422'']"

definition mentions :: "go_error \<Rightarrow> string list \<Rightarrow> bool" where
  "mentions e ms \<longleftrightarrow> (\<exists>m \<in> set ms. contains (err_text e) m)"

text \<open>The Cloudflare classification is two-level: an error is retried iff its wrap chain does not
  end in a context error and its text mentions a transient marker or no permanent one. So a
  transient marker outweighs any permanent marker in the same text, and wrapping an error (which
  only adds text in front) never makes a transient error permanent.\<close>

theorem cloudflare_classification:
  "(cloudflareRetryable (Some e) \<longleftrightarrow>
     err_root e \<noteq> CtxCanceled \<and> err_root e \<noteq> CtxDeadlineExceeded
     \<and> (mentions e transient_markers \<or> \<not> mentions e permanent_markers))
   \<and> (cloudflareRetryable (Some e) \<and> mentions e transient_markers
     \<longrightarrow> cloudflareRetryable (Some (ErrWrap p e)))"
proof -
  have eq: "cloudflareRetryable (Some e) \<longleftrightarrow>
     err_root e \<noteq> CtxCanceled \<and> err_root e \<noteq> CtxDeadlineExceeded
     \<and> (mentions e transient_markers \<or> \<not> mentions e permanent_markers)" for e
    unfolding cloudflareRetryable_def is_ctx_error_def
    by (simp add: err_is_root mentions_def transient_markers_def permanent_markers_def Let_def)
  have grow: "contains s m \<Longrightarrow> contains (q @ s) m" for q s m
    unfolding contains_iff by (metis append.assoc)
  have "mentions e transient_markers \<Longrightarrow> mentions (ErrWrap p e) transient_markers"
    unfolding mentions_def by (auto intro: grow)
  then show ?thesis by (simp add: eq)
qed

section \<open>Attempts and outcomes\<close>

text \<open>The labels of the attempts that a run counts, and its success and failure records.\<close>

fun attempt_labels :: "retry_event list \<Rightarrow> string list" where
  "attempt_labels [] = []"
| "attempt_labels (RetryMetric (MetricInc m ls) # es) =
     (if m = ''retry_attempts_total'' then last ls # attempt_labels es else attempt_labels es)"
| "attempt_labels (_ # es) = attempt_labels es"

definition counts_of :: "string \<Rightarrow> retry_event list \<Rightarrow> nat" where
  "counts_of m es = length (filter (\<lambda>e. case e of RetryMetric (MetricInc n ls) \<Rightarrow> n = m | _ \<Rightarrow> False) es)"

lemma attempt_labels_append [simp]: "attempt_labels (xs @ ys) = attempt_labels xs @ attempt_labels ys"
  by (induction xs rule: attempt_labels.induct) auto

lemma counts_of_append [simp]: "counts_of m (xs @ ys) = counts_of m xs + counts_of m ys"
  by (simp add: counts_of_def)

lemma counts_of_simps [simp]:
  "counts_of m [] = 0"
  "counts_of m (RetryMetric (MetricInc n ls) # es) = (if n = m then 1 else 0) + counts_of m es"
  "counts_of m (RetryMetric (MetricObserve n ls v) # es) = counts_of m es"
  "counts_of m (OnRetryCall k d er # es) = counts_of m es"
  by (simp_all add: counts_of_def)

text \<open>
  The three ways a run ends. \<open>run_end env cfg r\<close>: success; budget exhausted (or a permanent error)
  with the last error wrapped; or the context's own error.
\<close>

definition run_end :: "'w retry_env \<Rightarrow> RetryConfig \<Rightarrow> ('w \<Rightarrow> go_error option \<times> 'w)
    \<Rightarrow> go_error option \<times> 'w \<times> retry_event list \<Rightarrow> bool" where
  "run_end env cfg fn r \<longleftrightarrow>
     (case r of (res, w, es) \<Rightarrow>
        (res = None \<and> counts_of ''retry_successes_total'' es = 1
           \<and> counts_of ''retry_failures_total'' es = 0 \<and> (\<exists>v. fn v = (None, w)))
      \<or> (\<exists>e v. res = Some (exhausted_error (rtMaxRetries cfg) (Some e)) \<and> fn v = (Some e, w)
           \<and> counts_of ''retry_successes_total'' es = 0 \<and> counts_of ''retry_failures_total'' es = 1)
      \<or> (\<exists>c. res = Some c \<and> counts_of ''retry_successes_total'' es = 0
           \<and> counts_of ''retry_failures_total'' es = 0
           \<and> (env_ctx_err env w = Some c \<or> (\<exists>d v. env_wait env d v = (Some c, w)))))"

lemma run_end_after: "run_end env cfg fn r \<Longrightarrow>
    counts_of ''retry_successes_total'' es = 0 \<Longrightarrow> counts_of ''retry_failures_total'' es = 0 \<Longrightarrow>
    run_end env cfg fn (after_events es r)"
  by (cases r) (auto simp: run_end_def after_events_def)

text \<open>One turn of the loop, by its outcome.\<close>

lemma retry_loop_cases:
  assumes "attempt \<le> rtMaxRetries cfg" and "fn w = (res, w1)"
  obtains (success) es where "res = None" "attempt_labels es = [show_int attempt]"
      "retry_loop env cfg op fn t attempt le w = (None, w1, es)"
      "counts_of ''retry_successes_total'' es = 1" "counts_of ''retry_failures_total'' es = 0"
    | (fail) e es where "res = Some e" "attempt_labels es = [show_int attempt]"
      "retry_loop env cfg op fn t attempt le w = (Some (exhausted_error (rtMaxRetries cfg) (Some e)), w1, es)"
      "counts_of ''retry_successes_total'' es = 0" "counts_of ''retry_failures_total'' es = 1"
      "the (rtRetryableChecker cfg) (Some e) \<longrightarrow> attempt = rtMaxRetries cfg"
    | (cancelled) e c es w2 where "res = Some e" "attempt_labels es = [show_int attempt]"
      "retry_loop env cfg op fn t attempt le w = (Some c, w2, es)"
      "counts_of ''retry_successes_total'' es = 0" "counts_of ''retry_failures_total'' es = 0"
      "env_ctx_err env w2 = Some c \<or> (\<exists>d v. env_wait env d v = (Some c, w2))"
    | (again) e es rand w2 w3 where "res = Some e" "attempt_labels es = [show_int attempt]"
      "attempt < rtMaxRetries cfg" "the (rtRetryableChecker cfg) (Some e)" "env_ctx_err env w1 = None"
      "(rand, w2) = (if rtJitter cfg then env_rand env w1 else (Fin 0, w1))"
      "env_wait env (calculateDelay cfg (attempt + 1) rand) w2 = (None, w3)"
      "retry_loop env cfg op fn t attempt le w =
         after_events es (retry_loop env cfg op fn t (attempt + 1) (Some e) w3)"
      "counts_of ''retry_successes_total'' es = 0" "counts_of ''retry_failures_total'' es = 0"
proof -
  note step = retry_loop.simps [of env cfg op fn t attempt le w]
  show thesis
  proof (cases res)
    case None
    with assms show thesis by (intro success) (auto simp: step Let_def)
  next
    case (Some e)
    obtain rand w2 where rw: "(if rtJitter cfg then env_rand env w1 else (Fin 0, w1)) = (rand, w2)"
      by (metis surj_pair)
    obtain d w3 where dw: "env_wait env (calculateDelay cfg (attempt + 1) rand) w2 = (d, w3)"
      by (metis surj_pair)
    consider "\<not> the (rtRetryableChecker cfg) (Some e) \<or> rtMaxRetries cfg \<le> attempt"
      | c where "the (rtRetryableChecker cfg) (Some e)" "attempt < rtMaxRetries cfg"
          "env_ctx_err env w1 = Some c"
      | c where "the (rtRetryableChecker cfg) (Some e)" "attempt < rtMaxRetries cfg"
          "env_ctx_err env w1 = None" "d = Some c"
      | "the (rtRetryableChecker cfg) (Some e)" "attempt < rtMaxRetries cfg"
          "env_ctx_err env w1 = None" "d = None"
      by (metis leI not_None_eq)
    then show thesis
    proof cases
      case 1
      then have "retry_loop env cfg op fn t attempt le w =
          after_events [RetryMetric (MetricInc ''retry_attempts_total'' [op, show_int attempt])]
            (retry_give_up env cfg op t (Some e) w1)"
        using assms Some by (simp add: step Let_def)
      with assms Some 1 show thesis
        by (intro fail [of e]) (auto simp: after_events_def retry_give_up_def)
    next
      case (2 c)
      with assms Some show thesis by (intro cancelled [of e _ c w1]) (auto simp: step Let_def)
    next
      case (3 c)
      with assms Some rw dw show thesis
        by (intro cancelled [of e _ c w3]) (auto simp: step Let_def)
    next
      case 4
      with assms Some rw dw show thesis
        by (intro again [of e _ rand w2 w3]) (auto simp: step Let_def)
    qed
  qed
qed

lemma retry_loop_end:
  "attempt \<le> rtMaxRetries cfg \<Longrightarrow> run_end env cfg fn (retry_loop env cfg op fn t attempt le w)"
proof (induction env cfg op fn t attempt le w rule: retry_loop.induct)
  case (1 env cfg op fn t attempt le w)
  obtain res w1 where fn: "fn w = (res, w1)" by (metis surj_pair)
  from 1(2) fn show ?case
  proof (cases rule: retry_loop_cases [where env = env and op = op and t = t and le = le])
    case (again e es rand w2 w3)
    have "run_end env cfg fn (retry_loop env cfg op fn t (attempt + 1) (Some e) w3)"
      using again(3) fn again by (intro 1(1)) auto
    with again(8,9,10) show ?thesis by (simp add: run_end_after)
  qed (use fn in \<open>auto simp: run_end_def\<close>)
qed

lemma retry_loop_labels:
  "attempt \<le> rtMaxRetries cfg \<Longrightarrow>
     \<exists>k. attempt + int k \<le> rtMaxRetries cfg
       \<and> attempt_labels (snd (snd (retry_loop env cfg op fn t attempt le w)))
           = map (\<lambda>i. show_int (attempt + int i)) [0..<Suc k]"
proof (induction env cfg op fn t attempt le w rule: retry_loop.induct)
  case (1 env cfg op fn t attempt le w)
  obtain res w1 where fn: "fn w = (res, w1)" by (metis surj_pair)
  from 1(2) fn show ?case
  proof (cases rule: retry_loop_cases [where env = env and op = op and t = t and le = le])
    case (again e es rand w2 w3)
    have "\<exists>k. attempt + 1 + int k \<le> rtMaxRetries cfg
       \<and> attempt_labels (snd (snd (retry_loop env cfg op fn t (attempt + 1) (Some e) w3)))
           = map (\<lambda>i. show_int (attempt + 1 + int i)) [0..<Suc k]"
      using again(3) fn again by (intro 1(1)) auto
    then obtain k where k: "attempt + 1 + int k \<le> rtMaxRetries cfg"
      "attempt_labels (snd (snd (retry_loop env cfg op fn t (attempt + 1) (Some e) w3)))
           = map (\<lambda>i. show_int (attempt + 1 + int i)) [0..<Suc k]" by blast
    have "attempt_labels (snd (snd (after_events es (retry_loop env cfg op fn t (attempt + 1) (Some e) w3))))
        = show_int attempt # map (\<lambda>i. show_int (attempt + 1 + int i)) [0..<Suc k]"
      using again(2) k(2)
      by (cases "retry_loop env cfg op fn t (attempt + 1) (Some e) w3") (simp add: after_events_def)
    also have "\<dots> = map (\<lambda>i. show_int (attempt + int i)) [0..<Suc (Suc k)]"
      by (subst map_upt_Suc [of _ "Suc k"]) (simp add: ac_simps del: upt_Suc)
    finally show ?thesis using again(8) k(1) by (intro exI [of _ "Suc k"]) simp
  qed (use 1(2) in \<open>auto intro!: exI [of _ 0]\<close>)
qed

text \<open>C19: However the operation, the context and the timer behave, a retryer makes between one and
  \<open>MaxRetries + 1\<close> attempts, counted \<open>0, 1, \<dots>, k\<close> without a gap, and the loop returns. The budget is
  the configured one with a negative value read as 0.\<close>

theorem retry_attempts_bounded:
  "\<exists>k. int k \<le> max 0 (rtMaxRetries config)
     \<and> attempt_labels (snd (snd (Retry_run env (NewRetryer config) op fn w)))
         = map (\<lambda>i. show_int (int i)) [0..<Suc k]"
proof -
  have m: "rtMaxRetries (rt_defaults config) = max 0 (rtMaxRetries config)"
    by (simp add: rt_defaults_def Let_def)
  show ?thesis
    using retry_loop_labels [of 0 "rt_defaults config" env op fn "env_now env w" None w] m
    by (simp add: Retry_run_def NewRetryer_def)
qed

text \<open>C20: A run ends in exactly one of three ways. It returns nil right after a successful attempt, with
  one success and no failure recorded; or it returns the error of its last attempt wrapped, so that
  \<open>errors.Is\<close> still sees it, with one failure and no success recorded; or it returns the context's
  error, read from \<open>ctx.Err()\<close> or from the interrupted wait, with neither recorded.\<close>

theorem retry_ends_in_one_of_three_ways:
  "\<exists>res v es. Retry_run env (NewRetryer config) op fn w = (res, v, es)
     \<and> ((res = None \<and> (\<exists>u. fn u = (None, v))
           \<and> counts_of ''retry_successes_total'' es = 1 \<and> counts_of ''retry_failures_total'' es = 0)
      \<or> (\<exists>e u err. res = Some err \<and> fn u = (Some e, v) \<and> (\<forall>t. err_is err t = err_is e t)
           \<and> counts_of ''retry_successes_total'' es = 0 \<and> counts_of ''retry_failures_total'' es = 1)
      \<or> (\<exists>c. res = Some c \<and> (env_ctx_err env v = Some c \<or> (\<exists>d u. env_wait env d u = (Some c, v)))
           \<and> counts_of ''retry_successes_total'' es = 0 \<and> counts_of ''retry_failures_total'' es = 0))"
proof -
  have "run_end env (rt_defaults config) fn (Retry_run env (NewRetryer config) op fn w)"
    unfolding Retry_run_def
    by (simp add: NewRetryer_def, rule retry_loop_end) (simp add: rt_defaults_def Let_def)
  moreover obtain res v es where "Retry_run env (NewRetryer config) op fn w = (res, v, es)"
    by (metis surj_pair)
  moreover have "err_is (exhausted_error n (Some e)) t = err_is e t" for n e t
    by (simp add: exhausted_error_def)
  ultimately show ?thesis unfolding run_end_def by fastforce
qed

section \<open>Transient failures\<close>

text \<open>
  A world to run the retryer in: the operation's outcomes and the random source are scripts, the
  context is never cancelled, and the timer logs the delays it is asked for.
\<close>

record script_world =
  sw_outcomes :: "go_error option list"
  sw_rands :: "f64 list"
  sw_delays :: "duration list"

definition script_fn :: "script_world \<Rightarrow> go_error option \<times> script_world" where
  "script_fn w = (hd (sw_outcomes w), w\<lparr>sw_outcomes := tl (sw_outcomes w)\<rparr>)"

definition script_env :: "script_world retry_env" where
  "script_env = \<lparr>env_now = (\<lambda>_. 0), env_ctx_err = (\<lambda>_. None),
     env_rand = (\<lambda>w. (hd (sw_rands w), w\<lparr>sw_rands := tl (sw_rands w)\<rparr>)),
     env_wait = (\<lambda>d w. (None, w\<lparr>sw_delays := sw_delays w @ [d]\<rparr>))\<rparr>"

definition planned_delays :: "RetryConfig \<Rightarrow> int \<Rightarrow> f64 list \<Rightarrow> duration list" where
  "planned_delays cfg from rs = map (\<lambda>(i, r). calculateDelay cfg (from + int i) r) (enumerate 0 rs)"

lemma planned_delays_Cons [simp]:
  "planned_delays cfg a (r # rs) = calculateDelay cfg a r # planned_delays cfg (a + 1) rs"
proof -
  have "enumerate (Suc 0) rs = map (\<lambda>(i, r). (Suc i, r)) (enumerate 0 rs)"
    by (simp add: enumerate_eq_zip zip_map1 [symmetric] map_Suc_upt)
  then show ?thesis
    by (simp add: planned_delays_def ac_simps split_beta)
qed

lemma planned_delays_Nil [simp]: "planned_delays cfg a [] = []"
  by (simp add: planned_delays_def)

lemma script_turn:
  assumes "attempt < rtMaxRetries cfg" and "the (rtRetryableChecker cfg) (Some e)"
    and "rtJitter cfg" and "sw_outcomes w = Some e # os" and "sw_rands w = r # rs"
  shows "\<exists>es. retry_loop script_env cfg op script_fn t attempt le w =
    after_events es (retry_loop script_env cfg op script_fn t (attempt + 1) (Some e)
      \<lparr>sw_outcomes = os, sw_rands = rs,
       sw_delays = sw_delays w @ [calculateDelay cfg (attempt + 1) r]\<rparr>)"
  using assms by (cases w) (subst retry_loop.simps, auto simp: script_fn_def script_env_def Let_def)

lemma script_survives:
  assumes "rtJitter cfg" and "\<forall>e \<in> set errs. the (rtRetryableChecker cfg) (Some e)"
    and "length rs = length errs" and "attempt + int (length errs) \<le> rtMaxRetries cfg"
  shows "\<exists>es. retry_loop script_env cfg op script_fn t attempt le
      \<lparr>sw_outcomes = map Some errs @ None # os, sw_rands = rs @ qs, sw_delays = ds\<rparr>
    = (None, \<lparr>sw_outcomes = os, sw_rands = qs,
         sw_delays = ds @ planned_delays cfg (attempt + 1) rs\<rparr>, es)"
  using assms
proof (induction errs arbitrary: attempt le rs ds)
  case Nil
  then show ?case by (subst retry_loop.simps) (simp add: script_fn_def script_env_def Let_def)
next
  case (Cons e errs)
  then obtain r rs' where rs: "rs = r # rs'" by (cases rs) auto
  from Cons(2-) rs Cons.IH [of rs' "attempt + 1" "Some e" "ds @ [calculateDelay cfg (attempt + 1) r]"]
    script_turn [of attempt cfg e
      "\<lparr>sw_outcomes = map Some (e # errs) @ None # os, sw_rands = rs @ qs, sw_delays = ds\<rparr>"
      "map Some errs @ None # os" r "rs' @ qs" op t le]
  show ?case by (auto simp: after_events_def add.assoc)
qed

lemma script_exhausts:
  assumes "rtJitter cfg" and "\<forall>e \<in> set errs. the (rtRetryableChecker cfg) (Some e)"
    and "length rs = length errs" and "attempt + int (length errs) = rtMaxRetries cfg"
  shows "\<exists>es. retry_loop script_env cfg op script_fn t attempt le
      \<lparr>sw_outcomes = map Some errs @ Some e # os, sw_rands = rs @ qs, sw_delays = ds\<rparr>
    = (Some (exhausted_error (rtMaxRetries cfg) (Some e)),
       \<lparr>sw_outcomes = os, sw_rands = qs, sw_delays = ds @ planned_delays cfg (attempt + 1) rs\<rparr>, es)"
  using assms
proof (induction errs arbitrary: attempt le rs ds)
  case Nil
  then show ?case
    by (subst retry_loop.simps)
      (auto simp: script_fn_def script_env_def Let_def after_events_def retry_give_up_def)
next
  case (Cons e' errs)
  then obtain r rs' where rs: "rs = r # rs'" by (cases rs) auto
  from Cons(2-) rs Cons.IH [of rs' "attempt + 1" "Some e'" "ds @ [calculateDelay cfg (attempt + 1) r]"]
    script_turn [of attempt cfg e'
      "\<lparr>sw_outcomes = map Some (e' # errs) @ Some e # os, sw_rands = rs @ qs, sw_delays = ds\<rparr>"
      "map Some errs @ Some e # os" r "rs' @ qs" op t le]
  show ?case by (auto simp: after_events_def add.assoc)
qed

text \<open>C3: Transient failures within the budget are invisible to the caller. If an operation fails with
  \<open>n \<le> MaxRetries\<close> retryable errors and then succeeds, the retryer returns nil after exactly \<open>n + 1\<close>
  calls and the \<open>n\<close> delays of the backoff schedule, in order. If it fails \<open>MaxRetries + 1\<close> times, the
  retryer stops there and returns the last error wrapped.\<close>

theorem transient_failures_survived:
  assumes "rtJitter config" and "0 \<le> rtMaxRetries config"
    and "\<forall>e \<in> set errs. the (rtRetryableChecker (rt_defaults config)) (Some e)"
    and "length rs = length errs" and "int (length errs) \<le> rtMaxRetries config"
  shows "(\<exists>es. Retry_run script_env (NewRetryer config) op script_fn
       \<lparr>sw_outcomes = map Some errs @ None # os, sw_rands = rs @ qs, sw_delays = []\<rparr>
     = (None, \<lparr>sw_outcomes = os, sw_rands = qs,
          sw_delays = planned_delays (rt_defaults config) 1 rs\<rparr>, es))
    \<and> (int (length errs) = rtMaxRetries config \<longrightarrow>
      (\<exists>es. Retry_run script_env (NewRetryer config) op script_fn
         \<lparr>sw_outcomes = map Some errs @ Some e # os, sw_rands = rs @ qs, sw_delays = []\<rparr>
       = (Some (exhausted_error (rtMaxRetries config) (Some e)),
          \<lparr>sw_outcomes = os, sw_rands = qs,
           sw_delays = planned_delays (rt_defaults config) 1 rs\<rparr>, es)))"
proof -
  let ?c = "rt_defaults config"
  have c: "rtMaxRetries ?c = rtMaxRetries config" "rtJitter ?c = rtJitter config"
    using assms(2) by (simp_all add: rt_defaults_def Let_def)
  have t: "env_now script_env v = 0" for v by (simp add: script_env_def)
  show ?thesis
    using script_survives [of ?c errs rs 0 op 0 None os qs "[]"]
      script_exhausts [of ?c errs rs 0 op 0 None e os qs "[]"] assms c t
    by (simp add: Retry_run_def NewRetryer_def)
qed

section \<open>Witnesses\<close>

theorem contains_is_substring_witness:
  "contains ''error 503 from API'' ''503'' \<and> indexInString ''error 503 from API'' ''503'' = 6
   \<and> \<not> contains ''Rate Limit'' ''rate limit''"
proof -
  have a: "''error 503 from API'' = ''error '' @ ''503'' @ '' from API''" by simp
  have "indexInString ''error 503 from API'' ''503'' = 6"
    by (simp add: indexInString_def index_from.simps)
  moreover have "\<not> contains ''Rate Limit'' ''rate limit''"
    by (simp add: contains_def)
  ultimately show ?thesis
    using contains_is_substring [of "''error 503 from API''" "''503''"] a by blast
qed

theorem cloudflare_classification_witness:
  "cloudflareRetryable (Some (ErrWrap ''401: '' (ErrNew ''HTTP 502'')))"
proof -
  have "contains ''HTTP 502'' ''502''" by (simp add: contains_def)
  then have "mentions (ErrNew ''HTTP 502'') transient_markers"
    by (simp add: mentions_def transient_markers_def)
  then show ?thesis
    using cloudflare_classification [of "ErrNew ''HTTP 502''" "''401: ''"] by simp
qed

definition demo_retry_config :: RetryConfig where
  "demo_retry_config = DefaultRetryConfig\<lparr>rtMaxRetries := 1\<rparr>"

theorem transient_failures_survived_witness:
  "\<exists>es. Retry_run script_env (NewRetryer demo_retry_config) ''op'' script_fn
       \<lparr>sw_outcomes = [Some ErrRateLimited, None], sw_rands = [Fin (1/2)], sw_delays = []\<rparr>
     = (None, \<lparr>sw_outcomes = [], sw_rands = [],
          sw_delays = planned_delays (rt_defaults demo_retry_config) 1 [Fin (1/2)]\<rparr>, es)"
  using transient_failures_survived [of demo_retry_config "[ErrRateLimited]" "[Fin (1/2)]" "''op''" "[]" "[]"]
  by (simp add: demo_retry_config_def DefaultRetryConfig_def rt_defaults_def f64_eq_def
      defaultRetryableChecker_def is_ctx_error_def)

end
