(* ===== verification/RetryDelays.thy ===== *)
theory RetryDelays
  imports Retry
begin

text \<open>
  The backoff delays of \<open>internal/reliability/retry.go\<close> in IEEE arithmetic: whatever the multiplier's
  powers overflow to and whatever the random source returns, a delay lies between 0 and the maximum;
  with multiplier 2 the schedule is exact.
\<close>

section \<open>Nonnegative numbers of the format\<close>

definition nonneg :: "f64 \<Rightarrow> bool" where
  "nonneg x \<longleftrightarrow> x = PInf \<or> (\<exists>a. x = Fin a \<and> 0 \<le> a)"

lemma nonneg_simps [simp]: "nonneg (Fin a) \<longleftrightarrow> 0 \<le> a" "nonneg PInf" "\<not> nonneg NInf" "\<not> nonneg NaN"
  by (simp_all add: nonneg_def)

lemma nonneg_of_rat: "0 \<le> a \<Longrightarrow> nonneg (f64_of_rat a)"
  using rnd_nonneg [of a] max_f64_pos(1) by (auto simp: f64_of_rat_def Let_def)

lemma nonneg_of_int: "0 \<le> i \<Longrightarrow> nonneg (f64_of_int i)"
  by (simp add: f64_of_int_def nonneg_of_rat)

text \<open>The significands in \<open>math.Pow\<close> stay finite: each is at most 1.\<close>

definition unit_frac :: "f64 \<Rightarrow> bool" where
  "unit_frac x \<longleftrightarrow> (\<exists>a. x = Fin a \<and> 0 \<le> a \<and> a \<le> 1)"

lemma representable_0_1: "representable 0" "representable 1"
  using representable_of_int [of 0] representable_of_int [of 1] by simp_all

lemma unit_of_rat: "0 \<le> a \<Longrightarrow> a \<le> 1 \<Longrightarrow> unit_frac (f64_of_rat a)"
  using f64_of_rat_between [OF representable_0_1, of a] by (auto simp: unit_frac_def)

lemma unit_times: "unit_frac x \<Longrightarrow> unit_frac y \<Longrightarrow> unit_frac (x * y)"
  by (auto simp: unit_frac_def mult_le_one intro!: unit_of_rat [unfolded unit_frac_def])

lemma unit_pow_square: "unit_frac x \<Longrightarrow> unit_frac (fst (pow_square x e))"
proof -
  assume "unit_frac x"
  then have "unit_frac (x * x)" by (simp add: unit_times)
  then obtain y where y: "x * x = Fin y" "0 \<le> y" "y \<le> 1" by (auto simp: unit_frac_def)
  then have "y < 1/2 \<Longrightarrow> unit_frac (f64_of_rat (y + y))" by (intro unit_of_rat) simp_all
  with y show ?thesis by (simp add: pow_square_def Let_def unit_frac_def)
qed

lemma nonneg_ldexp: "unit_frac a \<Longrightarrow> nonneg (go_ldexp a e)"
  by (auto simp: unit_frac_def go_ldexp_def intro!: nonneg_of_rat)

lemma nonneg_pow_loop: "unit_frac a1 \<Longrightarrow> unit_frac x1 \<Longrightarrow> nonneg (pow_loop a1 ae x1 xe i)"
proof (induction a1 ae x1 xe i rule: pow_loop.induct)
  case (1 a1 ae x1 xe i)
  show ?case
  proof (cases "i = 0 \<or> xe < - 4096 \<or> 4096 < xe")
    case True
    with 1(2) show ?thesis by (auto simp: pow_loop.simps [of a1] nonneg_ldexp)
  next
    case False
    obtain x2 xe2 where sq: "pow_square x1 xe = (x2, xe2)" by (metis surj_pair)
    with unit_pow_square [OF 1(3)] have "unit_frac x2" by (metis fst_conv)
    moreover have "unit_frac (a1 * x1)" using 1(2,3) by (rule unit_times)
    ultimately show ?thesis
      using False 1(1) [OF _ _ refl prod.collapse sq [symmetric]] 1(2) sq
      by (cases "odd i") (auto simp: pow_loop.simps [of a1])
  qed
qed

lemma nonneg_go_pow: "nonneg x \<Longrightarrow> nonneg (go_pow x n)"
proof (cases x)
  case (Fin a)
  assume "nonneg x"
  with Fin have a: "0 \<le> a" by simp
  show ?thesis
  proof (cases "a = 0")
    case False
    let ?e = "ilog2 a + 1"
    from a False have "a < 2 powi ?e" by (intro ilog2_bounds) simp
    with a have "unit_frac (Fin (a / 2 powi ?e))" by (simp add: unit_frac_def)
    moreover have "unit_frac (Fin 1)" by (simp add: unit_frac_def)
    ultimately show ?thesis
      using a False Fin by (simp add: go_pow_def Let_def nonneg_pow_loop)
  qed (use Fin in \<open>simp add: go_pow_def\<close>)
qed (auto simp: go_pow_def)

section \<open>The limits of a delay\<close>

lemma nonneg_times: "nonneg x \<Longrightarrow> x \<noteq> Fin 0 \<Longrightarrow> x \<noteq> PInf \<Longrightarrow> nonneg y \<Longrightarrow> nonneg (x * y)"
  by (cases x; cases y) (auto simp: inf_of_sign_def intro: nonneg_of_rat)

lemma nonneg_capped:
  "nonneg x \<Longrightarrow> 0 \<le> m \<Longrightarrow> \<exists>d. (if Fin m < x then Fin m else x) = Fin d \<and> 0 \<le> d \<and> d \<le> m"
  by (auto simp: nonneg_def not_less)

lemma nonneg_if_not_less: "x \<noteq> NaN \<Longrightarrow> \<not> x < Fin 0 \<Longrightarrow> nonneg x"
  by (cases x) auto

lemma f64_of_int_pos: "0 < i \<Longrightarrow> i < 2 ^ 63 \<Longrightarrow> \<exists>a. f64_of_int i = Fin a \<and> 0 < a"
proof -
  assume i: "0 < i" "i < 2 ^ 63"
  have "\<bar>of_int i\<bar> \<le> max_f64" by (rule max_f64_ge) (use i in simp)
  moreover have "rnd 1 \<le> rnd (of_int i)" using i(1) by (intro rnd_mono) simp
  ultimately show ?thesis by (auto simp: f64_of_int_def f64_of_rat_bounded)
qed

lemma f64_to_int64_within:
  assumes "0 \<le> d" and "d \<le> of_int m" and "m < 2 ^ 63"
  shows "0 \<le> f64_to_int64 (Fin d) \<and> f64_to_int64 (Fin d) \<le> m"
proof -
  have "\<lfloor>d\<rfloor> \<le> m" using assms(2) floor_mono by fastforce
  moreover have "0 \<le> \<lfloor>d\<rfloor>" using assms(1) by simp
  ultimately have "in_int64 \<lfloor>d\<rfloor>" using assms(3) unfolding in_int64_def by linarith
  with \<open>\<lfloor>d\<rfloor> \<le> m\<close> assms(1) show ?thesis by (simp add: f64_to_int64_def)
qed

lemma jittered_nonneg:
  assumes "0 \<le> d" and "d \<le> 2 ^ 53" and "0 \<le> x" and "x \<le> 1" and "nonneg i"
  defines "v \<equiv> Fin d + (Fin x * Fin 2 - Fin 1) * (Fin d * f64_of_rat (1/4))"
  shows "nonneg (if v < Fin 0 then i else v)"
proof -
  have q: "f64_of_rat (1/4) = Fin (1/4)"
  proof (rule f64_of_rat_exact)
    show "representable (1/4)"
      unfolding representable_def by (rule exI [of _ 1], rule exI [of _ "- 2"]) (simp add: power_int_minus)
  qed (simp add: max_f64_def)
  have r2: "representable 2" using representable_of_int [of 2] by simp
  have big: "2 \<le> max_f64" "2 ^ 53 \<le> max_f64" by (simp_all add: max_f64_def)
  obtain a where a: "Fin x * Fin 2 = Fin a" "0 \<le> a" "a \<le> 2"
    using f64_of_rat_between [OF representable_0_1(1) r2, of "x * 2"] assms(3,4) big by auto
  have "\<bar>a - 1\<bar> \<le> max_f64" using a big by (simp add: abs_le_iff)
  then obtain b where b: "Fin x * Fin 2 - Fin 1 = Fin b"
    using a(1) by (simp add: minus_f64_def f64_of_rat_bounded)
  have "\<bar>d * (1/4)\<bar> \<le> max_f64" using assms(1,2) big(2) by simp
  then obtain c where c: "Fin d * f64_of_rat (1/4) = Fin c"
    by (simp add: q f64_of_rat_bounded)
  have "v \<noteq> NaN"
    unfolding v_def b c by (cases "f64_of_rat (b * c)") (auto dest: f64_of_rat_not_NaN(1) [THEN notE])
  with assms(5) show ?thesis by (simp add: nonneg_if_not_less)
qed



section \<open>Exponential backoff\<close>

lemma powi_exact: "- 1074 \<le> e \<Longrightarrow> e \<le> 1000 \<Longrightarrow> f64_of_rat (2 powi e) = Fin (2 powi e)"
proof (rule f64_of_rat_exact)
  assume "- 1074 \<le> e" then show "representable (2 powi e)"
    unfolding representable_def by (intro exI [of _ 1] exI [of _ e]) simp
next
  assume "e \<le> 1000"
  then have "2 powi e \<le> (2 powi 1000 :: rat)" by (simp only: powi_le_iff)
  also have "\<dots> \<le> max_f64" using max_f64_ge [of "2 ^ 1000"] by simp
  finally show "\<bar>2 powi e\<bar> \<le> max_f64" by simp
qed

lemma pow_square_half: "pow_square (Fin (1/2)) xe = (Fin (1/2), 2 * xe - 1)"
proof -
  have "f64_of_rat (1/4) = Fin (1/4)" "f64_of_rat (1/2) = Fin (1/2)"
    using powi_exact [of "- 2"] powi_exact [of "- 1"] by (simp_all add: power_int_minus)
  then show ?thesis by (simp add: pow_square_def Let_def)
qed

lemma pow_loop_2:
  assumes "int j + int i \<le> 1022" and "1 \<le> xe" and "int i * (xe - 1) \<le> 4000"
  shows "pow_loop (Fin (2 powi (- int j))) ae (Fin (1/2)) xe i
    = f64_of_rat (2 powi (ae - int j + int i * (xe - 1)))"
  using assms
proof (induction i arbitrary: j ae xe rule: less_induct)
  case (less i)
  show ?case
  proof (cases "i = 0")
    case True
    then show ?thesis
      by (simp add: pow_loop.simps go_ldexp_def power_int_add [symmetric])
  next
    case False
    have "1 * (xe - 1) \<le> int i * (xe - 1)" using False less.prems(2) by (intro mult_right_mono) simp_all
    then have xe: "\<not> (xe < - 4096 \<or> 4096 < xe)" using less.prems by simp
    have half: "Fin (2 powi (- int j)) * Fin (1/2) = Fin (2 powi (- int (Suc j)))"
    proof -
      have "2 powi (- int j) * (1/2) = (2 powi (- int (Suc j)) :: rat)"
        using power_int_add [of "2::rat" "- int j" "- 1"] by (simp add: power_int_minus add.commute)
      moreover have "f64_of_rat (2 powi (- int (Suc j))) = Fin (2 powi (- int (Suc j)))"
        using False less.prems(1) by (intro powi_exact) simp_all
      ultimately show ?thesis by (simp only: times_f64.simps)
    qed
    have i: "int i = 2 * int (i div 2) + (if odd i then 1 else 0)"
      by presburger
    have half_le: "int (i div 2) * (2 * xe - 1 - 1) \<le> int i * (xe - 1)"
    proof -
      have "int (i div 2) * (2 * xe - 1 - 1) = (2 * int (i div 2)) * (xe - 1)" by (simp add: algebra_simps)
      also have "\<dots> \<le> int i * (xe - 1)" using less.prems(2) i by (intro mult_right_mono) auto
      finally show ?thesis .
    qed
    have sum: "ae + xe - int (Suc j) + int (i div 2) * (2 * xe - 1 - 1) = ae - int j + int i * (xe - 1)"
      if "odd i" using i that by (simp add: algebra_simps)
    have sum': "ae - int j + int (i div 2) * (2 * xe - 1 - 1) = ae - int j + int i * (xe - 1)"
      if "even i" using i that by (simp add: algebra_simps)
    have lt: "i div 2 < i" using False by simp
    have odd: "pow_loop a ae x xe i = pow_loop b (ae + xe) x (2 * xe - 1) (i div 2)"
      if "odd i" "a * x = b" "pow_square x xe = (x, 2 * xe - 1)" for a b x
      using that False xe by (subst pow_loop.simps) (simp add: Let_def)
    have even: "pow_loop a ae x xe i = pow_loop a ae x (2 * xe - 1) (i div 2)"
      if "even i" "pow_square x xe = (x, 2 * xe - 1)" for a x
      using that False xe by (subst pow_loop.simps) (simp add: Let_def)
    have pre: "int j + int i \<le> 1022" "1 \<le> 2 * xe - 1" "int (i div 2) * (2 * xe - 1 - 1) \<le> 4000"
      using less.prems half_le by linarith+
    show ?thesis
    proof (cases "odd i")
      case True
      then have "int (Suc j) + int (i div 2) \<le> 1022" using pre(1) i by simp
      from less.IH [OF lt this pre(2,3)] odd [OF True half pow_square_half] sum [OF True]
      show ?thesis by metis
    next
      case ev: False
      then have "int j + int (i div 2) \<le> 1022" using pre(1) lt by simp
      from less.IH [OF lt this pre(2,3)] even [OF _ pow_square_half] ev sum'
      show ?thesis by metis
    qed
  qed
qed

lemma go_pow_2: "n \<le> 1000 \<Longrightarrow> go_pow (Fin 2) n = Fin (2 ^ n)"
proof -
  assume n: "n \<le> 1000"
  have e: "ilog2 2 = 1" by (rule ilog2_unique) simp_all
  have "pow_loop (Fin 1) 0 (Fin (1/2)) 2 n = f64_of_rat (2 powi int n)"
    using pow_loop_2 [of 0 n 2 0] n by simp
  also have "\<dots> = Fin (2 ^ n)" using powi_exact [of "int n"] n by simp
  finally show ?thesis by (simp add: go_pow_def e Let_def)
qed

text \<open>With multiplier 2 and no jitter the schedule is exact: the delay before retry \<open>n + 1\<close> is
  \<open>min MaxDelay (InitialDelay * 2 ^ n)\<close> nanoseconds, with no rounding error, although the code
  computes it in floating point through \<open>math.Pow\<close>.\<close>

theorem backoff_doubles_exactly:
  assumes "\<not> rtJitter cfg" and "rtMultiplier cfg = Fin 2" and "n \<le> 900"
    and "0 \<le> rtInitialDelay cfg" and "rtInitialDelay cfg \<le> 2 ^ 53"
    and "0 \<le> rtMaxDelay cfg" and "rtMaxDelay cfg \<le> 2 ^ 53"
  shows "calculateDelay cfg (int n + 1) r = min (rtMaxDelay cfg) (rtInitialDelay cfg * 2 ^ n)"
proof -
  let ?i = "rtInitialDelay cfg" and ?m = "rtMaxDelay cfg"
  have c: "f64_of_int ?i = Fin (of_int ?i)" "f64_of_int ?m = Fin (of_int ?m)"
    using assms by (simp_all add: f64_of_int_exact)
  have "representable (of_int (?i * 2 ^ n))"
    unfolding representable_def using assms(4,5) by (intro exI [of _ ?i] exI [of _ "int n"]) simp
  moreover have "\<bar>of_int (?i * 2 ^ n)\<bar> \<le> max_f64"
  proof (rule max_f64_ge)
    have "?i * 2 ^ n \<le> 2 ^ 53 * 2 ^ 900"
      using assms(3,4,5) by (intro mult_mono power_increasing) simp_all
    also have "\<dots> \<le> 2 ^ 1000" by simp
    finally show "\<bar>?i * 2 ^ n\<bar> \<le> 2 ^ 1000" using assms(4) by simp
  qed
  ultimately have "f64_of_rat (of_int (?i * 2 ^ n)) = Fin (of_int (?i * 2 ^ n))"
    by (rule f64_of_rat_exact)
  then have p: "Fin (of_int ?i) * Fin (2 ^ n) = Fin (of_int (?i * 2 ^ n))" by simp
  have t: "f64_to_int64 (Fin (of_int k)) = k" if "0 \<le> k" "k \<le> 2 ^ 53" for k
    using that by (simp add: f64_to_int64_def in_int64_def)
  have "calculateDelay cfg (int n + 1) r
      = f64_to_int64 (if ?m < ?i * 2 ^ n then Fin (of_int ?m) else Fin (of_int (?i * 2 ^ n)))"
    unfolding calculateDelay_def Let_def c
    using assms(1-3) p by (simp add: go_pow_2 del: of_int_mult)
  also have "\<dots> = min ?m (?i * 2 ^ n)"
    using t [of ?m] t [of "?i * 2 ^ n"] assms(4,6,7) by (simp add: min_def del: of_int_mult)
  finally show ?thesis .
qed

definition demo_plain_config :: RetryConfig where
  "demo_plain_config = CloudflareRetryConfig\<lparr>rtJitter := False\<rparr>"

theorem backoff_doubles_exactly_witness:
  "calculateDelay demo_plain_config 4 NaN = 1600 * Millisecond"
  using backoff_doubles_exactly [of demo_plain_config 3 NaN]
  by (simp add: demo_plain_config_def CloudflareRetryConfig_def)

end
