(* ===== verification/RateLimiter.thy ===== *)
theory RateLimiter
  imports GoRuntime "HOL-Library.Word"
begin

text \<open>
  The token bucket of \<open>internal/reliability/rate_limiter.go\<close>. Every method except \<open>Wait\<close> runs under
  the limiter's mutex and is one step on its state, taking the value of \<open>time.Now()\<close> it reads.
  \<open>Wait\<close> is a loop of such steps over the world \<open>'w\<close> of its caller, with fuel, since it may wait for
  ever. The statistics are \<open>uint64\<close>.
\<close>

section \<open>Configuration\<close>

text \<open>The algorithm types and the backoff strategies are named strings; the zero value is empty.\<close>

type_synonym RateLimiterType = string
type_synonym BackoffStrategy = string

definition TokenBucket :: RateLimiterType where "TokenBucket = ''token_bucket''"
definition SlidingWindow :: RateLimiterType where "SlidingWindow = ''sliding_window''"
definition FixedWindow :: RateLimiterType where "FixedWindow = ''fixed_window''"

definition Block :: BackoffStrategy where "Block = ''block''"
definition Reject :: BackoffStrategy where "Reject = ''reject''"
definition Adaptive :: BackoffStrategy where "Adaptive = ''adaptive''"

lemmas rl_strings [go_defs] = TokenBucket_def SlidingWindow_def FixedWindow_def
  Block_def Reject_def Adaptive_def

record RateLimiterConfig =
  rlName :: string
  rlType :: RateLimiterType
  rlRequestsPerSecond :: f64
  rlBurstSize :: int
  rlWindowSize :: duration
  rlBackoffStrategy :: BackoffStrategy
  rlOnRateLimited :: bool

record RateLimiterStats =
  stRequestsAllowed :: "64 word"
  stRequestsRejected :: "64 word"
  stRequestsWaiting :: "64 word"
  stCurrentTokens :: f64
  stRequestsPerSecond :: f64
  stBurstSize :: int
  stLastRefill :: gotime

record TokenBucketLimiter =
  tb_config :: RateLimiterConfig
  tb_tokens :: f64
  tb_lastRefill :: gotime
  tb_maxTokens :: f64
  tb_refillRate :: f64
  tb_allowed :: "64 word"
  tb_rejected :: "64 word"
  tb_waiting :: "64 word"
  tb_metrics :: "metric_op list"

definition CloudflareRateLimiterConfig :: RateLimiterConfig where
  "CloudflareRateLimiterConfig = \<lparr>rlName = ''cloudflare-api'', rlType = TokenBucket,
     rlRequestsPerSecond = f64_of_rat (1200 / 300), rlBurstSize = 10, rlWindowSize = 0,
     rlBackoffStrategy = Block, rlOnRateLimited = False\<rparr>"

definition DefaultRateLimiterConfig :: RateLimiterConfig where
  "DefaultRateLimiterConfig = \<lparr>rlName = ''default'', rlType = TokenBucket,
     rlRequestsPerSecond = f64_of_rat 10, rlBurstSize = 10, rlWindowSize = 0,
     rlBackoffStrategy = Block, rlOnRateLimited = False\<rparr>"

definition AggressiveRateLimiterConfig :: RateLimiterConfig where
  "AggressiveRateLimiterConfig = \<lparr>rlName = ''aggressive'', rlType = TokenBucket,
     rlRequestsPerSecond = f64_of_rat 100, rlBurstSize = 50, rlWindowSize = 0,
     rlBackoffStrategy = Reject, rlOnRateLimited = False\<rparr>"

definition ConservativeRateLimiterConfig :: RateLimiterConfig where
  "ConservativeRateLimiterConfig = \<lparr>rlName = ''conservative'', rlType = TokenBucket,
     rlRequestsPerSecond = f64_of_rat 1, rlBurstSize = 5, rlWindowSize = 0,
     rlBackoffStrategy = Block, rlOnRateLimited = False\<rparr>"

section \<open>Construction\<close>

definition tb_emit :: "metric_op \<Rightarrow> TokenBucketLimiter \<Rightarrow> TokenBucketLimiter" where
  "tb_emit m tb = tb\<lparr>tb_metrics := tb_metrics tb @ [m]\<rparr>"

definition set_tokens_gauge :: "TokenBucketLimiter \<Rightarrow> TokenBucketLimiter" where
  "set_tokens_gauge tb =
     tb_emit (MetricSet ''rate_limiter_tokens_available'' [rlName (tb_config tb)] (tb_tokens tb)) tb"

definition newTokenBucketLimiter :: "RateLimiterConfig \<Rightarrow> gotime \<Rightarrow> TokenBucketLimiter" where
  "newTokenBucketLimiter config now =
     \<lparr>tb_config = config, tb_tokens = f64_of_int (rlBurstSize config), tb_lastRefill = now,
      tb_maxTokens = f64_of_int (rlBurstSize config), tb_refillRate = rlRequestsPerSecond config,
      tb_allowed = 0, tb_rejected = 0, tb_waiting = 0,
      tb_metrics =
        [MetricSet ''rate_limiter_tokens_available'' [rlName config] (f64_of_int (rlBurstSize config)),
         MetricSet ''rate_limiter_rate_per_second'' [rlName config] (rlRequestsPerSecond config)]\<rparr>"

definition newSlidingWindowLimiter :: "RateLimiterConfig \<Rightarrow> gotime \<Rightarrow> TokenBucketLimiter" where
  "newSlidingWindowLimiter config now = newTokenBucketLimiter (config\<lparr>rlType := TokenBucket\<rparr>) now"

definition newFixedWindowLimiter :: "RateLimiterConfig \<Rightarrow> gotime \<Rightarrow> TokenBucketLimiter" where
  "newFixedWindowLimiter config now = newTokenBucketLimiter (config\<lparr>rlType := TokenBucket\<rparr>) now"

definition rl_defaults :: "RateLimiterConfig \<Rightarrow> RateLimiterConfig" where
  "rl_defaults c0 =
     (let c1 = (if rlRequestsPerSecond c0 \<le> Fin 0
                then c0\<lparr>rlRequestsPerSecond := f64_of_rat 10\<rparr> else c0);
          c2 = (if rlBurstSize c1 \<le> 0
                then c1\<lparr>rlBurstSize := f64_to_int64 (rlRequestsPerSecond c1)\<rparr> else c1);
          c3 = (if rlWindowSize c2 = 0 then c2\<lparr>rlWindowSize := 1 * Second\<rparr> else c2);
          c4 = (if rlBackoffStrategy c3 = [] then c3\<lparr>rlBackoffStrategy := Block\<rparr> else c3)
      in if rlType c4 = [] then c4\<lparr>rlType := TokenBucket\<rparr> else c4)"

definition NewRateLimiter :: "RateLimiterConfig \<Rightarrow> gotime \<Rightarrow> TokenBucketLimiter" where
  "NewRateLimiter config0 now =
     (let config = rl_defaults config0 in
      if rlType config = TokenBucket then newTokenBucketLimiter config now
      else if rlType config = SlidingWindow then newSlidingWindowLimiter config now
      else if rlType config = FixedWindow then newFixedWindowLimiter config now
      else newTokenBucketLimiter (config\<lparr>rlType := TokenBucket\<rparr>) now)"

section \<open>The operations\<close>

definition minVal :: "f64 \<Rightarrow> f64 \<Rightarrow> f64" where
  "minVal a b = (if a < b then a else b)"

definition refillTokens :: "TokenBucketLimiter \<Rightarrow> gotime \<Rightarrow> TokenBucketLimiter" where
  "refillTokens tb now =
     (let elapsed = time_sub now (tb_lastRefill tb);
          tb1 = tb\<lparr>tb_lastRefill := now\<rparr>;
          tokensToAdd = tb_refillRate tb1 * dur_Seconds elapsed
      in tb1\<lparr>tb_tokens := minVal (tb_tokens tb1 + tokensToAdd) (tb_maxTokens tb1)\<rparr>)"

definition Allow :: "TokenBucketLimiter \<Rightarrow> gotime \<Rightarrow> bool \<times> TokenBucketLimiter" where
  "Allow tb now =
     (let tb1 = refillTokens tb now;
          name = rlName (tb_config tb1)
      in if Fin 1 \<le> tb_tokens tb1 then
           (True,
            set_tokens_gauge
              (tb_emit (MetricInc ''rate_limiter_requests_total'' [name, ''allowed''])
                (tb1\<lparr>tb_tokens := tb_tokens tb1 - Fin 1, tb_allowed := tb_allowed tb1 + 1\<rparr>)))
         else
           (False,
            tb_emit (MetricInc ''rate_limiter_requests_total'' [name, ''rejected''])
              (tb1\<lparr>tb_rejected := tb_rejected tb1 + 1\<rparr>)))"

definition Reserve :: "TokenBucketLimiter \<Rightarrow> gotime \<Rightarrow> duration \<times> TokenBucketLimiter" where
  "Reserve tb now =
     (let tb1 = refillTokens tb now in
      if Fin 1 \<le> tb_tokens tb1 then (0, tb1)
      else
        let tokensNeeded = Fin 1 - tb_tokens tb1
        in (f64_to_int64 (tokensNeeded / tb_refillRate tb1 * f64_of_int Second), tb1))"

definition SetRate :: "TokenBucketLimiter \<Rightarrow> f64 \<Rightarrow> int \<Rightarrow> TokenBucketLimiter" where
  "SetRate tb requestsPerSecond burstSize =
     (let tb1 = tb\<lparr>tb_refillRate := requestsPerSecond, tb_maxTokens := f64_of_int burstSize\<rparr>;
          tb2 = (if tb_maxTokens tb1 < tb_tokens tb1 then tb1\<lparr>tb_tokens := tb_maxTokens tb1\<rparr> else tb1);
          tb3 = tb2\<lparr>tb_config := (tb_config tb2)\<lparr>rlRequestsPerSecond := requestsPerSecond,
                                                rlBurstSize := burstSize\<rparr>\<rparr>
      in tb_emit (MetricSet ''rate_limiter_rate_per_second'' [rlName (tb_config tb3)] requestsPerSecond)
           (set_tokens_gauge tb3))"

definition Stats :: "TokenBucketLimiter \<Rightarrow> gotime \<Rightarrow> RateLimiterStats \<times> TokenBucketLimiter" where
  "Stats tb now =
     (let tb1 = refillTokens tb now in
      (\<lparr>stRequestsAllowed = tb_allowed tb1, stRequestsRejected = tb_rejected tb1,
        stRequestsWaiting = tb_waiting tb1, stCurrentTokens = tb_tokens tb1,
        stRequestsPerSecond = tb_refillRate tb1, stBurstSize = f64_to_int64 (tb_maxTokens tb1),
        stLastRefill = tb_lastRefill tb1\<rparr>, tb1))"

definition tb_Reset :: "TokenBucketLimiter \<Rightarrow> gotime \<Rightarrow> TokenBucketLimiter" where
  "tb_Reset tb now =
     set_tokens_gauge (tb\<lparr>tb_tokens := tb_maxTokens tb, tb_lastRefill := now, tb_allowed := 0,
       tb_rejected := 0, tb_waiting := 0\<rparr>)"

definition calculateAdaptiveDelay :: "TokenBucketLimiter \<Rightarrow> duration \<Rightarrow> duration" where
  "calculateAdaptiveDelay tb baseDelay =
     (let waitingRatio = f64_of_int (uint (tb_waiting tb))
            / (f64_of_int (uint (tb_allowed tb + tb_rejected tb)) + Fin 1)
      in if Fin (1/2) < waitingRatio then f64_to_int64 (f64_of_int baseDelay * Fin (1/2))
         else baseDelay)"

section \<open>Waiting\<close>

text \<open>
  One turn of the loop of \<open>Wait\<close>. \<open>wl_get\<close> and \<open>wl_put\<close> find the shared limiter in the world (other
  goroutines change it between the steps), \<open>wl_now\<close> reads the clock, \<open>wl_wait\<close> is the \<open>select\<close>
  between \<open>ctx.Done()\<close> (which yields the context's error) and the timer, \<open>wl_limited\<close> is the callback.
  A strategy outside the three cases waits for nothing. The result is None when the loop goes on.
\<close>

record 'w wait_env =
  wl_get :: "'w \<Rightarrow> TokenBucketLimiter"
  wl_put :: "TokenBucketLimiter \<Rightarrow> 'w \<Rightarrow> 'w"
  wl_now :: "'w \<Rightarrow> gotime \<times> 'w"
  wl_wait :: "duration \<Rightarrow> 'w \<Rightarrow> go_error option \<times> 'w"
  wl_limited :: "string \<Rightarrow> duration \<Rightarrow> 'w \<Rightarrow> 'w"

definition wl_Allow :: "'w wait_env \<Rightarrow> 'w \<Rightarrow> bool \<times> 'w" where
  "wl_Allow env w =
     (let (now, w1) = wl_now env w; (ok, tb) = Allow (wl_get env w1) now in (ok, wl_put env tb w1))"

definition wl_Reserve :: "'w wait_env \<Rightarrow> 'w \<Rightarrow> duration \<times> 'w" where
  "wl_Reserve env w =
     (let (now, w1) = wl_now env w; (d, tb) = Reserve (wl_get env w1) now in (d, wl_put env tb w1))"

definition wait_turn :: "'w wait_env \<Rightarrow> 'w \<Rightarrow> go_error option option \<times> 'w" where
  "wait_turn env w =
     (let (ok, w1) = wl_Allow env w in
      if ok then (Some None, w1)
      else
        let (delay, w2) = wl_Reserve env w1 in
        if delay = 0 then (None, w2)
        else
          let cfg = tb_config (wl_get env w2);
              limited = (\<lambda>v. if rlOnRateLimited cfg then wl_limited env (rlName cfg) delay v else v)
          in if rlBackoffStrategy cfg = Reject then (Some (Some ErrRateLimited), w2)
             else if rlBackoffStrategy cfg = Block then
               (case wl_wait env delay w2 of
                  (Some c, w3) \<Rightarrow> (Some (Some c), w3)
                | (None, w3) \<Rightarrow> (None, limited w3))
             else if rlBackoffStrategy cfg = Adaptive then
               (case wl_wait env (calculateAdaptiveDelay (wl_get env w2) delay) w2 of
                  (Some c, w3) \<Rightarrow> (Some (Some c), w3)
                | (None, w3) \<Rightarrow> (None, limited w3))
             else (None, limited w2))"

fun wait_loop :: "nat \<Rightarrow> 'w wait_env \<Rightarrow> 'w \<Rightarrow> go_error option option \<times> 'w" where
  "wait_loop 0 env w = (None, w)"
| "wait_loop (Suc n) env w =
     (case wait_turn env w of (Some r, w1) \<Rightarrow> (Some r, w1) | (None, w1) \<Rightarrow> wait_loop n env w1)"

text \<open>\<open>Wait\<close> with fuel: None when the fuel ran out; the deferred observation of the time waited.\<close>

definition Wait_run :: "nat \<Rightarrow> 'w wait_env \<Rightarrow> 'w \<Rightarrow> go_error option option \<times> 'w" where
  "Wait_run fuel env w =
     (let (startTime, w1) = wl_now env w;
          (r, w2) = wait_loop fuel env w1
      in case r of
           None \<Rightarrow> (None, w2)
         | Some res \<Rightarrow>
             let (now, w3) = wl_now env w2;
                 tb = wl_get env w3
             in (Some res,
                 wl_put env
                   (tb_emit (MetricObserve ''rate_limiter_waiting_duration_seconds'' [rlName (tb_config tb)]
                      (dur_Seconds (time_sub now startTime))) tb) w3))"

end
