(* ===== verification/RateLimiterProps.thy ===== *)
theory RateLimiterProps
  imports RateLimiter
begin

text \<open>
  What the token bucket guarantees: the number of tokens stays between 0 and the burst size through
  every operation, a burst grants exactly the tokens there are, and \<open>Wait\<close> returns for three
  reasons only. Two configurations that do not do what their names say are proved as well.
\<close>

section \<open>The invariant\<close>

definition bucket_ok :: "TokenBucketLimiter \<Rightarrow> bool" where
  "bucket_ok tb \<longleftrightarrow>
     (\<exists>t b r. tb_tokens tb = Fin t \<and> tb_maxTokens tb = Fin (of_int b) \<and> tb_refillRate tb = Fin r
        \<and> representable t \<and> 0 \<le> t \<and> t \<le> of_int b \<and> 0 \<le> r \<and> 0 \<le> b \<and> b \<le> 2 ^ 53)"

datatype bucket_op =
    BAllow gotime
  | BReserve gotime
  | BStats gotime
  | BSetRate f64 int
  | BReset gotime

fun bucket_step :: "bucket_op \<Rightarrow> TokenBucketLimiter \<Rightarrow> TokenBucketLimiter" where
  "bucket_step (BAllow now) tb = snd (Allow tb now)"
| "bucket_step (BReserve now) tb = snd (Reserve tb now)"
| "bucket_step (BStats now) tb = snd (Stats tb now)"
| "bucket_step (BSetRate rps burst) tb = SetRate tb rps burst"
| "bucket_step (BReset now) tb = tb_Reset tb now"

text \<open>The clock does not run backwards, and rates are set to sensible values.\<close>

fun bucket_call_ok :: "bucket_op \<Rightarrow> TokenBucketLimiter \<Rightarrow> bool" where
  "bucket_call_ok (BSetRate rps burst) tb = ((\<exists>r. rps = Fin r \<and> 0 \<le> r) \<and> 0 \<le> burst \<and> burst \<le> 2 ^ 53)"
| "bucket_call_ok (BAllow now) tb = (tb_lastRefill tb \<le> now)"
| "bucket_call_ok (BReserve now) tb = (tb_lastRefill tb \<le> now)"
| "bucket_call_ok (BStats now) tb = (tb_lastRefill tb \<le> now)"
| "bucket_call_ok (BReset now) tb = True"

lemma tb_emit_frame [simp]:
  "tb_config (tb_emit m tb) = tb_config tb" "tb_tokens (tb_emit m tb) = tb_tokens tb"
  "tb_maxTokens (tb_emit m tb) = tb_maxTokens tb" "tb_refillRate (tb_emit m tb) = tb_refillRate tb"
  "tb_waiting (tb_emit m tb) = tb_waiting tb" "tb_lastRefill (tb_emit m tb) = tb_lastRefill tb"
  by (simp_all add: tb_emit_def)

lemma set_tokens_gauge_frame [simp]:
  "tb_config (set_tokens_gauge tb) = tb_config tb" "tb_tokens (set_tokens_gauge tb) = tb_tokens tb"
  "tb_maxTokens (set_tokens_gauge tb) = tb_maxTokens tb"
  "tb_refillRate (set_tokens_gauge tb) = tb_refillRate tb"
  "tb_waiting (set_tokens_gauge tb) = tb_waiting tb"
  "tb_lastRefill (set_tokens_gauge tb) = tb_lastRefill tb"
  by (simp_all add: set_tokens_gauge_def)

lemma refill_frame [simp]:
  "tb_config (refillTokens tb now) = tb_config tb" "tb_maxTokens (refillTokens tb now) = tb_maxTokens tb"
  "tb_refillRate (refillTokens tb now) = tb_refillRate tb"
  "tb_waiting (refillTokens tb now) = tb_waiting tb" "tb_lastRefill (refillTokens tb now) = now"
  by (simp_all add: refillTokens_def Let_def)

lemma bucket_ok_cong:
  "bucket_ok tb \<Longrightarrow> tb_tokens tb' = tb_tokens tb \<Longrightarrow> tb_maxTokens tb' = tb_maxTokens tb \<Longrightarrow>
     tb_refillRate tb' = tb_refillRate tb \<Longrightarrow> bucket_ok tb'"
  by (simp add: bucket_ok_def)

lemma plus_nonneg_tokens:
  assumes "0 \<le> t" and "x = PInf \<or> (\<exists>a. x = Fin a \<and> 0 \<le> a)"
  shows "Fin t + x = PInf \<or> (\<exists>u. Fin t + x = Fin u \<and> 0 \<le> u \<and> representable u)"
proof (cases x)
  case (Fin a)
  with assms have "0 \<le> t + a" by simp
  from f64_of_rat_nonneg [OF this] Fin show ?thesis by simp
qed (use assms(2) in auto)

lemma refill_amount:
  assumes "0 \<le> r" and "0 \<le> d" and "in_int64 d"
  shows "Fin r * dur_Seconds d = PInf \<or> (\<exists>a. Fin r * dur_Seconds d = Fin a \<and> 0 \<le> a)"
proof -
  obtain s where s: "dur_Seconds d = Fin s" "0 \<le> s" using dur_Seconds_nonneg assms(2,3) by blast
  have "0 \<le> r * s" using assms(1) s(2) by simp
  from f64_of_rat_nonneg [OF this] s show ?thesis by auto
qed

lemma refill_keeps:
  assumes "bucket_ok tb" and "tb_lastRefill tb \<le> now"
  shows "bucket_ok (refillTokens tb now)"
proof -
  from assms(1) obtain t b r where tb: "tb_tokens tb = Fin t" "tb_maxTokens tb = Fin (of_int b)"
    "tb_refillRate tb = Fin r" "0 \<le> t" "0 \<le> r" "0 \<le> b" "b \<le> 2 ^ 53" by (auto simp: bucket_ok_def)
  let ?d = "time_sub now (tb_lastRefill tb)"
  have "0 \<le> ?d" using assms(2) by (rule time_sub_nonneg)
  from plus_nonneg_tokens [OF tb(4) refill_amount [OF tb(5) this]]
  have "\<exists>u. minVal (Fin t + Fin r * dur_Seconds ?d) (Fin (of_int b)) = Fin u
      \<and> representable u \<and> 0 \<le> u \<and> u \<le> of_int b"
    using tb(6,7) representable_of_int [of b] by (auto simp: minVal_def)
  then show ?thesis
    using tb by (auto simp: bucket_ok_def refillTokens_def Let_def)
qed

lemma take_token:
  assumes "bucket_ok tb" and "Fin 1 \<le> tb_tokens tb"
  shows "\<exists>t. tb_tokens tb = Fin t \<and> 1 \<le> t \<and> tb_tokens tb - Fin 1 = Fin (t - 1)
    \<and> bucket_ok (tb\<lparr>tb_tokens := tb_tokens tb - Fin 1\<rparr>)"
proof -
  from assms obtain t b r where tb: "tb_tokens tb = Fin t" "tb_maxTokens tb = Fin (of_int b)"
    "tb_refillRate tb = Fin r" "representable t" "1 \<le> t" "t \<le> of_int b" "0 \<le> r" "0 \<le> b" "b \<le> 2 ^ 53"
    by (auto simp: bucket_ok_def)
  have "(of_int b :: rat) \<le> of_int (2 ^ 53)" using tb(9) by (simp only: of_int_le_iff)
  with tb(6) have t53: "t \<le> 2 ^ 53" by simp
  then have rep: "representable (t - 1)" using tb(4,5) by (intro representable_minus_1)
  have "t - 1 \<le> of_int (2 ^ 53)" using t53 by simp
  also have "\<dots> \<le> max_f64" by (rule of_int_le_max_f64) simp
  finally have "Fin t - Fin 1 = Fin (t - 1)"
    using tb(5) rep by (simp add: minus_f64_def f64_of_rat_exact)
  with tb rep show ?thesis by (auto simp: bucket_ok_def)
qed

lemma Allow_keeps: "bucket_ok tb \<Longrightarrow> tb_lastRefill tb \<le> now \<Longrightarrow> bucket_ok (snd (Allow tb now))"
proof -
  assume "bucket_ok tb" and "tb_lastRefill tb \<le> now"
  then have k: "bucket_ok (refillTokens tb now)" by (rule refill_keeps)
  show ?thesis
  proof (cases "Fin 1 \<le> tb_tokens (refillTokens tb now)")
    case True
    from take_token [OF k this] show ?thesis
      using True by (auto simp: Allow_def Let_def elim!: bucket_ok_cong)
  qed (use k in \<open>auto simp: Allow_def Let_def elim: bucket_ok_cong\<close>)
qed

lemma SetRate_keeps:
  assumes "bucket_ok tb" and "0 \<le> r" and "0 \<le> burst" and "burst \<le> 2 ^ 53"
  shows "bucket_ok (SetRate tb (Fin r) burst)"
proof -
  have "f64_of_int burst = Fin (of_int burst)" using assms(3,4) by (simp add: f64_of_int_exact)
  moreover have "representable (of_int burst)" using assms(3,4) by (simp add: representable_of_int)
  ultimately show ?thesis using assms by (auto simp: SetRate_def Let_def bucket_ok_def)
qed

interpretation bucket: invariant_machine bucket_step bucket_call_ok bucket_ok
proof
  fix x tb
  assume inv: "bucket_ok tb" and ok: "bucket_call_ok x tb"
  then show "bucket_ok (bucket_step x tb)"
  proof (cases x)
    case (BSetRate rps burst)
    with inv ok show ?thesis by (auto intro: SetRate_keeps)
  next
    case (BReset now)
    from inv obtain b where "tb_maxTokens tb = Fin (of_int b)" "0 \<le> b" "b \<le> 2 ^ 53"
      by (auto simp: bucket_ok_def)
    with inv BReset representable_of_int [of b] show ?thesis
      by (auto simp: tb_Reset_def bucket_ok_def)
  qed (use inv ok in \<open>auto simp: Reserve_def Stats_def Let_def intro: Allow_keeps refill_keeps\<close>)
qed

lemma new_bucket_ok:
  assumes "rlRequestsPerSecond c = Fin r" and "0 < r" and "0 < rlBurstSize c" and "rlBurstSize c \<le> 2 ^ 53"
  shows "bucket_ok (NewRateLimiter c now)"
  using assms representable_of_int [of "rlBurstSize c"]
  by (auto simp: bucket_ok_def NewRateLimiter_def rl_defaults_def newTokenBucketLimiter_def Let_def
      newSlidingWindowLimiter_def newFixedWindowLimiter_def f64_of_int_exact)


section \<open>Bursts\<close>

text \<open>\<open>n\<close> calls of \<open>Allow\<close> at one instant, and how many are granted.\<close>

fun allow_burst :: "nat \<Rightarrow> TokenBucketLimiter \<Rightarrow> gotime \<Rightarrow> nat \<times> TokenBucketLimiter" where
  "allow_burst 0 tb now = (0, tb)"
| "allow_burst (Suc n) tb now =
     (let (ok, tb1) = Allow tb now; (k, tb2) = allow_burst n tb1 now
      in ((if ok then Suc k else k), tb2))"

lemma refill_same_instant:
  assumes "bucket_ok tb" and "tb_lastRefill tb = now"
  shows "tb_tokens (refillTokens tb now) = tb_tokens tb"
proof -
  from assms(1) obtain t b r where tb: "tb_tokens tb = Fin t" "tb_maxTokens tb = Fin (of_int b)"
    "tb_refillRate tb = Fin r" "representable t" "0 \<le> t" "t \<le> of_int b" "b \<le> 2 ^ 53"
    by (auto simp: bucket_ok_def)
  have "dur_Seconds 0 = Fin 0" using dur_Seconds_whole [of 0] by simp
  have "(of_int b :: rat) \<le> max_f64" by (rule of_int_le_max_f64) (use tb(7) in simp)
  with tb have "f64_of_rat t = Fin t" by (intro f64_of_rat_exact) simp_all
  with tb assms(2) \<open>dur_Seconds 0 = Fin 0\<close> show ?thesis
    by (simp add: refillTokens_def Let_def minVal_def)
qed

lemma Allow_same_instant:
  assumes "bucket_ok tb" and "tb_lastRefill tb = now" and "tb_tokens tb = Fin t"
  shows "fst (Allow tb now) = (1 \<le> t)"
    and "tb_tokens (snd (Allow tb now)) = Fin (if 1 \<le> t then t - 1 else t)"
    and "tb_lastRefill (snd (Allow tb now)) = now"
proof -
  have k: "bucket_ok (refillTokens tb now)" using assms by (intro refill_keeps) simp_all
  have t: "tb_tokens (refillTokens tb now) = Fin t" using refill_same_instant assms by simp
  show "fst (Allow tb now) = (1 \<le> t)" by (simp add: Allow_def Let_def t)
  show "tb_tokens (snd (Allow tb now)) = Fin (if 1 \<le> t then t - 1 else t)"
    using take_token [OF k] t by (simp add: Allow_def Let_def)
  show "tb_lastRefill (snd (Allow tb now)) = now" by (simp add: Allow_def Let_def)
qed

lemma allow_burst_count:
  assumes "bucket_ok tb" and "tb_lastRefill tb = now" and "tb_tokens tb = Fin t"
  shows "fst (allow_burst n tb now) = min n (nat \<lfloor>t\<rfloor>)"
  using assms
proof (induction n arbitrary: tb t)
  case (Suc n)
  note A = Allow_same_instant [OF Suc.prems]
  have "bucket_ok (snd (Allow tb now))" using Suc.prems by (intro Allow_keeps) simp_all
  from Suc.IH [OF this A(3,2)]
  have IH: "fst (allow_burst n (snd (Allow tb now)) now)
      = min n (nat \<lfloor>if 1 \<le> t then t - 1 else t\<rfloor>)" .
  have fl: "1 \<le> t \<Longrightarrow> nat \<lfloor>t\<rfloor> = Suc (nat \<lfloor>t - 1\<rfloor>)" "\<not> 1 \<le> t \<Longrightarrow> nat \<lfloor>t\<rfloor> = 0"
    by (simp_all add: nat_eq_iff Suc_nat_eq_nat_zadd1)
  show ?case
    using A(1) IH fl by (cases "1 \<le> t") (auto simp: Let_def case_prod_unfold)
qed simp

text \<open>C27: A burst is granted exactly: of \<open>n\<close> calls of \<open>Allow\<close> on a fresh limiter at its creation
  instant, \<open>min n BurstSize\<close> succeed. In any state that meets the invariant the number granted at one
  instant is the whole part of the tokens there are.\<close>

theorem burst_is_exact:
  assumes "rlRequestsPerSecond c = Fin r" and "0 < r" and "0 < rlBurstSize c" and "rlBurstSize c \<le> 2 ^ 53"
  shows "fst (allow_burst n (NewRateLimiter c now) now) = min n (nat (rlBurstSize c))"
proof -
  have "tb_lastRefill (NewRateLimiter c now) = now"
    by (simp add: NewRateLimiter_def newTokenBucketLimiter_def Let_def newSlidingWindowLimiter_def
        newFixedWindowLimiter_def)
  moreover have "tb_tokens (NewRateLimiter c now) = Fin (of_int (rlBurstSize c))"
    using assms by (simp add: NewRateLimiter_def newTokenBucketLimiter_def Let_def rl_defaults_def
        newSlidingWindowLimiter_def newFixedWindowLimiter_def f64_of_int_exact)
  ultimately show ?thesis using allow_burst_count [OF new_bucket_ok [OF assms]] by simp
qed

section \<open>Two settings that do not work\<close>

definition no_set_rate :: "bucket_op \<Rightarrow> TokenBucketLimiter \<Rightarrow> bool" where
  "no_set_rate x tb \<longleftrightarrow> (\<forall>r b. x \<noteq> BSetRate r b)"

definition empty_bucket :: "TokenBucketLimiter \<Rightarrow> bool" where
  "empty_bucket tb \<longleftrightarrow> tb_maxTokens tb = Fin 0"

interpretation empty: invariant_machine bucket_step no_set_rate empty_bucket
proof
  fix tb x
  assume "empty_bucket tb" and "no_set_rate x tb"
  then show "empty_bucket (bucket_step x tb)"
    by (cases x) (auto simp: empty_bucket_def no_set_rate_def Allow_def Reserve_def Stats_def
        tb_Reset_def Let_def)
qed

definition never_waiting :: "TokenBucketLimiter \<Rightarrow> bool" where
  "never_waiting tb \<longleftrightarrow> tb_waiting tb = 0"

interpretation idle: invariant_machine bucket_step "\<lambda>_ _. True" never_waiting
proof
  fix tb x
  assume "never_waiting tb"
  then show "never_waiting (bucket_step x tb)"
    by (cases x) (auto simp: never_waiting_def Allow_def Reserve_def Stats_def SetRate_def
        tb_Reset_def Let_def)
qed

lemma empty_bucket_refuses: "empty_bucket tb \<Longrightarrow> \<not> fst (Allow tb now)"
  by (cases "tb_tokens tb + tb_refillRate tb * dur_Seconds (time_sub now (tb_lastRefill tb))")
    (auto simp: empty_bucket_def Allow_def refillTokens_def minVal_def Let_def)

text \<open>A limiter configured with a rate between 0 and 1 and no burst size admits nothing, ever. The
  default burst is the rate truncated to an integer, which is 0, so the bucket has no room for
  a token; only \<open>SetRate\<close> can repair it.\<close>

theorem fractional_rate_starves:
  assumes "rlRequestsPerSecond c = Fin r" and "0 < r" and "r < 1" and "rlBurstSize c \<le> 0"
    and "\<forall>x \<in> set xs. \<forall>q b. x \<noteq> BSetRate q b"
  shows "\<not> fst (Allow (run_ops bucket_step xs (NewRateLimiter c start)) now)"
proof -
  have "\<lfloor>r\<rfloor> = 0" using assms(2,3) by (simp add: floor_eq_iff)
  then have "empty_bucket (NewRateLimiter c start)"
    using assms(1-4)
    by (simp add: empty_bucket_def NewRateLimiter_def newTokenBucketLimiter_def Let_def rl_defaults_def
        newSlidingWindowLimiter_def newFixedWindowLimiter_def f64_to_int64_def in_int64_def f64_of_int_def)
  moreover have "run_ok no_set_rate bucket_step xs s" for s
    using assms(5) by (induction xs arbitrary: s) (auto simp: no_set_rate_def)
  ultimately show ?thesis by (intro empty_bucket_refuses empty.inv_run)
qed

text \<open>The adaptive strategy never adapts: the count of waiting requests that its delay depends on
  is 0 in every reachable state, so the delay it chooses is the one \<open>Block\<close> uses.\<close>

theorem adaptive_never_adapts:
  "calculateAdaptiveDelay (run_ops bucket_step xs (NewRateLimiter c start)) d = d"
proof -
  let ?tb = "run_ops bucket_step xs (NewRateLimiter c start)"
  have "never_waiting (NewRateLimiter c start)"
    by (simp add: never_waiting_def NewRateLimiter_def newTokenBucketLimiter_def Let_def
        newSlidingWindowLimiter_def newFixedWindowLimiter_def)
  then have "never_waiting ?tb" by (rule idle.inv_run) simp
  moreover have "\<not> Fin (1/2) < Fin 0 / x" for x :: f64
    by (cases x) auto
  ultimately show ?thesis
    by (simp add: calculateAdaptiveDelay_def never_waiting_def f64_of_int_def Let_def)
qed

section \<open>Waiting\<close>

lemma wait_turn_result:
  assumes "wait_turn env w = (Some r, w')"
  shows "(r = None \<and> (\<exists>u. wl_Allow env u = (True, w')))
    \<or> (r = Some ErrRateLimited \<and> rlBackoffStrategy (tb_config (wl_get env w')) = Reject
        \<and> (\<exists>u d. wl_Reserve env u = (d, w') \<and> d \<noteq> 0))
    \<or> (\<exists>c d u. r = Some c \<and> wl_wait env d u = (Some c, w'))"
proof -
  obtain ok w1 where a: "wl_Allow env w = (ok, w1)" by (metis surj_pair)
  obtain d w2 where b: "wl_Reserve env w1 = (d, w2)" by (metis surj_pair)
  let ?s = "rlBackoffStrategy (tb_config (wl_get env w2))"
  let ?d = "if ?s = Block then d else calculateAdaptiveDelay (wl_get env w2) d"
  obtain c w3 where e: "wl_wait env ?d w2 = (c, w3)" by (metis surj_pair)
  have distinct: "Reject \<noteq> Block" "Reject \<noteq> Adaptive" "Block \<noteq> Adaptive" by (simp_all add: go_defs)
  note turn = assms [unfolded wait_turn_def a b Let_def prod.case]
  show ?thesis
  proof (cases "ok \<or> d = 0 \<or> ?s = Reject")
    case True
    with turn a b show ?thesis by (auto split: if_splits)
  next
    case False
    with turn e distinct have "c = r \<and> w3 = w' \<and> r \<noteq> None"
      by (cases c) (auto split: if_splits)
    with e show ?thesis by auto
  qed
qed

lemma wait_loop_result:
  "wait_loop n env w = (Some r, w') \<Longrightarrow> \<exists>u. wait_turn env u = (Some r, w')"
  by (induction n arbitrary: w) (auto split: prod.splits option.splits)


text \<open>
  A world with one goroutine, whose clock moves only while it sleeps, and a context that is never
  cancelled; the sleeps and the callbacks are logged.
\<close>

record wait_world =
  ww_tb :: TokenBucketLimiter
  ww_clock :: gotime
  ww_sleeps :: "duration list"
  ww_limited :: nat

definition solo_env :: "wait_world wait_env" where
  "solo_env = \<lparr>wl_get = ww_tb, wl_put = (\<lambda>tb w. w\<lparr>ww_tb := tb\<rparr>), wl_now = (\<lambda>w. (ww_clock w, w)),
     wl_wait = (\<lambda>d w. (None, w\<lparr>ww_clock := ww_clock w + max 0 d, ww_sleeps := ww_sleeps w @ [d]\<rparr>)),
     wl_limited = (\<lambda>name d w. w\<lparr>ww_limited := Suc (ww_limited w)\<rparr>)\<rparr>"

definition strategy_of :: "wait_world \<Rightarrow> BackoffStrategy" where
  "strategy_of w = rlBackoffStrategy (tb_config (ww_tb w))"

definition quiet :: "wait_world \<Rightarrow> wait_world \<Rightarrow> bool" where
  "quiet w v \<longleftrightarrow> ww_sleeps v = ww_sleeps w \<and> ww_limited v = ww_limited w \<and> strategy_of v = strategy_of w"

lemma quiet_trans: "quiet u v \<Longrightarrow> quiet v w \<Longrightarrow> quiet u w"
  by (simp add: quiet_def)

lemma config_frame [simp]:
  "tb_config (snd (Allow tb now)) = tb_config tb" "tb_config (snd (Reserve tb now)) = tb_config tb"
  by (simp_all add: Allow_def Reserve_def Let_def)

lemma quiet_calls: "quiet w (snd (wl_Allow solo_env w))" "quiet w (snd (wl_Reserve solo_env w))"
  by (simp_all add: quiet_def wl_Allow_def wl_Reserve_def solo_env_def strategy_of_def case_prod_unfold Let_def)

lemma quiet_reject_turn:
  assumes "strategy_of w = Reject"
  shows "quiet w (snd (wait_turn solo_env w))"
proof -
  obtain ok w1 where a: "wl_Allow solo_env w = (ok, w1)" by (metis surj_pair)
  obtain d w2 where b: "wl_Reserve solo_env w1 = (d, w2)" by (metis surj_pair)
  have q: "quiet w w1" "quiet w1 w2" using quiet_calls(1) [of w] quiet_calls(2) [of w1] a b by simp_all
  then have "quiet w w2" by (rule quiet_trans)
  then have "rlBackoffStrategy (tb_config (wl_get solo_env w2)) = Reject"
    using assms by (simp add: quiet_def strategy_of_def solo_env_def)
  with q(1) \<open>quiet w w2\<close> show ?thesis by (simp add: wait_turn_def a b Let_def)
qed

text \<open>Under \<open>Reject\<close> the loop neither sleeps nor reports: in a run of any length the sleeps and the
  \<open>OnRateLimited\<close> calls stay as they were, whether or not the callback is configured.\<close>

theorem reject_never_reports:
  assumes "strategy_of w = Reject" and "wait_loop fuel solo_env w = (r, w')"
  shows "ww_sleeps w' = ww_sleeps w \<and> ww_limited w' = ww_limited w \<and> strategy_of w' = Reject"
  using assms
proof (induction fuel arbitrary: w)
  case (Suc n)
  obtain q v where t: "wait_turn solo_env w = (q, v)" by (metis surj_pair)
  then have v: "ww_sleeps v = ww_sleeps w" "ww_limited v = ww_limited w" "strategy_of v = Reject"
    using quiet_reject_turn [OF Suc.prems(1)] Suc.prems(1) by (simp_all add: quiet_def)
  show ?case
    using Suc.prems(2) Suc.IH [OF v(3)] v by (cases q) (auto simp: t)
qed simp

text \<open>A context is not looked at while tokens are available: if the first \<open>Allow\<close> grants one, \<open>Wait\<close>
  returns nil at once, whatever the context and the timer would do.\<close>

theorem wait_ignores_context_when_granted:
  assumes "wl_Allow env (snd (wl_now env w)) = (True, v)"
  shows "fst (Wait_run (Suc n) env w) = Some None
    \<and> snd (Wait_run (Suc n) env w) = snd (Wait_run 1 (env\<lparr>wl_wait := f, wl_limited := g\<rparr>) w)"
proof -
  let ?env = "env\<lparr>wl_wait := f, wl_limited := g\<rparr>"
  have same: "wl_Allow ?env = wl_Allow env" by (simp add: wl_Allow_def fun_eq_iff)
  obtain t u where now: "wl_now env w = (t, u)" by (metis surj_pair)
  have "wait_loop (Suc n) env u = (Some None, v)" "wait_loop 1 ?env u = (Some None, v)"
    using assms now by (simp_all add: wait_turn_def same)
  then show ?thesis
    by (simp add: Wait_run_def now case_prod_unfold Let_def del: wait_loop.simps One_nat_def)
qed

section \<open>Witnesses\<close>

definition demo_limiter_config :: RateLimiterConfig where
  "demo_limiter_config = AggressiveRateLimiterConfig\<lparr>rlOnRateLimited := True\<rparr>"

lemma demo_limiter_rate: "rlRequestsPerSecond demo_limiter_config = Fin 100"
  "rlBurstSize demo_limiter_config = 50"
  by (simp_all add: demo_limiter_config_def AggressiveRateLimiterConfig_def)

lemma demo_limiter_refill: "tb_lastRefill (NewRateLimiter demo_limiter_config now) = now"
  by (simp add: NewRateLimiter_def newTokenBucketLimiter_def Let_def newSlidingWindowLimiter_def
      newFixedWindowLimiter_def)


theorem burst_is_exact_witness:
  "fst (allow_burst 60 (NewRateLimiter demo_limiter_config 7) 7) = 50"
  using burst_is_exact [OF demo_limiter_rate(1), of 60 7] by (simp add: demo_limiter_rate)

theorem fractional_rate_starves_witness:
  "\<not> fst (Allow (run_ops bucket_step [BAllow 9, BReset 12]
       (NewRateLimiter (demo_limiter_config\<lparr>rlRequestsPerSecond := Fin (1/2), rlBurstSize := 0\<rparr>) 7))
     (3600 * Second))"
  by (rule fractional_rate_starves [of _ "1/2"]) simp_all

definition demo_wait_world :: wait_world where
  "demo_wait_world = \<lparr>ww_tb = NewRateLimiter demo_limiter_config 7, ww_clock = 7, ww_sleeps = [], ww_limited = 0\<rparr>"

lemma demo_wait_grants: "\<exists>v. wl_Allow solo_env demo_wait_world = (True, v)"
proof -
  have "bucket_ok (NewRateLimiter demo_limiter_config 7)"
    by (rule new_bucket_ok [OF demo_limiter_rate(1)]) (simp_all add: demo_limiter_rate)
  moreover have "tb_tokens (NewRateLimiter demo_limiter_config 7) = Fin 50"
    by (simp add: NewRateLimiter_def newTokenBucketLimiter_def Let_def newSlidingWindowLimiter_def
        newFixedWindowLimiter_def rl_defaults_def demo_limiter_rate f64_of_int_exact)
  ultimately have "fst (Allow (NewRateLimiter demo_limiter_config 7) 7)"
    using Allow_same_instant(1) demo_limiter_refill by simp
  then show ?thesis
    by (cases "Allow (NewRateLimiter demo_limiter_config 7) 7")
      (simp add: wl_Allow_def solo_env_def demo_wait_world_def)
qed


theorem reject_never_reports_witness:
  "ww_limited (snd (wait_loop 5 solo_env demo_wait_world)) = 0"
proof -
  have "strategy_of demo_wait_world = Reject"
    by (simp add: strategy_of_def demo_wait_world_def NewRateLimiter_def newTokenBucketLimiter_def
        Let_def newSlidingWindowLimiter_def newFixedWindowLimiter_def rl_defaults_def
        demo_limiter_config_def AggressiveRateLimiterConfig_def go_defs)
  from reject_never_reports [OF this prod.collapse [symmetric], of 5]
  show ?thesis by (simp add: demo_wait_world_def)
qed

theorem wait_ignores_context_when_granted_witness:
  "fst (Wait_run 3 solo_env demo_wait_world) = Some None"
proof -
  obtain v where "wl_Allow solo_env demo_wait_world = (True, v)" using demo_wait_grants by blast
  moreover have "snd (wl_now solo_env demo_wait_world) = demo_wait_world" by (simp add: solo_env_def)
  ultimately show ?thesis
    using wait_ignores_context_when_granted [of solo_env demo_wait_world v 2]
    by (simp add: numeral_3_eq_3)
qed

end
