(* ===== verification/RateBound.thy ===== *)
theory RateBound
  imports RateLimiterProps
begin

text \<open>
  The promise of the token bucket: over any period it admits no more than the burst and what the rate yields in that
  time. The bucket computes in \<open>float64\<close>, so the bound carries the rounding errors: of the seconds, the product and the
  sum of each refill.
\<close>

section \<open>Upper bounds of rounding\<close>

abbreviation half_ulp :: rat where "half_ulp \<equiv> 1 / 2 ^ 53"
abbreviation least_half :: rat where "least_half \<equiv> 2 powi (- 1075)"

lemma rnd_upper:
  assumes "0 \<le> q"
  shows "rnd q \<le> q + q * half_ulp + least_half"
proof (cases "q = 0")
  case False
  with assms have q: "0 < q" by simp
  have u: "2 powi (ulp_exp q - 1) \<le> q * half_ulp + least_half"
  proof (cases "ilog2 q - 52 \<le> - 1074")
    case True
    then show ?thesis using q by (simp add: ulp_exp_def max_absorb2)
  next
    case False
    then have "2 powi (ulp_exp q - 1) = (2::rat) powi (ilog2 q + (- 53))" by (simp add: ulp_exp_def)
    also have "\<dots> = 2 powi (ilog2 q) * half_ulp" by (subst power_int_add) (simp_all add: power_int_minus field_simps)
    also have "\<dots> \<le> q * half_ulp" using ilog2_bounds(1) [OF q] by (intro mult_right_mono) simp_all
    also have "\<dots> \<le> q * half_ulp + least_half" by simp
    finally show ?thesis .
  qed
  from rnd_error [OF q] have "rnd q - q \<le> 2 powi (ulp_exp q - 1)" by (simp add: abs_le_iff)
  with u show ?thesis by linarith
qed simp

lemma rnd_upper_rel:
  assumes "q = 0 \<or> 2 powi (- 1022) \<le> q"
  shows "rnd q \<le> q * (1 + half_ulp)"
proof (cases "q = 0")
  case False
  then have "\<bar>rnd q - q\<bar> \<le> q * 2 powi (- 53)" using assms by (intro rnd_rel_error) simp
  also have "q * 2 powi (- 53) = q * half_ulp" by (simp add: power_int_minus)
  finally have "rnd q - q \<le> q * half_ulp" by (rule abs_le_D1)
  then show ?thesis by (simp add: distrib_left)
qed simp

lemma rnd_at_least_powi: "- 1074 \<le> k \<Longrightarrow> 2 powi k \<le> q \<Longrightarrow> 2 powi k \<le> rnd q"
  using rnd_mono [of "2 powi k" q] rnd_representable [of "2 powi k"]
  unfolding representable_def by (metis (no_types, opaque_lifting) abs_one mult_1 of_int_1 one_le_power one_le_numeral)

section \<open>One refill\<close>

lemma seconds_upper:
  assumes "0 \<le> d" and "in_int64 d"
  shows "\<exists>s. dur_Seconds d = Fin s \<and> 0 \<le> s \<and> s \<le> of_int d / 10 ^ 9 * (1 + half_ulp) ^ 2"
proof -
  define w where "w = d div Second"
  define m where "m = d mod Second"
  have d: "d = w * Second + m" by (simp add: w_def m_def)
  have m: "0 \<le> m" "m < Second" by (simp_all add: m_def)
  have w: "0 \<le> w" "\<bar>w\<bar> \<le> 2 ^ 53" using assms by (simp_all add: w_def in_int64_def pos_imp_zdiv_nonneg_iff)
  define f where "f = rnd (of_int m / of_int Second)"
  obtain s where s: "dur_Seconds d = Fin s" "0 \<le> s" using dur_Seconds_nonneg [OF assms] by blast
  have "dur_Seconds d = f64_of_rat (of_int w) + f64_of_rat (of_int m) / f64_of_rat (of_int Second)"
    using assms(1) by (simp add: dur_Seconds_def go_div_nonneg go_mod_nonneg f64_of_int_def w_def m_def)
  also have "\<dots> = Fin (of_int w) + f64_of_int m / f64_of_int Second"
    using w by (simp add: f64_of_rat_of_int f64_of_int_def)
  also have "f64_of_int m / f64_of_int Second = Fin f"
    unfolding f_def using m by (intro f64_int_ratio) simp_all
  finally have "f64_of_rat (of_int w + f) = Fin s" using s by simp
  then have sr: "s = rnd (of_int w + f)" using f64_of_rat_FinD by blast
  have fz: "m = 0 \<Longrightarrow> f = 0" by (simp add: f_def)
  have "2 powi (- 30) \<le> of_int m / (of_int Second :: rat)" if "1 \<le> m"
  proof -
    have "(1::rat) \<le> of_int m" using that by simp
    then show ?thesis by (simp add: power_int_minus field_simps)
  qed
  note m30 = this
  have tiny: "(2::rat) powi (- 1022) \<le> 2 powi (- 30)" by simp
  have fl: "2 powi (- 30) \<le> f" if "1 \<le> m"
    unfolding f_def by (rule rnd_at_least_powi [OF _ m30 [OF that]]) simp
  have mm: "of_int m / (of_int Second :: rat) = 0 \<or> 2 powi (- 1022) \<le> of_int m / (of_int Second :: rat)"
  proof (cases "m = 0")
    case False
    with m have "1 \<le> m" by simp
    from order_trans [OF tiny m30 [OF this]] show ?thesis by blast
  qed simp
  have f: "f \<le> of_int m / 10 ^ 9 * (1 + half_ulp)" using rnd_upper_rel [OF mm] by (simp add: f_def)
  have f0: "0 \<le> f" using fz fl m by (cases "m = 0") (auto intro: order_trans [rotated])
  have "of_int w + f = 0 \<or> 2 powi (- 1022) \<le> of_int w + f"
  proof (cases "w = 0 \<and> m = 0")
    case False
    then consider "1 \<le> w" | "1 \<le> m" using w m by linarith
    then show ?thesis
    proof cases
      case 1
      then have "(1::rat) \<le> of_int w" by simp
      moreover have "(2::rat) powi (- 1022) \<le> 2 powi 0" by (simp only: powi_le_iff)
      ultimately show ?thesis using f0 by auto
    next
      case 2
      moreover have "(0::rat) \<le> of_int w" using w by simp
      ultimately show ?thesis using fl tiny by (meson add_increasing order_trans)
    qed
  qed (use fz in simp)
  from rnd_upper_rel [OF this] have "s \<le> (of_int w + f) * (1 + half_ulp)" by (simp add: sr)
  also have "\<dots> \<le> (of_int w * (1 + half_ulp) + of_int m / 10 ^ 9 * (1 + half_ulp)) * (1 + half_ulp)"
  proof (intro mult_right_mono add_mono f)
    show "(of_int w :: rat) \<le> of_int w * (1 + half_ulp)" using w(1) by (simp add: distrib_left)
  qed simp
  also have "\<dots> = of_int d / 10 ^ 9 * (1 + half_ulp) ^ 2"
    by (simp add: d power2_eq_square field_simps)
  finally show ?thesis using s by blast
qed

lemma overflow_large: "0 \<le> q \<Longrightarrow> f64_of_rat q = PInf \<Longrightarrow> max_f64 < q"
  using rnd_mono [of q max_f64] by (auto simp: f64_of_rat_def Let_def rnd_max_f64 not_le [symmetric] split: if_splits)

lemma refill_product:
  assumes "0 \<le> r" and "0 \<le> d" and "in_int64 d"
  defines "y \<equiv> r * (of_int d / 10 ^ 9) * (1 + half_ulp) ^ 3"
  shows "(Fin r * dur_Seconds d = PInf \<and> max_f64 < y)
    \<or> (\<exists>a. Fin r * dur_Seconds d = Fin a \<and> 0 \<le> a \<and> a \<le> y + least_half)"
proof -
  obtain s where s: "dur_Seconds d = Fin s" "0 \<le> s" "s \<le> of_int d / 10 ^ 9 * (1 + half_ulp) ^ 2"
    using seconds_upper [OF assms(2,3)] by blast
  have rs0: "0 \<le> r * s" using assms(1) s(2) by simp
  have rs: "r * s \<le> r * (of_int d / 10 ^ 9 * (1 + half_ulp) ^ 2)" using assms(1) s(3) by (intro mult_left_mono)
  have y: "y = r * (of_int d / 10 ^ 9 * (1 + half_ulp) ^ 2) * (1 + half_ulp)"
    by (simp add: y_def power3_eq_cube power2_eq_square)
  have ry: "r * s * (1 + half_ulp) \<le> y" unfolding y using rs by (intro mult_right_mono) simp_all
  have "r * s \<le> r * s * (1 + half_ulp)" using rs0 by (simp add: distrib_left)
  with ry have rsy: "r * s \<le> y" by linarith
  have p: "Fin r * dur_Seconds d = f64_of_rat (r * s)" by (simp add: s)
  from f64_of_rat_nonneg [OF rs0] show ?thesis
  proof
    assume "f64_of_rat (r * s) = PInf"
    with overflow_large [OF rs0] rsy p show ?thesis by auto
  next
    assume "\<exists>u. f64_of_rat (r * s) = Fin u \<and> 0 \<le> u \<and> representable u"
    then obtain u where u: "f64_of_rat (r * s) = Fin u" "0 \<le> u" by blast
    then have "u = rnd (r * s)" using f64_of_rat_FinD by blast
    with rnd_upper [OF rs0] ry have "u \<le> y + least_half" by (simp add: distrib_left)
    with u p show ?thesis by auto
  qed
qed

text \<open>The capped sum: \<open>b\<close> is the size of the bucket.\<close>

lemma capped_sum:
  assumes "0 \<le> t" and "0 \<le> a" and "1 \<le> b" and "b \<le> 2 ^ 53"
    and "minVal (Fin t + Fin a) (Fin (of_int b)) = Fin u"
  shows "u \<le> t + a + of_int b * half_ulp + least_half"
proof -
  let ?B = "of_int b :: rat"
  have q0: "0 \<le> t + a" using assms by simp
  have repB: "rnd ?B = ?B" using assms by (intro rnd_of_int) simp
  have Bmax: "?B \<le> max_f64" by (rule of_int_le_max_f64) (use assms in simp)
  have pos: "0 \<le> ?B * half_ulp" "(0::rat) \<le> least_half" using assms by simp_all
  show ?thesis
  proof (cases "?B \<le> t + a")
    case True
    have "u \<le> ?B"
      using assms(5) f64_of_rat_nonneg [OF q0] by (auto simp: minVal_def split: if_splits)
    with True pos show ?thesis by linarith
  next
    case False
    with Bmax have "t + a \<le> max_f64" by linarith
    with q0 have "f64_of_rat (t + a) = Fin (rnd (t + a))" by (intro f64_of_rat_bounded) simp
    with assms(5) have "u \<le> rnd (t + a)" by (auto simp: minVal_def split: if_splits)
    also have "\<dots> \<le> t + a + (t + a) * half_ulp + least_half" by (rule rnd_upper [OF q0])
    also have "\<dots> \<le> t + a + ?B * half_ulp + least_half" using False by (simp add: mult_right_mono)
    finally show ?thesis .
  qed
qed

text \<open>What a period of \<open>d\<close> nanoseconds yields at rate \<open>r\<close>, with the relative error of three roundings, and the error
  of one call on a bucket of size \<open>b\<close>.\<close>

definition yield_of :: "rat \<Rightarrow> int \<Rightarrow> rat" where
  "yield_of r d = r * (of_int d / 10 ^ 9) * (1 + 1 / 2 ^ 50)"

definition call_error :: "int \<Rightarrow> rat" where
  "call_error b = of_int b / 2 ^ 52"

lemma yield_of_simps [simp]: "yield_of r 0 = 0" "yield_of r d + yield_of r e = yield_of r (d + e)"
  by (simp_all add: yield_of_def field_simps)

lemma yield_nonneg: "0 \<le> r \<Longrightarrow> 0 \<le> d \<Longrightarrow> 0 \<le> yield_of r d"
  by (simp add: yield_of_def)

lemma yield_mono: "0 \<le> r \<Longrightarrow> d \<le> e \<Longrightarrow> yield_of r d \<le> yield_of r e"
  unfolding yield_of_def by (intro mult_right_mono mult_left_mono divide_right_mono) simp_all

lemma product_below_yield:
  assumes "0 \<le> r" and "0 \<le> d"
  shows "r * (of_int d / 10 ^ 9) * (1 + half_ulp) ^ 3 \<le> yield_of r d"
  unfolding yield_of_def using assms by (intro mult_left_mono) (simp_all add: power3_eq_cube)

lemma errors_below:
  assumes "1 \<le> b"
  shows "of_int b * half_ulp + 2 * least_half \<le> call_error b"
proof -
  have "2 * least_half = 2 powi (- 1074)" by (simp add: power_int_minus)
  also have "\<dots> \<le> 2 powi (- 53)" by (simp only: powi_le_iff)
  also have "(2::rat) powi (- 53) = half_ulp" by (simp add: power_int_minus)
  also have "half_ulp \<le> of_int b * half_ulp" using assms by simp
  finally show ?thesis by (simp add: call_error_def)
qed

lemma refill_bound:
  assumes "bucket_ok tb" and "tb_lastRefill tb \<le> now" and "tb_tokens tb = Fin t" and "tb_refillRate tb = Fin r"
    and "tb_maxTokens tb = Fin (of_int b)" and "1 \<le> b"
  shows "\<exists>u. tb_tokens (refillTokens tb now) = Fin u \<and> u \<le> t + yield_of r (now - tb_lastRefill tb) + call_error b"
proof -
  let ?d = "time_sub now (tb_lastRefill tb)" and ?y = "yield_of r (now - tb_lastRefill tb)"
  have tb: "0 \<le> t" "0 \<le> r" "b \<le> 2 ^ 53" using assms(1,3-5) by (auto simp: bucket_ok_def)
  have d: "0 \<le> ?d" "?d \<le> now - tb_lastRefill tb"
    using assms(2) time_sub_nonneg [of "tb_lastRefill tb" now] by (simp_all add: time_sub_def)
  from bucket_ok_def refill_keeps [OF assms(1,2)] obtain u where u: "tb_tokens (refillTokens tb now) = Fin u" "u \<le> of_int b"
    using assms(5) by auto
  then have m: "minVal (Fin t + Fin r * dur_Seconds ?d) (Fin (of_int b)) = Fin u"
    by (simp add: refillTokens_def Let_def assms)
  have y: "r * (of_int ?d / 10 ^ 9) * (1 + half_ulp) ^ 3 \<le> ?y"
    by (rule order_trans [OF product_below_yield [OF tb(2) d(1)] yield_mono [OF tb(2) d(2)]])
  from refill_product [OF tb(2) d(1) in_int64_time_sub] have "u \<le> t + ?y + call_error b"
  proof (elim disjE exE conjE)
    assume "max_f64 < r * (of_int ?d / 10 ^ 9) * (1 + half_ulp) ^ 3"
    moreover have "of_int b \<le> max_f64" by (rule of_int_le_max_f64) (use tb(3) in simp)
    moreover have "0 \<le> call_error b" using assms(6) by (simp add: call_error_def)
    ultimately show ?thesis using y u(2) tb(1) by linarith
  next
    fix a assume a: "Fin r * dur_Seconds ?d = Fin a" "0 \<le> a"
      "a \<le> r * (of_int ?d / 10 ^ 9) * (1 + half_ulp) ^ 3 + least_half"
    from capped_sum [OF tb(1) a(2) assms(6) tb(3) m [unfolded a(1)]] errors_below [OF assms(6)] a(3) y
    show ?thesis by linarith
  qed
  with u(1) show ?thesis by blast
qed

section \<open>A run of calls\<close>

text \<open>The calls that read the clock and refill, and how many calls of \<open>Allow\<close> a run admits.\<close>

fun clock_of :: "bucket_op \<Rightarrow> gotime option" where
  "clock_of (BAllow now) = Some now"
| "clock_of (BReserve now) = Some now"
| "clock_of (BStats now) = Some now"
| "clock_of _ = None"

fun admits :: "bucket_op \<Rightarrow> TokenBucketLimiter \<Rightarrow> nat" where
  "admits (BAllow now) tb = (if fst (Allow tb now) then 1 else 0)"
| "admits _ tb = 0"

fun admitted :: "bucket_op list \<Rightarrow> TokenBucketLimiter \<Rightarrow> nat" where
  "admitted [] tb = 0"
| "admitted (x # xs) tb = admits x tb + admitted xs (bucket_step x tb)"

lemma step_frame:
  assumes "clock_of x = Some now"
  shows "tb_lastRefill (bucket_step x tb) = now" "tb_refillRate (bucket_step x tb) = tb_refillRate tb"
    "tb_maxTokens (bucket_step x tb) = tb_maxTokens tb"
  using assms by (cases x; simp add: Allow_def Reserve_def Stats_def Let_def)+

lemma step_spends:
  assumes "bucket_ok tb" and "clock_of x = Some now" and "tb_lastRefill tb \<le> now" and "tb_tokens (refillTokens tb now) = Fin u"
  shows "tb_tokens (bucket_step x tb) = Fin (u - of_nat (admits x tb)) \<and> bucket_ok (bucket_step x tb)"
proof -
  have "bucket_call_ok x tb" using assms(2,3) by (cases x) simp_all
  then have "bucket_ok (bucket_step x tb)" using assms(1) by (intro bucket.inv_step)
  moreover have "tb_tokens (bucket_step x tb) = Fin (u - of_nat (admits x tb))"
    using take_token [OF refill_keeps [OF assms(1,3)]] assms(2,4)
    by (cases x) (auto simp: Allow_def Reserve_def Stats_def Let_def)
  ultimately show ?thesis by blast
qed

lemma admitted_bound:
  assumes "bucket_ok tb" and "map clock_of xs = map Some ts" and "sorted (tb_lastRefill tb # ts)"
    and "tb_tokens tb = Fin t" and "tb_refillRate tb = Fin r" and "tb_maxTokens tb = Fin (of_int b)" and "1 \<le> b"
  shows "of_nat (admitted xs tb) \<le> t + yield_of r (last (tb_lastRefill tb # ts) - tb_lastRefill tb)
    + of_nat (length ts) * call_error b"
  using assms
proof (induction xs arbitrary: tb t ts)
  case Nil
  then show ?case by (auto simp: bucket_ok_def)
next
  case (Cons x xs)
  then obtain now us where ts: "ts = now # us" "clock_of x = Some now" "map clock_of xs = map Some us"
    by (cases ts) simp_all
  let ?tb = "bucket_step x tb" and ?k = "of_nat (admits x tb) :: rat"
  have le: "tb_lastRefill tb \<le> now" using Cons.prems(3) by (simp add: ts)
  from refill_bound [OF Cons.prems(1) le Cons.prems(4-7)] obtain u where
    u: "tb_tokens (refillTokens tb now) = Fin u" "u \<le> t + yield_of r (now - tb_lastRefill tb) + call_error b" by blast
  have "of_nat (admitted xs ?tb) \<le> (u - ?k) + yield_of r (last (tb_lastRefill ?tb # us) - tb_lastRefill ?tb)
      + of_nat (length us) * call_error b"
    using Cons.prems step_spends [OF Cons.prems(1) ts(2) le u(1)]
    by (intro Cons.IH ts(3)) (simp_all add: step_frame [OF ts(2)] ts(1))
  moreover have "yield_of r (now - tb_lastRefill tb) + yield_of r (last (now # us) - now)
      = yield_of r (last (now # us) - tb_lastRefill tb)" by simp
  moreover have "of_nat (admitted (x # xs) tb) = ?k + of_nat (admitted xs ?tb)" by simp
  moreover have "of_nat (length ts) * call_error b = call_error b + of_nat (length us) * call_error b"
    by (simp add: distrib_right ts(1))
  moreover have "last (tb_lastRefill tb # ts) = last (now # us)" by (simp add: ts(1))
  ultimately show ?case using u(2) by (simp only: step_frame [OF ts(2)])
qed



end
