(* ===== verification/Reliability.thy ===== *)
theory Reliability
  imports CircuitBreaker RetryProps RateLimiter
begin

text \<open>
  \<open>internal/reliability/reliability_integration_example.go\<close>: the retryer around the rate limiter
  around the circuit breaker. The limiter is an interface value there, so its \<open>Wait\<close> is an argument.
  The world holds the shared breaker beside the rest, \<open>'v\<close>. The wrapped function returns (a panic
  would pass through all three layers; the breaker's part of that is in \<open>Execute\<close>).
\<close>

definition cloudflare_trip :: "Counts \<Rightarrow> bool" where
  "cloudflare_trip counts \<longleftrightarrow> 5 \<le> Requests counts \<and> f64_of_rat (3/5) \<le> FailureRate counts"

definition cloudflare_breaker_config :: CircuitBreakerConfig where
  "cloudflare_breaker_config = \<lparr>cbName = ''cloudflare-api'', cbMaxRequests = 3,
     cbInterval = 60 * Second, cbTimeout = 30 * Second, cbReadyToTrip = Some cloudflare_trip,
     cbOnStateChange = False, cbIsSuccessful = None\<rparr>"

record ReliabilityComponents =
  rc_CircuitBreaker :: CircuitBreaker
  rc_Retryer :: Retryer
  rc_RateLimiter :: TokenBucketLimiter

definition NewReliabilityComponents :: "gotime \<Rightarrow> gotime \<Rightarrow> ReliabilityComponents" where
  "NewReliabilityComponents now1 now2 =
     \<lparr>rc_CircuitBreaker = NewCircuitBreaker cloudflare_breaker_config now1,
      rc_Retryer = NewRetryer CloudflareRetryConfig,
      rc_RateLimiter = NewRateLimiter CloudflareRateLimiterConfig now2\<rparr>"

type_synonym 'v shared = "CircuitBreaker \<times> 'v"

definition guarded_call ::
  "('v \<Rightarrow> gotime) \<Rightarrow> ('v shared \<Rightarrow> go_error option \<times> 'v shared)
     \<Rightarrow> ('v shared \<Rightarrow> go_error option \<times> 'v shared) \<Rightarrow> 'v shared \<Rightarrow> go_error option \<times> 'v shared" where
  "guarded_call clock limiter_wait fn s =
     (let (err, s1) = limiter_wait s in
      case err of
        Some e \<Rightarrow> (Some e, s1)
      | None \<Rightarrow>
          (case Execute clock (\<lambda>s. let (r, s') = fn s in (Returned r, s')) s1 of
             (Returned r, s2) \<Rightarrow> (r, s2)
           | (Panicked p, s2) \<Rightarrow> (Some (ErrNew p), s2)))"

definition ExecuteWithReliability ::
  "'v shared retry_env \<Rightarrow> ('v \<Rightarrow> gotime) \<Rightarrow> ('v shared \<Rightarrow> go_error option \<times> 'v shared) \<Rightarrow> Retryer
     \<Rightarrow> string \<Rightarrow> ('v shared \<Rightarrow> go_error option \<times> 'v shared) \<Rightarrow> 'v shared
     \<Rightarrow> go_error option \<times> 'v shared \<times> retry_event list" where
  "ExecuteWithReliability env clock limiter_wait retryer operation fn s =
     Retry_run env retryer operation (guarded_call clock limiter_wait fn) s"

section \<open>What the composition guarantees\<close>

text \<open>The loop runs the same when two functions agree on the worlds it can reach.\<close>

lemma retry_loop_cong:
  assumes "\<And>s. I s \<Longrightarrow> fn s = gn s \<and> I (snd (fn s))"
    and "\<And>s. I s \<Longrightarrow> I (snd (env_rand env s))" and "\<And>d s. I s \<Longrightarrow> I (snd (env_wait env d s))"
  shows "I w \<Longrightarrow> retry_loop env cfg op fn t attempt le w = retry_loop env cfg op gn t attempt le w"
proof (induction "nat (rtMaxRetries cfg + 1 - attempt)" arbitrary: attempt le w)
  case 0
  then show ?case by (simp add: retry_loop.simps)
next
  case (Suc n)
  then have le: "attempt \<le> rtMaxRetries cfg" by linarith
  obtain res w1 where fn: "fn w = (res, w1)" by (metis surj_pair)
  have gn: "gn w = (res, w1)" and w1: "I w1" using assms(1) [OF Suc.prems] fn by auto
  obtain r w2 where rw: "(if rtJitter cfg then env_rand env w1 else (Fin 0, w1)) = (r, w2)"
    by (metis surj_pair)
  then have w2: "I w2" using assms(2) [OF w1] w1 by (auto split: if_splits)
  obtain d w3 where dw: "env_wait env (calculateDelay cfg (attempt + 1) r) w2 = (d, w3)"
    by (metis surj_pair)
  then have w3: "I w3" using assms(3) [OF w2] by (metis snd_conv)
  have "n = nat (rtMaxRetries cfg + 1 - (attempt + 1))" using Suc.hyps(2) by linarith
  note IH = Suc.hyps(1) [OF this w3]
  show ?case
    using le fn gn rw dw IH
    unfolding retry_loop.simps [of env cfg op fn t attempt le] retry_loop.simps [of env cfg op gn t attempt le]
    by (auto simp: Let_def split: option.splits)
qed

definition shielded :: "('v \<Rightarrow> gotime) \<Rightarrow> 'v shared \<Rightarrow> bool" where
  "shielded clock s \<longleftrightarrow> cb_state (fst s) = StateOpen \<and> clock (snd s) \<le> cb_expiry (fst s)"

lemma shielded_Execute:
  "shielded clock s \<Longrightarrow> fst (Execute clock fn s) = Returned (Some ErrCircuitBreakerOpen)
     \<and> snd (Execute clock fn s) = snd (Execute clock gn s) \<and> shielded clock (snd (Execute clock fn s))"
  by (cases s, cases rule: currentState_cases [of "fst s" "clock (snd s)"])
    (auto simp: shielded_def Execute_def beforeRequest_def Let_def)

lemma shielded_call:
  assumes "shielded clock (snd (limiter_wait s))"
  shows "guarded_call clock limiter_wait fn s = guarded_call clock limiter_wait gn s
    \<and> shielded clock (snd (guarded_call clock limiter_wait fn s))
    \<and> fst (guarded_call clock limiter_wait fn s)
        = (case fst (limiter_wait s) of Some e \<Rightarrow> Some e | None \<Rightarrow> Some ErrCircuitBreakerOpen)"
proof -
  obtain err s1 where w: "limiter_wait s = (err, s1)" by (metis surj_pair)
  let ?f = "\<lambda>s. let (r, s') = fn s in (Returned r, s')" and ?g = "\<lambda>s. let (r, s') = gn s in (Returned r, s')"
  have "shielded clock s1" using assms w by simp
  from shielded_Execute [OF this, of ?f ?g] shielded_Execute [OF this, of ?g ?f] show ?thesis
    using w \<open>shielded clock s1\<close>
    by (cases err; cases "Execute clock ?f s1"; cases "Execute clock ?g s1") (auto simp: guarded_call_def)
qed

text \<open>C26: While the breaker stays open, the wrapped function is never run, however often the retryer
  tries: the result, the final world and the recorded events do not depend on it, provided that
  neither the limiter nor the waits outlast the breaker's timeout.\<close>

theorem open_breaker_shields_retries:
  assumes "shielded clock s" and "\<forall>u. shielded clock u \<longrightarrow> shielded clock (snd (limiter_wait u))"
    and "\<forall>u. shielded clock u \<longrightarrow> shielded clock (snd (env_rand env u))"
    and "\<forall>d u. shielded clock u \<longrightarrow> shielded clock (snd (env_wait env d u))"
  shows "ExecuteWithReliability env clock limiter_wait retryer op fn s
       = ExecuteWithReliability env clock limiter_wait retryer op gn s"
proof -
  have step: "guarded_call clock limiter_wait fn u = guarded_call clock limiter_wait gn u
      \<and> shielded clock (snd (guarded_call clock limiter_wait fn u))" if "shielded clock u" for u
    using shielded_call [of clock limiter_wait u fn gn] assms(2) that by blast
  show ?thesis
    unfolding ExecuteWithReliability_def Retry_run_def
    by (rule retry_loop_cong [where I = "shielded clock", OF step _ _ assms(1)])
      (use assms(3,4) in \<open>simp_all del: split_paired_All\<close>)
qed

text \<open>An operation that always fails with the same retryable error uses up the budget.\<close>

lemma persistent_failure:
  assumes "\<And>u. I u \<Longrightarrow> \<exists>u'. fn u = (Some e, u') \<and> I u'"
    and "\<And>u. I u \<Longrightarrow> I (snd (env_rand env u))"
    and "\<And>d u. I u \<Longrightarrow> fst (env_wait env d u) = None \<and> I (snd (env_wait env d u))"
    and "\<And>u. I u \<Longrightarrow> env_ctx_err env u = None"
    and "the (rtRetryableChecker cfg) (Some e)"
  shows "attempt \<le> rtMaxRetries cfg \<Longrightarrow> I w \<Longrightarrow>
    \<exists>v es. retry_loop env cfg op fn t attempt le w
        = (Some (exhausted_error (rtMaxRetries cfg) (Some e)), v, es)
      \<and> attempt_labels es
          = map (\<lambda>i. show_int (attempt + int i)) [0..<Suc (nat (rtMaxRetries cfg - attempt))]"
proof (induction "nat (rtMaxRetries cfg - attempt)" arbitrary: attempt le w)
  case 0
  obtain w1 where fn: "fn w = (Some e, w1)" using assms(1) 0 by blast
  have at: "attempt = rtMaxRetries cfg" using 0 by simp
  show ?case
    by (subst retry_loop.simps) (simp add: at fn assms(5) Let_def retry_give_up_def after_events_def)
next
  case (Suc n)
  obtain w1 where fn: "fn w = (Some e, w1)" and w1: "I w1" using assms(1) Suc.prems(2) by blast
  obtain r w2 where rw: "(if rtJitter cfg then env_rand env w1 else (Fin 0, w1)) = (r, w2)"
    by (metis surj_pair)
  then have w2: "I w2" using assms(2) [OF w1] w1 by (auto split: if_splits)
  obtain w3 where dw: "env_wait env (calculateDelay cfg (attempt + 1) r) w2 = (None, w3)" and w3: "I w3"
    using assms(3) [OF w2] by (metis prod.collapse)
  have lt: "attempt < rtMaxRetries cfg" using Suc.hyps(2) by linarith
  have n: "n = nat (rtMaxRetries cfg - (attempt + 1))" using Suc.hyps(2) by linarith
  have m: "nat (rtMaxRetries cfg - attempt) = Suc n" using Suc.hyps(2) by simp
  from Suc.hyps(1) [OF n _ w3, of "Some e"] lt obtain v es where IH:
    "retry_loop env cfg op fn t (attempt + 1) (Some e) w3
        = (Some (exhausted_error (rtMaxRetries cfg) (Some e)), v, es)"
    "attempt_labels es = map (\<lambda>i. show_int (attempt + 1 + int i)) [0..<Suc n]"
    unfolding n [symmetric] by auto
  have labels: "show_int attempt # map (\<lambda>i. show_int (attempt + 1 + int i)) [0..<Suc n]
      = map (\<lambda>i. show_int (attempt + int i)) [0..<Suc (Suc n)]"
    by (subst map_upt_Suc [of _ "Suc n"]) (simp add: ac_simps del: upt_Suc)
  show ?case
    unfolding m labels [symmetric]
    using lt fn rw dw IH assms(4) [OF w1] assms(5)
    by (subst retry_loop.simps) (auto simp: Let_def after_events_def simp del: upt_Suc)
qed

lemma open_is_retryable: "cloudflareRetryable (Some ErrCircuitBreakerOpen)"
  by code_simp

text \<open>The Cloudflare retryer treats an open breaker as a transient error: with the limiter letting
  it through and the breaker open throughout, a call burns its whole budget of four attempts (and
  so four tokens of the limiter) before it reports that the breaker is open.\<close>

theorem open_breaker_is_retried:
  assumes "shielded clock s"
    and "\<forall>u. shielded clock u \<longrightarrow> fst (limiter_wait u) = None \<and> shielded clock (snd (limiter_wait u))"
    and "\<forall>u. shielded clock u \<longrightarrow> shielded clock (snd (env_rand env u))"
    and "\<forall>d u. shielded clock u \<longrightarrow> fst (env_wait env d u) = None \<and> shielded clock (snd (env_wait env d u))"
    and "\<forall>u. shielded clock u \<longrightarrow> env_ctx_err env u = None"
  shows "\<exists>v es. ExecuteWithReliability env clock limiter_wait (NewRetryer CloudflareRetryConfig) op fn s
      = (Some (exhausted_error 3 (Some ErrCircuitBreakerOpen)), v, es)
    \<and> attempt_labels es = [''0'', ''1'', ''2'', ''3'']"
proof -
  let ?cfg = "rt_defaults CloudflareRetryConfig"
  have cfg: "rtMaxRetries ?cfg = 3" "rtRetryableChecker ?cfg = Some cloudflareRetryable"
    by (simp_all add: rt_defaults_def CloudflareRetryConfig_def f64_eq_def)
  have call: "shielded clock u \<Longrightarrow> \<exists>u'. guarded_call clock limiter_wait fn u = (Some ErrCircuitBreakerOpen, u')
      \<and> shielded clock u'" for u
    using shielded_call [of clock limiter_wait u fn fn] assms(2)
    by (cases "guarded_call clock limiter_wait fn u") auto
  have "\<exists>v es. retry_loop env ?cfg op (guarded_call clock limiter_wait fn) (env_now env s) 0 None s
      = (Some (exhausted_error 3 (Some ErrCircuitBreakerOpen)), v, es)
    \<and> attempt_labels es = map (\<lambda>i. show_int (0 + int i)) [0..<Suc (nat (3 - 0))]"
    unfolding cfg(1) [symmetric]
    by (rule persistent_failure [where I = "shielded clock"])
      (use assms call cfg open_is_retryable in auto)
  moreover have "map (\<lambda>i. show_int (0 + int i)) [0..<Suc (nat (3 - 0))] = [''0'', ''1'', ''2'', ''3'']"
    by code_simp
  ultimately show ?thesis
    by (auto simp: ExecuteWithReliability_def Retry_run_def NewRetryer_def)
qed

section \<open>Witnesses\<close>

text \<open>A world whose clock stands still while the breaker is open until 100.\<close>

definition still_env :: "unit shared retry_env" where
  "still_env = \<lparr>env_now = (\<lambda>_. 50), env_ctx_err = (\<lambda>_. None), env_rand = (\<lambda>s. (Fin 0, s)),
     env_wait = (\<lambda>d s. (None, s))\<rparr>"

definition open_breaker :: CircuitBreaker where
  "open_breaker = (NewCircuitBreaker cloudflare_breaker_config 1)\<lparr>cb_state := StateOpen, cb_expiry := 100\<rparr>"

lemma open_breaker_shielded: "shielded (\<lambda>_. 50) (open_breaker, ())"
  by (simp add: shielded_def open_breaker_def)

theorem open_breaker_shields_retries_witness:
  "ExecuteWithReliability still_env (\<lambda>_. 50) (\<lambda>s. (None, s)) (NewRetryer DefaultRetryConfig) ''dns''
      (\<lambda>s. (None, s)) (open_breaker, ())
   = ExecuteWithReliability still_env (\<lambda>_. 50) (\<lambda>s. (None, s)) (NewRetryer DefaultRetryConfig) ''dns''
      (\<lambda>s. (Some CtxCanceled, s)) (open_breaker, ())"
  by (rule open_breaker_shields_retries [OF open_breaker_shielded]) (simp_all add: still_env_def)

theorem open_breaker_is_retried_witness:
  "\<exists>v es. ExecuteWithReliability still_env (\<lambda>_. 50) (\<lambda>s. (None, s)) (NewRetryer CloudflareRetryConfig)
      ''dns'' (\<lambda>s. (None, s)) (open_breaker, ())
    = (Some (exhausted_error 3 (Some ErrCircuitBreakerOpen)), v, es)
   \<and> attempt_labels es = [''0'', ''1'', ''2'', ''3'']"
  by (rule open_breaker_is_retried [OF open_breaker_shielded]) (simp_all add: still_env_def)

end
