(* ===== verification/Metrics.thy ===== *)
theory Metrics
  imports GoRuntime
begin

text \<open>
  The Prometheus collectors of \<open>internal/metrics\<close> and the methods that record on them and read them back.
  A method that records is the list of the calls it makes; a method that reads takes the calls made so far.
  The Prometheus library is reached through \<open>metric_store\<close>: the value of a gauge is the last one set, the value
  of a counter is the number of its increments, and both are 0 before that.
\<close>

section \<open>Collectors\<close>

datatype buckets = Buckets "rat list" | DefBuckets

datatype collector_kind = CounterVec | GaugeVec | HistogramVec buckets

datatype collector = Collector (col_kind: collector_kind) (col_name: string) (col_labels: "string list")

definition gauge_set :: "collector \<Rightarrow> string list \<Rightarrow> f64 \<Rightarrow> metric_op" where
  "gauge_set c ls v = MetricSet (col_name c) ls v"

definition counter_inc :: "collector \<Rightarrow> string list \<Rightarrow> metric_op" where
  "counter_inc c ls = MetricInc (col_name c) ls"

definition histogram_observe :: "collector \<Rightarrow> string list \<Rightarrow> f64 \<Rightarrow> metric_op" where
  "histogram_observe c ls v = MetricObserve (col_name c) ls v"

definition one_if :: "bool \<Rightarrow> f64" where
  "one_if b = (if b then Fin 1 else Fin 0)"

text \<open>
  \<open>WithLabelValues\<close> panics unless it gets one value per label, and a name can be registered only once. A call
  is in order when its collector is registered, has its kind and as many labels.
\<close>

definition call_fits :: "metric_op \<Rightarrow> collector \<Rightarrow> bool" where
  "call_fits x c \<longleftrightarrow>
     (case x of
        MetricInc n ls \<Rightarrow> n = col_name c \<and> length ls = length (col_labels c) \<and> col_kind c = CounterVec
      | MetricSet n ls _ \<Rightarrow> n = col_name c \<and> length ls = length (col_labels c) \<and> col_kind c = GaugeVec
      | MetricObserve n ls _ \<Rightarrow> n = col_name c \<and> length ls = length (col_labels c)
          \<and> (case col_kind c of HistogramVec _ \<Rightarrow> True | _ \<Rightarrow> False))"

definition call_ok :: "collector list \<Rightarrow> metric_op \<Rightarrow> bool" where
  "call_ok cs x \<longleftrightarrow> list_ex (call_fits x) cs"

section \<open>What the library keeps\<close>

definition sets_gauge :: "string \<Rightarrow> string list \<Rightarrow> metric_op \<Rightarrow> bool" where
  "sets_gauge n ls x \<longleftrightarrow> (case x of MetricSet n' ls' _ \<Rightarrow> n' = n \<and> ls' = ls | _ \<Rightarrow> False)"

locale metric_store =
  fixes record_op :: "metric_op \<Rightarrow> 'r \<Rightarrow> 'r"
    and gauge :: "'r \<Rightarrow> string \<Rightarrow> string list \<Rightarrow> f64"
    and incs :: "'r \<Rightarrow> string \<Rightarrow> string list \<Rightarrow> nat"
  assumes gauge_hit: "gauge (record_op (MetricSet n ls v) r) n ls = v"
    and gauge_miss: "\<not> sets_gauge n ls x \<Longrightarrow> gauge (record_op x r) n ls = gauge r n ls"
    and incs_record: "incs (record_op x r) n ls = (if x = MetricInc n ls then Suc (incs r n ls) else incs r n ls)"
begin

lemma gauge_untouched:
  "\<forall>x \<in> set xs. \<not> sets_gauge n ls x \<Longrightarrow> gauge (fold record_op xs r) n ls = gauge r n ls"
  by (induction xs arbitrary: r) (simp_all add: gauge_miss)

lemma gauge_reads_last:
  "\<forall>x \<in> set ys. \<not> sets_gauge n ls x \<Longrightarrow> gauge (fold record_op (xs @ MetricSet n ls v # ys) r) n ls = v"
  by (simp add: gauge_untouched gauge_hit)

lemma incs_fold: "incs (fold record_op xs r) n ls = incs r n ls + count_list xs (MetricInc n ls)"
  by (induction xs arbitrary: r) (simp_all add: incs_record)

end

text \<open>The calls made so far, oldest first.\<close>

definition gauge_of :: "metric_op list \<Rightarrow> string \<Rightarrow> string list \<Rightarrow> f64" where
  "gauge_of calls n ls =
     foldl (\<lambda>v x. case x of MetricSet n' ls' v' \<Rightarrow> if n' = n \<and> ls' = ls then v' else v | _ \<Rightarrow> v) (Fin 0) calls"

definition counter_of :: "metric_op list \<Rightarrow> string \<Rightarrow> string list \<Rightarrow> f64" where
  "counter_of calls n ls = f64_of_int (int (count_list calls (MetricInc n ls)))"

interpretation call_log: metric_store "\<lambda>x calls. calls @ [x]" gauge_of "\<lambda>calls n ls. count_list calls (MetricInc n ls)"
  by unfold_locales (auto simp: gauge_of_def sets_gauge_def split: metric_op.splits)

lemma fold_snoc: "fold (\<lambda>x calls. calls @ [x]) xs calls = calls @ xs"
  by (induction xs arbitrary: calls) simp_all

lemmas gauge_log = call_log.gauge_untouched [unfolded fold_snoc]
lemmas gauge_log_last = call_log.gauge_reads_last [where r = "[]", unfolded fold_snoc append_Nil]

section \<open>Business metrics\<close>

text \<open>The collectors of \<open>internal/metrics/business.go\<close>.\<close>

definition dnsRecordsByType :: collector where
  "dnsRecordsByType = Collector GaugeVec
     ''cloudflare_dns_records_by_type_total'' [''record_type'', ''zone_name'', ''zone_id'']"

definition dnsRecordsByStatus :: collector where
  "dnsRecordsByStatus = Collector GaugeVec
     ''cloudflare_dns_records_by_status_total'' [''status'', ''zone_name'', ''zone_id'']"

definition zoneHealthStatus :: collector where
  "zoneHealthStatus = Collector GaugeVec
     ''cloudflare_zone_health_status'' [''zone_id'', ''zone_name'', ''health_check'']"

definition reconciliationHealth :: collector where
  "reconciliationHealth = Collector GaugeVec
     ''cloudflare_reconciliation_health'' [''controller'', ''namespace'', ''resource_type'']"

definition dnsPropagationTime :: collector where
  "dnsPropagationTime = Collector (HistogramVec (Buckets [1, 5, 10, 30, 60, 180, 300, 600]))
     ''cloudflare_dns_propagation_time_seconds'' [''record_type'', ''zone_id'', ''operation'']"

definition crdResourceStatus :: collector where
  "crdResourceStatus = Collector GaugeVec
     ''cloudflare_crd_resources_total'' [''namespace'', ''status'', ''record_type'']"

definition operatorUptime :: collector where
  "operatorUptime = Collector GaugeVec ''cloudflare_operator_uptime_seconds'' [''version'', ''namespace'']"

definition configurationValidity :: collector where
  "configurationValidity = Collector GaugeVec
     ''cloudflare_configuration_validity'' [''config_type'', ''namespace'']"

definition reconcileSuccessRate :: collector where
  "reconcileSuccessRate = Collector GaugeVec
     ''cloudflare_reconcile_success_rate'' [''controller'', ''namespace'', ''time_window'']"

definition averageResponseTime :: collector where
  "averageResponseTime = Collector GaugeVec
     ''cloudflare_average_response_time_seconds'' [''operation_type'', ''time_window'']"

definition errorBudgetRemaining :: collector where
  "errorBudgetRemaining = Collector GaugeVec
     ''cloudflare_error_budget_remaining_percent'' [''slo_name'', ''time_window'']"

definition business_collectors :: "collector list" where
  "business_collectors =
     [dnsRecordsByType, dnsRecordsByStatus, zoneHealthStatus, reconciliationHealth,
      dnsPropagationTime, crdResourceStatus, operatorUptime, configurationValidity,
      reconcileSuccessRate, averageResponseTime, errorBudgetRemaining]"

definition UpdateDNSRecordsByType :: "string \<Rightarrow> string \<Rightarrow> string \<Rightarrow> f64 \<Rightarrow> metric_op list" where
  "UpdateDNSRecordsByType recordType zoneName zoneID n = [gauge_set dnsRecordsByType [recordType, zoneName, zoneID] n]"

definition UpdateDNSRecordsByStatus :: "string \<Rightarrow> string \<Rightarrow> string \<Rightarrow> f64 \<Rightarrow> metric_op list" where
  "UpdateDNSRecordsByStatus status zoneName zoneID n = [gauge_set dnsRecordsByStatus [status, zoneName, zoneID] n]"

definition UpdateZoneHealth :: "string \<Rightarrow> string \<Rightarrow> string \<Rightarrow> bool \<Rightarrow> metric_op list" where
  "UpdateZoneHealth zoneID zoneName healthCheck healthy = [gauge_set zoneHealthStatus [zoneID, zoneName, healthCheck] (one_if healthy)]"

definition UpdateReconciliationHealth :: "string \<Rightarrow> string \<Rightarrow> string \<Rightarrow> bool \<Rightarrow> metric_op list" where
  "UpdateReconciliationHealth controller namespace resourceType healthy = 
     [gauge_set reconciliationHealth [controller, namespace, resourceType] (one_if healthy)]"

definition ObserveDNSPropagationTime :: "string \<Rightarrow> string \<Rightarrow> string \<Rightarrow> f64 \<Rightarrow> metric_op list" where
  "ObserveDNSPropagationTime recordType zoneID operation seconds = 
     [histogram_observe dnsPropagationTime [recordType, zoneID, operation] seconds]"

definition UpdateCRDResourceStatus :: "string \<Rightarrow> string \<Rightarrow> string \<Rightarrow> f64 \<Rightarrow> metric_op list" where
  "UpdateCRDResourceStatus namespace status recordType n = [gauge_set crdResourceStatus [namespace, status, recordType] n]"

definition UpdateOperatorUptime :: "string \<Rightarrow> string \<Rightarrow> f64 \<Rightarrow> metric_op list" where
  "UpdateOperatorUptime version namespace seconds = [gauge_set operatorUptime [version, namespace] seconds]"

definition UpdateConfigurationValidity :: "string \<Rightarrow> string \<Rightarrow> bool \<Rightarrow> metric_op list" where
  "UpdateConfigurationValidity configType namespace valid = 
     [gauge_set configurationValidity [configType, namespace] (one_if valid)]"

definition UpdateReconcileSuccessRate :: "string \<Rightarrow> string \<Rightarrow> string \<Rightarrow> f64 \<Rightarrow> metric_op list" where
  "UpdateReconcileSuccessRate controller namespace timeWindow rate = 
     [gauge_set reconcileSuccessRate [controller, namespace, timeWindow] rate]"

definition UpdateAverageResponseTime :: "string \<Rightarrow> string \<Rightarrow> f64 \<Rightarrow> metric_op list" where
  "UpdateAverageResponseTime operationType timeWindow seconds = 
     [gauge_set averageResponseTime [operationType, timeWindow] seconds]"

definition UpdateErrorBudgetRemaining :: "string \<Rightarrow> string \<Rightarrow> f64 \<Rightarrow> metric_op list" where
  "UpdateErrorBudgetRemaining sloName timeWindow percent = 
     [gauge_set errorBudgetRemaining [sloName, timeWindow] percent]"

definition GetDNSRecordsByType :: "metric_op list \<Rightarrow> string \<Rightarrow> string \<Rightarrow> string \<Rightarrow> f64" where
  "GetDNSRecordsByType calls recordType zoneName zoneID = 
     gauge_of calls (col_name dnsRecordsByType) [recordType, zoneName, zoneID]"

definition GetCRDResourceStatus :: "metric_op list \<Rightarrow> string \<Rightarrow> string \<Rightarrow> string \<Rightarrow> f64" where
  "GetCRDResourceStatus calls namespace status recordType = 
     gauge_of calls (col_name crdResourceStatus) [namespace, status, recordType]"

definition GetReconcileSuccessRate :: "metric_op list \<Rightarrow> string \<Rightarrow> string \<Rightarrow> string \<Rightarrow> f64" where
  "GetReconcileSuccessRate calls controller namespace timeWindow = 
     gauge_of calls (col_name reconcileSuccessRate) [controller, namespace, timeWindow]"

definition IsZoneHealthy :: "metric_op list \<Rightarrow> string \<Rightarrow> string \<Rightarrow> string \<Rightarrow> bool" where
  "IsZoneHealthy calls zoneID zoneName healthCheck = 
     f64_eq (gauge_of calls (col_name zoneHealthStatus) [zoneID, zoneName, healthCheck]) (Fin 1)"

definition IsReconciliationHealthy :: "metric_op list \<Rightarrow> string \<Rightarrow> string \<Rightarrow> string \<Rightarrow> bool" where
  "IsReconciliationHealthy calls controller namespace resourceType = 
     f64_eq (gauge_of calls (col_name reconciliationHealth) [controller, namespace, resourceType]) (Fin 1)"

section \<open>Cloudflare API metrics\<close>

text \<open>The collectors of \<open>internal/metrics/cloudflare.go\<close>.\<close>

definition cloudflareAPIRequestsTotal :: collector where
  "cloudflareAPIRequestsTotal = Collector CounterVec
     ''cloudflare_api_requests_total'' [''method'', ''endpoint'', ''status'', ''zone_id'']"

definition cloudflareAPIResponseTime :: collector where
  "cloudflareAPIResponseTime = Collector (HistogramVec (Buckets [1/10, 1/4, 1/2, 1, 5/2, 5, 10]))
     ''cloudflare_api_response_time_seconds'' [''method'', ''endpoint'', ''status'', ''zone_id'']"

definition cloudflareAPIRateLimitRemaining :: collector where
  "cloudflareAPIRateLimitRemaining = Collector GaugeVec
     ''cloudflare_api_rate_limit_remaining'' [''endpoint'']"

definition cloudflareAPIRateLimitTotal :: collector where
  "cloudflareAPIRateLimitTotal = Collector GaugeVec ''cloudflare_api_rate_limit_total'' [''endpoint'']"

definition cloudflareAPIErrorsTotal :: collector where
  "cloudflareAPIErrorsTotal = Collector CounterVec
     ''cloudflare_api_errors_total'' [''method'', ''endpoint'', ''error_type'', ''zone_id'']"

definition cloudflareDNSRecordsManagedTotal :: collector where
  "cloudflareDNSRecordsManagedTotal = Collector GaugeVec
     ''cloudflare_dns_records_managed_total'' [''zone_id'', ''zone_name'', ''record_type'']"

definition cloudflareZonesManagedTotal :: collector where
  "cloudflareZonesManagedTotal = Collector GaugeVec
     ''cloudflare_zones_managed_total'' [''zone_name'', ''plan_type'']"

definition cloudflareDNSRecordOperationsTotal :: collector where
  "cloudflareDNSRecordOperationsTotal = Collector CounterVec
     ''cloudflare_dns_record_operations_total'' [''operation'', ''record_type'', ''zone_id'', ''result'']"

definition cloudflareOperationDuration :: collector where
  "cloudflareOperationDuration = Collector (HistogramVec (Buckets [1/10, 1/4, 1/2, 1, 5/2, 5, 10, 30]))
     ''cloudflare_operation_duration_seconds'' [''operation'', ''zone_id'', ''result'']"

definition cloudflareZoneStatus :: collector where
  "cloudflareZoneStatus = Collector GaugeVec
     ''cloudflare_zone_status'' [''zone_id'', ''zone_name'', ''status'']"

definition cloudflare_collectors :: "collector list" where
  "cloudflare_collectors =
     [cloudflareAPIRequestsTotal, cloudflareAPIResponseTime, cloudflareAPIRateLimitRemaining,
      cloudflareAPIRateLimitTotal, cloudflareAPIErrorsTotal, cloudflareDNSRecordsManagedTotal,
      cloudflareZonesManagedTotal, cloudflareDNSRecordOperationsTotal,
      cloudflareOperationDuration, cloudflareZoneStatus]"

definition RecordAPIRequest :: "string \<Rightarrow> string \<Rightarrow> string \<Rightarrow> string \<Rightarrow> duration \<Rightarrow> metric_op list" where
  "RecordAPIRequest httpMethod endpoint status zoneID duration = 
     [counter_inc cloudflareAPIRequestsTotal [httpMethod, endpoint, status, zoneID],
      histogram_observe cloudflareAPIResponseTime [httpMethod, endpoint, status, zoneID] (dur_Seconds duration)]"

definition RecordAPIError :: "string \<Rightarrow> string \<Rightarrow> string \<Rightarrow> string \<Rightarrow> metric_op list" where
  "RecordAPIError httpMethod endpoint errorType zoneID = 
     [counter_inc cloudflareAPIErrorsTotal [httpMethod, endpoint, errorType, zoneID]]"

definition UpdateRateLimit :: "string \<Rightarrow> f64 \<Rightarrow> f64 \<Rightarrow> metric_op list" where
  "UpdateRateLimit endpoint remaining limit = 
     [gauge_set cloudflareAPIRateLimitRemaining [endpoint] remaining,
      gauge_set cloudflareAPIRateLimitTotal [endpoint] limit]"

definition UpdateManagedRecords :: "string \<Rightarrow> string \<Rightarrow> string \<Rightarrow> f64 \<Rightarrow> metric_op list" where
  "UpdateManagedRecords zoneID zoneName recordType n = 
     [gauge_set cloudflareDNSRecordsManagedTotal [zoneID, zoneName, recordType] n]"

definition UpdateManagedZones :: "string \<Rightarrow> string \<Rightarrow> f64 \<Rightarrow> metric_op list" where
  "UpdateManagedZones zoneName planType n = [gauge_set cloudflareZonesManagedTotal [zoneName, planType] n]"

definition RecordDNSOperation :: "string \<Rightarrow> string \<Rightarrow> string \<Rightarrow> string \<Rightarrow> metric_op list" where
  "RecordDNSOperation operation recordType zoneID result = 
     [counter_inc cloudflareDNSRecordOperationsTotal [operation, recordType, zoneID, result]]"

definition ObserveOperationDuration :: "string \<Rightarrow> string \<Rightarrow> string \<Rightarrow> duration \<Rightarrow> metric_op list" where
  "ObserveOperationDuration operation zoneID result duration = 
     [histogram_observe cloudflareOperationDuration [operation, zoneID, result] (dur_Seconds duration)]"

definition UpdateZoneStatus :: "string \<Rightarrow> string \<Rightarrow> string \<Rightarrow> bool \<Rightarrow> metric_op list" where
  "UpdateZoneStatus zoneID zoneName status active = 
     [gauge_set cloudflareZoneStatus [zoneID, zoneName, status] (one_if active)]"

definition GetAPIRequestCount :: "metric_op list \<Rightarrow> string \<Rightarrow> string \<Rightarrow> string \<Rightarrow> string \<Rightarrow> f64" where
  "GetAPIRequestCount calls httpMethod endpoint status zoneID = 
     counter_of calls (col_name cloudflareAPIRequestsTotal) [httpMethod, endpoint, status, zoneID]"

definition GetManagedRecordsCount :: "metric_op list \<Rightarrow> string \<Rightarrow> string \<Rightarrow> string \<Rightarrow> f64" where
  "GetManagedRecordsCount calls zoneID zoneName recordType = 
     gauge_of calls (col_name cloudflareDNSRecordsManagedTotal) [zoneID, zoneName, recordType]"

record APICallTimer =
  at_method :: string
  at_endpoint :: string
  at_zoneID :: string
  at_start :: gotime

definition NewAPICallTimer :: "string \<Rightarrow> string \<Rightarrow> string \<Rightarrow> gotime \<Rightarrow> APICallTimer" where
  "NewAPICallTimer httpMethod endpoint zoneID now =
     \<lparr>at_method = httpMethod, at_endpoint = endpoint, at_zoneID = zoneID, at_start = now\<rparr>"

definition RecordSuccess :: "APICallTimer \<Rightarrow> gotime \<Rightarrow> metric_op list" where
  "RecordSuccess t now =
     RecordAPIRequest (at_method t) (at_endpoint t) ''success'' (at_zoneID t) (time_sub now (at_start t))"

definition RecordError :: "APICallTimer \<Rightarrow> string \<Rightarrow> gotime \<Rightarrow> metric_op list" where
  "RecordError t errorType now =
     RecordAPIRequest (at_method t) (at_endpoint t) ''error'' (at_zoneID t) (time_sub now (at_start t))
     @ RecordAPIError (at_method t) (at_endpoint t) errorType (at_zoneID t)"

section \<open>Performance metrics\<close>

text \<open>The collectors of \<open>internal/metrics/performance.go\<close>.\<close>

definition queueDepth :: collector where
  "queueDepth = Collector GaugeVec ''cloudflare_operator_queue_depth'' [''controller'', ''namespace'']"

definition reconcileRate :: collector where
  "reconcileRate = Collector CounterVec
     ''cloudflare_operator_reconcile_rate_total'' [''controller'', ''result'', ''namespace'']"

definition errorRate :: collector where
  "errorRate = Collector CounterVec
     ''cloudflare_operator_error_rate_total'' [''controller'', ''error_type'', ''namespace'']"

definition apiResponseTime :: collector where
  "apiResponseTime = Collector (HistogramVec DefBuckets)
     ''cloudflare_operator_api_response_time_seconds'' [''operation'', ''status_code'', ''namespace'']"

definition reconcileDuration :: collector where
  "reconcileDuration = Collector (HistogramVec (Buckets [1/10, 1/2, 1, 5/2, 5, 10, 15, 30]))
     ''cloudflare_operator_reconcile_duration_seconds'' [''controller'', ''result'', ''namespace'']"

definition resourceProcessingRate :: collector where
  "resourceProcessingRate = Collector GaugeVec
     ''cloudflare_operator_resources_per_second'' [''controller'', ''namespace'']"

definition cacheHitRatio :: collector where
  "cacheHitRatio = Collector GaugeVec
     ''cloudflare_operator_cache_hit_ratio'' [''controller'', ''cache_type'']"

definition memoryUsage :: collector where
  "memoryUsage = Collector GaugeVec ''cloudflare_operator_memory_usage_bytes'' [''type'']"

definition cpuUsage :: collector where
  "cpuUsage = Collector GaugeVec ''cloudflare_operator_cpu_usage_seconds_total'' [''type'']"

definition activeWorkers :: collector where
  "activeWorkers = Collector GaugeVec ''cloudflare_operator_active_workers'' [''controller'']"

definition performance_collectors :: "collector list" where
  "performance_collectors =
     [queueDepth, reconcileRate, errorRate, apiResponseTime, reconcileDuration,
      resourceProcessingRate, cacheHitRatio, memoryUsage, cpuUsage, activeWorkers]"

definition UpdateQueueDepth :: "string \<Rightarrow> string \<Rightarrow> f64 \<Rightarrow> metric_op list" where
  "UpdateQueueDepth controller namespace depth = [gauge_set queueDepth [controller, namespace] depth]"

definition IncReconcileRate :: "string \<Rightarrow> string \<Rightarrow> string \<Rightarrow> metric_op list" where
  "IncReconcileRate controller result namespace = [counter_inc reconcileRate [controller, result, namespace]]"

definition IncErrorRate :: "string \<Rightarrow> string \<Rightarrow> string \<Rightarrow> metric_op list" where
  "IncErrorRate controller errorType namespace = [counter_inc errorRate [controller, errorType, namespace]]"

definition ObserveAPIResponseTime :: "string \<Rightarrow> string \<Rightarrow> string \<Rightarrow> duration \<Rightarrow> metric_op list" where
  "ObserveAPIResponseTime operation statusCode namespace duration = 
     [histogram_observe apiResponseTime [operation, statusCode, namespace] (dur_Seconds duration)]"

definition ObserveReconcileDuration :: "string \<Rightarrow> string \<Rightarrow> string \<Rightarrow> duration \<Rightarrow> metric_op list" where
  "ObserveReconcileDuration controller result namespace duration = 
     [histogram_observe reconcileDuration [controller, result, namespace] (dur_Seconds duration)]"

definition UpdateResourceProcessingRate :: "string \<Rightarrow> string \<Rightarrow> f64 \<Rightarrow> metric_op list" where
  "UpdateResourceProcessingRate controller namespace rate = 
     [gauge_set resourceProcessingRate [controller, namespace] rate]"

definition UpdateCacheHitRatio :: "string \<Rightarrow> string \<Rightarrow> f64 \<Rightarrow> metric_op list" where
  "UpdateCacheHitRatio controller cacheType ratio = [gauge_set cacheHitRatio [controller, cacheType] ratio]"

definition UpdateMemoryUsage :: "string \<Rightarrow> f64 \<Rightarrow> metric_op list" where
  "UpdateMemoryUsage memType bytes = [gauge_set memoryUsage [memType] bytes]"

definition UpdateCPUUsage :: "string \<Rightarrow> f64 \<Rightarrow> metric_op list" where
  "UpdateCPUUsage cpuType seconds = [gauge_set cpuUsage [cpuType] seconds]"

definition UpdateActiveWorkers :: "string \<Rightarrow> f64 \<Rightarrow> metric_op list" where
  "UpdateActiveWorkers controller n = [gauge_set activeWorkers [controller] n]"

definition GetQueueDepthMetric :: "metric_op list \<Rightarrow> string \<Rightarrow> string \<Rightarrow> f64" where
  "GetQueueDepthMetric calls controller namespace = gauge_of calls (col_name queueDepth) [controller, namespace]"

definition GetReconcileRateMetric :: "metric_op list \<Rightarrow> string \<Rightarrow> string \<Rightarrow> f64" where
  "GetReconcileRateMetric calls controller namespace = 
     counter_of calls (col_name reconcileRate) [controller, ''success'', namespace]"

definition GetErrorRateMetric :: "metric_op list \<Rightarrow> string \<Rightarrow> string \<Rightarrow> f64" where
  "GetErrorRateMetric calls controller namespace = 
     Fin 0 + counter_of calls (col_name errorRate) [controller, ''reconcile_error'', namespace]"

section \<open>Recording is in order\<close>

definition all_collectors :: "collector list" where
  "all_collectors = business_collectors @ cloudflare_collectors @ performance_collectors"

lemmas collector_defs = dnsRecordsByType_def dnsRecordsByStatus_def zoneHealthStatus_def
  reconciliationHealth_def dnsPropagationTime_def crdResourceStatus_def operatorUptime_def
  configurationValidity_def reconcileSuccessRate_def averageResponseTime_def errorBudgetRemaining_def
  cloudflareAPIRequestsTotal_def cloudflareAPIResponseTime_def cloudflareAPIRateLimitRemaining_def
  cloudflareAPIRateLimitTotal_def cloudflareAPIErrorsTotal_def cloudflareDNSRecordsManagedTotal_def
  cloudflareZonesManagedTotal_def cloudflareDNSRecordOperationsTotal_def cloudflareOperationDuration_def
  cloudflareZoneStatus_def queueDepth_def reconcileRate_def errorRate_def apiResponseTime_def
  reconcileDuration_def resourceProcessingRate_def cacheHitRatio_def memoryUsage_def cpuUsage_def
  activeWorkers_def business_collectors_def cloudflare_collectors_def performance_collectors_def
  all_collectors_def

lemma names_distinct: "distinct (map col_name all_collectors)"
  by code_simp

lemmas recorder_defs = UpdateDNSRecordsByType_def UpdateDNSRecordsByStatus_def UpdateZoneHealth_def
  UpdateReconciliationHealth_def ObserveDNSPropagationTime_def UpdateCRDResourceStatus_def
  UpdateOperatorUptime_def UpdateConfigurationValidity_def UpdateReconcileSuccessRate_def
  UpdateAverageResponseTime_def UpdateErrorBudgetRemaining_def RecordAPIRequest_def RecordAPIError_def
  UpdateRateLimit_def UpdateManagedRecords_def UpdateManagedZones_def RecordDNSOperation_def
  ObserveOperationDuration_def UpdateZoneStatus_def UpdateQueueDepth_def IncReconcileRate_def
  IncErrorRate_def ObserveAPIResponseTime_def ObserveReconcileDuration_def
  UpdateResourceProcessingRate_def UpdateCacheHitRatio_def UpdateMemoryUsage_def UpdateCPUUsage_def
  UpdateActiveWorkers_def RecordSuccess_def RecordError_def

lemma call_ok_intro:
  "c \<in> set all_collectors \<Longrightarrow> length ls = length (col_labels c) \<Longrightarrow>
     (col_kind c = CounterVec \<longrightarrow> call_ok all_collectors (counter_inc c ls))
     \<and> (col_kind c = GaugeVec \<longrightarrow> call_ok all_collectors (gauge_set c ls v))
     \<and> ((\<exists>b. col_kind c = HistogramVec b) \<longrightarrow> call_ok all_collectors (histogram_observe c ls v))"
  unfolding call_ok_def list_ex_iff counter_inc_def gauge_set_def histogram_observe_def call_fits_def by auto


text \<open>What is recorded on a gauge is read back, whatever counters and histograms record in between: the health
  of a zone and of the reconciliation, and the numbers of records, of resources and of managed records, the
  success rate and the queue depth.\<close>

theorem gauges_read_back:
  assumes "list_all (\<lambda>x. case x of MetricSet _ _ _ \<Rightarrow> False | _ \<Rightarrow> True) later"
  shows "IsZoneHealthy (calls @ UpdateZoneHealth a b c up @ later) a b c = up
    \<and> IsReconciliationHealthy (calls @ UpdateReconciliationHealth a b c up @ later) a b c = up
    \<and> GetDNSRecordsByType (calls @ UpdateDNSRecordsByType a b c v @ later) a b c = v
    \<and> GetCRDResourceStatus (calls @ UpdateCRDResourceStatus a b c v @ later) a b c = v
    \<and> GetReconcileSuccessRate (calls @ UpdateReconcileSuccessRate a b c v @ later) a b c = v
    \<and> GetManagedRecordsCount (calls @ UpdateManagedRecords a b c v @ later) a b c = v
    \<and> GetQueueDepthMetric (calls @ UpdateQueueDepth a b v @ later) a b = v"
proof -
  have "\<forall>x \<in> set later. \<not> sets_gauge n ls x" for n ls
    using assms by (auto simp: list_all_iff sets_gauge_def split: metric_op.splits)
  then have "gauge_of (calls @ [gauge_set col ls w] @ later) (col_name col) ls = w" for col ls w
    by (simp add: gauge_set_def gauge_log_last)
  then show ?thesis
    by (simp add: recorder_defs IsZoneHealthy_def IsReconciliationHealthy_def GetDNSRecordsByType_def
        GetCRDResourceStatus_def GetReconcileSuccessRate_def GetManagedRecordsCount_def GetQueueDepthMetric_def
        f64_eq_def one_if_def)
qed

theorem gauges_read_back_witness:
  "IsZoneHealthy (UpdateZoneHealth ''z1'' ''example.com'' ''dns'' True @ IncErrorRate ''c'' ''get_error'' ''ns'') ''z1''
     ''example.com'' ''dns''"
  using gauges_read_back [of "IncErrorRate ''c'' ''get_error'' ''ns''" "[]" "''z1''" "''example.com''" "''dns''" True]
  by (simp add: IncErrorRate_def counter_inc_def)

end
