(* ===== verification/ConfigTypes.thy ===== *)
theory ConfigTypes
  imports GoRuntime "HOL-Library.Finite_Map"
begin

text \<open>
  The configuration data of \<open>internal/config/types.go\<close> and \<open>constants.go\<close>: its records, the defaults,
  and the merge of two layers. A pointer that may be nil is an option. Go maps are finite maps; the
  code never writes to a nil map and reads nil as empty, so both are the empty map here.
\<close>

section \<open>Data\<close>

datatype ConfigSource =
    ConfigSourceDefault
  | ConfigSourceEnv
  | ConfigSourceFile
  | ConfigSourceConfigMap
  | ConfigSourceSecret

fun cs_String :: "ConfigSource \<Rightarrow> string" where
  "cs_String ConfigSourceDefault = ''default''"
| "cs_String ConfigSourceEnv = ''env''"
| "cs_String ConfigSourceFile = ''file''"
| "cs_String ConfigSourceConfigMap = ''configmap''"
| "cs_String ConfigSourceSecret = ''secret''"

definition ProductionEnv :: string where "ProductionEnv = ''production''"
definition StagingEnv :: string where "StagingEnv = ''staging''"
definition DevelopmentEnv :: string where "DevelopmentEnv = ''development''"
definition TestEnv :: string where "TestEnv = ''test''"
definition DebugLevel :: string where "DebugLevel = ''debug''"

lemmas env_defs [go_defs] = ProductionEnv_def StagingEnv_def DevelopmentEnv_def TestEnv_def DebugLevel_def

record OperatorConfig =
  LogLevel :: string
  ReconcileInterval :: duration
  MetricsBindAddress :: string
  HealthProbeBindAddress :: string
  LeaderElection :: bool

record CloudflareConfig =
  APITimeout :: duration
  RateLimitRPS :: int64
  RetryAttempts :: int64
  RetryDelay :: duration

record FeatureFlags =
  EnableWebhooks :: bool
  EnableMetrics :: bool
  EnableTracing :: bool
  ExperimentalFeatures :: bool
  CustomFlags :: "(string, bool) fmap"

record PerformanceConfig =
  MaxConcurrentReconciles :: int64
  ReconcileTimeout :: duration
  RequeueInterval :: duration
  RequeueIntervalOnError :: duration
  ResyncPeriod :: duration
  LeaderElectionLeaseDuration :: duration
  LeaderElectionRenewDeadline :: duration
  LeaderElectionRetryPeriod :: duration

record Config =
  Environment :: string
  Operator :: OperatorConfig
  Cloudflare :: CloudflareConfig
  Features :: "FeatureFlags option"
  Performance :: PerformanceConfig
  ConfigSources :: "(string, ConfigSource) fmap"

text \<open>The zero values, \<open>&FeatureFlags{}\<close> and \<open>&Config{}\<close>.\<close>

definition zero_flags :: FeatureFlags where
  "zero_flags = \<lparr>EnableWebhooks = False, EnableMetrics = False, EnableTracing = False,
     ExperimentalFeatures = False, CustomFlags = fmempty\<rparr>"

definition zero_config :: Config where
  "zero_config = \<lparr>Environment = [],
     Operator = \<lparr>LogLevel = [], ReconcileInterval = 0, MetricsBindAddress = [],
       HealthProbeBindAddress = [], LeaderElection = False\<rparr>,
     Cloudflare = \<lparr>APITimeout = 0, RateLimitRPS = 0, RetryAttempts = 0, RetryDelay = 0\<rparr>,
     Features = None,
     Performance = \<lparr>MaxConcurrentReconciles = 0, ReconcileTimeout = 0, RequeueInterval = 0,
       RequeueIntervalOnError = 0, ResyncPeriod = 0, LeaderElectionLeaseDuration = 0,
       LeaderElectionRenewDeadline = 0, LeaderElectionRetryPeriod = 0\<rparr>,
     ConfigSources = fmempty\<rparr>"

section \<open>Defaults\<close>

definition NewConfig :: Config where
  "NewConfig = \<lparr>Environment = ProductionEnv,
     Operator = \<lparr>LogLevel = ''info'', ReconcileInterval = 5 * Minute, MetricsBindAddress = '':8080'',
       HealthProbeBindAddress = '':8081'', LeaderElection = True\<rparr>,
     Cloudflare = \<lparr>APITimeout = 30 * Second, RateLimitRPS = 10, RetryAttempts = 3,
       RetryDelay = 1 * Second\<rparr>,
     Features = Some \<lparr>EnableWebhooks = True, EnableMetrics = True, EnableTracing = False,
       ExperimentalFeatures = False, CustomFlags = fmempty\<rparr>,
     Performance = \<lparr>MaxConcurrentReconciles = 5, ReconcileTimeout = 5 * Minute,
       RequeueInterval = 5 * Minute, RequeueIntervalOnError = 1 * Minute, ResyncPeriod = 10 * Minute,
       LeaderElectionLeaseDuration = 15 * Second, LeaderElectionRenewDeadline = 10 * Second,
       LeaderElectionRetryPeriod = 2 * Second\<rparr>,
     ConfigSources = fmempty\<rparr>"

definition GetEnvironmentDefaults :: "string \<Rightarrow> Config" where
  "GetEnvironmentDefaults env =
     (let base = NewConfig\<lparr>Environment := env\<rparr> in
      if env = ProductionEnv then base
      else if env = StagingEnv then
        base\<lparr>Operator := (Operator base)\<lparr>LogLevel := DebugLevel, ReconcileInterval := 1 * Minute\<rparr>,
             Cloudflare := (Cloudflare base)\<lparr>APITimeout := 15 * Second, RateLimitRPS := 5\<rparr>\<rparr>
      else if env = DevelopmentEnv then
        base\<lparr>Operator := (Operator base)\<lparr>LogLevel := DebugLevel, ReconcileInterval := 30 * Second\<rparr>,
             Cloudflare := (Cloudflare base)\<lparr>APITimeout := 10 * Second, RateLimitRPS := 2\<rparr>,
             Features := map_option (ExperimentalFeatures_update (\<lambda>_. True)) (Features base)\<rparr>
      else base)"

section \<open>Copying and merging\<close>

definition Copy_flags :: "FeatureFlags \<Rightarrow> FeatureFlags" where
  "Copy_flags ff = \<lparr>EnableWebhooks = EnableWebhooks ff, EnableMetrics = EnableMetrics ff,
     EnableTracing = EnableTracing ff, ExperimentalFeatures = ExperimentalFeatures ff,
     CustomFlags = fmempty ++\<^sub>f CustomFlags ff\<rparr>"

definition Copy :: "Config \<Rightarrow> Config" where
  "Copy c = \<lparr>Environment = Environment c, Operator = Operator c, Cloudflare = Cloudflare c,
     Features = map_option Copy_flags (Features c), Performance = Performance c,
     ConfigSources = fmempty ++\<^sub>f ConfigSources c\<rparr>"

text \<open>The test \<open>if other.f != zero { result.f = other.f }\<close>, for strings and for numbers.\<close>

definition over_str :: "string \<Rightarrow> string \<Rightarrow> string" where
  "over_str base other = (if other \<noteq> [] then other else base)"

definition over_num :: "int \<Rightarrow> int \<Rightarrow> int" where
  "over_num base other = (if other \<noteq> 0 then other else base)"

definition merge_operator :: "OperatorConfig \<Rightarrow> OperatorConfig \<Rightarrow> OperatorConfig" where
  "merge_operator r other =
     r\<lparr>LogLevel := over_str (LogLevel r) (LogLevel other),
       ReconcileInterval := over_num (ReconcileInterval r) (ReconcileInterval other),
       MetricsBindAddress := over_str (MetricsBindAddress r) (MetricsBindAddress other),
       HealthProbeBindAddress := over_str (HealthProbeBindAddress r) (HealthProbeBindAddress other)\<rparr>"

definition merge_cloudflare :: "CloudflareConfig \<Rightarrow> CloudflareConfig \<Rightarrow> CloudflareConfig" where
  "merge_cloudflare r other =
     r\<lparr>APITimeout := over_num (APITimeout r) (APITimeout other),
       RateLimitRPS := over_num (RateLimitRPS r) (RateLimitRPS other),
       RetryAttempts := over_num (RetryAttempts r) (RetryAttempts other),
       RetryDelay := over_num (RetryDelay r) (RetryDelay other)\<rparr>"

definition merge_flags :: "FeatureFlags \<Rightarrow> FeatureFlags \<Rightarrow> FeatureFlags" where
  "merge_flags r other =
     r\<lparr>EnableWebhooks := (if EnableWebhooks other then True else EnableWebhooks r),
       EnableMetrics := (if EnableMetrics other then True else EnableMetrics r),
       EnableTracing := (if EnableTracing other then True else EnableTracing r),
       ExperimentalFeatures := (if ExperimentalFeatures other then True else ExperimentalFeatures r),
       CustomFlags := CustomFlags r ++\<^sub>f CustomFlags other\<rparr>"

definition merge_features :: "FeatureFlags option \<Rightarrow> FeatureFlags option \<Rightarrow> FeatureFlags option" where
  "merge_features r other =
     (case other of
        None \<Rightarrow> r
      | Some o' \<Rightarrow> Some (merge_flags (case r of None \<Rightarrow> zero_flags | Some f \<Rightarrow> f) o'))"

definition merge_performance :: "PerformanceConfig \<Rightarrow> PerformanceConfig \<Rightarrow> PerformanceConfig" where
  "merge_performance r other =
     r\<lparr>MaxConcurrentReconciles := over_num (MaxConcurrentReconciles r) (MaxConcurrentReconciles other),
       ReconcileTimeout := over_num (ReconcileTimeout r) (ReconcileTimeout other),
       RequeueInterval := over_num (RequeueInterval r) (RequeueInterval other),
       RequeueIntervalOnError := over_num (RequeueIntervalOnError r) (RequeueIntervalOnError other),
       ResyncPeriod := over_num (ResyncPeriod r) (ResyncPeriod other),
       LeaderElectionLeaseDuration :=
         over_num (LeaderElectionLeaseDuration r) (LeaderElectionLeaseDuration other),
       LeaderElectionRenewDeadline :=
         over_num (LeaderElectionRenewDeadline r) (LeaderElectionRenewDeadline other),
       LeaderElectionRetryPeriod :=
         over_num (LeaderElectionRetryPeriod r) (LeaderElectionRetryPeriod other)\<rparr>"

definition Merge :: "Config \<Rightarrow> Config option \<Rightarrow> Config" where
  "Merge c other =
     (case other of
        None \<Rightarrow> Copy c
      | Some other \<Rightarrow>
          let result = Copy c in
          result\<lparr>Environment := over_str (Environment result) (Environment other),
            Operator := merge_operator (Operator result) (Operator other),
            Cloudflare := merge_cloudflare (Cloudflare result) (Cloudflare other),
            Features := merge_features (Features result) (Features other),
            Performance := merge_performance (Performance result) (Performance other)\<rparr>)"

section \<open>Layers\<close>

lemma Copy_id [simp]: "Copy c = c"
  by (cases c) (auto simp: Copy_def Copy_flags_def map_option_idI)

lemmas over_defs = over_str_def over_num_def

lemma over_assoc [simp]:
  "over_str (over_str a b) c = over_str a (over_str b c)"
  "over_num (over_num i j) k = over_num i (over_num j k)"
  by (simp_all add: over_defs)

lemma over_zero [simp]: "over_str a [] = a" "over_num i 0 = i" "over_str [] a = a" "over_num 0 i = i"
  by (simp_all add: over_defs)

lemma merge_flags_assoc [simp]: "merge_flags (merge_flags a b) c = merge_flags a (merge_flags b c)"
  by (simp add: merge_flags_def)

lemma merge_flags_zero [simp]: "merge_flags a zero_flags = a" "merge_flags zero_flags a = a"
  by (simp_all add: merge_flags_def zero_flags_def)

lemma merge_features_assoc:
  "merge_features (merge_features a b) c = merge_features a (merge_features b c)"
  by (cases a; cases b; cases c) (simp_all add: merge_features_def)

lemma merge_parts_assoc:
  "merge_operator (merge_operator a b) c = merge_operator a (merge_operator b c)"
  "merge_cloudflare (merge_cloudflare d e) f = merge_cloudflare d (merge_cloudflare e f)"
  "merge_performance (merge_performance g h) i = merge_performance g (merge_performance h i)"
  by (simp_all add: merge_operator_def merge_cloudflare_def merge_performance_def)

lemma Merge_assoc: "Merge (Merge a (Some b)) (Some c) = Merge a (Some (Merge b (Some c)))"
  by (simp add: Merge_def merge_parts_assoc merge_features_assoc)

lemma Merge_zero: "Merge a (Some zero_config) = a"
  by (simp add: Merge_def zero_config_def merge_operator_def merge_cloudflare_def
      merge_performance_def merge_features_def)

lemma Merge_None: "Merge a None = a"
  by (simp add: Merge_def)

text \<open>Layers merged from left to right, the last with the highest priority.\<close>

definition merge_all :: "Config \<Rightarrow> Config list \<Rightarrow> Config" where
  "merge_all base layers = foldl (\<lambda>c l. Merge c (Some l)) base layers"

lemma merge_all_simps [simp]:
  "merge_all base [] = base" "merge_all base (l # ls) = merge_all (Merge base (Some l)) ls"
  by (simp_all add: merge_all_def)

lemma merge_all_append:
  "merge_all base (xs @ ys) = merge_all (merge_all base xs) ys"
  by (simp add: merge_all_def)

text \<open>The value of the last layer that sets it, and the base value when none does.\<close>

definition last_set :: "'a \<Rightarrow> 'a \<Rightarrow> 'a list \<Rightarrow> 'a" where
  "last_set zero base vs =
     (let us = filter (\<lambda>v. v \<noteq> zero) vs in if us = [] then base else last us)"

lemma last_set_snoc: "last_set zero base (vs @ [v]) = (if v \<noteq> zero then v else last_set zero base vs)"
  by (simp add: last_set_def Let_def)

lemma last_set_Nil [simp]: "last_set zero base [] = base"
  by (simp add: last_set_def)

end
