(* ===== verification/ConfigValidation.thy ===== *)
theory ConfigValidation
  imports ConfigTypes
begin

text \<open>
  The validation of \<open>internal/config/validation.go\<close> and the \<open>IsValid\<close> methods of \<open>types.go\<close>. An error is a
  value that says which check failed and on what. The checks of a method are listed in its order
  and the first one that fails is the result. \<open>net.SplitHostPort\<close> is written out; whether a host is
  an IP address and whether a port is known to the system are a parameter.
\<close>

section \<open>Errors\<close>

datatype config_error =
    NilConfig
  | EmptyEnvironment
  | InvalidEnvironment string
  | EmptyLogLevel
  | InvalidLogLevel string
  | NotPositive string int
  | BelowMinimum string int int
  | AboveMaximum string int int
  | PortOutOfRange int
  | EmptyBindAddress
  | BindAddressJustColon
  | BindAddressFormat string
  | BindAddressHost string
  | BindAddressPort string
  | NegativeRetryAttempts int
  | ReconcileTooOften string duration
  | RateLimitUnsafe int
  | ExperimentalInProduction
  | RenewNotBelowLease duration duration
  | RetryNotBelowRenew duration duration
  | SameBindAddress string
  | SamePort string
  | RetryTimeTooLong duration duration
  | InPart string config_error

primrec first_error :: "'e option list \<Rightarrow> 'e option" where
  "first_error [] = None"
| "first_error (r # rs) = (case r of Some e \<Rightarrow> Some e | None \<Rightarrow> first_error rs)"

lemma first_error_None [simp]: "first_error rs = None \<longleftrightarrow> (\<forall>r \<in> set rs. r = None)"
  by (induction rs) (auto simp: first_error.simps split: option.splits)

declare first_error.simps [simp del]

text \<open>\<open>if err := check; err != nil { return fmt.Errorf("what: %w", err) }\<close>\<close>

definition in_part :: "string \<Rightarrow> config_error option \<Rightarrow> config_error option" where
  "in_part what r = map_option (InPart what) r"

lemma in_part_None [simp]: "in_part what r = None \<longleftrightarrow> r = None"
  by (simp add: in_part_def)

definition fail_if :: "bool \<Rightarrow> 'e \<Rightarrow> 'e option" where
  "fail_if b e = (if b then Some e else None)"

lemma fail_if_None [simp]: "fail_if b e = None \<longleftrightarrow> \<not> b"
  by (simp add: fail_if_def)

section \<open>Single values\<close>

definition ValidateEnvironment :: "string \<Rightarrow> config_error option" where
  "ValidateEnvironment env =
     first_error
       [fail_if (env = []) EmptyEnvironment,
        fail_if (env \<notin> {ProductionEnv, ''staging'', ''development'', TestEnv}) (InvalidEnvironment env)]"

definition ValidateLogLevel :: "string \<Rightarrow> config_error option" where
  "ValidateLogLevel level =
     first_error
       [fail_if (level = []) EmptyLogLevel,
        fail_if (level \<notin> {''trace'', ''debug'', ''info'', ''warn'', ''error'', ''fatal'', ''panic''})
          (InvalidLogLevel level)]"

definition ValidateDuration :: "duration \<Rightarrow> duration \<Rightarrow> duration \<Rightarrow> string \<Rightarrow> config_error option" where
  "ValidateDuration d minDur maxDur field =
     first_error
       [fail_if (d \<le> 0) (NotPositive field d),
        fail_if (d < minDur) (BelowMinimum field minDur d),
        fail_if (0 < maxDur \<and> maxDur < d) (AboveMaximum field maxDur d)]"

definition ValidatePositiveInt :: "int64 \<Rightarrow> string \<Rightarrow> config_error option" where
  "ValidatePositiveInt v field = fail_if (v \<le> 0) (NotPositive field v)"

definition ValidatePortRange :: "int64 \<Rightarrow> config_error option" where
  "ValidatePortRange port = fail_if (port < 1 \<or> 65535 < port) (PortOutOfRange port)"

section \<open>Bind addresses\<close>

text \<open>\<open>net.SplitHostPort\<close>: the host and the port of \<open>host:port\<close> or \<open>[host]:port\<close>; only whether it
  fails matters to its callers.\<close>

definition SplitHostPort :: "string \<Rightarrow> (string \<times> string) option" where
  "SplitHostPort hp =
     (if CHR '':'' \<notin> set hp then None
      else
        let port = rev (takeWhile (\<lambda>c. c \<noteq> CHR '':'') (rev hp));
            i = length hp - Suc (length port)
        in if hd hp = CHR ''['' then
             (if CHR '']'' \<notin> set hp then None
              else
                let e = length (takeWhile (\<lambda>c. c \<noteq> CHR '']'') hp)
                in if e + 1 \<noteq> i then None
                   else if CHR ''['' \<in> set (drop 1 hp) \<or> CHR '']'' \<in> set (drop (e + 1) hp) then None
                   else Some (take (e - 1) (drop 1 hp), port))
           else
             let host = take i hp
             in if CHR '':'' \<in> set host then None
                else if CHR ''['' \<in> set hp \<or> CHR '']'' \<in> set hp then None
                else Some (host, port))"

record net_env =
  net_ParseIP :: "string \<Rightarrow> bool"
  net_LookupPort :: "string \<Rightarrow> bool"

definition ValidateBindAddress :: "net_env \<Rightarrow> string \<Rightarrow> config_error option" where
  "ValidateBindAddress net address =
     (if address = [] then Some EmptyBindAddress
      else if has_prefix address '':'' \<and> drop 1 address = [] then Some BindAddressJustColon
      else if has_prefix address '':'' \<and> drop 1 address = ''0'' then None
      else case SplitHostPort address of
          None \<Rightarrow> Some (BindAddressFormat address)
        | Some (host, port) \<Rightarrow>
            if host \<noteq> [] \<and> \<not> net_ParseIP net host
               \<and> (CHR '' '' \<in> set host \<or> CHR 0x09 \<in> set host)
            then Some (BindAddressHost host)
            else if port \<noteq> ''0'' \<and> \<not> net_LookupPort net port then Some (BindAddressPort port)
            else None)"

section \<open>The sections of a configuration\<close>

definition OperatorConfig_IsValid :: "OperatorConfig \<Rightarrow> config_error option" where
  "OperatorConfig_IsValid oc =
     first_error
       [ValidateLogLevel (LogLevel oc),
        ValidateDuration (ReconcileInterval oc) (1 * Second) (1 * Hour) ''reconcile interval'']"

definition CloudflareConfig_IsValid :: "CloudflareConfig \<Rightarrow> config_error option" where
  "CloudflareConfig_IsValid cc =
     first_error
       [ValidateDuration (APITimeout cc) (1 * Second) (5 * Minute) ''API timeout'',
        ValidatePositiveInt (RateLimitRPS cc) ''rate limit RPS'',
        fail_if (RetryAttempts cc < 0) (NegativeRetryAttempts (RetryAttempts cc)),
        (if 0 < RetryDelay cc
         then ValidateDuration (RetryDelay cc) (100 * Millisecond) (30 * Second) ''retry delay''
         else None)]"

definition PerformanceConfig_IsValid :: "PerformanceConfig \<Rightarrow> config_error option" where
  "PerformanceConfig_IsValid pc =
     first_error
       [ValidatePositiveInt (MaxConcurrentReconciles pc) ''max concurrent reconciles'',
        ValidateDuration (ReconcileTimeout pc) (1 * Second) (30 * Minute) ''reconcile timeout'',
        ValidateDuration (RequeueInterval pc) (1 * Second) (24 * Hour) ''requeue interval'',
        ValidateDuration (RequeueIntervalOnError pc) (1 * Second) (1 * Hour) ''requeue interval on error'',
        ValidateDuration (ResyncPeriod pc) (1 * Minute) (24 * Hour) ''resync period'',
        ValidateDuration (LeaderElectionLeaseDuration pc) (1 * Second) (5 * Minute)
          ''leader election lease duration'',
        (if 0 < LeaderElectionRenewDeadline pc
         then ValidateDuration (LeaderElectionRenewDeadline pc) (1 * Second) (1 * Minute)
           ''leader election renew deadline''
         else None),
        (if 0 < LeaderElectionRetryPeriod pc
         then ValidateDuration (LeaderElectionRetryPeriod pc) (100 * Millisecond) (30 * Second)
           ''leader election retry period''
         else None)]"

definition FeatureFlags_Validate :: "FeatureFlags option \<Rightarrow> config_error option" where
  "FeatureFlags_Validate ff = (case ff of None \<Rightarrow> None | Some _ \<Rightarrow> None)"

section \<open>The whole configuration\<close>

definition validateEnvironmentSpecific :: "Config \<Rightarrow> config_error option" where
  "validateEnvironmentSpecific c =
     (let interval = ReconcileInterval (Operator c) in
      if Environment c = ProductionEnv then
        first_error
          [fail_if (interval < 30 * Second) (ReconcileTooOften (Environment c) interval),
           fail_if (50 < RateLimitRPS (Cloudflare c)) (RateLimitUnsafe (RateLimitRPS (Cloudflare c))),
           fail_if (case Features c of None \<Rightarrow> False | Some ff \<Rightarrow> ExperimentalFeatures ff)
             ExperimentalInProduction]
      else if Environment c = ''staging'' then
        fail_if (interval < 10 * Second) (ReconcileTooOften (Environment c) interval)
      else if Environment c = ''development'' then
        fail_if (interval < 5 * Second) (ReconcileTooOften (Environment c) interval)
      else None)"

definition addresses_conflict :: "OperatorConfig \<Rightarrow> config_error option" where
  "addresses_conflict oc =
     (let m = MetricsBindAddress oc; h = HealthProbeBindAddress oc in
      if m \<noteq> [] \<and> h \<noteq> [] then
        first_error
          [fail_if (m = h \<and> m \<noteq> '':0'') (SameBindAddress m),
           (case (SplitHostPort m, SplitHostPort h) of
              (Some (metricsHost, metricsPort), Some (healthHost, healthPort)) \<Rightarrow>
                fail_if (metricsPort = healthPort \<and> metricsPort \<noteq> ''0''
                    \<and> (metricsHost = healthHost \<or> metricsHost = [] \<or> healthHost = []
                       \<or> metricsHost = ''0.0.0.0'' \<or> healthHost = ''0.0.0.0''))
                  (SamePort metricsPort)
            | _ \<Rightarrow> None)]
      else None)"

definition validateCrossFields :: "Config \<Rightarrow> config_error option" where
  "validateCrossFields c =
     (let pc = Performance c; cc = Cloudflare c;
          maxRetryTime = wrap64 (RetryAttempts cc * RetryDelay cc)
      in first_error
       [fail_if (0 < LeaderElectionRenewDeadline pc \<and> 0 < LeaderElectionLeaseDuration pc
           \<and> LeaderElectionLeaseDuration pc \<le> LeaderElectionRenewDeadline pc)
          (RenewNotBelowLease (LeaderElectionRenewDeadline pc) (LeaderElectionLeaseDuration pc)),
        fail_if (0 < LeaderElectionRetryPeriod pc \<and> 0 < LeaderElectionRenewDeadline pc
           \<and> LeaderElectionRenewDeadline pc \<le> LeaderElectionRetryPeriod pc)
          (RetryNotBelowRenew (LeaderElectionRetryPeriod pc) (LeaderElectionRenewDeadline pc)),
        addresses_conflict (Operator c),
        fail_if (0 < RetryDelay cc \<and> 0 < APITimeout cc \<and> APITimeout cc \<le> maxRetryTime)
          (RetryTimeTooLong maxRetryTime (APITimeout cc))])"

definition Validate :: "net_env \<Rightarrow> Config option \<Rightarrow> config_error option" where
  "Validate net c =
     (case c of
        None \<Rightarrow> Some NilConfig
      | Some c \<Rightarrow>
          first_error
            [in_part ''environment validation failed'' (ValidateEnvironment (Environment c)),
             in_part ''operator configuration validation failed'' (OperatorConfig_IsValid (Operator c)),
             (if MetricsBindAddress (Operator c) \<noteq> []
              then in_part ''invalid metrics bind address''
                     (ValidateBindAddress net (MetricsBindAddress (Operator c)))
              else None),
             (if HealthProbeBindAddress (Operator c) \<noteq> []
              then in_part ''invalid health probe bind address''
                     (ValidateBindAddress net (HealthProbeBindAddress (Operator c)))
              else None),
             in_part ''cloudflare configuration validation failed'' (CloudflareConfig_IsValid (Cloudflare c)),
             in_part ''performance configuration validation failed''
               (PerformanceConfig_IsValid (Performance c)),
             in_part ''feature flags validation failed'' (FeatureFlags_Validate (Features c)),
             in_part ''environment-specific validation failed'' (validateEnvironmentSpecific c),
             in_part ''cross-field validation failed'' (validateCrossFields c)])"

end
