(* ===== verification/GoParse.thy ===== *)
theory GoParse
  imports GoRuntime
begin

text \<open>
  The parsers of Go's standard library that the configuration loader calls on environment values:
  \<open>strconv.ParseBool\<close>, \<open>strconv.Atoi\<close> and \<open>time.ParseDuration\<close>, and the path functions \<open>filepath.Clean\<close>,
  \<open>filepath.Ext\<close> and \<open>strings.ToLower\<close> (on ASCII letters). A failed parse is None.
\<close>

definition ParseBool :: "string \<Rightarrow> bool option" where
  "ParseBool s =
     (if s \<in> {''1'', ''t'', ''T'', ''TRUE'', ''true'', ''True''} then Some True
      else if s \<in> {''0'', ''f'', ''F'', ''FALSE'', ''false'', ''False''} then Some False
      else None)"

definition is_digit :: "char \<Rightarrow> bool" where
  "is_digit c \<longleftrightarrow> 48 \<le> (of_char c :: nat) \<and> (of_char c :: nat) \<le> 57"

definition digit_val :: "char \<Rightarrow> nat" where
  "digit_val c = of_char c - 48"

definition digits_val :: "string \<Rightarrow> nat" where
  "digits_val s = foldl (\<lambda>x c. x * 10 + digit_val c) 0 s"

definition Atoi :: "string \<Rightarrow> int64 option" where
  "Atoi s =
     (let neg = has_prefix s ''-'';
          body = (if neg \<or> has_prefix s ''+'' then drop 1 s else s);
          n = (if neg then - int (digits_val body) else int (digits_val body))
      in if body \<noteq> [] \<and> list_all is_digit body \<and> in_int64 n then Some n else None)"

text \<open>
  The digits before the point; None when the number exceeds \<open>2 ^ 63\<close>. The digits after it as a number
  and its scale: digits that no longer fit are skipped.
\<close>

fun leadingInt :: "nat \<Rightarrow> string \<Rightarrow> (nat \<times> string) option" where
  "leadingInt x [] = Some (x, [])"
| "leadingInt x (c # s) =
     (if \<not> is_digit c then Some (x, c # s)
      else if 2 ^ 63 div 10 < x then None
      else
        let y = x * 10 + digit_val c in if 2 ^ 63 < y then None else leadingInt y s)"

fun leadingFraction :: "nat \<Rightarrow> f64 \<Rightarrow> bool \<Rightarrow> string \<Rightarrow> nat \<times> f64 \<times> string" where
  "leadingFraction x scale overflow [] = (x, scale, [])"
| "leadingFraction x scale overflow (c # s) =
     (if \<not> is_digit c then (x, scale, c # s)
      else if overflow then leadingFraction x scale overflow s
      else if (2 ^ 63 - 1) div 10 < x then leadingFraction x scale True s
      else
        let y = x * 10 + digit_val c in
        if 2 ^ 63 < y then leadingFraction x scale True s
        else leadingFraction y (scale * Fin 10) False s)"

definition duration_unit :: "string \<Rightarrow> nat option" where
  "duration_unit u =
     (if u = ''ns'' then Some 1
      else if u = ''us'' \<or> u = [CHR 0xC2, CHR 0xB5, CHR ''s''] \<or> u = [CHR 0xCE, CHR 0xBC, CHR ''s'']
      then Some 1000
      else if u = ''ms'' then Some 1000000
      else if u = ''s'' then Some 1000000000
      else if u = ''m'' then Some 60000000000
      else if u = ''h'' then Some 3600000000000
      else None)"

text \<open>The unit of a term and the value of the term in nanoseconds, with the rest of the text.\<close>

definition unit_part :: "string \<Rightarrow> string" where
  "unit_part s = takeWhile (\<lambda>c. \<not> (c = CHR ''.'' \<or> is_digit c)) s"

definition term_value :: "nat \<Rightarrow> nat \<Rightarrow> f64 \<Rightarrow> string \<Rightarrow> (nat \<times> string) option" where
  "term_value v f scale s =
     (let u = unit_part s; rest = drop (length u) s in
      if u = [] then None
      else case duration_unit u of
          None \<Rightarrow> None
        | Some unit \<Rightarrow>
            if 2 ^ 63 div unit < v then None
            else
              let w = v * unit;
                  w' = (if 0 < f
                        then w + nat (f64_to_int64 (f64_of_int (int f) * (f64_of_int (int unit) / scale)))
                        else w)
              in if 0 < f \<and> 2 ^ 63 < w' then None else Some (w', rest))"

text \<open>The digits after a point, if there is one: their number, their scale, whether there were any, and the
  rest.\<close>

definition fraction_part :: "string \<Rightarrow> nat \<times> f64 \<times> bool \<times> string" where
  "fraction_part s =
     (if has_prefix s ''.'' then
        let (f, scale, r) = leadingFraction 0 (Fin 1) False (drop 1 s)
        in (f, scale, length r \<noteq> length (drop 1 s), r)
      else (0, Fin 1, False, s))"

text \<open>One term of a duration such as \<open>1h15m30.5s\<close>.\<close>

definition duration_term :: "string \<Rightarrow> (nat \<times> string) option" where
  "duration_term s =
     (if \<not> (hd s = CHR ''.'' \<or> is_digit (hd s)) then None
      else case leadingInt 0 s of
          None \<Rightarrow> None
        | Some (v, s1) \<Rightarrow>
            (case fraction_part s1 of
               (f, scale, post, s2) \<Rightarrow>
                 if length s1 = length s \<and> \<not> post then None else term_value v f scale s2))"

text \<open>The fuel is the length of the text: every term consumes at least its unit.\<close>

fun duration_terms :: "nat \<Rightarrow> nat \<Rightarrow> string \<Rightarrow> nat option" where
  "duration_terms fuel d [] = Some d"
| "duration_terms 0 d (c # s) = None"
| "duration_terms (Suc n) d (c # s) =
     (case duration_term (c # s) of
        None \<Rightarrow> None
      | Some (v, rest) \<Rightarrow>
          let d' = (d + v) mod 2 ^ 64 in if 2 ^ 63 < d' then None else duration_terms n d' rest)"

definition ParseDuration :: "string \<Rightarrow> duration option" where
  "ParseDuration s =
     (let neg = has_prefix s ''-'';
          body = (if neg \<or> has_prefix s ''+'' then drop 1 s else s)
      in if body = ''0'' then Some 0
         else if body = [] then None
         else case duration_terms (length body) 0 body of
             None \<Rightarrow> None
           | Some d \<Rightarrow>
               if neg then Some (wrap64 (- int d))
               else if 2 ^ 63 - 1 < d then None else Some (int d))"

text \<open>The path elements between slashes; \<open>Clean\<close> resolves them lexically.\<close>

fun split_slash :: "string \<Rightarrow> string \<Rightarrow> string list" where
  "split_slash cur [] = [rev cur]"
| "split_slash cur (c # s) = (if c = CHR ''/'' then rev cur # split_slash [] s else split_slash (c # cur) s)"

fun clean_elems :: "bool \<Rightarrow> string list \<Rightarrow> string list \<Rightarrow> string list" where
  "clean_elems rooted acc [] = rev acc"
| "clean_elems rooted acc (e # es) =
     (if e = [] \<or> e = ''.'' then clean_elems rooted acc es
      else if e = ''..'' then
        (if acc \<noteq> [] \<and> hd acc \<noteq> ''..'' then clean_elems rooted (tl acc) es
         else if rooted then clean_elems rooted acc es
         else clean_elems rooted (e # acc) es)
      else clean_elems rooted (e # acc) es)"

fun join_slash :: "string list \<Rightarrow> string" where
  "join_slash [] = []"
| "join_slash [s] = s"
| "join_slash (s # ss) = s @ ''/'' @ join_slash ss"

definition path_Clean :: "string \<Rightarrow> string" where
  "path_Clean p =
     (if p = [] then ''.''
      else
        let rooted = has_prefix p ''/'';
            body = join_slash (clean_elems rooted [] (split_slash [] p))
        in if rooted then ''/'' @ body else if body = [] then ''.'' else body)"

definition path_Ext :: "string \<Rightarrow> string" where
  "path_Ext p =
     (let tail = takeWhile (\<lambda>c. c \<noteq> CHR ''.'' \<and> c \<noteq> CHR ''/'') (rev p)
      in if length tail < length p \<and> rev p ! length tail = CHR ''.''
         then drop (length p - Suc (length tail)) p else [])"

definition lower_char :: "char \<Rightarrow> char" where
  "lower_char c =
     (let n = of_char c in if 65 \<le> n \<and> n \<le> (90::nat) then char_of (n + 32) else c)"

definition ToLower :: "string \<Rightarrow> string" where
  "ToLower s = map lower_char s"

text \<open>The fuel is enough: a term that is parsed leaves a shorter rest.\<close>

lemma leadingInt_length: "leadingInt x s = Some (v, r) \<Longrightarrow> length r \<le> length s"
  by (induction x s rule: leadingInt.induct) (auto split: if_splits simp: Let_def)

lemma leadingFraction_length: "leadingFraction x sc ov s = (f, sc', r) \<Longrightarrow> length r \<le> length s"
  by (induction x sc ov s rule: leadingFraction.induct) (auto split: if_splits simp: Let_def)

lemma duration_term_shorter: "duration_term s = Some (v, rest) \<Longrightarrow> s \<noteq> [] \<Longrightarrow> length rest < length s"
proof -
  assume h: "duration_term s = Some (v, rest)" and "s \<noteq> []"
  then obtain x s1 where x: "leadingInt 0 s = Some (x, s1)"
    by (auto simp: duration_term_def split: if_splits option.splits)
  obtain f sc post s2 where y: "fraction_part s1 = (f, sc, post, s2)" by (metis prod_cases4)
  have t: "term_value x f sc s2 = Some (v, rest)"
    using h x y by (auto simp: duration_term_def split: if_splits)
  then have u: "unit_part s2 \<noteq> []" by (auto simp add: term_value_def)
  with t obtain un where "duration_unit (unit_part s2) = Some un"
    by (cases "duration_unit (unit_part s2)") (simp_all add: term_value_def)
  with t u have r: "rest = drop (length (unit_part s2)) s2"
    by (simp only: term_value_def Let_def if_False option.case split: if_split_asm) simp_all
  have "s2 \<noteq> []" using u by (auto simp: unit_part_def)
  then have "length rest < length s2" using u r by simp
  also have "\<dots> \<le> length s1"
  proof (cases "has_prefix s1 ''.''")
    case True
    then obtain f' sc' where "leadingFraction 0 (Fin 1) False (drop 1 s1) = (f', sc', s2)"
      using y by (auto simp: fraction_part_def Let_def split: prod.splits)
    from leadingFraction_length [OF this] show ?thesis by simp
  qed (use y in \<open>simp add: fraction_part_def\<close>)
  also have "\<dots> \<le> length s" by (rule leadingInt_length [OF x])
  finally show ?thesis .
qed

lemma duration_fuel:
  "length s \<le> n \<Longrightarrow> length s \<le> m \<Longrightarrow> duration_terms n d s = duration_terms m d s"
proof (induction n d s arbitrary: m rule: duration_terms.induct)
  case (3 n d c s)
  then obtain k where m: "m = Suc k" by (cases m) auto
  show ?case
  proof (cases "duration_term (c # s)")
    case (Some vr)
    then obtain v rest where vr: "duration_term (c # s) = Some (v, rest)" by (cases vr) auto
    have "length rest < length (c # s)" by (rule duration_term_shorter [OF vr]) simp
    then have "length rest \<le> n" "length rest \<le> k" using 3(2,3) m by auto
    with 3(1) [OF vr refl refl] have IH: "\<not> 2 ^ 63 < (d + v) mod 2 ^ 64 \<Longrightarrow>
        duration_terms n ((d + v) mod 2 ^ 64) rest = duration_terms k ((d + v) mod 2 ^ 64) rest" by blast
    show ?thesis
      unfolding m duration_terms.simps vr option.case prod.case Let_def
      by (rule if_cong [OF refl refl IH])
  qed (use m in simp)
qed auto

end
