(* ===== verification/ConfigLoader.thy ===== *)
theory ConfigLoader
  imports ConfigValidation GoParse
begin

text \<open>
  The configuration loader of \<open>internal/config/loader.go\<close>: from a file, the environment, a ConfigMap and
  a Secret, and the layering of them. The operating system, the JSON and YAML decoders and the
  Kubernetes client are parameters, in one record. A Go map is iterated in an arbitrary order, so the
  data of a ConfigMap or Secret is the list of its entries in the order of that iteration.
\<close>

section \<open>The surroundings\<close>

datatype k8s_get = GetFound "(string \<times> string) list" | GetNotFound | GetFailed string

text \<open>A decoder updates a configuration in place, also when it fails; None is no error.\<close>

type_synonym decoder = "string \<Rightarrow> Config \<Rightarrow> Config \<times> string option"

record load_env =
  le_Getenv :: "string \<Rightarrow> string"
  le_ReadFile :: "string \<Rightarrow> string + string"
  le_json :: decoder
  le_yaml :: decoder
  le_ConfigMap :: "(string \<Rightarrow> string \<Rightarrow> k8s_get) option"
  le_Secret :: "(string \<Rightarrow> string \<Rightarrow> k8s_get) option"
  le_net :: net_env

record ConfigLoader =
  cl_namespace :: string

record LoadOptions =
  lo_FilePath :: string
  lo_ConfigMapName :: string
  lo_SecretName :: string
  lo_LoadFromEnv :: bool
  lo_ValidateConfig :: bool

record WatchOptions =
  wo_ConfigMapName :: string
  wo_SecretName :: string
  wo_Interval :: duration

datatype load_error =
    EmptyFilePath
  | PathTraversal
  | ReadFailed string string
  | EmptyFile string
  | ParseFailed string "string list"
  | ClientRequired string
  | ResourceNotFound string string string
  | GetError string string string string
  | NoSourceSpecified
  | NoResourceToWatch
  | WatchIntervalTooShort duration
  | ValidationFailed config_error
  | While string load_error

definition while_doing :: "string \<Rightarrow> load_error + 'a \<Rightarrow> load_error + 'a" where
  "while_doing what r = map_sum (While what) id r"

definition NewConfigLoader :: "string \<Rightarrow> ConfigLoader" where
  "NewConfigLoader namespace = \<lparr>cl_namespace = namespace\<rparr>"

definition LoadOptions_Validate :: "LoadOptions \<Rightarrow> load_error option" where
  "LoadOptions_Validate opts =
     fail_if (lo_FilePath opts = [] \<and> lo_ConfigMapName opts = [] \<and> lo_SecretName opts = []
       \<and> \<not> lo_LoadFromEnv opts) NoSourceSpecified"

definition WatchOptions_Validate :: "WatchOptions \<Rightarrow> load_error option" where
  "WatchOptions_Validate opts =
     first_error
       [fail_if (wo_ConfigMapName opts = [] \<and> wo_SecretName opts = []) NoResourceToWatch,
        fail_if (wo_Interval opts < 1 * Second) (WatchIntervalTooShort (wo_Interval opts))]"

section \<open>The source map\<close>

definition mark :: "string \<Rightarrow> ConfigSource \<Rightarrow> Config \<Rightarrow> Config" where
  "mark key src c = c\<lparr>ConfigSources := fmupd key src (ConfigSources c)\<rparr>"

definition mark_if :: "bool \<Rightarrow> string \<Rightarrow> ConfigSource \<Rightarrow> Config \<Rightarrow> Config" where
  "mark_if b key src c = (if b then mark key src c else c)"

definition markFieldsFromSource :: "Config \<Rightarrow> ConfigSource \<Rightarrow> Config" where
  "markFieldsFromSource config src =
     (let oc = Operator config; cc = Cloudflare config; pc = Performance config in
      mark_if (LeaderElectionLeaseDuration pc \<noteq> 0) ''performance.leaderElectionLeaseDuration'' src
        (mark_if (ResyncPeriod pc \<noteq> 0) ''performance.resyncPeriod'' src
        (mark_if (MaxConcurrentReconciles pc \<noteq> 0) ''performance.maxConcurrentReconciles'' src
        (mark_if (RateLimitRPS cc \<noteq> 0) ''cloudflare.rateLimitRPS'' src
        (mark_if (APITimeout cc \<noteq> 0) ''cloudflare.apiTimeout'' src
        (mark_if (HealthProbeBindAddress oc \<noteq> []) ''operator.healthProbeBindAddress'' src
        (mark_if (MetricsBindAddress oc \<noteq> []) ''operator.metricsBindAddress'' src
        (mark_if (ReconcileInterval oc \<noteq> 0) ''operator.reconcileInterval'' src
        (mark_if (LogLevel oc \<noteq> []) ''operator.logLevel'' src
        (mark_if (Environment config \<noteq> []) ''environment'' src config))))))))))"

section \<open>Files\<close>

definition LoadFromFile :: "load_env \<Rightarrow> string \<Rightarrow> load_error + Config" where
  "LoadFromFile env filePath =
     (if filePath = [] then Inl EmptyFilePath
      else
        let cleanPath = path_Clean filePath in
        if cleanPath \<noteq> filePath then Inl PathTraversal
        else case le_ReadFile env cleanPath of
            Inl err \<Rightarrow> Inl (ReadFailed filePath err)
          | Inr contents \<Rightarrow>
              if contents = [] then Inl (EmptyFile filePath)
              else
                let ext = ToLower (path_Ext filePath) in
                if ext = ''.json'' then
                  (case le_json env contents zero_config of
                     (c, None) \<Rightarrow> Inr c
                   | (_, Some err) \<Rightarrow> Inl (ParseFailed filePath [err]))
                else if ext = ''.yaml'' \<or> ext = ''.yml'' then
                  (case le_yaml env contents zero_config of
                     (c, None) \<Rightarrow> Inr c
                   | (_, Some err) \<Rightarrow> Inl (ParseFailed filePath [err]))
                else
                  (case le_json env contents zero_config of
                     (c, None) \<Rightarrow> Inr c
                   | (c, Some err) \<Rightarrow>
                       (case le_yaml env contents c of
                          (c', None) \<Rightarrow> Inr c'
                        | (_, Some yamlErr) \<Rightarrow> Inl (ParseFailed filePath [err, yamlErr]))))"

section \<open>The environment\<close>

text \<open>
  \<open>if v := os.Getenv(name); v != "" { if x, err := parse(v); err == nil { field = x; mark } }\<close>, and the
  same for a key of a ConfigMap or Secret.
\<close>

definition take_value ::
  "(string \<Rightarrow> 'a option) \<Rightarrow> ('a \<Rightarrow> Config \<Rightarrow> Config) \<Rightarrow> string \<Rightarrow> ConfigSource \<Rightarrow> string \<Rightarrow> Config \<Rightarrow> Config" where
  "take_value parse put key src v c = (case parse v of Some x \<Rightarrow> mark key src (put x c) | None \<Rightarrow> c)"

definition from_env ::
  "load_env \<Rightarrow> string \<Rightarrow> (string \<Rightarrow> 'a option) \<Rightarrow> ('a \<Rightarrow> Config \<Rightarrow> Config) \<Rightarrow> string \<Rightarrow> Config \<Rightarrow> Config" where
  "from_env env name parse put key c =
     (let v = le_Getenv env name in if v \<noteq> [] then take_value parse put key ConfigSourceEnv v c else c)"

definition on_operator :: "(OperatorConfig \<Rightarrow> OperatorConfig) \<Rightarrow> Config \<Rightarrow> Config" where
  "on_operator f c = c\<lparr>Operator := f (Operator c)\<rparr>"

definition on_cloudflare :: "(CloudflareConfig \<Rightarrow> CloudflareConfig) \<Rightarrow> Config \<Rightarrow> Config" where
  "on_cloudflare f c = c\<lparr>Cloudflare := f (Cloudflare c)\<rparr>"

definition on_performance :: "(PerformanceConfig \<Rightarrow> PerformanceConfig) \<Rightarrow> Config \<Rightarrow> Config" where
  "on_performance f c = c\<lparr>Performance := f (Performance c)\<rparr>"

definition on_features :: "(FeatureFlags \<Rightarrow> FeatureFlags) \<Rightarrow> Config \<Rightarrow> Config" where
  "on_features f c = c\<lparr>Features := map_option f (Features c)\<rparr>"

lemmas on_part_defs = on_operator_def on_cloudflare_def on_performance_def on_features_def

definition loadBasicFields :: "load_env \<Rightarrow> Config \<Rightarrow> Config" where
  "loadBasicFields env c =
     from_env env ''CONFIG_ENVIRONMENT'' Some (\<lambda>v. Environment_update (\<lambda>_. v)) ''environment'' c"

definition loadOperatorConfig :: "load_env \<Rightarrow> Config \<Rightarrow> Config" where
  "loadOperatorConfig env c =
     from_env env ''CONFIG_OPERATOR_LEADER_ELECTION'' ParseBool
       (\<lambda>v. on_operator (LeaderElection_update (\<lambda>_. v))) ''operator.leaderElection''
     (from_env env ''CONFIG_OPERATOR_HEALTH_PROBE_BIND_ADDRESS'' Some
       (\<lambda>v. on_operator (HealthProbeBindAddress_update (\<lambda>_. v))) ''operator.healthProbeBindAddress''
     (from_env env ''CONFIG_OPERATOR_METRICS_BIND_ADDRESS'' Some
       (\<lambda>v. on_operator (MetricsBindAddress_update (\<lambda>_. v))) ''operator.metricsBindAddress''
     (from_env env ''CONFIG_OPERATOR_RECONCILE_INTERVAL'' ParseDuration
       (\<lambda>v. on_operator (ReconcileInterval_update (\<lambda>_. v))) ''operator.reconcileInterval''
     (from_env env ''CONFIG_OPERATOR_LOG_LEVEL'' Some
       (\<lambda>v. on_operator (LogLevel_update (\<lambda>_. v))) ''operator.logLevel'' c))))"

definition loadCloudflareConfig :: "load_env \<Rightarrow> Config \<Rightarrow> Config" where
  "loadCloudflareConfig env c =
     from_env env ''CONFIG_CLOUDFLARE_RETRY_DELAY'' ParseDuration
       (\<lambda>v. on_cloudflare (RetryDelay_update (\<lambda>_. v))) ''cloudflare.retryDelay''
     (from_env env ''CONFIG_CLOUDFLARE_RETRY_ATTEMPTS'' Atoi
       (\<lambda>v. on_cloudflare (RetryAttempts_update (\<lambda>_. v))) ''cloudflare.retryAttempts''
     (from_env env ''CONFIG_CLOUDFLARE_RATE_LIMIT_RPS'' Atoi
       (\<lambda>v. on_cloudflare (RateLimitRPS_update (\<lambda>_. v))) ''cloudflare.rateLimitRPS''
     (from_env env ''CONFIG_CLOUDFLARE_API_TIMEOUT'' ParseDuration
       (\<lambda>v. on_cloudflare (APITimeout_update (\<lambda>_. v))) ''cloudflare.apiTimeout'' c)))"

definition loadFeatureFlags :: "load_env \<Rightarrow> Config \<Rightarrow> Config" where
  "loadFeatureFlags env c0 =
     (let c = c0\<lparr>Features := Some zero_flags\<rparr> in
      from_env env ''CONFIG_FEATURES_EXPERIMENTAL_FEATURES'' ParseBool
       (\<lambda>v. on_features (ExperimentalFeatures_update (\<lambda>_. v))) ''features.experimentalFeatures''
     (from_env env ''CONFIG_FEATURES_ENABLE_TRACING'' ParseBool
       (\<lambda>v. on_features (EnableTracing_update (\<lambda>_. v))) ''features.enableTracing''
     (from_env env ''CONFIG_FEATURES_ENABLE_METRICS'' ParseBool
       (\<lambda>v. on_features (EnableMetrics_update (\<lambda>_. v))) ''features.enableMetrics''
     (from_env env ''CONFIG_FEATURES_ENABLE_WEBHOOKS'' ParseBool
       (\<lambda>v. on_features (EnableWebhooks_update (\<lambda>_. v))) ''features.enableWebhooks'' c))))"

definition loadPerformanceConfig_env :: "load_env \<Rightarrow> Config \<Rightarrow> Config" where
  "loadPerformanceConfig_env env c =
     from_env env ''CONFIG_PERFORMANCE_LEADER_ELECTION_RETRY_PERIOD'' ParseDuration
       (\<lambda>v. on_performance (LeaderElectionRetryPeriod_update (\<lambda>_. v)))
       ''performance.leaderElectionRetryPeriod''
     (from_env env ''CONFIG_PERFORMANCE_LEADER_ELECTION_RENEW_DEADLINE'' ParseDuration
       (\<lambda>v. on_performance (LeaderElectionRenewDeadline_update (\<lambda>_. v)))
       ''performance.leaderElectionRenewDeadline''
     (from_env env ''CONFIG_PERFORMANCE_LEADER_ELECTION_LEASE_DURATION'' ParseDuration
       (\<lambda>v. on_performance (LeaderElectionLeaseDuration_update (\<lambda>_. v)))
       ''performance.leaderElectionLeaseDuration''
     (from_env env ''CONFIG_PERFORMANCE_RESYNC_PERIOD'' ParseDuration
       (\<lambda>v. on_performance (ResyncPeriod_update (\<lambda>_. v))) ''performance.resyncPeriod''
     (from_env env ''CONFIG_PERFORMANCE_MAX_CONCURRENT_RECONCILES'' Atoi
       (\<lambda>v. on_performance (MaxConcurrentReconciles_update (\<lambda>_. v)))
       ''performance.maxConcurrentReconciles'' c))))"

definition LoadFromEnv :: "load_env \<Rightarrow> load_error + Config" where
  "LoadFromEnv env =
     Inr (loadPerformanceConfig_env env (loadFeatureFlags env (loadCloudflareConfig env
       (loadOperatorConfig env (loadBasicFields env zero_config)))))"

section \<open>ConfigMaps and Secrets\<close>

text \<open>The first entry, in iteration order, that holds a whole configuration that decodes.\<close>

fun structured_entry :: "load_env \<Rightarrow> (string \<times> string) list \<Rightarrow> Config option" where
  "structured_entry env [] = None"
| "structured_entry env ((key, v) # kvs) =
     (if key = ''config.json'' then
        (case le_json env v zero_config of
           (c, None) \<Rightarrow> Some c
         | (_, Some _) \<Rightarrow> structured_entry env kvs)
      else if key = ''config.yaml'' \<or> key = ''config.yml'' then
        (case le_yaml env v zero_config of
           (c, None) \<Rightarrow> Some c
         | (_, Some _) \<Rightarrow> structured_entry env kvs)
      else structured_entry env kvs)"

definition from_data ::
  "(string \<times> string) list \<Rightarrow> string \<Rightarrow> (string \<Rightarrow> 'a option) \<Rightarrow> ('a \<Rightarrow> Config \<Rightarrow> Config) \<Rightarrow> string
     \<Rightarrow> ConfigSource \<Rightarrow> Config \<Rightarrow> Config" where
  "from_data kvs name parse put key src c =
     (case map_of kvs name of Some v \<Rightarrow> take_value parse put key src v c | None \<Rightarrow> c)"

definition configmap_keys :: "(string \<times> string) list \<Rightarrow> Config" where
  "configmap_keys kvs =
     from_data kvs ''rate-limit-rps'' Atoi (\<lambda>v. on_cloudflare (RateLimitRPS_update (\<lambda>_. v)))
       ''cloudflare.rateLimitRPS'' ConfigSourceConfigMap
     (from_data kvs ''api-timeout'' ParseDuration (\<lambda>v. on_cloudflare (APITimeout_update (\<lambda>_. v)))
       ''cloudflare.apiTimeout'' ConfigSourceConfigMap
     (from_data kvs ''reconcile-interval'' ParseDuration
       (\<lambda>v. on_operator (ReconcileInterval_update (\<lambda>_. v)))
       ''operator.reconcileInterval'' ConfigSourceConfigMap
     (from_data kvs ''log-level'' Some (\<lambda>v. on_operator (LogLevel_update (\<lambda>_. v)))
       ''operator.logLevel'' ConfigSourceConfigMap
     (from_data kvs ''environment'' Some (\<lambda>v. Environment_update (\<lambda>_. v))
       ''environment'' ConfigSourceConfigMap zero_config))))"

definition secret_keys :: "(string \<times> string) list \<Rightarrow> Config" where
  "secret_keys kvs =
     from_data kvs ''rate-limit-rps'' Atoi (\<lambda>v. on_cloudflare (RateLimitRPS_update (\<lambda>_. v)))
       ''cloudflare.rateLimitRPS'' ConfigSourceSecret
     (from_data kvs ''api-timeout'' ParseDuration (\<lambda>v. on_cloudflare (APITimeout_update (\<lambda>_. v)))
       ''cloudflare.apiTimeout'' ConfigSourceSecret
     (from_data kvs ''environment'' Some (\<lambda>v. Environment_update (\<lambda>_. v))
       ''environment'' ConfigSourceSecret zero_config))"

definition LoadFromConfigMap :: "load_env \<Rightarrow> ConfigLoader \<Rightarrow> string \<Rightarrow> load_error + Config" where
  "LoadFromConfigMap env cl name =
     (case le_ConfigMap env of
        None \<Rightarrow> Inl (ClientRequired ''ConfigMap'')
      | Some get \<Rightarrow>
          (case get (cl_namespace cl) name of
             GetNotFound \<Rightarrow> Inl (ResourceNotFound ''ConfigMap'' (cl_namespace cl) name)
           | GetFailed err \<Rightarrow> Inl (GetError ''ConfigMap'' (cl_namespace cl) name err)
           | GetFound kvs \<Rightarrow>
               (case structured_entry env kvs of
                  Some temp \<Rightarrow>
                    Inr (markFieldsFromSource (Merge zero_config (Some temp)) ConfigSourceConfigMap)
                | None \<Rightarrow> Inr (configmap_keys kvs))))"

definition LoadFromSecret :: "load_env \<Rightarrow> ConfigLoader \<Rightarrow> string \<Rightarrow> load_error + Config" where
  "LoadFromSecret env cl name =
     (case le_Secret env of
        None \<Rightarrow> Inl (ClientRequired ''Secret'')
      | Some get \<Rightarrow>
          (case get (cl_namespace cl) name of
             GetNotFound \<Rightarrow> Inl (ResourceNotFound ''secret'' (cl_namespace cl) name)
           | GetFailed err \<Rightarrow> Inl (GetError ''Secret'' (cl_namespace cl) name err)
           | GetFound kvs \<Rightarrow>
               (case structured_entry env kvs of
                  Some temp \<Rightarrow>
                    Inr (markFieldsFromSource (Merge zero_config (Some temp)) ConfigSourceSecret)
                | None \<Rightarrow> Inr (secret_keys kvs))))"

section \<open>Layering\<close>

type_synonym layered = "Config \<times> (string, ConfigSource) fmap"

text \<open>One optional layer: the configuration it loads is merged and its sources override.\<close>

definition add_layer :: "bool \<Rightarrow> string \<Rightarrow> load_error + Config \<Rightarrow> layered \<Rightarrow> load_error + layered" where
  "add_layer used what loaded s =
     (if used then
        (case while_doing what loaded of
           Inl e \<Rightarrow> Inl e
         | Inr c \<Rightarrow> Inr (Merge (fst s) (Some c), snd s ++\<^sub>f ConfigSources c))
      else Inr s)"

text \<open>
  The file layer is merged before its fields are marked; all its keys are then given the source
  \<open>ConfigSourceFile\<close>.
\<close>

definition add_file_layer :: "load_env \<Rightarrow> string \<Rightarrow> layered \<Rightarrow> load_error + layered" where
  "add_file_layer env path s =
     (if path \<noteq> [] then
        (case while_doing ''failed to load from file'' (LoadFromFile env path) of
           Inl e \<Rightarrow> Inl e
         | Inr c \<Rightarrow>
             Inr (Merge (fst s) (Some c),
               snd s ++\<^sub>f fmmap (\<lambda>_. ConfigSourceFile) (ConfigSources (markFieldsFromSource c ConfigSourceFile))))
      else Inr s)"

definition bind_sum :: "'e + 'a \<Rightarrow> ('a \<Rightarrow> 'e + 'b) \<Rightarrow> 'e + 'b" where
  "bind_sum r f = (case r of Inl e \<Rightarrow> Inl e | Inr x \<Rightarrow> f x)"

definition LoadWithPriority :: "load_env \<Rightarrow> ConfigLoader \<Rightarrow> LoadOptions \<Rightarrow> load_error + layered" where
  "LoadWithPriority env cl options =
     (case LoadOptions_Validate options of
        Some e \<Rightarrow> Inl (While ''invalid load options'' e)
      | None \<Rightarrow>
          let config = markFieldsFromSource NewConfig ConfigSourceDefault;
              sources = fmmap (\<lambda>_. ConfigSourceDefault) (ConfigSources config)
          in bind_sum (add_file_layer env (lo_FilePath options) (config, sources)) (\<lambda>s1.
             bind_sum (add_layer (lo_SecretName options \<noteq> []) ''failed to load from Secret''
               (LoadFromSecret env cl (lo_SecretName options)) s1) (\<lambda>s2.
             bind_sum (add_layer (lo_ConfigMapName options \<noteq> []) ''failed to load from ConfigMap''
               (LoadFromConfigMap env cl (lo_ConfigMapName options)) s2) (\<lambda>s3.
             bind_sum (add_layer (lo_LoadFromEnv options) ''failed to load from environment''
               (LoadFromEnv env) s3) (\<lambda>s4.
             if lo_ValidateConfig options then
               (case Validate (le_net env) (Some (fst s4)) of
                  Some e \<Rightarrow> Inl (ValidationFailed e)
                | None \<Rightarrow> Inr s4)
             else Inr s4)))))"

end
