(* ===== verification/ConfigLayers.thy ===== *)
theory ConfigLayers
  imports ConfigTypes
begin

text \<open>
  What merging layers of configuration means: for every text and number the last layer that sets it
  wins, merging is associative, and the switches behave differently.
\<close>

lemma last_set_Cons: "last_set zero a (v # vs) = last_set zero (if v \<noteq> zero then v else a) vs"
  by (simp add: last_set_def Let_def)

text \<open>
  The two contracts a part of a configuration can have with \<open>Merge\<close>: a field, which a layer replaces when the layer
  has it set, and a switch, which a layer can only turn on.
\<close>

locale layered_field =
  fixes get :: "Config \<Rightarrow> 'a" and unset :: 'a
  assumes get_merge: "get (Merge c (Some l)) = (if get l \<noteq> unset then get l else get c)"
begin

lemma get_layers: "get (merge_all base ls) = last_set unset (get base) (map get ls)"
  by (induction ls arbitrary: base) (simp_all add: get_merge last_set_Cons)

lemma get_top_layer: "ls \<noteq> [] \<Longrightarrow> get (last ls) \<noteq> unset \<Longrightarrow> get (merge_all base ls) = get (last ls)"
  by (cases ls rule: rev_cases) (simp_all add: get_layers last_set_snoc)

end

locale layered_switch =
  fixes get :: "Config \<Rightarrow> bool"
  assumes get_merge: "get (Merge c (Some l)) = (get c \<or> get l)"
begin

lemma get_layers: "get (merge_all base ls) = (get base \<or> (\<exists>l \<in> set ls. get l))"
  by (induction ls arbitrary: base) (auto simp: get_merge)

lemma stays_on: "get base \<Longrightarrow> get (merge_all base ls)"
  by (simp add: get_layers)

end

lemma Merge_fields:
  "Environment (Merge c (Some l)) = over_str (Environment c) (Environment l)"
  "Operator (Merge c (Some l)) = merge_operator (Operator c) (Operator l)"
  "Cloudflare (Merge c (Some l)) = merge_cloudflare (Cloudflare c) (Cloudflare l)"
  "Performance (Merge c (Some l)) = merge_performance (Performance c) (Performance l)"
  "Features (Merge c (Some l)) = merge_features (Features c) (Features l)"
  "ConfigSources (Merge c (Some l)) = ConfigSources c"
  by (simp_all add: Merge_def)

lemma merge_part_fields [simp]:
  "LogLevel (merge_operator r v) = over_str (LogLevel r) (LogLevel v)"
  "ReconcileInterval (merge_operator r v) = over_num (ReconcileInterval r) (ReconcileInterval v)"
  "MetricsBindAddress (merge_operator r v) = over_str (MetricsBindAddress r) (MetricsBindAddress v)"
  "HealthProbeBindAddress (merge_operator r v)
     = over_str (HealthProbeBindAddress r) (HealthProbeBindAddress v)"
  "LeaderElection (merge_operator r v) = LeaderElection r"
  "APITimeout (merge_cloudflare s w) = over_num (APITimeout s) (APITimeout w)"
  "RateLimitRPS (merge_cloudflare s w) = over_num (RateLimitRPS s) (RateLimitRPS w)"
  "RetryAttempts (merge_cloudflare s w) = over_num (RetryAttempts s) (RetryAttempts w)"
  "RetryDelay (merge_cloudflare s w) = over_num (RetryDelay s) (RetryDelay w)"
  "MaxConcurrentReconciles (merge_performance p x)
     = over_num (MaxConcurrentReconciles p) (MaxConcurrentReconciles x)"
  "ReconcileTimeout (merge_performance p x) = over_num (ReconcileTimeout p) (ReconcileTimeout x)"
  "RequeueInterval (merge_performance p x) = over_num (RequeueInterval p) (RequeueInterval x)"
  "RequeueIntervalOnError (merge_performance p x)
     = over_num (RequeueIntervalOnError p) (RequeueIntervalOnError x)"
  by (simp_all add: merge_operator_def merge_cloudflare_def merge_performance_def)

text \<open>The custom flags and the switches of a features section that may be absent.\<close>

definition custom_flags :: "Config \<Rightarrow> (string, bool) fmap" where
  "custom_flags c = (case Features c of None \<Rightarrow> fmempty | Some ff \<Rightarrow> CustomFlags ff)"

definition switch :: "(FeatureFlags \<Rightarrow> bool) \<Rightarrow> Config \<Rightarrow> bool" where
  "switch sw c = (case Features c of None \<Rightarrow> False | Some ff \<Rightarrow> sw ff)"

lemma switch_merge:
  assumes "\<And>a b. sw (merge_flags a b) = (sw a \<or> sw b)" and "\<not> sw zero_flags"
  shows "switch sw (Merge c (Some l)) = (switch sw c \<or> switch sw l)"
  using assms by (auto simp: switch_def Merge_fields merge_features_def split: option.splits)

lemma custom_merge: "custom_flags (Merge c (Some l)) = custom_flags c ++\<^sub>f custom_flags l"
  by (auto simp: custom_flags_def Merge_fields merge_features_def merge_flags_def zero_flags_def split: option.splits)

text \<open>The fields and switches of a configuration meet the contracts.\<close>

interpretation environment: layered_field Environment "[]"
  by unfold_locales (simp add: Merge_fields over_defs)

interpretation log_level: layered_field "\<lambda>c. LogLevel (Operator c)" "[]"
  by unfold_locales (simp add: Merge_fields over_defs)

interpretation reconcile_interval: layered_field "\<lambda>c. ReconcileInterval (Operator c)" "0"
  by unfold_locales (simp add: Merge_fields over_defs)

interpretation metrics_address: layered_field "\<lambda>c. MetricsBindAddress (Operator c)" "[]"
  by unfold_locales (simp add: Merge_fields over_defs)

interpretation probe_address: layered_field "\<lambda>c. HealthProbeBindAddress (Operator c)" "[]"
  by unfold_locales (simp add: Merge_fields over_defs)

interpretation api_timeout: layered_field "\<lambda>c. APITimeout (Cloudflare c)" "0"
  by unfold_locales (simp add: Merge_fields over_defs)

interpretation rate_limit: layered_field "\<lambda>c. RateLimitRPS (Cloudflare c)" "0"
  by unfold_locales (simp add: Merge_fields over_defs)

interpretation retry_attempts: layered_field "\<lambda>c. RetryAttempts (Cloudflare c)" "0"
  by unfold_locales (simp add: Merge_fields over_defs)

interpretation retry_delay: layered_field "\<lambda>c. RetryDelay (Cloudflare c)" "0"
  by unfold_locales (simp add: Merge_fields over_defs)

interpretation max_concurrent: layered_field "\<lambda>c. MaxConcurrentReconciles (Performance c)" "0"
  by unfold_locales (simp add: Merge_fields over_defs)

interpretation requeue_interval: layered_field "\<lambda>c. RequeueInterval (Performance c)" "0"
  by unfold_locales (simp add: Merge_fields over_defs)

interpretation custom_flag: layered_field "\<lambda>c. fmlookup (custom_flags c) k" None for k
  by unfold_locales (auto simp: custom_merge fmlookup_dom_iff)

interpretation webhooks: layered_switch "switch EnableWebhooks"
  by unfold_locales (rule switch_merge, auto simp: merge_flags_def zero_flags_def)

interpretation metrics: layered_switch "switch EnableMetrics"
  by unfold_locales (rule switch_merge, auto simp: merge_flags_def zero_flags_def)

interpretation tracing: layered_switch "switch EnableTracing"
  by unfold_locales (rule switch_merge, auto simp: merge_flags_def zero_flags_def)

interpretation experiments: layered_switch "switch ExperimentalFeatures"
  by unfold_locales (rule switch_merge, auto simp: merge_flags_def zero_flags_def)

lemmas field_layers = environment.get_layers log_level.get_layers reconcile_interval.get_layers metrics_address.get_layers probe_address.get_layers api_timeout.get_layers
  rate_limit.get_layers retry_attempts.get_layers retry_delay.get_layers max_concurrent.get_layers requeue_interval.get_layers custom_flag.get_layers

lemmas switch_layers = webhooks.get_layers metrics.get_layers tracing.get_layers experiments.get_layers

text \<open>Merging configurations is associative, with the zero configuration (and a nil one) as its
  neutral element on the right: a stack of layers means the same however it is grouped.\<close>

theorem merge_is_monoid:
  "Merge (Merge a (Some b)) (Some c) = Merge a (Some (Merge b (Some c)))
   \<and> Merge a (Some zero_config) = a \<and> Merge a None = a"
  by (simp add: Merge_assoc Merge_zero Merge_None)


text \<open>Switches do not follow the layering: a standard feature is on after merging iff the base or any
  layer has it on, so no layer can turn off what a lower one (or the defaults) turned on, and leader
  election stays what the base says whatever the layers say.\<close>

theorem switches_are_sticky:
  "(switch EnableWebhooks (merge_all base ls)
      = (switch EnableWebhooks base \<or> (\<exists>l \<in> set ls. switch EnableWebhooks l)))
   \<and> (switch EnableMetrics (merge_all base ls)
      = (switch EnableMetrics base \<or> (\<exists>l \<in> set ls. switch EnableMetrics l)))
   \<and> (switch EnableTracing (merge_all base ls)
      = (switch EnableTracing base \<or> (\<exists>l \<in> set ls. switch EnableTracing l)))
   \<and> (switch ExperimentalFeatures (merge_all base ls)
      = (switch ExperimentalFeatures base \<or> (\<exists>l \<in> set ls. switch ExperimentalFeatures l)))
   \<and> LeaderElection (Operator (merge_all base ls)) = LeaderElection (Operator base)"
proof -
  have "LeaderElection (Operator (merge_all base ls)) = LeaderElection (Operator base)"
    by (induction ls arbitrary: base) (simp_all add: Merge_fields)
  then show ?thesis by (simp add: switch_layers)
qed

end
