(* ===== verification/ConfigLoaderProps.thy ===== *)
theory ConfigLoaderProps
  imports ConfigLoader ConfigLayers "HOL-Library.Multiset"
begin

text \<open>
  What loading guarantees: a loaded configuration is the layering of its sources and validated when
  asked for, the environment has the last word on texts and nonzero numbers, but not on switches and zeros,
  and a ConfigMap with two whole configurations has no determined meaning.
\<close>

section \<open>Loading is layering\<close>

text \<open>The layers that the options select, from the lowest priority to the highest.\<close>

definition used_layers :: "load_env \<Rightarrow> ConfigLoader \<Rightarrow> LoadOptions \<Rightarrow> (load_error + Config) list" where
  "used_layers env cl o' =
     (if lo_FilePath o' \<noteq> [] then [LoadFromFile env (lo_FilePath o')] else [])
     @ (if lo_SecretName o' \<noteq> [] then [LoadFromSecret env cl (lo_SecretName o')] else [])
     @ (if lo_ConfigMapName o' \<noteq> [] then [LoadFromConfigMap env cl (lo_ConfigMapName o')] else [])
     @ (if lo_LoadFromEnv o' then [LoadFromEnv env] else [])"

lemma bind_sum_Inr: "bind_sum r f = Inr y \<longleftrightarrow> (\<exists>x. r = Inr x \<and> f x = Inr y)"
  by (auto simp: bind_sum_def split: sum.splits)

lemma while_doing_Inr [simp]: "while_doing what r = Inr x \<longleftrightarrow> r = Inr x"
  by (cases r) (auto simp: while_doing_def)

lemma while_doing_Inl: "while_doing what r = Inl e \<Longrightarrow> \<exists>e'. r = Inl e'"
  by (cases r) (auto simp: while_doing_def)

lemma add_layer_Inr:
  "add_layer used what r s = Inr s' \<Longrightarrow>
     \<exists>ls. (if used then [r] else []) = map Inr ls \<and> fst s' = merge_all (fst s) ls"
  by (cases r) (auto simp: add_layer_def while_doing_def split: if_splits intro!: exI [of _ "[_]"])

lemma add_file_layer_Inr:
  "add_file_layer env path s = Inr s' \<Longrightarrow>
     \<exists>ls. (if path \<noteq> [] then [LoadFromFile env path] else []) = map Inr ls \<and> fst s' = merge_all (fst s) ls"
  by (cases "LoadFromFile env path")
    (auto simp: add_file_layer_def while_doing_def split: if_splits intro!: exI [of _ "[_]"])

lemma load_layers:
  assumes "LoadWithPriority env cl o' = Inr (c, src)"
  shows "\<exists>ls. used_layers env cl o' = map Inr ls
    \<and> c = merge_all (markFieldsFromSource NewConfig ConfigSourceDefault) ls
    \<and> (lo_ValidateConfig o' \<longrightarrow> Validate (le_net env) (Some c) = None)"
proof -
  let ?s0 = "(markFieldsFromSource NewConfig ConfigSourceDefault,
      fmmap (\<lambda>_. ConfigSourceDefault) (ConfigSources (markFieldsFromSource NewConfig ConfigSourceDefault)))"
  from assms obtain s1 s2 s3 s4 where s:
    "add_file_layer env (lo_FilePath o') ?s0 = Inr s1"
    "add_layer (lo_SecretName o' \<noteq> []) ''failed to load from Secret''
       (LoadFromSecret env cl (lo_SecretName o')) s1 = Inr s2"
    "add_layer (lo_ConfigMapName o' \<noteq> []) ''failed to load from ConfigMap''
       (LoadFromConfigMap env cl (lo_ConfigMapName o')) s2 = Inr s3"
    "add_layer (lo_LoadFromEnv o') ''failed to load from environment'' (LoadFromEnv env) s3 = Inr s4"
    "s4 = (c, src)" "lo_ValidateConfig o' \<longrightarrow> Validate (le_net env) (Some c) = None"
    by (auto simp: LoadWithPriority_def bind_sum_Inr Let_def split: option.splits if_splits)
  from add_file_layer_Inr [OF s(1)] add_layer_Inr [OF s(2)] add_layer_Inr [OF s(3)] add_layer_Inr [OF s(4)]
  obtain l1 l2 l3 l4 where l:
    "(if lo_FilePath o' \<noteq> [] then [LoadFromFile env (lo_FilePath o')] else []) = map Inr l1"
    "(if lo_SecretName o' \<noteq> [] then [LoadFromSecret env cl (lo_SecretName o')] else []) = map Inr l2"
    "(if lo_ConfigMapName o' \<noteq> [] then [LoadFromConfigMap env cl (lo_ConfigMapName o')] else []) = map Inr l3"
    "(if lo_LoadFromEnv o' then [LoadFromEnv env] else []) = map Inr l4"
    "fst s1 = merge_all (fst ?s0) l1" "fst s2 = merge_all (fst s1) l2"
    "fst s3 = merge_all (fst s2) l3" "fst s4 = merge_all (fst s3) l4" by blast
  have a: "used_layers env cl o' = map Inr (l1 @ l2 @ l3 @ l4)"
    unfolding used_layers_def l(1-4) by simp
  have b: "c = merge_all (markFieldsFromSource NewConfig ConfigSourceDefault) (l1 @ l2 @ l3 @ l4)"
    using l(5-8) s(5) by (simp add: merge_all_append)
  show ?thesis by (rule exI, rule conjI, rule a, rule conjI, rule b, rule s(6))
qed

text \<open>C10: A configuration that \<open>LoadWithPriority\<close> returns is the defaults merged with exactly the selected
  sources, in the order file, Secret, ConfigMap, environment, each of which loaded without an error;
  and it is valid if validation was requested.\<close>

theorem load_is_layering:
  assumes "LoadWithPriority env cl o' = Inr (c, src)"
  shows "\<exists>ls. used_layers env cl o' = map Inr ls
    \<and> c = merge_all (markFieldsFromSource NewConfig ConfigSourceDefault) ls
    \<and> (lo_ValidateConfig o' \<longrightarrow> Validate (le_net env) (Some c) = None)"
  using assms by (rule load_layers)

section \<open>The environment\<close>

lemma from_env_other:
  assumes "\<And>x c. f (put x c) = f c" and "\<And>k s c. f (mark k s c) = f c"
  shows "f (from_env env name parse put key c) = f c"
  using assms by (simp add: from_env_def take_value_def Let_def split: option.split)

lemma from_env_source_other:
  assumes "\<And>x c. ConfigSources (put x c) = ConfigSources c" and "k \<noteq> key"
  shows "fmlookup (ConfigSources (from_env env name parse put key c)) k = fmlookup (ConfigSources c) k"
  using assms by (simp add: from_env_def take_value_def mark_def Let_def split: option.split)

lemma from_env_set:
  "le_Getenv env name = v \<Longrightarrow> v \<noteq> [] \<Longrightarrow> parse v = Some x \<Longrightarrow>
     from_env env name parse put key c = mark key ConfigSourceEnv (put x c)"
  by (simp add: from_env_def take_value_def Let_def)

lemma mark_fields [simp]:
  "Environment (mark k s c) = Environment c" "Operator (mark k s c) = Operator c"
  "Cloudflare (mark k s c) = Cloudflare c" "Features (mark k s c) = Features c"
  "Performance (mark k s c) = Performance c"
  by (simp_all add: mark_def)

lemmas env_keeps =
  from_env_other [where f = "\<lambda>c. RateLimitRPS (Cloudflare c)"]
  from_env_other [where f = "\<lambda>c. LogLevel (Operator c)"]
  from_env_other [where f = Environment]
  from_env_other [where f = "\<lambda>c. EnableWebhooks (the (Features c))"]
  from_env_source_other

lemmas load_env_defs = loadBasicFields_def loadOperatorConfig_def loadCloudflareConfig_def
  loadFeatureFlags_def loadPerformanceConfig_env_def

lemma env_layer_last:
  assumes "LoadWithPriority env cl o' = Inr (c, src)" and "lo_LoadFromEnv o'" and "LoadFromEnv env = Inr e"
  shows "\<exists>ls. ls \<noteq> [] \<and> last ls = e \<and> c = merge_all (markFieldsFromSource NewConfig ConfigSourceDefault) ls"
proof -
  from load_layers [OF assms(1)] obtain ls where ls: "used_layers env cl o' = map Inr ls"
    "c = merge_all (markFieldsFromSource NewConfig ConfigSourceDefault) ls" by blast
  have "used_layers env cl o' \<noteq> []" "last (used_layers env cl o') = Inr e"
    using assms(2,3) by (simp_all add: used_layers_def)
  with ls have "ls \<noteq> []" "last ls = e" by (auto simp: last_map)
  with ls(2) show ?thesis by blast
qed

lemma env_sources:
  assumes "LoadWithPriority env cl o' = Inr (c, src)" and "lo_LoadFromEnv o'" and "LoadFromEnv env = Inr e"
    and "fmlookup (ConfigSources e) k = Some s"
  shows "fmlookup src k = Some s"
  using assms
  by (auto simp: LoadWithPriority_def bind_sum_Inr Let_def add_layer_def [of True] while_doing_def
      fmdomI split: option.splits if_splits)

lemma load_env_values:
  assumes "LoadFromEnv env = Inr e"
  shows "le_Getenv env ''CONFIG_ENVIRONMENT'' = v \<Longrightarrow> v \<noteq> [] \<Longrightarrow>
      Environment e = v \<and> fmlookup (ConfigSources e) ''environment'' = Some ConfigSourceEnv"
    and "le_Getenv env ''CONFIG_OPERATOR_LOG_LEVEL'' = v \<Longrightarrow> v \<noteq> [] \<Longrightarrow>
      LogLevel (Operator e) = v \<and> fmlookup (ConfigSources e) ''operator.logLevel'' = Some ConfigSourceEnv"
    and "le_Getenv env ''CONFIG_CLOUDFLARE_RATE_LIMIT_RPS'' = v \<Longrightarrow> v \<noteq> [] \<Longrightarrow> Atoi v = Some n \<Longrightarrow>
      RateLimitRPS (Cloudflare e) = n
      \<and> fmlookup (ConfigSources e) ''cloudflare.rateLimitRPS'' = Some ConfigSourceEnv"
    and "le_Getenv env ''CONFIG_FEATURES_ENABLE_WEBHOOKS'' = v \<Longrightarrow> v \<noteq> [] \<Longrightarrow> ParseBool v = Some b \<Longrightarrow>
      fmlookup (ConfigSources e) ''features.enableWebhooks'' = Some ConfigSourceEnv"
proof -
  have e: "e = loadPerformanceConfig_env env (loadFeatureFlags env (loadCloudflareConfig env
       (loadOperatorConfig env (loadBasicFields env zero_config))))"
    using assms by (simp add: LoadFromEnv_def)
  show "le_Getenv env ''CONFIG_ENVIRONMENT'' = v \<Longrightarrow> v \<noteq> [] \<Longrightarrow>
      Environment e = v \<and> fmlookup (ConfigSources e) ''environment'' = Some ConfigSourceEnv"
    by (simp add: e load_env_defs env_keeps on_part_defs Let_def from_env_set)
      (simp add: mark_def)
  show "le_Getenv env ''CONFIG_OPERATOR_LOG_LEVEL'' = v \<Longrightarrow> v \<noteq> [] \<Longrightarrow>
      LogLevel (Operator e) = v \<and> fmlookup (ConfigSources e) ''operator.logLevel'' = Some ConfigSourceEnv"
    by (simp add: e load_env_defs env_keeps on_part_defs Let_def from_env_set)
      (simp add: mark_def)
  show "le_Getenv env ''CONFIG_CLOUDFLARE_RATE_LIMIT_RPS'' = v \<Longrightarrow> v \<noteq> [] \<Longrightarrow> Atoi v = Some n \<Longrightarrow>
      RateLimitRPS (Cloudflare e) = n
      \<and> fmlookup (ConfigSources e) ''cloudflare.rateLimitRPS'' = Some ConfigSourceEnv"
    by (simp add: e load_env_defs env_keeps on_part_defs Let_def from_env_set)
      (simp add: mark_def)
  show "le_Getenv env ''CONFIG_FEATURES_ENABLE_WEBHOOKS'' = v \<Longrightarrow> v \<noteq> [] \<Longrightarrow> ParseBool v = Some b \<Longrightarrow>
      fmlookup (ConfigSources e) ''features.enableWebhooks'' = Some ConfigSourceEnv"
    by (simp add: e load_env_defs env_keeps on_part_defs Let_def from_env_set)
      (simp add: mark_def)
qed

lemma LoadFromEnv_Inr: "\<exists>e. LoadFromEnv env = Inr e"
  by (simp add: LoadFromEnv_def)


lemma webhooks_stay_on:
  assumes "LoadWithPriority env cl o' = Inr (c, src)"
  shows "switch EnableWebhooks c"
proof -
  obtain ls where c: "c = merge_all (markFieldsFromSource NewConfig ConfigSourceDefault) ls"
    using load_layers [OF assms] by blast
  have "switch EnableWebhooks (markFieldsFromSource NewConfig ConfigSourceDefault)"
    by (simp add: switch_def markFieldsFromSource_def mark_if_def Let_def NewConfig_def)
  then show ?thesis
    unfolding c by (rule webhooks.stays_on)
qed

text \<open>What the environment cannot do: setting \<open>CONFIG_FEATURES_ENABLE_WEBHOOKS\<close> to a false value leaves
  webhooks enabled, in every load, while the source map attributes the setting to the environment.\<close>

theorem environment_cannot_disable_webhooks:
  assumes "LoadWithPriority env cl o' = Inr (c, src)" and "lo_LoadFromEnv o'"
    and "le_Getenv env ''CONFIG_FEATURES_ENABLE_WEBHOOKS'' = v" and "ParseBool v = Some False"
  shows "switch EnableWebhooks c \<and> fmlookup src ''features.enableWebhooks'' = Some ConfigSourceEnv"
proof -
  obtain x where x: "LoadFromEnv env = Inr x" using LoadFromEnv_Inr by blast
  have "v \<noteq> []" using assms(4) by (auto simp: ParseBool_def)
  from load_env_values(4) [OF x assms(3) this assms(4)] env_sources [OF assms(1,2) x]
  show ?thesis using webhooks_stay_on [OF assms(1)] by blast
qed

section \<open>The order of a map\<close>

definition is_structured :: "string \<times> string \<Rightarrow> bool" where
  "is_structured kv \<longleftrightarrow> fst kv \<in> {''config.json'', ''config.yaml'', ''config.yml''}"

lemma structured_entry_filter:
  "structured_entry env kvs = structured_entry env (filter is_structured kvs)"
  by (induction env kvs rule: structured_entry.induct) (auto simp: is_structured_def split: prod.splits option.splits)

lemma short_filter_mset:
  assumes "mset xs = mset ys" and "length (filter P xs) \<le> 1"
  shows "filter P ys = filter P xs"
proof -
  have m: "mset (filter P ys) = mset (filter P xs)" using assms(1) by simp
  show ?thesis
  proof (cases "filter P xs")
    case Nil
    with m show ?thesis by (simp only: mset.simps mset_zero_iff)
  next
    case (Cons a as)
    with assms(2) have "filter P xs = [a]" by simp
    with m show ?thesis by (simp del: mset_filter)
  qed
qed

lemma map_of_mset:
  assumes "mset xs = mset ys" and "distinct (map fst xs)"
  shows "map_of ys = map_of xs"
proof (rule map_of_eqI)
  show "set (map fst ys) = set (map fst xs)" using assms(1) by (metis mset_map set_mset_mset)
  have d: "distinct (map fst ys)" using assms by (metis mset_eq_imp_distinct_iff mset_map)
  show "\<forall>k \<in> set (map fst ys). map_of ys k = map_of xs k"
    using assms d by (metis map_of_eq_Some_iff map_of_SomeD mset_eq_setD not_None_eq weak_map_of_SomeI)
qed

definition with_data :: "load_env \<Rightarrow> (string \<times> string) list \<Rightarrow> load_env" where
  "with_data env kvs = env\<lparr>le_ConfigMap := Some (\<lambda>_ _. GetFound kvs)\<rparr>"

text \<open>A ConfigMap with at most one whole configuration loads the same in every iteration order of its
  entries.\<close>

theorem configmap_order_irrelevant:
  assumes "mset kvs = mset kvs'" and "distinct (map fst kvs)"
    and "length (filter is_structured kvs) \<le> 1"
  shows "LoadFromConfigMap (with_data env kvs) cl name = LoadFromConfigMap (with_data env kvs') cl name"
proof -
  have "structured_entry e kvs' = structured_entry e kvs" for e
    using structured_entry_filter [of e kvs] structured_entry_filter [of e kvs']
      short_filter_mset [OF assms(1,3)] by simp
  moreover have "structured_entry (with_data env l) = structured_entry env" for l
    by (rule ext, rename_tac x, induct_tac x) (auto simp: with_data_def split: prod.splits option.splits)
  moreover have "configmap_keys kvs' = configmap_keys kvs"
    by (simp add: configmap_keys_def from_data_def map_of_mset [OF assms(1,2)])
  ultimately show ?thesis by (simp add: LoadFromConfigMap_def with_data_def split: option.split)
qed

text \<open>With two whole configurations, \<open>config.json\<close> and \<open>config.yaml\<close>, the result depends on the iteration
  order, which Go leaves open: the same ConfigMap can load as either.\<close>

theorem configmap_order_decides:
  "\<exists>env kvs kvs'. mset kvs = mset kvs' \<and> distinct (map fst kvs)
     \<and> LoadFromConfigMap (with_data env kvs) cl name \<noteq> LoadFromConfigMap (with_data env kvs') cl name"
proof -
  define put where "put = (\<lambda>v (c::Config). (c\<lparr>Environment := v\<rparr>, None :: string option))"
  define env where "env = \<lparr>le_Getenv = (\<lambda>_. []), le_ReadFile = (\<lambda>_. Inl []), le_json = put, le_yaml = put,
    le_ConfigMap = None, le_Secret = None, le_net = \<lparr>net_ParseIP = (\<lambda>_. False), net_LookupPort = (\<lambda>_. True)\<rparr>\<rparr>"
  let ?a = "(''config.json'', ''production'')" and ?b = "(''config.yaml'', ''staging'')"
  have first: "\<exists>c. LoadFromConfigMap (with_data env [?a, ?b]) cl name = Inr c \<and> Environment c = ''production''"
    by (simp add: LoadFromConfigMap_def with_data_def env_def put_def markFieldsFromSource_def Let_def mark_if_def
        Merge_def zero_config_def over_str_def)
  have second: "\<exists>c. LoadFromConfigMap (with_data env [?b, ?a]) cl name = Inr c \<and> Environment c = ''staging''"
    by (simp add: LoadFromConfigMap_def with_data_def env_def put_def markFieldsFromSource_def Let_def mark_if_def
        Merge_def zero_config_def over_str_def)
  have "LoadFromConfigMap (with_data env [?a, ?b]) cl name \<noteq> LoadFromConfigMap (with_data env [?b, ?a]) cl name"
    using first second by auto
  moreover have "mset [?a, ?b] = mset [?b, ?a]" "distinct (map fst [?a, ?b])" by simp_all
  ultimately show ?thesis by blast
qed

section \<open>Witnesses\<close>

definition demo_load_env :: load_env where
  "demo_load_env = \<lparr>
     le_Getenv = (\<lambda>n. if n = ''CONFIG_ENVIRONMENT'' then ''staging''
       else if n = ''CONFIG_OPERATOR_LOG_LEVEL'' then ''debug''
       else if n = ''CONFIG_CLOUDFLARE_RATE_LIMIT_RPS'' then ''20''
       else if n = ''CONFIG_FEATURES_ENABLE_WEBHOOKS'' then ''false'' else []),
     le_ReadFile = (\<lambda>_. Inl ''no such file''), le_json = (\<lambda>_ c. (c, None)), le_yaml = (\<lambda>_ c. (c, None)),
     le_ConfigMap = None, le_Secret = None,
     le_net = \<lparr>net_ParseIP = (\<lambda>_. False), net_LookupPort = (\<lambda>_. True)\<rparr>\<rparr>"

definition demo_env_options :: LoadOptions where
  "demo_env_options = \<lparr>lo_FilePath = [], lo_ConfigMapName = [], lo_SecretName = [],
     lo_LoadFromEnv = True, lo_ValidateConfig = False\<rparr>"

lemma demo_load: "\<exists>c src. LoadWithPriority demo_load_env (NewConfigLoader ''ns'') demo_env_options = Inr (c, src)"
proof -
  obtain x where "LoadFromEnv demo_load_env = Inr x" using LoadFromEnv_Inr by blast
  then show ?thesis
    by (simp add: LoadWithPriority_def LoadOptions_Validate_def fail_if_def demo_env_options_def bind_sum_def
        add_file_layer_def add_layer_def while_doing_def Let_def)
qed

theorem load_is_layering_witness:
  "\<exists>c src ls. LoadWithPriority demo_load_env (NewConfigLoader ''ns'') demo_env_options = Inr (c, src)
     \<and> [LoadFromEnv demo_load_env] = map Inr ls
     \<and> c = merge_all (markFieldsFromSource NewConfig ConfigSourceDefault) ls"
proof -
  obtain c src where l: "LoadWithPriority demo_load_env (NewConfigLoader ''ns'') demo_env_options = Inr (c, src)"
    using demo_load by blast
  have u: "used_layers demo_load_env (NewConfigLoader ''ns'') demo_env_options = [LoadFromEnv demo_load_env]"
    by (simp add: used_layers_def demo_env_options_def)
  from load_is_layering [OF l, unfolded u] obtain ls where
    a: "[LoadFromEnv demo_load_env] = map Inr ls"
    and b: "c = merge_all (markFieldsFromSource NewConfig ConfigSourceDefault) ls" by (elim exE conjE)
  show ?thesis by (rule exI [of _ c], rule exI [of _ src], rule exI [of _ ls]) (intro conjI l a b)
qed


theorem environment_cannot_disable_webhooks_witness:
  "\<exists>c src. LoadWithPriority demo_load_env (NewConfigLoader ''ns'') demo_env_options = Inr (c, src)
     \<and> switch EnableWebhooks c"
proof -
  obtain c src where l: "LoadWithPriority demo_load_env (NewConfigLoader ''ns'') demo_env_options = Inr (c, src)"
    using demo_load by blast
  have "switch EnableWebhooks c"
    using environment_cannot_disable_webhooks [OF l, of "''false''"]
    by (simp add: demo_env_options_def demo_load_env_def ParseBool_def)
  with l show ?thesis by blast
qed

theorem configmap_order_irrelevant_witness:
  "LoadFromConfigMap (with_data demo_load_env [(''config.json'', ''{}''), (''log-level'', ''info'')])
      (NewConfigLoader ''ns'') ''cfg''
   = LoadFromConfigMap (with_data demo_load_env [(''log-level'', ''info''), (''config.json'', ''{}'')])
      (NewConfigLoader ''ns'') ''cfg''"
  by (rule configmap_order_irrelevant) (simp_all add: is_structured_def)

end
