(* ===== verification/FeatureFlagManager.thy ===== *)
theory FeatureFlagManager
  imports ConfigTypes
begin

text \<open>
  The feature flag manager of \<open>internal/config/feature_flags.go\<close>. Every method holds the manager's
  lock, so it is one step on the flags, which may be nil.
\<close>

section \<open>Operations\<close>

record FeatureFlagMgr =
  fm_flags :: "FeatureFlags option"

definition NewFeatureFlagManager :: "FeatureFlags option \<Rightarrow> FeatureFlagMgr" where
  "NewFeatureFlagManager flags = \<lparr>fm_flags = flags\<rparr>"

definition IsEnabled :: "FeatureFlagMgr \<Rightarrow> string \<Rightarrow> bool" where
  "IsEnabled m flagName =
     (case fm_flags m of
        None \<Rightarrow> False
      | Some ff \<Rightarrow>
          if flagName = ''EnableWebhooks'' then EnableWebhooks ff
          else if flagName = ''EnableMetrics'' then EnableMetrics ff
          else if flagName = ''EnableTracing'' then EnableTracing ff
          else if flagName = ''ExperimentalFeatures'' then ExperimentalFeatures ff
          else (case fmlookup (CustomFlags ff) flagName of Some v \<Rightarrow> v | None \<Rightarrow> False))"

definition SetFlag :: "FeatureFlagMgr \<Rightarrow> string \<Rightarrow> bool \<Rightarrow> FeatureFlagMgr" where
  "SetFlag m flagName enabled =
     (case fm_flags m of
        None \<Rightarrow> m
      | Some ff \<Rightarrow> m\<lparr>fm_flags := Some (ff\<lparr>CustomFlags := fmupd flagName enabled (CustomFlags ff)\<rparr>)\<rparr>)"

definition GetStandardFlags :: "FeatureFlagMgr \<Rightarrow> (string, bool) fmap" where
  "GetStandardFlags m =
     (case fm_flags m of
        Some ff \<Rightarrow> fmap_of_list
          [(''EnableWebhooks'', EnableWebhooks ff), (''EnableMetrics'', EnableMetrics ff),
           (''EnableTracing'', EnableTracing ff), (''ExperimentalFeatures'', ExperimentalFeatures ff)]
      | None \<Rightarrow> fmap_of_list
          [(''EnableWebhooks'', False), (''EnableMetrics'', False),
           (''EnableTracing'', False), (''ExperimentalFeatures'', False)])"

definition GetAllFlags :: "FeatureFlagMgr \<Rightarrow> (string, bool) fmap" where
  "GetAllFlags m =
     (case fm_flags m of
        Some ff \<Rightarrow> fmap_of_list
          [(''EnableWebhooks'', EnableWebhooks ff), (''EnableMetrics'', EnableMetrics ff),
           (''EnableTracing'', EnableTracing ff), (''ExperimentalFeatures'', ExperimentalFeatures ff)]
          ++\<^sub>f CustomFlags ff
      | None \<Rightarrow> fmap_of_list
          [(''EnableWebhooks'', False), (''EnableMetrics'', False),
           (''EnableTracing'', False), (''ExperimentalFeatures'', False)])"

definition GetCustomFlags :: "FeatureFlagMgr \<Rightarrow> (string, bool) fmap" where
  "GetCustomFlags m = (case fm_flags m of Some ff \<Rightarrow> fmempty ++\<^sub>f CustomFlags ff | None \<Rightarrow> fmempty)"

text \<open>The keys of a map in the order of \<open>sort.Strings\<close>; the iteration order of the map is irrelevant.\<close>

definition sorted_keys :: "(string, 'v) fmap \<Rightarrow> string list" where
  "sorted_keys m = sorted_list_of_fset (fmdom m)"

definition GetEnabledFlags :: "FeatureFlagMgr \<Rightarrow> string list" where
  "GetEnabledFlags m =
     (let allFlags = GetAllFlags m in sorted_keys (fmfilter (\<lambda>k. fmlookup allFlags k = Some True) allFlags))"

fun IsAnyEnabled :: "FeatureFlagMgr \<Rightarrow> string list \<Rightarrow> bool" where
  "IsAnyEnabled m [] = False"
| "IsAnyEnabled m (f # fs) = (if IsEnabled m f then True else IsAnyEnabled m fs)"

fun IsAllEnabled :: "FeatureFlagMgr \<Rightarrow> string list \<Rightarrow> bool" where
  "IsAllEnabled m [] = True"
| "IsAllEnabled m (f # fs) = (if \<not> IsEnabled m f then False else IsAllEnabled m fs)"

definition cloneFlags :: "FeatureFlagMgr \<Rightarrow> FeatureFlags" where
  "cloneFlags m = (case fm_flags m of None \<Rightarrow> zero_flags | Some ff \<Rightarrow> Copy_flags ff)"

definition Clone :: "FeatureFlagMgr \<Rightarrow> FeatureFlagMgr" where
  "Clone m = NewFeatureFlagManager (Some (cloneFlags m))"

definition WithEnvironmentOverrides :: "FeatureFlagMgr \<Rightarrow> string \<Rightarrow> FeatureFlagMgr" where
  "WithEnvironmentOverrides m environment =
     (let cloned = cloneFlags m in
      NewFeatureFlagManager (Some
        (if environment = ProductionEnv then
           cloned\<lparr>EnableTracing := False, ExperimentalFeatures := False\<rparr>
         else if environment = StagingEnv then
           cloned\<lparr>EnableTracing := True, ExperimentalFeatures := False\<rparr>
         else if environment = DevelopmentEnv then
           cloned\<lparr>EnableMetrics := True, EnableTracing := True, ExperimentalFeatures := True\<rparr>
         else if environment = TestEnv then
           cloned\<lparr>EnableTracing := False, ExperimentalFeatures := False\<rparr>
         else cloned)))"

definition standard_names :: "string list" where
  "standard_names = [''EnableWebhooks'', ''EnableMetrics'', ''EnableTracing'', ''ExperimentalFeatures'']"

text \<open>\<open>fmt.Sprintf("%s=%t", flag, value)\<close> and \<open>strings.Join(parts, ", ")\<close>.\<close>

definition show_flag :: "string \<Rightarrow> bool \<Rightarrow> string" where
  "show_flag flag v = flag @ ''='' @ show_bool v"

fun join_comma :: "string list \<Rightarrow> string" where
  "join_comma [] = []"
| "join_comma [s] = s"
| "join_comma (s # ss) = s @ '', '' @ join_comma ss"

definition fm_String :: "FeatureFlagMgr \<Rightarrow> string" where
  "fm_String m =
     (let allFlags = GetAllFlags m;
          standard = map (\<lambda>f. show_flag f (the (fmlookup allFlags f)))
            (filter (\<lambda>f. fmlookup allFlags f \<noteq> None) standard_names);
          rest = fmfilter (\<lambda>k. k \<notin> set standard_names) allFlags;
          custom = map (\<lambda>f. show_flag f (the (fmlookup rest f))) (sorted_keys rest)
      in ''FeatureFlags{'' @ join_comma (standard @ custom) @ ''}'')"

definition HasFlag :: "FeatureFlagMgr \<Rightarrow> string \<Rightarrow> bool" where
  "HasFlag m flagName =
     (case fm_flags m of
        None \<Rightarrow> False
      | Some ff \<Rightarrow>
          if flagName \<in> set standard_names then True
          else fmlookup (CustomFlags ff) flagName \<noteq> None)"

text \<open>
  \<open>SetStandardFlag\<close> finds the field by reflection: the four switches, or \<open>CustomFlags\<close>, which is not a
  boolean; no other field exists. Nil flags are replaced by empty ones first, also when it fails.
\<close>

definition SetStandardFlag :: "FeatureFlagMgr \<Rightarrow> string \<Rightarrow> bool \<Rightarrow> go_error option \<times> FeatureFlagMgr" where
  "SetStandardFlag m flagName enabled =
     (let ff = (case fm_flags m of None \<Rightarrow> zero_flags | Some f \<Rightarrow> f);
          set_to = (\<lambda>g. (None, m\<lparr>fm_flags := Some g\<rparr>))
      in if flagName = ''EnableWebhooks'' then set_to (ff\<lparr>EnableWebhooks := enabled\<rparr>)
         else if flagName = ''EnableMetrics'' then set_to (ff\<lparr>EnableMetrics := enabled\<rparr>)
         else if flagName = ''EnableTracing'' then set_to (ff\<lparr>EnableTracing := enabled\<rparr>)
         else if flagName = ''ExperimentalFeatures'' then set_to (ff\<lparr>ExperimentalFeatures := enabled\<rparr>)
         else if flagName = ''CustomFlags'' then
           (Some (ErrNew (''standard flag '' @ flagName @ '' is not a boolean'')), m\<lparr>fm_flags := Some ff\<rparr>)
         else
           (Some (ErrNew (''standard flag '' @ flagName @ '' does not exist'')), m\<lparr>fm_flags := Some ff\<rparr>))"

definition RemoveCustomFlag :: "FeatureFlagMgr \<Rightarrow> string \<Rightarrow> FeatureFlagMgr" where
  "RemoveCustomFlag m flagName =
     (case fm_flags m of
        None \<Rightarrow> m
      | Some ff \<Rightarrow> m\<lparr>fm_flags := Some (ff\<lparr>CustomFlags := fmdrop flagName (CustomFlags ff)\<rparr>)\<rparr>)"

definition ClearCustomFlags :: "FeatureFlagMgr \<Rightarrow> FeatureFlagMgr" where
  "ClearCustomFlags m =
     (case fm_flags m of None \<Rightarrow> m | Some ff \<Rightarrow> m\<lparr>fm_flags := Some (ff\<lparr>CustomFlags := fmempty\<rparr>)\<rparr>)"

section \<open>Properties\<close>

lemma Copy_flags_id [simp]: "Copy_flags ff = ff"
  by (simp add: Copy_flags_def)

lemma SetFlag_flags: "fm_flags m = Some ff \<Longrightarrow>
    fm_flags (SetFlag m f v) = Some (ff\<lparr>CustomFlags := fmupd f v (CustomFlags ff)\<rparr>)"
  by (simp add: SetFlag_def)

text \<open>Custom flags behave like a map that the standard flags shadow: \<open>SetFlag\<close> on a name that is not
  standard is seen by \<open>IsEnabled\<close>, on a standard name it changes nothing that \<open>IsEnabled\<close> reports, and
  no other flag is touched; \<open>RemoveCustomFlag\<close> undoes it.\<close>

theorem custom_flags_are_a_map:
  assumes "fm_flags m = Some ff"
  shows "IsEnabled (SetFlag m f v) g
      = (if g = f \<and> f \<notin> set standard_names then v else IsEnabled m g)
    \<and> (f \<notin> set standard_names \<longrightarrow> \<not> IsEnabled (RemoveCustomFlag (SetFlag m f v) f) f)
    \<and> (g \<noteq> f \<longrightarrow> IsEnabled (RemoveCustomFlag (SetFlag m f v) f) g = IsEnabled m g)"
  using assms
  by (simp add: IsEnabled_def SetFlag_def RemoveCustomFlag_def standard_names_def)

lemma enabled_in_all: "fmlookup (GetAllFlags m) f = Some True \<longleftrightarrow> f \<in> set (GetEnabledFlags m)"
  by (auto simp: GetEnabledFlags_def sorted_keys_def Let_def fmlookup_dom_iff)

text \<open>\<open>GetEnabledFlags\<close> lists, sorted and without repetition, exactly the names that \<open>GetAllFlags\<close> maps to
  true; when no custom flag carries a standard name, these are exactly the names for which
  \<open>IsEnabled\<close> holds.\<close>

theorem enabled_flags_listed:
  "sorted (GetEnabledFlags m) \<and> distinct (GetEnabledFlags m)
   \<and> (f \<in> set (GetEnabledFlags m) \<longleftrightarrow> fmlookup (GetAllFlags m) f = Some True)
   \<and> ((\<forall>g \<in> set standard_names. fmlookup (GetCustomFlags m) g = None) \<longrightarrow>
        (f \<in> set (GetEnabledFlags m) \<longleftrightarrow> IsEnabled m f))"
proof -
  have "fmlookup (GetAllFlags m) f = Some True \<longleftrightarrow> IsEnabled m f"
    if "\<forall>g \<in> set standard_names. fmlookup (GetCustomFlags m) g = None"
  proof (cases "fm_flags m")
    case None
    then show ?thesis by (simp add: GetAllFlags_def IsEnabled_def fmlookup_of_list)
  next
    case (Some ff)
    with that show ?thesis
      by (auto simp: GetAllFlags_def IsEnabled_def GetCustomFlags_def standard_names_def
          fmlookup_of_list fmlookup_dom_iff split: option.splits)
  qed
  moreover have "sorted (GetEnabledFlags m)" "distinct (GetEnabledFlags m)"
    by (simp_all add: GetEnabledFlags_def sorted_keys_def Let_def sorted_list_of_fset.rep_eq)
  ultimately show ?thesis using enabled_in_all [of m f] by blast
qed

text \<open>The two views of the flags disagree once a custom flag takes a standard name: after
  \<open>SetFlag("EnableTracing", true)\<close> on the default flags, \<open>GetEnabledFlags\<close> lists the feature and
  \<open>IsEnabled\<close> denies it.\<close>

theorem standard_name_as_custom_flag:
  "let m = SetFlag (NewFeatureFlagManager (Features NewConfig)) ''EnableTracing'' True
   in ''EnableTracing'' \<in> set (GetEnabledFlags m) \<and> \<not> IsEnabled m ''EnableTracing''"
  by (simp add: Let_def SetFlag_def NewFeatureFlagManager_def NewConfig_def IsEnabled_def
      GetAllFlags_def flip: enabled_in_all)

text \<open>The environment overrides never let experimental features or, in production and test, tracing
  through, whatever the flags say; they force all three on in development, and change nothing in an
  environment they do not know. Webhooks and custom flags are never changed, nor is the manager
  they were computed from.\<close>

theorem environment_overrides:
  "\<exists>ff. fm_flags (WithEnvironmentOverrides m env) = Some ff
     \<and> (env \<in> {ProductionEnv, TestEnv} \<longrightarrow> \<not> EnableTracing ff \<and> \<not> ExperimentalFeatures ff)
     \<and> (env = StagingEnv \<longrightarrow> EnableTracing ff \<and> \<not> ExperimentalFeatures ff)
     \<and> (env = DevelopmentEnv \<longrightarrow> EnableMetrics ff \<and> EnableTracing ff \<and> ExperimentalFeatures ff)
     \<and> (env \<notin> {ProductionEnv, StagingEnv, DevelopmentEnv, TestEnv} \<longrightarrow> ff = cloneFlags m)
     \<and> EnableWebhooks ff = EnableWebhooks (cloneFlags m) \<and> CustomFlags ff = CustomFlags (cloneFlags m)"
  by (auto simp: WithEnvironmentOverrides_def NewFeatureFlagManager_def Let_def go_defs)

section \<open>Witnesses\<close>

theorem custom_flags_are_a_map_witness:
  "IsEnabled (SetFlag (NewFeatureFlagManager (Features NewConfig)) ''Beta'' True) ''Beta''"
  using custom_flags_are_a_map [of "NewFeatureFlagManager (Features NewConfig)" _ "''Beta''" True "''Beta''"]
  by (simp add: NewFeatureFlagManager_def NewConfig_def standard_names_def)

theorem enabled_flags_listed_witness:
  "''EnableMetrics'' \<in> set (GetEnabledFlags (NewFeatureFlagManager (Features NewConfig)))"
proof -
  let ?m = "NewFeatureFlagManager (Features NewConfig)"
  have "\<forall>g \<in> set standard_names. fmlookup (GetCustomFlags ?m) g = None"
    by (simp add: NewFeatureFlagManager_def NewConfig_def GetCustomFlags_def)
  moreover have "IsEnabled ?m ''EnableMetrics''"
    by (simp add: NewFeatureFlagManager_def NewConfig_def IsEnabled_def)
  ultimately show ?thesis using enabled_flags_listed [of ?m "''EnableMetrics''"] by blast
qed

theorem environment_overrides_witness:
  "\<exists>ff. fm_flags (WithEnvironmentOverrides (NewFeatureFlagManager (Features NewConfig)) DevelopmentEnv) = Some ff
     \<and> ExperimentalFeatures ff"
  using environment_overrides [of "NewFeatureFlagManager (Features NewConfig)" DevelopmentEnv] by blast

end
