(* ===== verification/ConfigManager.thy ===== *)
theory ConfigManager
  imports ConfigLoaderProps FeatureFlagManager
begin

text \<open>
  The configuration manager of \<open>internal/config/manager.go\<close>. Its methods hold the manager's lock while
  they read or write the state, so each is one step. A callback is a number; the calls the manager makes
  are logged with the configurations they receive (the code runs each in a goroutine of its own). An
  automatic reload loop is a number too: the manager keeps the one it can cancel.
\<close>

section \<open>State\<close>

record ManagerOptions =
  mo_Environment :: string
  mo_AutoReload :: bool
  mo_ReloadInterval :: duration
  mo_ValidateOnLoad :: bool

record ConfigManager =
  cm_options :: ManagerOptions
  cm_loader :: ConfigLoader
  cm_currentConfig :: "Config option"
  cm_currentSources :: "(string, ConfigSource) fmap option"
  cm_loadedAt :: gotime
  cm_loadOptions :: "LoadOptions option"
  cm_callbacks :: "nat list"
  cm_calls :: "(nat \<times> Config option \<times> Config option) list"
  cm_reloadCancel :: "nat option"
  cm_started :: nat
  cm_running :: "nat list"
  cm_featureFlagManager :: "FeatureFlagMgr option"

definition default_manager_options :: ManagerOptions where
  "default_manager_options = \<lparr>mo_Environment = ProductionEnv, mo_AutoReload = False,
     mo_ReloadInterval = 5 * Minute, mo_ValidateOnLoad = True\<rparr>"

definition NewConfigManagerWithOptions :: "string \<Rightarrow> ManagerOptions option \<Rightarrow> ConfigManager" where
  "NewConfigManagerWithOptions namespace options =
     (let o1 = (case options of None \<Rightarrow> default_manager_options | Some o' \<Rightarrow> o');
          o2 = (if mo_ReloadInterval o1 = 0 then o1\<lparr>mo_ReloadInterval := 5 * Minute\<rparr> else o1)
      in \<lparr>cm_options = o2, cm_loader = NewConfigLoader namespace, cm_currentConfig = None,
          cm_currentSources = None, cm_loadedAt = 0, cm_loadOptions = None, cm_callbacks = [],
          cm_calls = [], cm_reloadCancel = None, cm_started = 0, cm_running = [],
          cm_featureFlagManager = None\<rparr>)"

definition NewConfigManager :: "string \<Rightarrow> ConfigManager" where
  "NewConfigManager namespace = NewConfigManagerWithOptions namespace (Some default_manager_options)"

section \<open>Loading\<close>

definition notifyCallbacks :: "Config option \<Rightarrow> Config option \<Rightarrow> ConfigManager \<Rightarrow> ConfigManager" where
  "notifyCallbacks oldConfig newConfig m =
     m\<lparr>cm_calls := cm_calls m
        @ map (\<lambda>cb. (cb, map_option Copy oldConfig, map_option Copy newConfig)) (cm_callbacks m)\<rparr>"

definition LoadConfig ::
  "load_env \<Rightarrow> gotime \<Rightarrow> LoadOptions \<Rightarrow> ConfigManager \<Rightarrow> (load_error + Config) \<times> ConfigManager" where
  "LoadConfig env now options0 m =
     (let options = (if \<not> lo_ValidateConfig options0
                     then options0\<lparr>lo_ValidateConfig := mo_ValidateOnLoad (cm_options m)\<rparr> else options0)
      in case while_doing ''failed to load configuration'' (LoadWithPriority env (cm_loader m) options) of
           Inl e \<Rightarrow> (Inl e, m)
         | Inr (config0, sources) \<Rightarrow>
             let config = (if Environment config0 = [] \<and> mo_Environment (cm_options m) \<noteq> []
                           then config0\<lparr>Environment := mo_Environment (cm_options m)\<rparr> else config0);
                 oldConfig = cm_currentConfig m;
                 m1 = m\<lparr>cm_currentConfig := Some config, cm_currentSources := Some sources,
                        cm_loadedAt := now, cm_loadOptions := Some options,
                        cm_featureFlagManager := Some (NewFeatureFlagManager (Features config))\<rparr>;
                 m2 = (if oldConfig \<noteq> None then notifyCallbacks oldConfig (Some config) m1 else m1)
             in (Inr config, m2))"

text \<open>Nil load options are reported before anything is loaded.\<close>

datatype reload_error = NoLoadOptions | ReloadFailed load_error

definition ReloadConfig ::
  "load_env \<Rightarrow> gotime \<Rightarrow> ConfigManager \<Rightarrow> (reload_error + Config) \<times> ConfigManager" where
  "ReloadConfig env now m =
     (case cm_loadOptions m of
        None \<Rightarrow> (Inl NoLoadOptions, m)
      | Some options \<Rightarrow>
          (case LoadConfig env now options m of (r, m1) \<Rightarrow> (map_sum ReloadFailed id r, m1)))"

section \<open>The other methods\<close>

definition GetConfig :: "ConfigManager \<Rightarrow> Config option" where
  "GetConfig m = (case cm_currentConfig m of None \<Rightarrow> None | Some c \<Rightarrow> Some (Copy c))"

definition GetFeatureFlagManager :: "ConfigManager \<Rightarrow> FeatureFlagMgr option" where
  "GetFeatureFlagManager m =
     (case cm_featureFlagManager m of None \<Rightarrow> None | Some f \<Rightarrow> Some (Clone f))"

definition RegisterConfigChangeCallback :: "nat \<Rightarrow> ConfigManager \<Rightarrow> ConfigManager" where
  "RegisterConfigChangeCallback cb m = m\<lparr>cm_callbacks := cm_callbacks m @ [cb]\<rparr>"

definition cancel_loop :: "nat option \<Rightarrow> nat list \<Rightarrow> nat list" where
  "cancel_loop c running = (case c of None \<Rightarrow> running | Some i \<Rightarrow> removeAll i running)"

definition StartAutoReload :: "ConfigManager \<Rightarrow> string option \<times> ConfigManager" where
  "StartAutoReload m =
     (if \<not> mo_AutoReload (cm_options m) then (Some ''auto-reload is not enabled'', m)
      else
        (None, m\<lparr>cm_running := cancel_loop (cm_reloadCancel m) (cm_running m) @ [cm_started m],
                 cm_reloadCancel := Some (cm_started m), cm_started := Suc (cm_started m)\<rparr>))"

definition StopAutoReload :: "ConfigManager \<Rightarrow> ConfigManager" where
  "StopAutoReload m =
     (case cm_reloadCancel m of
        None \<Rightarrow> m
      | Some i \<Rightarrow> m\<lparr>cm_running := cancel_loop (Some i) (cm_running m), cm_reloadCancel := None\<rparr>)"

definition IsConfigured :: "ConfigManager \<Rightarrow> bool" where
  "IsConfigured m \<longleftrightarrow> cm_currentConfig m \<noteq> None"

definition GetConfigSources :: "ConfigManager \<Rightarrow> (string, ConfigSource) fmap" where
  "GetConfigSources m =
     (case cm_currentSources m of None \<Rightarrow> fmempty | Some s \<Rightarrow> fmempty ++\<^sub>f s)"

definition GetLoadedAt :: "ConfigManager \<Rightarrow> gotime" where
  "GetLoadedAt m = cm_loadedAt m"

datatype validate_error = NoConfigurationLoaded | InvalidConfiguration config_error

definition ValidateConfiguration :: "net_env \<Rightarrow> ConfigManager \<Rightarrow> validate_error option" where
  "ValidateConfiguration net m =
     (case cm_currentConfig m of
        None \<Rightarrow> Some NoConfigurationLoaded
      | Some c \<Rightarrow> map_option InvalidConfiguration (Validate net (Some c)))"

definition GetNamespace :: "ConfigManager \<Rightarrow> string" where
  "GetNamespace m = cl_namespace (cm_loader m)"

definition GetOptions :: "ConfigManager \<Rightarrow> ManagerOptions" where
  "GetOptions m = cm_options m"

text \<open>One tick of a running reload loop (errors are dropped), and the end of its parent context.\<close>

definition autoReload_tick :: "load_env \<Rightarrow> gotime \<Rightarrow> nat \<Rightarrow> ConfigManager \<Rightarrow> ConfigManager" where
  "autoReload_tick env now i m = (if i \<in> set (cm_running m) then snd (ReloadConfig env now m) else m)"

definition autoReload_done :: "nat \<Rightarrow> ConfigManager \<Rightarrow> ConfigManager" where
  "autoReload_done i m = m\<lparr>cm_running := removeAll i (cm_running m)\<rparr>"

definition updateConfig :: "gotime \<Rightarrow> Config option \<Rightarrow> ConfigManager \<Rightarrow> ConfigManager" where
  "updateConfig now newConfig m =
     (let oldConfig = cm_currentConfig m;
          m1 = m\<lparr>cm_currentConfig := newConfig, cm_loadedAt := now\<rparr>;
          m2 = (case newConfig of
                  None \<Rightarrow> m1
                | Some c \<Rightarrow> if Features c \<noteq> None
                           then m1\<lparr>cm_featureFlagManager := Some (NewFeatureFlagManager (Features c))\<rparr> else m1)
      in if oldConfig \<noteq> None then notifyCallbacks oldConfig newConfig m2 else m2)"

datatype options_error = OptionsEnvironment config_error | ReloadIntervalTooShort duration

definition ManagerOptions_Validate :: "ManagerOptions \<Rightarrow> options_error option" where
  "ManagerOptions_Validate opts =
     first_error
       [(if mo_Environment opts \<noteq> []
         then map_option OptionsEnvironment (ValidateEnvironment (mo_Environment opts)) else None),
        fail_if (mo_AutoReload opts \<and> mo_ReloadInterval opts < 1 * Second)
          (ReloadIntervalTooShort (mo_ReloadInterval opts))]"

definition Close :: "ConfigManager \<Rightarrow> ConfigManager" where
  "Close m =
     (StopAutoReload m)\<lparr>cm_callbacks := [], cm_currentConfig := None, cm_currentSources := None,
        cm_featureFlagManager := None, cm_loadOptions := None\<rparr>"

section \<open>The manager as a machine\<close>

datatype manager_op =
    MLoad load_env gotime LoadOptions
  | MReload load_env gotime
  | MRegister nat
  | MStart
  | MStop
  | MTick load_env gotime nat
  | MDone nat
  | MClose

fun manager_step :: "manager_op \<Rightarrow> ConfigManager \<Rightarrow> ConfigManager" where
  "manager_step (MLoad env now options) m = snd (LoadConfig env now options m)"
| "manager_step (MReload env now) m = snd (ReloadConfig env now m)"
| "manager_step (MRegister cb) m = RegisterConfigChangeCallback cb m"
| "manager_step MStart m = snd (StartAutoReload m)"
| "manager_step MStop m = StopAutoReload m"
| "manager_step (MTick env now i) m = autoReload_tick env now i m"
| "manager_step (MDone i) m = autoReload_done i m"
| "manager_step MClose m = Close m"

text \<open>The system's ports are the same in every load.\<close>

definition same_net :: "net_env \<Rightarrow> manager_op \<Rightarrow> ConfigManager \<Rightarrow> bool" where
  "same_net net x m \<longleftrightarrow>
     (case x of MLoad env _ _ \<Rightarrow> le_net env = net | MReload env _ \<Rightarrow> le_net env = net
        | MTick env _ _ \<Rightarrow> le_net env = net | _ \<Rightarrow> True)"

definition loaded_ok :: "net_env \<Rightarrow> ConfigManager \<Rightarrow> bool" where
  "loaded_ok net m \<longleftrightarrow>
     (case cm_currentConfig m of
        None \<Rightarrow> cm_loadOptions m = None \<and> cm_featureFlagManager m = None \<and> cm_currentSources m = None
      | Some c \<Rightarrow>
          cm_featureFlagManager m = Some \<lparr>fm_flags = Features c\<rparr> \<and> cm_currentSources m \<noteq> None
          \<and> Environment c \<noteq> [] \<and> Features c \<noteq> None
          \<and> (\<exists>o'. cm_loadOptions m = Some o'
               \<and> (mo_ValidateOnLoad (cm_options m) \<longrightarrow> lo_ValidateConfig o')
               \<and> (lo_ValidateConfig o' \<longrightarrow> Validate net (Some c) = None)))"

definition one_loop :: "ConfigManager \<Rightarrow> bool" where
  "one_loop m \<longleftrightarrow> set (cm_running m) \<subseteq> set_option (cm_reloadCancel m) \<and> distinct (cm_running m)
     \<and> (\<forall>i \<in> set_option (cm_reloadCancel m). i < cm_started m)"

definition manager_inv :: "net_env \<Rightarrow> ConfigManager \<Rightarrow> bool" where
  "manager_inv net m \<longleftrightarrow> loaded_ok net m \<and> one_loop m"

lemma notify_frame [simp]:
  "cm_options (notifyCallbacks a b m) = cm_options m" "cm_loader (notifyCallbacks a b m) = cm_loader m"
  "cm_currentConfig (notifyCallbacks a b m) = cm_currentConfig m"
  "cm_currentSources (notifyCallbacks a b m) = cm_currentSources m"
  "cm_loadOptions (notifyCallbacks a b m) = cm_loadOptions m"
  "cm_featureFlagManager (notifyCallbacks a b m) = cm_featureFlagManager m"
  "cm_reloadCancel (notifyCallbacks a b m) = cm_reloadCancel m"
  "cm_started (notifyCallbacks a b m) = cm_started m" "cm_running (notifyCallbacks a b m) = cm_running m"
  "cm_callbacks (notifyCallbacks a b m) = cm_callbacks m"
  by (simp_all add: notifyCallbacks_def)

text \<open>The environment of a loaded configuration is never empty, since the defaults set it.\<close>

lemma loaded_nonempty:
  assumes "LoadWithPriority env cl o' = Inr (c, src)"
  shows "Environment c \<noteq> [] \<and> Features c \<noteq> None"
proof -
  obtain ls where c: "c = merge_all (markFieldsFromSource NewConfig ConfigSourceDefault) ls"
    using load_layers [OF assms] by blast
  have "Environment b \<noteq> [] \<and> Features b \<noteq> None \<Longrightarrow>
      Environment (merge_all b ls) \<noteq> [] \<and> Features (merge_all b ls) \<noteq> None" for b
    by (induction ls arbitrary: b)
      (auto simp: Merge_fields over_str_def merge_features_def split: option.splits)
  moreover have "Environment (markFieldsFromSource NewConfig ConfigSourceDefault) \<noteq> []
      \<and> Features (markFieldsFromSource NewConfig ConfigSourceDefault) \<noteq> None"
    by (simp add: markFieldsFromSource_def mark_if_def Let_def NewConfig_def go_defs)
  ultimately show ?thesis unfolding c by blast
qed

lemma LoadConfig_cases:
  obtains (failed) e where "LoadConfig env now o0 m = (Inl e, m)"
    | (loaded) c src m' o' where "LoadConfig env now o0 m = (Inr c, m')"
        "o' = (if \<not> lo_ValidateConfig o0 then o0\<lparr>lo_ValidateConfig := mo_ValidateOnLoad (cm_options m)\<rparr> else o0)"
        "LoadWithPriority env (cm_loader m) o' = Inr (c, src)" "Environment c \<noteq> []" "Features c \<noteq> None"
        "lo_ValidateConfig o' \<longrightarrow> Validate (le_net env) (Some c) = None"
        "m' = (if cm_currentConfig m \<noteq> None then notifyCallbacks (cm_currentConfig m) (Some c) else id)
           (m\<lparr>cm_currentConfig := Some c, cm_currentSources := Some src, cm_loadedAt := now,
              cm_loadOptions := Some o',
              cm_featureFlagManager := Some (NewFeatureFlagManager (Features c))\<rparr>)"
proof -
  let ?o = "if \<not> lo_ValidateConfig o0 then o0\<lparr>lo_ValidateConfig := mo_ValidateOnLoad (cm_options m)\<rparr> else o0"
  show thesis
  proof (cases "LoadWithPriority env (cm_loader m) ?o")
    case (Inl e)
    then show thesis
      by (intro failed [of "While ''failed to load configuration'' e"])
        (simp add: LoadConfig_def while_doing_def Let_def)
  next
    case (Inr cs)
    then obtain c src where l: "LoadWithPriority env (cm_loader m) ?o = Inr (c, src)" by (cases cs) auto
    have ne: "Environment c \<noteq> []" "Features c \<noteq> None" using loaded_nonempty [OF l] by simp_all
    have v: "lo_ValidateConfig ?o \<longrightarrow> Validate (le_net env) (Some c) = None"
      using load_layers [OF l] by blast
    show thesis
      by (rule loaded [OF _ refl l ne v refl]) (simp add: LoadConfig_def while_doing_def Let_def l ne)
  qed
qed

end
