(* ===== verification/Controller.thy ===== *)
theory Controller
  imports ConfigManager Metrics
begin

text \<open>
  The controller of \<open>internal/controller/cloudflarerecord_controller.go\<close> and the resource it reconciles
  (\<open>api/v1/cloudflarerecord_types.go\<close>). The API server, the clock and the finalizer helpers of
  controller-runtime are not under src/: they are the fields of a \<open>kube\<close>, over an arbitrary world. Traces and
  log lines are left out; metrics are the list of calls made, in order, the deferred one last.
\<close>

section \<open>The resource\<close>

definition ConditionTypeReady :: string where "ConditionTypeReady = ''Ready''"
definition ConditionReasonRecordCreated :: string where "ConditionReasonRecordCreated = ''RecordCreated''"

record SecretReference =
  sr_Name :: string
  sr_Namespace :: "string option"

record CloudflareRecordSpec =
  sp_Zone :: string
  sp_Type :: string
  sp_Name :: string
  sp_Content :: string
  sp_TTL :: "int option"
  sp_Priority :: "int option"
  sp_Proxied :: "bool option"
  sp_Comment :: "string option"
  sp_Tags :: "string list"
  sp_CredentialsSecretRef :: SecretReference

text \<open>The fields of \<open>metav1.Condition\<close> and \<open>metav1.ObjectMeta\<close> that the controller uses.\<close>

datatype condition_status = ConditionTrue | ConditionFalse | ConditionUnknown

record Condition =
  cn_Type :: string
  cn_Status :: condition_status
  cn_Reason :: string
  cn_Message :: string
  cn_LastTransitionTime :: gotime

record ObjectMeta =
  om_Name :: string
  om_Namespace :: string
  om_Generation :: int64
  om_DeletionTimestamp :: "gotime option"
  om_Finalizers :: "string list"

record CloudflareRecordStatus =
  st_RecordID :: "string option"
  st_ZoneID :: "string option"
  st_Ready :: bool
  st_LastUpdated :: "gotime option"
  st_Conditions :: "Condition list"
  st_ObservedGeneration :: int64

record CloudflareRecord =
  cr_meta :: ObjectMeta
  cr_Spec :: CloudflareRecordSpec
  cr_Status :: CloudflareRecordStatus

section \<open>The reconciler and its surroundings\<close>

definition CloudflareRecordFinalizer :: string where
  "CloudflareRecordFinalizer = ''dns.cloudflare.io/finalizer''"

record CloudflareRecordReconciler =
  rr_configManager :: "ConfigManager option"
  rr_MaxConcurrentReconciles :: int
  rr_ReconcileTimeout :: duration
  rr_RequeueInterval :: duration
  rr_RequeueIntervalOnError :: duration

record Request =
  req_Name :: string
  req_Namespace :: string

record ctrl_Result = RequeueAfter :: duration

text \<open>\<open>r.Get\<close>: the object, an error that \<open>errors.IsNotFound\<close> recognises, or another error.\<close>

datatype get_record = Got CloudflareRecord | NotFound go_error | GetErr go_error

text \<open>
  A call of the API server gets the deadline of its context. An update returns its error and the object as
  the client library leaves it.
\<close>

record 'w kube =
  kc_Now :: "'w \<Rightarrow> gotime \<times> 'w"
  kc_Sleep :: "duration \<Rightarrow> 'w \<Rightarrow> 'w"
  kc_Get :: "gotime \<Rightarrow> Request \<Rightarrow> 'w \<Rightarrow> get_record \<times> 'w"
  kc_Update :: "gotime \<Rightarrow> CloudflareRecord \<Rightarrow> 'w \<Rightarrow> go_error option \<times> CloudflareRecord \<times> 'w"
  kc_StatusUpdate :: "gotime \<Rightarrow> CloudflareRecord \<Rightarrow> 'w \<Rightarrow> go_error option \<times> CloudflareRecord \<times> 'w"
  kc_ContainsFinalizer :: "string list \<Rightarrow> string \<Rightarrow> bool"
  kc_AddFinalizer :: "string list \<Rightarrow> string \<Rightarrow> string list"
  kc_RemoveFinalizer :: "string list \<Rightarrow> string \<Rightarrow> string list"

definition since :: "'w kube \<Rightarrow> gotime \<Rightarrow> 'w \<Rightarrow> duration \<times> 'w" where
  "since k t w = (let (now, w1) = kc_Now k w in (time_sub now t, w1))"

definition with_finalizers :: "(string list \<Rightarrow> string \<Rightarrow> string list) \<Rightarrow> CloudflareRecord \<Rightarrow> CloudflareRecord" where
  "with_finalizers f obj =
     obj\<lparr>cr_meta := (cr_meta obj)\<lparr>om_Finalizers := f (om_Finalizers (cr_meta obj)) CloudflareRecordFinalizer\<rparr>\<rparr>"

section \<open>Performance settings\<close>

definition override_positive :: "int \<Rightarrow> int \<Rightarrow> int" where
  "override_positive v dflt = (if 0 < v then v else dflt)"

definition env_positive :: "(string \<Rightarrow> string) \<Rightarrow> string \<Rightarrow> (string \<Rightarrow> int option) \<Rightarrow> int \<Rightarrow> int" where
  "env_positive getenv name parse dflt =
     (let val = getenv name in
      if val \<noteq> [] then
        (case parse val of Some parsed \<Rightarrow> if 0 < parsed then parsed else dflt | None \<Rightarrow> dflt)
      else dflt)"

definition loadPerformanceConfig ::
  "(string \<Rightarrow> string) \<Rightarrow> CloudflareRecordReconciler \<Rightarrow> CloudflareRecordReconciler" where
  "loadPerformanceConfig getenv r0 =
     (let r = r0\<lparr>rr_MaxConcurrentReconciles := 5, rr_ReconcileTimeout := 5 * Minute,
                  rr_RequeueInterval := 5 * Minute, rr_RequeueIntervalOnError := 1 * Minute\<rparr>;
          from_env = r\<lparr>
            rr_MaxConcurrentReconciles :=
              env_positive getenv ''MAX_CONCURRENT_RECONCILES'' Atoi (rr_MaxConcurrentReconciles r),
            rr_ReconcileTimeout :=
              env_positive getenv ''RECONCILE_TIMEOUT'' ParseDuration (rr_ReconcileTimeout r),
            rr_RequeueInterval :=
              env_positive getenv ''REQUEUE_INTERVAL'' ParseDuration (rr_RequeueInterval r),
            rr_RequeueIntervalOnError :=
              env_positive getenv ''REQUEUE_INTERVAL_ON_ERROR'' ParseDuration (rr_RequeueIntervalOnError r)\<rparr>
      in case rr_configManager r of
           Some m \<Rightarrow>
             (if IsConfigured m then
                (case GetConfig m of
                   Some cfg \<Rightarrow>
                     let p = Performance cfg in
                     r\<lparr>rr_MaxConcurrentReconciles :=
                         override_positive (MaxConcurrentReconciles p) (rr_MaxConcurrentReconciles r),
                       rr_ReconcileTimeout := override_positive (ReconcileTimeout p) (rr_ReconcileTimeout r),
                       rr_RequeueInterval := override_positive (RequeueInterval p) (rr_RequeueInterval r),
                       rr_RequeueIntervalOnError :=
                         override_positive (RequeueIntervalOnError p) (rr_RequeueIntervalOnError r)\<rparr>
                 | None \<Rightarrow> from_env)
              else from_env)
         | None \<Rightarrow> from_env)"

definition NewCloudflareRecordReconciler ::
  "(string \<Rightarrow> string) \<Rightarrow> ConfigManager option \<Rightarrow> CloudflareRecordReconciler" where
  "NewCloudflareRecordReconciler getenv configManager =
     loadPerformanceConfig getenv
       \<lparr>rr_configManager = configManager, rr_MaxConcurrentReconciles = 0, rr_ReconcileTimeout = 0,
        rr_RequeueInterval = 0, rr_RequeueIntervalOnError = 0\<rparr>"

section \<open>Status\<close>

text \<open>The first Ready condition is replaced when its status or reason differ; without one, it is appended.\<close>

fun put_condition :: "Condition \<Rightarrow> Condition list \<Rightarrow> Condition list" where
  "put_condition c [] = [c]"
| "put_condition c (x # xs) =
     (if cn_Type x = ConditionTypeReady then
        (if cn_Status x \<noteq> cn_Status c \<or> cn_Reason x \<noteq> cn_Reason c then c # xs else x # xs)
      else x # put_condition c xs)"

definition updateStatus ::
  "gotime \<Rightarrow> CloudflareRecord \<Rightarrow> bool \<Rightarrow> string \<Rightarrow> string \<Rightarrow> CloudflareRecord" where
  "updateStatus now obj ready reason message =
     (let st = (cr_Status obj)\<lparr>st_Ready := ready\<rparr>;
          condition = \<lparr>cn_Type = ConditionTypeReady,
            cn_Status = (if ready then ConditionTrue else ConditionFalse),
            cn_Reason = reason, cn_Message = message, cn_LastTransitionTime = now\<rparr>
      in obj\<lparr>cr_Status := st\<lparr>st_Conditions := put_condition condition (st_Conditions st)\<rparr>\<rparr>)"

section \<open>Reconciliation\<close>

abbreviation controller_name :: string where "controller_name \<equiv> ''cloudflarerecord''"

definition outcome :: "string \<Rightarrow> string \<Rightarrow> duration \<Rightarrow> metric_op list" where
  "outcome result ns duration =
     ObserveReconcileDuration controller_name result ns duration @ IncReconcileRate controller_name result ns"

type_synonym 'w reconciled = "ctrl_Result \<times> go_error option \<times> 'w \<times> metric_op list"

text \<open>A failed call: the reconciliation is repeated after the error interval.\<close>

definition failed ::
  "'w kube \<Rightarrow> CloudflareRecordReconciler \<Rightarrow> gotime \<Rightarrow> string \<Rightarrow> string \<Rightarrow> string \<Rightarrow> go_error \<Rightarrow> 'w \<Rightarrow> 'w reconciled" where
  "failed k r startTime ns result errorType err w =
     (let (duration, w1) = since k startTime w in
      (\<lparr>RequeueAfter = rr_RequeueIntervalOnError r\<rparr>, Some err, w1,
       outcome result ns duration @ IncErrorRate controller_name errorType ns))"

definition reconcileDelete ::
  "'w kube \<Rightarrow> CloudflareRecordReconciler \<Rightarrow> gotime \<Rightarrow> CloudflareRecord \<Rightarrow> 'w \<Rightarrow> 'w reconciled" where
  "reconcileDelete k r deadline obj w =
     (let (startTime, w1) = kc_Now k w;
          (duration, w2) = since k startTime w1;
          sp = cr_Spec obj;
          ms = RecordAPIRequest ''DELETE'' ''/zones/dns_records'' ''200'' [] duration
             @ RecordDNSOperation ''delete'' (sp_Type sp) [] ''success''
             @ UpdateCRDResourceStatus (om_Namespace (cr_meta obj)) ''deleting'' (sp_Type sp) (Fin 1)
             @ UpdateDNSRecordsByType (sp_Type sp) (sp_Zone sp) [] (Fin (- 1));
          (err, obj1, w3) = kc_Update k deadline (with_finalizers (kc_RemoveFinalizer k) obj) w2
      in case err of
           Some e \<Rightarrow>
             (\<lparr>RequeueAfter = rr_RequeueIntervalOnError r\<rparr>, Some e, w3,
              ms @ RecordAPIError ''DELETE'' ''/zones/dns_records'' ''finalizer_error'' [])
         | None \<Rightarrow> (\<lparr>RequeueAfter = 0\<rparr>, None, w3, ms))"

text \<open>From the finalizer on: the record is processed and its status written.\<close>

definition process_record ::
  "'w kube \<Rightarrow> CloudflareRecordReconciler \<Rightarrow> gotime \<Rightarrow> string \<Rightarrow> gotime \<Rightarrow> CloudflareRecord \<Rightarrow> 'w \<Rightarrow> 'w reconciled" where
  "process_record k r startTime ns deadline obj w =
     (let sp = cr_Spec obj;
          (apiStartTime, w1) = kc_Now k w;
          w2 = kc_Sleep k (10 * Millisecond) w1;
          (apiTime, w3) = since k apiStartTime w2;
          ms = UpdateCRDResourceStatus ns ''processing'' (sp_Type sp) (Fin 1)
             @ UpdateDNSRecordsByType (sp_Type sp) (sp_Zone sp) [] (Fin 1)
             @ ObserveAPIResponseTime ''record_update'' ''200'' ns apiTime;
          (t, w4) = kc_Now k w3;
          obj1 = updateStatus t obj True ConditionReasonRecordCreated
            ''DNS record processing completed (implementation ready for Cloudflare API)'';
          (now, w5) = kc_Now k w4;
          obj2 = obj1\<lparr>cr_Status := (cr_Status obj1)\<lparr>st_ObservedGeneration := om_Generation (cr_meta obj1),
            st_LastUpdated := Some now\<rparr>\<rparr>;
          (err, obj3, w6) = kc_StatusUpdate k deadline obj2 w5
      in case err of
           Some e \<Rightarrow>
             (case failed k r startTime ns ''status_error'' ''status_error'' e w6 of
                (res, er, w7, ms') \<Rightarrow> (res, er, w7, ms @ ms'))
         | None \<Rightarrow>
             let (duration, w7) = since k startTime w6; sp' = cr_Spec obj3 in
             (\<lparr>RequeueAfter = rr_RequeueInterval r\<rparr>, None, w7,
              ms @ outcome ''success'' ns duration
              @ UpdateCRDResourceStatus ns ''ready'' (sp_Type sp') (Fin 1)
              @ UpdateReconciliationHealth controller_name ns ''CloudflareRecord'' True
              @ UpdateDNSRecordsByStatus ''active'' (sp_Zone sp') [] (Fin 1)
              @ RecordAPIRequest ''POST'' ''/zones/dns_records'' ''200'' [] duration
              @ RecordDNSOperation ''create'' (sp_Type sp') [] ''success''))"

text \<open>The object once it is fetched and reconciliation is enabled.\<close>

definition reconcile_object ::
  "'w kube \<Rightarrow> CloudflareRecordReconciler \<Rightarrow> gotime \<Rightarrow> string \<Rightarrow> gotime \<Rightarrow> CloudflareRecord \<Rightarrow> 'w \<Rightarrow> 'w reconciled" where
  "reconcile_object k r startTime ns deadline obj w =
     (if om_DeletionTimestamp (cr_meta obj) \<noteq> None then
        (case reconcileDelete k r deadline obj w of
           (result, err, w1, ms) \<Rightarrow>
             let (duration, w2) = since k startTime w1 in
             (result, err, w2,
              ms @ (if err \<noteq> None
                    then outcome ''delete_error'' ns duration @ IncErrorRate controller_name ''delete_error'' ns
                    else outcome ''delete_success'' ns duration)))
      else if \<not> kc_ContainsFinalizer k (om_Finalizers (cr_meta obj)) CloudflareRecordFinalizer then
        (case kc_Update k deadline (with_finalizers (kc_AddFinalizer k) obj) w of
           (Some e, _, w1) \<Rightarrow> failed k r startTime ns ''finalizer_error'' ''finalizer_error'' e w1
         | (None, obj1, w1) \<Rightarrow> process_record k r startTime ns deadline obj1 w1)
      else process_record k r startTime ns deadline obj w)"

text \<open>The flag that a configured manager has to set for anything to be reconciled.\<close>

definition reconciliation_disabled :: "CloudflareRecordReconciler \<Rightarrow> bool" where
  "reconciliation_disabled r \<longleftrightarrow>
     (case rr_configManager r of
        None \<Rightarrow> False
      | Some m \<Rightarrow> IsConfigured m
          \<and> (case GetFeatureFlagManager m of
               None \<Rightarrow> False
             | Some ffm \<Rightarrow> \<not> IsEnabled ffm ''EnableReconciliation''))"

definition Reconcile ::
  "'w kube \<Rightarrow> CloudflareRecordReconciler \<Rightarrow> gotime option \<Rightarrow> Request \<Rightarrow> 'w \<Rightarrow> 'w reconciled" where
  "Reconcile k r parentDeadline req w =
     (let (startTime, w1) = kc_Now k w;
          ns = req_Namespace req;
          (deadline, w2) =
            (case parentDeadline of
               Some d \<Rightarrow> (d, w1)
             | None \<Rightarrow> let (now, w2) = kc_Now k w1 in (time_add now (rr_ReconcileTimeout r), w2));
          (got, w3) = kc_Get k deadline req w2;
          (result, err, w4, ms) =
            (case got of
               NotFound _ \<Rightarrow>
                 let (duration, w4) = since k startTime w3 in
                 (\<lparr>RequeueAfter = 0\<rparr>, None, w4, outcome ''not_found'' ns duration)
             | GetErr e \<Rightarrow> failed k r startTime ns ''error'' ''get_error'' e w3
             | Got obj \<Rightarrow>
                 if reconciliation_disabled r then (\<lparr>RequeueAfter = rr_RequeueInterval r\<rparr>, None, w3, [])
                 else reconcile_object k r startTime ns deadline obj w3)
      in (result, err, w4,
          UpdateQueueDepth controller_name ns (Fin 1) @ ms @ UpdateQueueDepth controller_name ns (Fin 0)))"

end
