(* ===== verification/ControllerProps.thy ===== *)
theory ControllerProps
  imports Controller
begin

text \<open>
  What a reconciliation does to the stored object, how it fails, and what its metrics say. The API server and the
  finalizer helpers are described by the laws below, which state their documented behaviour.
\<close>

section \<open>The surroundings\<close>

definition key :: "CloudflareRecord \<Rightarrow> Request" where
  "key obj = \<lparr>req_Name = om_Name (cr_meta obj), req_Namespace = om_Namespace (cr_meta obj)\<rparr>"

definition has_finalizers :: "string list \<Rightarrow> CloudflareRecord \<Rightarrow> CloudflareRecord" where
  "has_finalizers fs obj = obj\<lparr>cr_meta := (cr_meta obj)\<lparr>om_Finalizers := fs\<rparr>\<rparr>"

definition finalizer_laws :: "'w kube \<Rightarrow> bool" where
  "finalizer_laws k \<longleftrightarrow> (\<forall>fs f. kc_ContainsFinalizer k fs f = (f \<in> set fs)
     \<and> set (kc_AddFinalizer k fs f) = insert f (set fs)
     \<and> set (kc_RemoveFinalizer k fs f) = set fs - {f})"

text \<open>
  An API server that keeps one object per name, seen by one client. A failed call leaves the objects alone. An
  update of the finalizers takes effect, and removes an object that is marked for deletion and has none left;
  a status update takes effect. The clock and sleeping do not touch the objects.
\<close>

definition clock_law :: "'w kube \<Rightarrow> ('w \<Rightarrow> Request \<Rightarrow> CloudflareRecord option) \<Rightarrow> bool" where
  "clock_law k stored \<longleftrightarrow>
     (\<forall>w. stored (snd (kc_Now k w)) = stored w) \<and> (\<forall>d w. stored (kc_Sleep k d w) = stored w)"

definition get_law :: "'w kube \<Rightarrow> ('w \<Rightarrow> Request \<Rightarrow> CloudflareRecord option) \<Rightarrow> bool" where
  "get_law k stored \<longleftrightarrow>
     (\<forall>t q w. stored (snd (kc_Get k t q w)) = stored w
        \<and> (case fst (kc_Get k t q w) of
             Got obj \<Rightarrow> stored w q = Some obj \<and> key obj = q
           | NotFound _ \<Rightarrow> stored w q = None
           | GetErr _ \<Rightarrow> True))"

definition update_law :: "'w kube \<Rightarrow> ('w \<Rightarrow> Request \<Rightarrow> CloudflareRecord option) \<Rightarrow> bool" where
  "update_law k stored \<longleftrightarrow>
     (\<forall>t obj fs w. stored w (key obj) = Some obj \<longrightarrow>
        (case kc_Update k t (has_finalizers fs obj) w of (err, obj', w') \<Rightarrow>
           if err = None
           then obj' = has_finalizers fs obj
             \<and> stored w' = (stored w)(key obj := if om_DeletionTimestamp (cr_meta obj) \<noteq> None \<and> fs = [] then None
                                               else Some (has_finalizers fs obj))
           else stored w' = stored w))"

definition status_law :: "'w kube \<Rightarrow> ('w \<Rightarrow> Request \<Rightarrow> CloudflareRecord option) \<Rightarrow> bool" where
  "status_law k stored \<longleftrightarrow>
     (\<forall>t obj s w. stored w (key obj) = Some obj \<longrightarrow>
        (case kc_StatusUpdate k t (obj\<lparr>cr_Status := s\<rparr>) w of (err, obj', w') \<Rightarrow>
           if err = None then obj' = obj\<lparr>cr_Status := s\<rparr> \<and> stored w' = (stored w)(key obj \<mapsto> obj\<lparr>cr_Status := s\<rparr>)
           else stored w' = stored w))"

definition server_laws :: "'w kube \<Rightarrow> ('w \<Rightarrow> Request \<Rightarrow> CloudflareRecord option) \<Rightarrow> bool" where
  "server_laws k stored \<longleftrightarrow>
     clock_law k stored \<and> get_law k stored \<and> update_law k stored \<and> status_law k stored"

lemma with_finalizers_alt:
  "with_finalizers f obj = has_finalizers (f (om_Finalizers (cr_meta obj)) CloudflareRecordFinalizer) obj"
  by (simp add: with_finalizers_def has_finalizers_def)

lemma key_frame [simp]: "key (has_finalizers fs obj) = key obj" "key (obj\<lparr>cr_Status := s\<rparr>) = key obj"
  by (simp_all add: key_def has_finalizers_def)

lemma has_finalizers_fields [simp]:
  "om_Finalizers (cr_meta (has_finalizers fs obj)) = fs" "cr_Spec (has_finalizers fs obj) = cr_Spec obj"
  "cr_Status (has_finalizers fs obj) = cr_Status obj"
  "om_Generation (cr_meta (has_finalizers fs obj)) = om_Generation (cr_meta obj)"
  "om_DeletionTimestamp (cr_meta (has_finalizers fs obj)) = om_DeletionTimestamp (cr_meta obj)"
  by (simp_all add: has_finalizers_def)

lemma same_status [simp]: "(has_finalizers fs obj)\<lparr>cr_Status := cr_Status obj\<rparr> = has_finalizers fs obj"
  by (simp add: has_finalizers_def)

lemma server_Now: "server_laws k stored \<Longrightarrow> kc_Now k w = (t, w') \<Longrightarrow> stored w' = stored w"
  unfolding server_laws_def clock_law_def by (metis snd_conv)

lemma server_since: "server_laws k stored \<Longrightarrow> since k t w = (d, w') \<Longrightarrow> stored w' = stored w"
  by (auto simp: since_def server_Now split: prod.splits)

lemma server_Sleep: "server_laws k stored \<Longrightarrow> stored (kc_Sleep k d w) = stored w"
  unfolding server_laws_def clock_law_def by simp

lemma server_Get:
  assumes "server_laws k stored" and "kc_Get k t q w = (got, w')"
  shows "stored w' = stored w" "got = Got obj \<Longrightarrow> stored w q = Some obj \<and> key obj = q"
    "got = NotFound e \<Longrightarrow> stored w q = None"
proof -
  have law: "stored (snd (kc_Get k t q w)) = stored w
        \<and> (case fst (kc_Get k t q w) of Got obj \<Rightarrow> stored w q = Some obj \<and> key obj = q
           | NotFound _ \<Rightarrow> stored w q = None | GetErr _ \<Rightarrow> True)"
    using assms(1) unfolding server_laws_def get_law_def by blast
  show "stored w' = stored w" "got = Got obj \<Longrightarrow> stored w q = Some obj \<and> key obj = q"
    "got = NotFound e \<Longrightarrow> stored w q = None" using law assms(2) by simp_all
qed

lemma server_Update:
  assumes "server_laws k stored" and "kc_Update k t (has_finalizers fs obj) w = (err, obj', w')"
    and "stored w (key obj) = Some obj"
  shows "err = None \<Longrightarrow> obj' = has_finalizers fs obj \<and>
      stored w' = (stored w)(key obj := if om_DeletionTimestamp (cr_meta obj) \<noteq> None \<and> fs = [] then None
                                      else Some (has_finalizers fs obj))"
    and "err \<noteq> None \<Longrightarrow> stored w' = stored w"
proof -
  have "update_law k stored" using assms(1) by (simp add: server_laws_def)
  from this [unfolded update_law_def, rule_format, OF assms(3), of fs t]
  show "err = None \<Longrightarrow> obj' = has_finalizers fs obj \<and>
      stored w' = (stored w)(key obj := if om_DeletionTimestamp (cr_meta obj) \<noteq> None \<and> fs = [] then None
                                      else Some (has_finalizers fs obj))"
    and "err \<noteq> None \<Longrightarrow> stored w' = stored w" by (simp_all add: assms(2))
qed

lemma server_Status:
  assumes "server_laws k stored" and "kc_StatusUpdate k t (obj\<lparr>cr_Status := s\<rparr>) w = (err, obj', w')"
    and "stored w (key obj) = Some obj"
  shows "err = None \<Longrightarrow> obj' = obj\<lparr>cr_Status := s\<rparr> \<and> stored w' = (stored w)(key obj \<mapsto> obj\<lparr>cr_Status := s\<rparr>)"
    and "err \<noteq> None \<Longrightarrow> stored w' = stored w"
proof -
  have "status_law k stored" using assms(1) by (simp add: server_laws_def)
  from this [unfolded status_law_def, rule_format, OF assms(3), of s t]
  show "err = None \<Longrightarrow> obj' = obj\<lparr>cr_Status := s\<rparr> \<and> stored w' = (stored w)(key obj \<mapsto> obj\<lparr>cr_Status := s\<rparr>)"
    and "err \<noteq> None \<Longrightarrow> stored w' = stored w" by (simp_all add: assms(2))
qed

section \<open>The Ready condition\<close>

definition ready_conditions :: "Condition list \<Rightarrow> Condition list" where
  "ready_conditions cs = filter (\<lambda>c. cn_Type c = ConditionTypeReady) cs"

lemma put_ready:
  assumes "cn_Type c = ConditionTypeReady"
  shows "\<exists>d rest. ready_conditions (put_condition c cs) = d # rest \<and> cn_Status d = cn_Status c
    \<and> cn_Reason d = cn_Reason c \<and> length rest = length (ready_conditions cs) - 1"
  using assms by (induction cs) (auto simp: ready_conditions_def)

lemma put_others:
  assumes "cn_Type c = ConditionTypeReady"
  shows "filter (\<lambda>c. cn_Type c \<noteq> ConditionTypeReady) (put_condition c cs)
    = filter (\<lambda>c. cn_Type c \<noteq> ConditionTypeReady) cs"
  using assms by (induction cs) auto

lemma put_again:
  assumes "cn_Type c = ConditionTypeReady" "cn_Type c' = ConditionTypeReady"
    and "cn_Status c' = cn_Status c" "cn_Reason c' = cn_Reason c"
  shows "put_condition c' (put_condition c cs) = put_condition c cs"
  using assms by (induction cs) auto

text \<open>The status a successful reconciliation writes at the instants \<open>t\<close> and \<open>now\<close>.\<close>

definition created_condition :: "gotime \<Rightarrow> Condition" where
  "created_condition t = \<lparr>cn_Type = ConditionTypeReady, cn_Status = ConditionTrue, cn_Reason = ConditionReasonRecordCreated,
     cn_Message = ''DNS record processing completed (implementation ready for Cloudflare API)'',
     cn_LastTransitionTime = t\<rparr>"

definition reconciled_status :: "gotime \<Rightarrow> gotime \<Rightarrow> CloudflareRecord \<Rightarrow> CloudflareRecordStatus" where
  "reconciled_status t now obj = (cr_Status obj)\<lparr>st_Ready := True,
     st_Conditions := put_condition (created_condition t) (st_Conditions (cr_Status obj)),
     st_ObservedGeneration := om_Generation (cr_meta obj), st_LastUpdated := Some now\<rparr>"

section \<open>The paths\<close>

lemma status_written:
  "(updateStatus t obj True ConditionReasonRecordCreated
        ''DNS record processing completed (implementation ready for Cloudflare API)'')
      \<lparr>cr_Status := (cr_Status (updateStatus t obj True ConditionReasonRecordCreated
        ''DNS record processing completed (implementation ready for Cloudflare API)''))
        \<lparr>st_ObservedGeneration := om_Generation (cr_meta (updateStatus t obj True ConditionReasonRecordCreated
        ''DNS record processing completed (implementation ready for Cloudflare API)'')), st_LastUpdated := Some now\<rparr>\<rparr>
    = obj\<lparr>cr_Status := reconciled_status t now obj\<rparr>"
  by (simp add: updateStatus_def reconciled_status_def created_condition_def Let_def)

lemma process_record_ok:
  assumes laws: "server_laws k stored" and obj: "stored w (key obj) = Some obj"
    and run: "process_record k r startTime ns deadline obj w = (res, None, w', ms)"
  shows "res = \<lparr>RequeueAfter = rr_RequeueInterval r\<rparr>
    \<and> (\<exists>t now. stored w' = (stored w)(key obj \<mapsto> obj\<lparr>cr_Status := reconciled_status t now obj\<rparr>))"
proof -
  obtain a w1 where n1: "kc_Now k w = (a, w1)" by (cases "kc_Now k w")
  define w2 where "w2 = kc_Sleep k (10 * Millisecond) w1"
  obtain api w3 where n3: "since k a w2 = (api, w3)" by (cases "since k a w2")
  obtain t w4 where n4: "kc_Now k w3 = (t, w4)" by (cases "kc_Now k w3")
  obtain now w5 where n5: "kc_Now k w4 = (now, w5)" by (cases "kc_Now k w4")
  have w5: "stored w5 = stored w"
    using server_Now [OF laws] server_since [OF laws n3] server_Sleep [OF laws] n1 n4 n5 by (metis w2_def)
  obtain err obj3 w6 where u: "kc_StatusUpdate k deadline (obj\<lparr>cr_Status := reconciled_status t now obj\<rparr>) w5
      = (err, obj3, w6)" by (cases "kc_StatusUpdate k deadline (obj\<lparr>cr_Status := reconciled_status t now obj\<rparr>) w5")
  obtain d w7 where n7: "since k startTime w6 = (d, w7)" by (cases "since k startTime w6")
  note ran = run [unfolded process_record_def Let_def n1 prod.case w2_def [symmetric] n3 n4 n5 status_written u n7
      failed_def]
  have err: "err = None" using ran by (cases err) (simp_all add: n7)
  have "res = \<lparr>RequeueAfter = rr_RequeueInterval r\<rparr>" "w' = w7" using ran err by simp_all
  moreover have "stored w7 = stored w6" by (rule server_since [OF laws n7])
  moreover have "stored w6 = (stored w)(key obj \<mapsto> obj\<lparr>cr_Status := reconciled_status t now obj\<rparr>)"
    using server_Status(1) [OF laws u _ err] obj w5 by simp
  ultimately show ?thesis by auto
qed

lemma process_record_failed:
  assumes laws: "server_laws k stored" and obj: "stored w (key obj) = Some obj"
    and run: "process_record k r startTime ns deadline obj w = (res, Some e, w', ms)"
  shows "res = \<lparr>RequeueAfter = rr_RequeueIntervalOnError r\<rparr> \<and> stored w' = stored w"
proof -
  obtain a w1 where n1: "kc_Now k w = (a, w1)" by (cases "kc_Now k w")
  define w2 where "w2 = kc_Sleep k (10 * Millisecond) w1"
  obtain api w3 where n3: "since k a w2 = (api, w3)" by (cases "since k a w2")
  obtain t w4 where n4: "kc_Now k w3 = (t, w4)" by (cases "kc_Now k w3")
  obtain now w5 where n5: "kc_Now k w4 = (now, w5)" by (cases "kc_Now k w4")
  have w5: "stored w5 = stored w"
    using server_Now [OF laws] server_since [OF laws n3] server_Sleep [OF laws] n1 n4 n5 by (metis w2_def)
  obtain err obj3 w6 where u: "kc_StatusUpdate k deadline (obj\<lparr>cr_Status := reconciled_status t now obj\<rparr>) w5
      = (err, obj3, w6)" by (cases "kc_StatusUpdate k deadline (obj\<lparr>cr_Status := reconciled_status t now obj\<rparr>) w5")
  obtain d w7 where n7: "since k startTime w6 = (d, w7)" by (cases "since k startTime w6")
  note ran = run [unfolded process_record_def Let_def n1 prod.case w2_def [symmetric] n3 n4 n5 status_written u n7
      failed_def]
  obtain e' where err: "err = Some e'" using ran by (cases err) simp_all
  have "res = \<lparr>RequeueAfter = rr_RequeueIntervalOnError r\<rparr>" "w' = w7" using ran err by (simp_all add: n7)
  moreover have "stored w7 = stored w6" by (rule server_since [OF laws n7])
  moreover have "stored w6 = stored w5"
    using server_Status(2) [OF laws u] obj w5 err by simp
  ultimately show ?thesis using w5 by simp
qed

lemma Reconcile_cases:
  assumes laws: "server_laws k stored" and run: "Reconcile k r pd req w = (res, err, w', ms)"
  obtains (gone) e where "stored w req = None" "res = \<lparr>RequeueAfter = 0\<rparr>" "err = None" "stored w' = stored w"
    | (unread) e where "res = \<lparr>RequeueAfter = rr_RequeueIntervalOnError r\<rparr>" "err = Some e" "stored w' = stored w"
    | (disabled) obj where "stored w req = Some obj" "reconciliation_disabled r"
        "res = \<lparr>RequeueAfter = rr_RequeueInterval r\<rparr>" "err = None" "stored w' = stored w"
    | (read) obj t deadline w1 ms1 where "stored w req = Some obj" "key obj = req" "\<not> reconciliation_disabled r"
        "stored w1 = stored w"
        "reconcile_object k r t (req_Namespace req) deadline obj w1 = (res, err, w', ms1)"
        "ms = UpdateQueueDepth controller_name (req_Namespace req) (Fin 1) @ ms1
           @ UpdateQueueDepth controller_name (req_Namespace req) (Fin 0)"
proof -
  obtain t w1 where n1: "kc_Now k w = (t, w1)" by (cases "kc_Now k w")
  obtain now w1' where n1': "kc_Now k w1 = (now, w1')" by (cases "kc_Now k w1")
  obtain deadline w2 where n2: "(case pd of Some d \<Rightarrow> (d, w1)
      | None \<Rightarrow> let (now, w2) = kc_Now k w1 in (time_add now (rr_ReconcileTimeout r), w2)) = (deadline, w2)"
    by (metis surj_pair)
  obtain got w3 where g: "kc_Get k deadline req w2 = (got, w3)" by (cases "kc_Get k deadline req w2")
  have w2: "stored w2 = stored w"
    using n2 n1' server_Now [OF laws n1] server_Now [OF laws n1'] by (cases pd) simp_all
  have w3: "stored w3 = stored w" using server_Get(1) [OF laws g] w2 by simp
  obtain d w4 where n4: "since k t w3 = (d, w4)" by (cases "since k t w3")
  have w4: "stored w4 = stored w" using server_since [OF laws n4] w3 by simp
  note ran = run [unfolded Reconcile_def n1 Let_def prod.case n2 [unfolded Let_def] g n4 failed_def]
  show thesis
  proof (cases got)
    case (NotFound e)
    then show thesis using ran server_Get(3) [OF laws g NotFound] w2 w4 gone by simp
  next
    case (GetErr e)
    then show thesis using ran w4 n4 by (intro unread [of e]) simp_all
  next
    case (Got obj)
    have o: "stored w req = Some obj" "key obj = req" using server_Get(2) [OF laws g Got] w2 by simp_all
    show thesis
    proof (cases "reconciliation_disabled r")
      case True
      then show thesis using ran Got o w3 disabled by simp
    next
      case False
      obtain res1 err1 w5 ms1 where "reconcile_object k r t (req_Namespace req) deadline obj w3 = (res1, err1, w5, ms1)"
        using prod_cases4 by blast
      then show thesis using ran Got False o w3 read [of obj w3 t deadline ms1] by simp
    qed
  qed
qed

text \<open>The object that a live reconciliation processes: with the operator's finalizer.\<close>

definition claimed :: "'w kube \<Rightarrow> CloudflareRecord \<Rightarrow> CloudflareRecord" where
  "claimed k obj =
     (if kc_ContainsFinalizer k (om_Finalizers (cr_meta obj)) CloudflareRecordFinalizer then obj
      else with_finalizers (kc_AddFinalizer k) obj)"

lemma claimed_fields [simp]:
  "key (claimed k obj) = key obj" "cr_Spec (claimed k obj) = cr_Spec obj" "cr_Status (claimed k obj) = cr_Status obj"
  "om_Generation (cr_meta (claimed k obj)) = om_Generation (cr_meta obj)"
  "om_DeletionTimestamp (cr_meta (claimed k obj)) = om_DeletionTimestamp (cr_meta obj)"
  by (simp_all add: claimed_def with_finalizers_alt)

lemma claimed_meta: "\<exists>fs. cr_meta (claimed k obj) = (cr_meta obj)\<lparr>om_Finalizers := fs\<rparr>"
  by (auto simp: claimed_def with_finalizers_def intro: exI [of _ "om_Finalizers (cr_meta obj)"])

lemma claimed_finalizers:
  "finalizer_laws k \<Longrightarrow> set (om_Finalizers (cr_meta (claimed k obj)))
     = insert CloudflareRecordFinalizer (set (om_Finalizers (cr_meta obj)))"
  by (auto simp: claimed_def with_finalizers_alt finalizer_laws_def)

lemma reconcile_live:
  assumes laws: "server_laws k stored" and obj: "stored w (key obj) = Some obj"
    and live: "om_DeletionTimestamp (cr_meta obj) = None"
    and run: "reconcile_object k r t ns deadline obj w = (res, err, w', ms)"
  shows "(err = None \<longrightarrow> res = \<lparr>RequeueAfter = rr_RequeueInterval r\<rparr>
      \<and> (\<exists>u now. stored w' = (stored w)(key obj \<mapsto> (claimed k obj)\<lparr>cr_Status := reconciled_status u now (claimed k obj)\<rparr>)))
    \<and> (err \<noteq> None \<longrightarrow> res = \<lparr>RequeueAfter = rr_RequeueIntervalOnError r\<rparr>
      \<and> (stored w' = stored w \<or> stored w' = (stored w)(key obj \<mapsto> claimed k obj)))"
proof (cases "kc_ContainsFinalizer k (om_Finalizers (cr_meta obj)) CloudflareRecordFinalizer")
  case True
  then have c: "claimed k obj = obj" by (simp add: claimed_def)
  have p: "process_record k r t ns deadline obj w = (res, err, w', ms)"
    using run live True by (simp add: reconcile_object_def)
  show ?thesis
    using process_record_ok [OF laws obj] process_record_failed [OF laws obj] p c by (cases err) auto
next
  case False
  then have c: "claimed k obj = with_finalizers (kc_AddFinalizer k) obj" by (simp add: claimed_def)
  obtain er obj1 w1 where u: "kc_Update k deadline (with_finalizers (kc_AddFinalizer k) obj) w = (er, obj1, w1)"
    using prod_cases3 by blast
  show ?thesis
  proof (cases er)
    case (Some e)
    obtain d w2 where n: "since k t w1 = (d, w2)" by (cases "since k t w1")
    have "stored w2 = stored w"
      using server_Update(2) [OF laws u [unfolded with_finalizers_alt] obj] Some server_since [OF laws n] by simp
    then show ?thesis using run live False u Some n by (auto simp: reconcile_object_def failed_def)
  next
    case None
    have o1: "obj1 = claimed k obj" and w1: "stored w1 = (stored w)(key obj \<mapsto> claimed k obj)"
      using server_Update(1) [OF laws u [unfolded with_finalizers_alt] obj None] live
      by (simp_all add: c with_finalizers_alt)
    have p: "process_record k r t ns deadline (claimed k obj) w1 = (res, err, w', ms)"
      using run live False u None o1 by (simp add: reconcile_object_def)
    have s1: "stored w1 (key (claimed k obj)) = Some (claimed k obj)" by (simp add: w1)
    have up: "(stored w1)(key obj \<mapsto> z) = (stored w)(key obj \<mapsto> z)" for z by (simp add: w1)
    show ?thesis
    proof (cases err)
      case None
      from process_record_ok [OF laws s1 p [unfolded None]] show ?thesis by (simp add: None up)
    next
      case (Some e)
      from process_record_failed [OF laws s1 p [unfolded Some]] w1
      have "res = \<lparr>RequeueAfter = rr_RequeueIntervalOnError r\<rparr>"
        "stored w' = (stored w)(key obj \<mapsto> claimed k obj)" by metis+
      with Some show ?thesis by blast
    qed
  qed
qed

lemma reconcile_deleted:
  assumes laws: "server_laws k stored" and obj: "stored w (key obj) = Some obj"
    and del: "om_DeletionTimestamp (cr_meta obj) \<noteq> None"
    and run: "reconcile_object k r t ns deadline obj w = (res, err, w', ms)"
  shows "(err = None \<longrightarrow> res = \<lparr>RequeueAfter = 0\<rparr>
      \<and> (let fs = kc_RemoveFinalizer k (om_Finalizers (cr_meta obj)) CloudflareRecordFinalizer in
         stored w' = (stored w)(key obj := if fs = [] then None else Some (has_finalizers fs obj))))
    \<and> (err \<noteq> None \<longrightarrow> res = \<lparr>RequeueAfter = rr_RequeueIntervalOnError r\<rparr> \<and> stored w' = stored w)"
proof -
  obtain a w1 where n1: "kc_Now k w = (a, w1)" by (cases "kc_Now k w")
  obtain d w2 where n2: "since k a w1 = (d, w2)" by (cases "since k a w1")
  obtain er obj1 w3 where u: "kc_Update k deadline (with_finalizers (kc_RemoveFinalizer k) obj) w2 = (er, obj1, w3)"
    using prod_cases3 by blast
  obtain d2 w4 where n4: "since k t w3 = (d2, w4)" by (cases "since k t w3")
  have w2: "stored w2 = stored w" using server_Now [OF laws n1] server_since [OF laws n2] by simp
  have w4: "stored w4 = stored w3" by (rule server_since [OF laws n4])
  note up = server_Update [OF laws u [unfolded with_finalizers_alt]]
  show ?thesis
  proof (cases er)
    case None
    then have "res = \<lparr>RequeueAfter = 0\<rparr>" "err = None" "w' = w4"
      using run del by (auto simp: reconcile_object_def reconcileDelete_def n1 n2 u n4 Let_def)
    moreover have "stored w3 = (stored w)(key obj := if kc_RemoveFinalizer k (om_Finalizers (cr_meta obj))
        CloudflareRecordFinalizer = [] then None else Some (has_finalizers (kc_RemoveFinalizer k
        (om_Finalizers (cr_meta obj)) CloudflareRecordFinalizer) obj))"
      using up(1) None obj w2 del by simp
    ultimately show ?thesis using w4 by (simp add: Let_def)
  next
    case (Some e)
    then have "res = \<lparr>RequeueAfter = rr_RequeueIntervalOnError r\<rparr>" "err = Some e" "w' = w4"
      using run del by (auto simp: reconcile_object_def reconcileDelete_def n1 n2 u n4 Let_def)
    moreover have "stored w3 = stored w" using up(2) Some obj w2 by simp
    ultimately show ?thesis using w4 by simp
  qed
qed

section \<open>Reconciliation\<close>

text \<open>C6: A reconciliation that succeeds brings the stored object to its goal: a live object carries the operator's
  finalizer next to the finalizers it had, its status is ready and has observed the current generation, its
  Ready condition says so (one is created when there was none, never a second one), every other condition and the
  specification are untouched, no other object changes, and the next run is due after the requeue interval.\<close>

theorem reconcile_reaches_goal:
  assumes "server_laws k stored" and "finalizer_laws k" and "\<not> reconciliation_disabled r"
    and "stored w req = Some obj" and "om_DeletionTimestamp (cr_meta obj) = None"
    and "Reconcile k r pd req w = (res, None, w', ms)"
  shows "\<exists>obj'. stored w' = (stored w)(req \<mapsto> obj')
    \<and> set (om_Finalizers (cr_meta obj')) = insert CloudflareRecordFinalizer (set (om_Finalizers (cr_meta obj)))
    \<and> cr_meta obj' = (cr_meta obj)\<lparr>om_Finalizers := om_Finalizers (cr_meta obj')\<rparr>
    \<and> cr_Spec obj' = cr_Spec obj \<and> st_Ready (cr_Status obj')
    \<and> st_ObservedGeneration (cr_Status obj') = om_Generation (cr_meta obj')
    \<and> (\<exists>c rest. ready_conditions (st_Conditions (cr_Status obj')) = c # rest
        \<and> cn_Status c = ConditionTrue \<and> cn_Reason c = ConditionReasonRecordCreated
        \<and> length rest = length (ready_conditions (st_Conditions (cr_Status obj))) - 1)
    \<and> filter (\<lambda>c. cn_Type c \<noteq> ConditionTypeReady) (st_Conditions (cr_Status obj'))
        = filter (\<lambda>c. cn_Type c \<noteq> ConditionTypeReady) (st_Conditions (cr_Status obj))
    \<and> res = \<lparr>RequeueAfter = rr_RequeueInterval r\<rparr>"
  using assms(1,6)
proof (cases rule: Reconcile_cases)
  case (read obj' t deadline w1 ms1)
  then have o: "obj' = obj" "stored w1 (key obj) = Some obj" using assms(4) by simp_all
  obtain u now where s: "res = \<lparr>RequeueAfter = rr_RequeueInterval r\<rparr>"
    "stored w' = (stored w1)(key obj \<mapsto> (claimed k obj)\<lparr>cr_Status := reconciled_status u now (claimed k obj)\<rparr>)"
    using reconcile_live [OF assms(1) o(2) assms(5) read(5) [unfolded o(1)]] by auto
  obtain c rest where c: "ready_conditions (put_condition (created_condition u) (st_Conditions (cr_Status obj))) = c # rest"
    "cn_Status c = ConditionTrue" "cn_Reason c = ConditionReasonRecordCreated"
    "length rest = length (ready_conditions (st_Conditions (cr_Status obj))) - 1"
    using put_ready [of "created_condition u" "st_Conditions (cr_Status obj)"] by (auto simp: created_condition_def)
  obtain fs where fs: "cr_meta (claimed k obj) = (cr_meta obj)\<lparr>om_Finalizers := fs\<rparr>" using claimed_meta by blast
  show ?thesis
    using s read(2,4) o c claimed_finalizers [OF assms(2), of obj]
    by (intro exI [of _ "(claimed k obj)\<lparr>cr_Status := reconciled_status u now (claimed k obj)\<rparr>"])
      (simp add: reconciled_status_def put_others created_condition_def fs)
qed (use assms in simp_all)

text \<open>A second reconciliation changes nothing but the time of the last update: once an object is reconciled,
  another successful run leaves its metadata, its specification, its conditions (with their transition times) and
  the rest of its status as they are.\<close>

theorem reconcile_is_stable:
  assumes "server_laws k stored" and "finalizer_laws k"
    and "stored w req = Some obj" and "om_DeletionTimestamp (cr_meta obj) = None"
    and "\<not> reconciliation_disabled r" and "\<not> reconciliation_disabled r'"
    and "Reconcile k r pd req w = (res, None, w1, ms)" and "stored w2 = stored w1"
    and "Reconcile k r' pd' req w2 = (res', None, w3, ms')"
  shows "\<exists>obj1 now. stored w1 req = Some obj1
    \<and> stored w3 = (stored w1)(req \<mapsto> obj1\<lparr>cr_Status := (cr_Status obj1)\<lparr>st_LastUpdated := Some now\<rparr>\<rparr>)"
  using assms(1,7)
proof (cases rule: Reconcile_cases)
  case (read obj' t deadline v1 ms1)
  then have o: "obj' = obj" "stored v1 (key obj) = Some obj" using assms(3) by simp_all
  obtain u now where s: "stored w1 = (stored v1)(key obj \<mapsto> (claimed k obj)\<lparr>cr_Status := reconciled_status u now (claimed k obj)\<rparr>)"
    using reconcile_live [OF assms(1) o(2) assms(4) read(5) [unfolded o(1)]] by auto
  define obj1 where "obj1 = (claimed k obj)\<lparr>cr_Status := reconciled_status u now (claimed k obj)\<rparr>"
  have k1: "key obj1 = req" "om_DeletionTimestamp (cr_meta obj1) = None"
    using read(2) o(1) assms(4) by (simp_all add: obj1_def)
  have s1: "stored w1 req = Some obj1" using s read(2) o(1) by (simp add: obj1_def)
  have fin: "claimed k obj1 = obj1"
    using claimed_finalizers [OF assms(2), of obj] assms(2)
    by (simp add: claimed_def [of k obj1]) (simp add: obj1_def finalizer_laws_def)
  show ?thesis
    using assms(1,9)
  proof (cases rule: Reconcile_cases)
    case (read obj2 t2 deadline2 v2 ms2)
    then have o2: "obj2 = obj1" "stored v2 (key obj1) = Some obj1" using s1 assms(8) k1 by simp_all
    obtain u2 now2 where
      "stored w3 = (stored v2)(key obj1 \<mapsto> (claimed k obj1)\<lparr>cr_Status := reconciled_status u2 now2 (claimed k obj1)\<rparr>)"
      using reconcile_live [OF assms(1) o2(2) k1(2) read(5) [unfolded o2(1)]] by auto
    moreover have "reconciled_status u2 now2 obj1 = (cr_Status obj1)\<lparr>st_LastUpdated := Some now2\<rparr>"
      using put_again [of "created_condition u" "created_condition u2"]
      by (simp add: reconciled_status_def obj1_def created_condition_def)
    ultimately show ?thesis using s1 k1 read(4) assms(8) fin by auto
  qed (use assms s1 in simp_all)
qed (use assms in simp_all)

text \<open>C16: The finalizer protocol of a deletion: when an object is marked for deletion and the run succeeds, the operator's
  finalizer is gone and every other finalizer, the specification and the status are kept; the object disappears
  when no finalizer is left, and nothing is requeued.\<close>

theorem deletion_releases_object:
  assumes "server_laws k stored" and "finalizer_laws k" and "\<not> reconciliation_disabled r"
    and "stored w req = Some obj" and "om_DeletionTimestamp (cr_meta obj) \<noteq> None"
    and "Reconcile k r pd req w = (res, None, w', ms)"
  shows "res = \<lparr>RequeueAfter = 0\<rparr>
    \<and> (\<forall>q. q \<noteq> req \<longrightarrow> stored w' q = stored w q)
    \<and> (if set (om_Finalizers (cr_meta obj)) \<subseteq> {CloudflareRecordFinalizer} then stored w' req = None
       else \<exists>fs. stored w' req = Some (has_finalizers fs obj)
         \<and> set fs = set (om_Finalizers (cr_meta obj)) - {CloudflareRecordFinalizer})"
  using assms(1,6)
proof (cases rule: Reconcile_cases)
  case (read obj' t deadline w1 ms1)
  then have o: "obj' = obj" "stored w1 (key obj) = Some obj" using assms(4) by simp_all
  define fs where "fs = kc_RemoveFinalizer k (om_Finalizers (cr_meta obj)) CloudflareRecordFinalizer"
  have fs: "set fs = set (om_Finalizers (cr_meta obj)) - {CloudflareRecordFinalizer}"
    using assms(2) by (simp add: fs_def finalizer_laws_def)
  then have e: "fs = [] \<longleftrightarrow> set (om_Finalizers (cr_meta obj)) \<subseteq> {CloudflareRecordFinalizer}"
    by (metis Diff_eq_empty_iff set_empty)
  have "res = \<lparr>RequeueAfter = 0\<rparr>"
    "stored w' = (stored w1)(key obj := if fs = [] then None else Some (has_finalizers fs obj))"
    using reconcile_deleted [OF assms(1) o(2) assms(5) read(5) [unfolded o(1)]] by (simp_all add: fs_def Let_def)
  then show ?thesis using read(2,4) o(1) fs e by auto
qed (use assms in simp_all)


section \<open>Metrics and settings\<close>

text \<open>The calls a reconciliation makes on its collectors.\<close>

abbreviation reconcile_calls ::
  "'w kube \<Rightarrow> CloudflareRecordReconciler \<Rightarrow> gotime option \<Rightarrow> Request \<Rightarrow> 'w \<Rightarrow> metric_op list" where
  "reconcile_calls k r pd req w \<equiv> snd (snd (snd (Reconcile k r pd req w)))"

lemmas reconcile_defs = process_record_def reconcileDelete_def failed_def outcome_def since_def Let_def

lemmas calls_of_recorders = ObserveReconcileDuration_def IncReconcileRate_def IncErrorRate_def
  UpdateCRDResourceStatus_def UpdateDNSRecordsByType_def ObserveAPIResponseTime_def UpdateReconciliationHealth_def
  UpdateDNSRecordsByStatus_def RecordAPIRequest_def RecordDNSOperation_def RecordAPIError_def UpdateQueueDepth_def
  gauge_set_def counter_inc_def histogram_observe_def

lemma no_reconcile_error:
  "MetricInc (col_name errorRate) [c, ''reconcile_error'', ns] \<notin> set (reconcile_calls k r pd req w)"
proof -
  let ?x = "MetricInc (col_name errorRate) [c, ''reconcile_error'', ns]"
  note names = calls_of_recorders errorRate_def reconcileRate_def cloudflareAPIRequestsTotal_def
    cloudflareDNSRecordOperationsTotal_def cloudflareAPIErrorsTotal_def
  have f: "?x \<notin> set (snd (snd (snd (failed k r t n res et e w))))" if "et \<noteq> ''reconcile_error''" for t n res et e w
    using that by (simp add: reconcile_defs names split: prod.split)
  have d: "?x \<notin> set (snd (snd (snd (reconcileDelete k r dl obj w))))" for dl obj w
    by (simp add: reconcile_defs names split: prod.split option.split)
  have p: "?x \<notin> set (snd (snd (snd (process_record k r t n dl obj w))))" for t n dl obj w
    using f [of "''status_error''"] by (simp add: reconcile_defs names split: prod.split option.split)
  have o: "?x \<notin> set (snd (snd (snd (reconcile_object k r t n dl obj w))))" for t n dl obj w
    using d [of dl obj w] p f [of "''finalizer_error''"]
    by (auto simp: reconcile_object_def outcome_def Let_def names split: prod.splits option.splits)
  have f': "?x \<notin> set ms" if "failed k r t n res ''get_error'' e w = (a, b, v, ms)" for t n res e w a b v ms
    using f [of "''get_error''" t n res e w] that by simp
  have o': "?x \<notin> set ms" if "reconcile_object k r t n dl obj w = (a, b, v, ms)" for t n dl obj w a b v ms
    using o [of t n dl obj w] that by simp
  have "?x \<notin> set ms" if "Reconcile k r pd req w = (a, b, v, ms)" for a b v ms
    using that o' f'
    by (auto simp: Reconcile_def outcome_def since_def Let_def names split: prod.splits get_record.splits if_splits)
  then show ?thesis by (metis surj_pair snd_conv)
qed

text \<open>The error rate exported for autoscaling is always 0: it reads the errors of type \<open>reconcile_error\<close>, which no
  path of the reconciliation ever records, however many of the runs fail.\<close>

theorem error_rate_always_zero:
  "GetErrorRateMetric (concat (map (\<lambda>(k, r, pd, req, w). reconcile_calls k r pd req w) runs)) c ns = Fin 0"
proof -
  have "MetricInc (col_name errorRate) [c, ''reconcile_error'', ns]
      \<notin> set (concat (map (\<lambda>(k, r, pd, req, w). reconcile_calls k r pd req w) runs))"
    by (auto simp: no_reconcile_error)
  then have "count_list (concat (map (\<lambda>(k, r, pd, req, w). reconcile_calls k r pd req w) runs))
      (MetricInc (col_name errorRate) [c, ''reconcile_error'', ns]) = 0" by (simp add: count_list_0_iff)
  then show ?thesis by (simp add: GetErrorRateMetric_def counter_of_def f64_of_int_exact)
qed

definition no_record_gauge :: "metric_op list \<Rightarrow> bool" where
  "no_record_gauge xs \<longleftrightarrow> (\<forall>x \<in> set xs. \<forall>ls. \<not> sets_gauge (col_name dnsRecordsByType) ls x)"

lemma no_record_gauge_simps [simp]:
  "no_record_gauge []" "no_record_gauge (xs @ ys) \<longleftrightarrow> no_record_gauge xs \<and> no_record_gauge ys"
  "no_record_gauge (outcome a b d)" "no_record_gauge (IncErrorRate a b c)"
  "no_record_gauge (ObserveAPIResponseTime a b c d)" "no_record_gauge (UpdateCRDResourceStatus a b c v)"
  "no_record_gauge (UpdateReconciliationHealth a b c up)" "no_record_gauge (UpdateDNSRecordsByStatus a b c v)"
  "no_record_gauge (RecordAPIRequest a b c e d)" "no_record_gauge (RecordDNSOperation a b c e)"
  "no_record_gauge (RecordAPIError a b c e)" "no_record_gauge (UpdateQueueDepth a b v)"
  by (auto simp: no_record_gauge_def outcome_def calls_of_recorders sets_gauge_def dnsRecordsByType_def
      crdResourceStatus_def reconciliationHealth_def dnsRecordsByStatus_def queueDepth_def)

lemma process_record_gauge:
  assumes "process_record k r t ns dl obj w = (res, err, w', ms)"
  shows "\<exists>pre post. ms = pre @ MetricSet (col_name dnsRecordsByType) [sp_Type (cr_Spec obj), sp_Zone (cr_Spec obj), []]
    (Fin 1) # post \<and> no_record_gauge post"
proof -
  have "\<exists>post. ms = UpdateCRDResourceStatus ns ''processing'' (sp_Type (cr_Spec obj)) (Fin 1)
      @ UpdateDNSRecordsByType (sp_Type (cr_Spec obj)) (sp_Zone (cr_Spec obj)) [] (Fin 1) @ post \<and> no_record_gauge post"
    using assms
    by (auto simp: process_record_def failed_def Let_def split: prod.splits option.splits)
  then show ?thesis unfolding UpdateDNSRecordsByType_def gauge_set_def append.simps by blast
qed

lemma reconcileDelete_gauge:
  assumes "reconcileDelete k r dl obj w = (res, err, w', ms)"
  shows "\<exists>pre post. ms = pre @ MetricSet (col_name dnsRecordsByType) [sp_Type (cr_Spec obj), sp_Zone (cr_Spec obj), []]
    (Fin (- 1)) # post \<and> no_record_gauge post"
proof -
  obtain a w1 where n1: "kc_Now k w = (a, w1)" by (cases "kc_Now k w")
  obtain d w2 where n2: "since k a w1 = (d, w2)" by (cases "since k a w1")
  define post where
    "post = (if err = None then [] else RecordAPIError ''DELETE'' ''/zones/dns_records'' ''finalizer_error'' [])"
  have "ms = (RecordAPIRequest ''DELETE'' ''/zones/dns_records'' ''200'' [] d
        @ RecordDNSOperation ''delete'' (sp_Type (cr_Spec obj)) [] ''success''
        @ UpdateCRDResourceStatus (om_Namespace (cr_meta obj)) ''deleting'' (sp_Type (cr_Spec obj)) (Fin 1))
      @ UpdateDNSRecordsByType (sp_Type (cr_Spec obj)) (sp_Zone (cr_Spec obj)) [] (Fin (- 1)) @ post"
    using assms
    by (auto simp: reconcileDelete_def Let_def n1 n2 post_def split: prod.splits option.splits)
  moreover have "no_record_gauge post" by (simp add: post_def)
  ultimately show ?thesis unfolding UpdateDNSRecordsByType_def gauge_set_def append.simps by blast
qed

lemma reconcile_object_gauge:
  assumes laws: "server_laws k stored" and obj: "stored w (key obj) = Some obj"
    and run: "reconcile_object k r t ns dl obj w = (res, None, w', ms)"
  shows "\<exists>pre post. ms = pre @ MetricSet (col_name dnsRecordsByType) [sp_Type (cr_Spec obj), sp_Zone (cr_Spec obj), []]
    (if om_DeletionTimestamp (cr_meta obj) = None then Fin 1 else Fin (- 1)) # post \<and> no_record_gauge post"
proof (cases "om_DeletionTimestamp (cr_meta obj)")
  case (Some d)
  obtain res1 err1 w1 ms1 where r: "reconcileDelete k r dl obj w = (res1, err1, w1, ms1)" using prod_cases4 by blast
  obtain ms2 where "ms = ms1 @ ms2" "no_record_gauge ms2"
    using run Some r by (auto simp: reconcile_object_def Let_def split: prod.splits)
  then show ?thesis using reconcileDelete_gauge [OF r] Some by fastforce
next
  case None
  show ?thesis
  proof (cases "kc_ContainsFinalizer k (om_Finalizers (cr_meta obj)) CloudflareRecordFinalizer")
    case True
    then have "process_record k r t ns dl obj w = (res, None, w', ms)" using run None by (simp add: reconcile_object_def)
    from process_record_gauge [OF this] show ?thesis using None by simp
  next
    case False
    obtain er obj1 w1 where u: "kc_Update k dl (with_finalizers (kc_AddFinalizer k) obj) w = (er, obj1, w1)"
      using prod_cases3 by blast
    have er: "er = None" using run None False u by (cases er) (auto simp: reconcile_object_def failed_def split: prod.splits)
    have p: "process_record k r t ns dl obj1 w1 = (res, None, w', ms)"
      using run None False u er by (simp add: reconcile_object_def)
    have "cr_Spec obj1 = cr_Spec obj"
      using server_Update(1) [OF laws u [unfolded with_finalizers_alt] obj er] by simp
    then show ?thesis using process_record_gauge [OF p] None by simp
  qed
qed

text \<open>The number of records by type is not a number of records: after a successful run on a live object the gauge of its
  type and zone reads 1, and after a run that deletes an object it reads -1, whatever was recorded before and
  however many records there are.\<close>

theorem record_gauge_does_not_count:
  assumes "server_laws k stored" and "\<not> reconciliation_disabled r" and "stored w req = Some obj"
    and "Reconcile k r pd req w = (res, None, w', ms)"
  shows "GetDNSRecordsByType (calls @ ms) (sp_Type (cr_Spec obj)) (sp_Zone (cr_Spec obj)) []
    = (if om_DeletionTimestamp (cr_meta obj) = None then Fin 1 else Fin (- 1))"
  using assms(1,4)
proof (cases rule: Reconcile_cases)
  case (read obj' t deadline w1 ms1)
  then have o: "obj' = obj" "stored w1 (key obj) = Some obj" using assms(3) by simp_all
  let ?v = "if om_DeletionTimestamp (cr_meta obj) = None then Fin 1 else Fin (- 1)"
  have "\<exists>pre post. ms1 = pre @ MetricSet (col_name dnsRecordsByType) [sp_Type (cr_Spec obj), sp_Zone (cr_Spec obj), []] ?v
      # post \<and> no_record_gauge post"
    using reconcile_object_gauge [OF assms(1) o(2) read(5) [unfolded o(1)]] .
  then obtain pre post where p: "ms1 = pre @ MetricSet (col_name dnsRecordsByType)
      [sp_Type (cr_Spec obj), sp_Zone (cr_Spec obj), []] ?v # post" "no_record_gauge post" by blast
  have q: "no_record_gauge (post @ UpdateQueueDepth controller_name (req_Namespace req) (Fin 0))"
    using p(2) by (simp add: no_record_gauge_def calls_of_recorders sets_gauge_def queueDepth_def dnsRecordsByType_def)
  have m: "calls @ ms = (calls @ UpdateQueueDepth controller_name (req_Namespace req) (Fin 1) @ pre)
      @ MetricSet (col_name dnsRecordsByType) [sp_Type (cr_Spec obj), sp_Zone (cr_Spec obj), []] ?v
      # (post @ UpdateQueueDepth controller_name (req_Namespace req) (Fin 0))"
    using read(6) p(1) by simp
  show ?thesis
    unfolding GetDNSRecordsByType_def m
    by (rule gauge_log_last) (use q in \<open>simp add: no_record_gauge_def\<close>)
qed (use assms in simp_all)

text \<open>The performance settings are always usable: whatever the configuration or the environment says, the number of workers and
  the three intervals are positive, and a positive setting of the configuration is the one used.\<close>

theorem performance_settings_positive:
  "let r = NewCloudflareRecordReconciler getenv m in
     0 < rr_MaxConcurrentReconciles r \<and> 0 < rr_ReconcileTimeout r
     \<and> 0 < rr_RequeueInterval r \<and> 0 < rr_RequeueIntervalOnError r \<and> rr_configManager r = m
     \<and> (\<forall>cm cfg. m = Some cm \<longrightarrow> GetConfig cm = Some cfg \<longrightarrow>
          (0 < RequeueInterval (Performance cfg) \<longrightarrow> rr_RequeueInterval r = RequeueInterval (Performance cfg))
          \<and> (0 < ReconcileTimeout (Performance cfg) \<longrightarrow> rr_ReconcileTimeout r = ReconcileTimeout (Performance cfg))
          \<and> (0 < RequeueIntervalOnError (Performance cfg) \<longrightarrow>
               rr_RequeueIntervalOnError r = RequeueIntervalOnError (Performance cfg)))"
proof -
  have e: "0 < d \<Longrightarrow> 0 < env_positive getenv n parse d" for n parse d
    by (simp add: env_positive_def Let_def split: option.split)
  have o: "0 < d \<Longrightarrow> 0 < override_positive v d" for v d by (simp add: override_positive_def)
  have c: "IsConfigured cm \<longleftrightarrow> GetConfig cm \<noteq> None" for cm
    by (simp add: IsConfigured_def GetConfig_def split: option.split)
  show ?thesis
  proof (cases m)
    case None
    then show ?thesis by (simp add: NewCloudflareRecordReconciler_def loadPerformanceConfig_def Let_def e)
  next
    case (Some cm)
    then show ?thesis
      by (cases "GetConfig cm")
        (simp_all add: NewCloudflareRecordReconciler_def loadPerformanceConfig_def Let_def e o c override_positive_def)
  qed
qed

section \<open>Witnesses\<close>

text \<open>An API server that keeps its objects in a map, with a clock that ticks, and the finalizer helpers on lists.\<close>

type_synonym demo_world = "(Request \<Rightarrow> CloudflareRecord option) \<times> gotime"

definition demo_kube :: "demo_world kube" where
  "demo_kube = \<lparr>kc_Now = (\<lambda>(m, t). (t, (m, t + 1))), kc_Sleep = (\<lambda>d (m, t). (m, t + d)),
     kc_Get = (\<lambda>dl q (m, t). ((case m q of None \<Rightarrow> NotFound (ErrNew ''not found'')
        | Some obj \<Rightarrow> if key obj = q then Got obj else GetErr (ErrNew ''corrupt'')), (m, t))),
     kc_Update = (\<lambda>dl obj (m, t).
        (case m (key obj) of
           None \<Rightarrow> (Some (ErrNew ''not found''), obj, (m, t))
         | Some old \<Rightarrow>
             let new = obj\<lparr>cr_Status := cr_Status old\<rparr> in
             (None, new, (m(key obj := if om_DeletionTimestamp (cr_meta obj) \<noteq> None \<and> om_Finalizers (cr_meta obj) = []
                                      then None else Some new), t)))),
     kc_StatusUpdate = (\<lambda>dl obj (m, t).
        (case m (key obj) of
           None \<Rightarrow> (Some (ErrNew ''not found''), obj, (m, t))
         | Some old \<Rightarrow> (let new = old\<lparr>cr_Status := cr_Status obj\<rparr> in (None, new, (m(key obj \<mapsto> new), t))))),
     kc_ContainsFinalizer = (\<lambda>fs f. f \<in> set fs),
     kc_AddFinalizer = (\<lambda>fs f. if f \<in> set fs then fs else fs @ [f]),
     kc_RemoveFinalizer = (\<lambda>fs f. removeAll f fs)\<rparr>"

lemma demo_laws: "server_laws demo_kube fst" "finalizer_laws demo_kube"
proof -
  have "clock_law demo_kube fst" by (auto simp: clock_law_def demo_kube_def)
  moreover have "get_law demo_kube fst"
    by (auto simp: get_law_def demo_kube_def split: option.split)
  moreover have "update_law demo_kube fst"
    by (auto simp: update_law_def demo_kube_def Let_def)
  moreover have "status_law demo_kube fst"
    by (auto simp: status_law_def demo_kube_def Let_def)
  ultimately show "server_laws demo_kube fst" by (simp add: server_laws_def)
  show "finalizer_laws demo_kube" by (auto simp: finalizer_laws_def demo_kube_def)
qed

definition demo_record :: "gotime option \<Rightarrow> string list \<Rightarrow> CloudflareRecord" where
  "demo_record deleted fs =
     \<lparr>cr_meta = \<lparr>om_Name = ''www'', om_Namespace = ''web'', om_Generation = 4, om_DeletionTimestamp = deleted,
        om_Finalizers = fs\<rparr>,
      cr_Spec = \<lparr>sp_Zone = ''example.com'', sp_Type = ''A'', sp_Name = ''www'', sp_Content = ''192.0.2.1'',
        sp_TTL = Some 3600, sp_Priority = None, sp_Proxied = None, sp_Comment = None, sp_Tags = [],
        sp_CredentialsSecretRef = \<lparr>sr_Name = ''token'', sr_Namespace = None\<rparr>\<rparr>,
      cr_Status = \<lparr>st_RecordID = None, st_ZoneID = None, st_Ready = False, st_LastUpdated = None, st_Conditions = [],
        st_ObservedGeneration = 0\<rparr>\<rparr>"

definition demo_request :: Request where
  "demo_request = \<lparr>req_Name = ''www'', req_Namespace = ''web''\<rparr>"

definition demo_reconciler :: CloudflareRecordReconciler where
  "demo_reconciler = NewCloudflareRecordReconciler (\<lambda>_. []) None"

definition demo_start :: "CloudflareRecord \<Rightarrow> demo_world" where
  "demo_start obj = ([demo_request \<mapsto> obj], 7)"

lemma demo_stored: "fst (demo_start obj) demo_request = Some obj"
  by (simp add: demo_start_def)

lemma demo_enabled: "\<not> reconciliation_disabled demo_reconciler"
  by (simp add: reconciliation_disabled_def demo_reconciler_def NewCloudflareRecordReconciler_def
      loadPerformanceConfig_def Let_def)

lemma demo_key: "key (demo_record d fs) = demo_request"
  by (simp add: key_def demo_record_def demo_request_def)

lemma demo_succeeds:
  assumes "fst w demo_request = Some obj" and "key obj = demo_request"
  shows "\<exists>res w' ms. Reconcile demo_kube demo_reconciler None demo_request w = (res, None, w', ms)"
proof (cases w)
  case (Pair m t)
  have m: "m demo_request = Some obj" using assms(1) Pair by simp
  have k: "key (updateStatus u obj' True a b) = key obj'" for u obj' a b
    by (simp add: key_def updateStatus_def Let_def)
  have p: "\<exists>res w' ms. process_record demo_kube demo_reconciler t0 ns dl obj' (m', u) = (res, None, w', ms)"
    if "m' (key obj') = Some old" for t0 ns dl obj' m' u old
    using that by (simp add: process_record_def demo_kube_def since_def k Let_def)
  have "\<exists>res w' ms. reconcile_object demo_kube demo_reconciler t0 ns dl obj (m, u) = (res, None, w', ms)" for t0 ns dl u
  proof (cases "om_DeletionTimestamp (cr_meta obj) = None")
    case True
    have q: "key (with_finalizers f obj) = demo_request" for f
      by (simp add: with_finalizers_alt assms(2))
    show ?thesis
      using p [of m obj obj t0 ns dl u] m assms(2) True
        p [of "m(demo_request \<mapsto> (with_finalizers (\<lambda>fs f. fs @ [f]) obj)\<lparr>cr_Status := cr_Status obj\<rparr>)"
          "(with_finalizers (\<lambda>fs f. fs @ [f]) obj)\<lparr>cr_Status := cr_Status obj\<rparr>" _ t0 ns dl u]
      by (auto simp: reconcile_object_def Let_def demo_kube_def with_finalizers_alt)
  next
    case False
    then show ?thesis
      by (auto simp: reconcile_object_def reconcileDelete_def demo_kube_def Let_def m assms(2) with_finalizers_alt since_def)
  qed
  then obtain res w' ms where r: "reconcile_object demo_kube demo_reconciler t (req_Namespace demo_request)
      (time_add (t + 1) (rr_ReconcileTimeout demo_reconciler)) obj (m, 2 + t) = (res, None, w', ms)" by blast
  have n: "kc_Now demo_kube (m, u) = (u, (m, u + 1))" for u by (simp add: demo_kube_def)
  have g: "kc_Get demo_kube dl demo_request (m, u) = (Got obj, (m, u))" for dl u
    using m assms(2) by (simp add: demo_kube_def)
  show ?thesis by (simp add: Pair Reconcile_def Let_def n g r demo_enabled)
qed

theorem reconcile_reaches_goal_witness:
  "\<exists>res w' ms obj'. Reconcile demo_kube demo_reconciler None demo_request (demo_start (demo_record None []))
      = (res, None, w', ms)
    \<and> fst w' demo_request = Some obj' \<and> st_Ready (cr_Status obj') \<and> st_ObservedGeneration (cr_Status obj') = 4
    \<and> CloudflareRecordFinalizer \<in> set (om_Finalizers (cr_meta obj'))"
proof -
  let ?obj = "demo_record None []"
  obtain res w' ms where r: "Reconcile demo_kube demo_reconciler None demo_request (demo_start ?obj) = (res, None, w', ms)"
    using demo_succeeds [OF demo_stored demo_key] by blast
  have d: "om_DeletionTimestamp (cr_meta ?obj) = None" by (simp add: demo_record_def)
  from reconcile_reaches_goal [OF demo_laws demo_enabled demo_stored d r] obtain obj' where
    o: "fst w' = (fst (demo_start ?obj))(demo_request \<mapsto> obj')" "st_Ready (cr_Status obj')"
    "st_ObservedGeneration (cr_Status obj') = om_Generation (cr_meta obj')"
    "cr_meta obj' = (cr_meta ?obj)\<lparr>om_Finalizers := om_Finalizers (cr_meta obj')\<rparr>"
    "set (om_Finalizers (cr_meta obj')) = insert CloudflareRecordFinalizer (set (om_Finalizers (cr_meta ?obj)))"
    by blast
  have "om_Generation (cr_meta obj') = 4" by (subst o(4)) (simp add: demo_record_def)
  with r o show ?thesis by auto
qed

theorem reconcile_is_stable_witness:
  "\<exists>w1 w3 res res' ms ms' obj1 now.
     Reconcile demo_kube demo_reconciler None demo_request (demo_start (demo_record None [])) = (res, None, w1, ms)
     \<and> Reconcile demo_kube demo_reconciler None demo_request w1 = (res', None, w3, ms')
     \<and> fst w1 demo_request = Some obj1
     \<and> fst w3 demo_request = Some (obj1\<lparr>cr_Status := (cr_Status obj1)\<lparr>st_LastUpdated := Some now\<rparr>\<rparr>)"
proof -
  let ?obj = "demo_record None []"
  obtain res w1 ms where r: "Reconcile demo_kube demo_reconciler None demo_request (demo_start ?obj) = (res, None, w1, ms)"
    using demo_succeeds [OF demo_stored demo_key] by blast
  have d: "om_DeletionTimestamp (cr_meta ?obj) = None" by (simp add: demo_record_def)
  have "\<exists>obj1. fst w1 demo_request = Some obj1 \<and> key obj1 = demo_request"
    using demo_laws(1) r
  proof (cases rule: Reconcile_cases)
    case (read obj' t dl v1 ms1)
    then have o: "obj' = ?obj" "fst v1 (key ?obj) = Some ?obj" using demo_stored [of ?obj] by simp_all
    from reconcile_live [OF demo_laws(1) o(2) d read(5) [unfolded o(1)]] show ?thesis by (auto simp: demo_key)
  qed (use demo_stored [of ?obj] demo_enabled in simp_all)
  then obtain res' w3 ms' where r': "Reconcile demo_kube demo_reconciler None demo_request w1 = (res', None, w3, ms')"
    using demo_succeeds by blast
  from reconcile_is_stable [OF demo_laws demo_stored d demo_enabled demo_enabled r refl r'] r r' show ?thesis
    by (metis fun_upd_same)
qed

theorem deletion_releases_object_witness:
  "\<exists>res w' ms. Reconcile demo_kube demo_reconciler None demo_request
       (demo_start (demo_record (Some 3) [CloudflareRecordFinalizer])) = (res, None, w', ms)
     \<and> fst w' demo_request = None"
proof -
  let ?obj = "demo_record (Some 3) [CloudflareRecordFinalizer]"
  obtain res w' ms where r: "Reconcile demo_kube demo_reconciler None demo_request (demo_start ?obj) = (res, None, w', ms)"
    using demo_succeeds [OF demo_stored demo_key] by blast
  have d: "om_DeletionTimestamp (cr_meta ?obj) \<noteq> None" "set (om_Finalizers (cr_meta ?obj)) \<subseteq> {CloudflareRecordFinalizer}"
    by (simp_all add: demo_record_def)
  from deletion_releases_object [OF demo_laws demo_enabled demo_stored d(1) r] d(2) r show ?thesis by auto
qed

theorem record_gauge_does_not_count_witness:
  "\<exists>res w' ms. Reconcile demo_kube demo_reconciler None demo_request
       (demo_start (demo_record (Some 3) [CloudflareRecordFinalizer])) = (res, None, w', ms)
     \<and> GetDNSRecordsByType ms ''A'' ''example.com'' [] = Fin (- 1)"
proof -
  let ?obj = "demo_record (Some 3) [CloudflareRecordFinalizer]"
  obtain res w' ms where r: "Reconcile demo_kube demo_reconciler None demo_request (demo_start ?obj) = (res, None, w', ms)"
    using demo_succeeds [OF demo_stored demo_key] by blast
  from record_gauge_does_not_count [OF demo_laws(1) demo_enabled demo_stored r, of "[]"] r show ?thesis
    by (auto simp: demo_record_def)
qed

text \<open>A server that answers no request in time.\<close>

definition failing_kube :: "demo_world kube" where
  "failing_kube = demo_kube\<lparr>kc_Get := (\<lambda>dl q w. (GetErr (ErrNew ''timeout''), w))\<rparr>"


end
