(* ===== verification/OperatorRun.thy ===== *)
theory OperatorRun
  imports ControllerProps
begin

text \<open>
  The operator at work: any interleaving of reconciliations, successful or failed, with what users and other controllers
  do to the objects. Controller-runtime is described by its contract: an object that changes is put on the work
  queue, a run takes its request from the queue, and a request that failed or asked to be run again comes back.
\<close>

section \<open>Runs of the operator\<close>

text \<open>
  \<open>Ran q err\<close> is a run of \<open>Reconcile\<close> on \<open>q\<close>. The others are the work of users, who create, edit and delete objects, and
  of other controllers, which change their own finalizers; the API server gives an edited object a new generation,
  marks a deleted object that has finalizers, and removes a marked object that has none. \<open>Quiet\<close> is anything that
  leaves the objects alone.
\<close>

datatype op_event =
    Ran Request "go_error option"
  | Created Request
  | Edited Request
  | Marked Request
  | Repinned Request
  | Quiet

fun touches :: "op_event \<Rightarrow> Request \<Rightarrow> bool" where
  "touches (Created q) p = (q = p)"
| "touches (Edited q) p = (q = p)"
| "touches (Marked q) p = (q = p)"
| "touches (Repinned q) p = (q = p)"
| "touches _ p = False"

record 'w op_state =
  os_world :: 'w
  os_queue :: "Request set"

definition pinned :: "CloudflareRecord \<Rightarrow> bool" where
  "pinned obj \<longleftrightarrow> CloudflareRecordFinalizer \<in> set (om_Finalizers (cr_meta obj))"

definition live :: "CloudflareRecord \<Rightarrow> bool" where
  "live obj \<longleftrightarrow> om_DeletionTimestamp (cr_meta obj) = None"

definition edited :: "CloudflareRecordSpec \<Rightarrow> CloudflareRecord \<Rightarrow> CloudflareRecord" where
  "edited sp obj = obj\<lparr>cr_Spec := sp, cr_meta := (cr_meta obj)\<lparr>om_Generation := om_Generation (cr_meta obj) + 1\<rparr>\<rparr>"

definition marked :: "gotime \<Rightarrow> CloudflareRecord \<Rightarrow> CloudflareRecord" where
  "marked t obj = obj\<lparr>cr_meta := (cr_meta obj)\<lparr>om_DeletionTimestamp := Some t\<rparr>\<rparr>"

text \<open>The object left by a change: none when it is marked and has no finalizer.\<close>

definition kept :: "CloudflareRecord \<Rightarrow> CloudflareRecord option" where
  "kept obj = (if \<not> live obj \<and> om_Finalizers (cr_meta obj) = [] then None else Some obj)"

inductive op_step ::
  "'w kube \<Rightarrow> ('w \<Rightarrow> Request \<Rightarrow> CloudflareRecord option) \<Rightarrow> CloudflareRecordReconciler
   \<Rightarrow> 'w op_state \<Rightarrow> op_event \<Rightarrow> 'w op_state \<Rightarrow> bool"
  for k :: "'w kube" and stored :: "'w \<Rightarrow> Request \<Rightarrow> CloudflareRecord option" and r :: CloudflareRecordReconciler
where
  ran: "q \<in> os_queue s \<Longrightarrow> Reconcile k r pd q (os_world s) = (res, err, os_world s', ms) \<Longrightarrow>
      os_queue s - {q} \<subseteq> os_queue s' \<Longrightarrow> (err \<noteq> None \<or> 0 < RequeueAfter res \<Longrightarrow> q \<in> os_queue s') \<Longrightarrow>
    op_step k stored r s (Ran q err) s'"
| created: "stored (os_world s) q = None \<Longrightarrow> live obj \<Longrightarrow> key obj = q \<Longrightarrow>
      stored (os_world s') = (stored (os_world s))(q \<mapsto> obj) \<Longrightarrow> insert q (os_queue s) \<subseteq> os_queue s' \<Longrightarrow>
    op_step k stored r s (Created q) s'"
| edited: "stored (os_world s) q = Some obj \<Longrightarrow>
      stored (os_world s') = (stored (os_world s))(q \<mapsto> edited sp obj) \<Longrightarrow> insert q (os_queue s) \<subseteq> os_queue s' \<Longrightarrow>
    op_step k stored r s (Edited q) s'"
| marked: "stored (os_world s) q = Some obj \<Longrightarrow> live obj \<Longrightarrow>
      stored (os_world s') = (stored (os_world s))(q := kept (marked t obj)) \<Longrightarrow> insert q (os_queue s) \<subseteq> os_queue s' \<Longrightarrow>
    op_step k stored r s (Marked q) s'"
| repinned: "stored (os_world s) q = Some obj \<Longrightarrow>
      (CloudflareRecordFinalizer \<in> set fs \<longleftrightarrow> pinned obj) \<Longrightarrow>
      stored (os_world s') = (stored (os_world s))(q := kept (has_finalizers fs obj)) \<Longrightarrow>
      insert q (os_queue s) \<subseteq> os_queue s' \<Longrightarrow>
    op_step k stored r s (Repinned q) s'"
| quiet: "stored (os_world s') = stored (os_world s) \<Longrightarrow> os_queue s \<subseteq> os_queue s' \<Longrightarrow>
    op_step k stored r s Quiet s'"

inductive op_run ::
  "'w kube \<Rightarrow> ('w \<Rightarrow> Request \<Rightarrow> CloudflareRecord option) \<Rightarrow> CloudflareRecordReconciler
   \<Rightarrow> 'w op_state \<Rightarrow> op_event list \<Rightarrow> 'w op_state \<Rightarrow> bool"
  for k :: "'w kube" and stored :: "'w \<Rightarrow> Request \<Rightarrow> CloudflareRecord option" and r :: CloudflareRecordReconciler
    and s :: "'w op_state"
where
  none: "op_run k stored r s [] s"
| more: "op_run k stored r s es u \<Longrightarrow> op_step k stored r u e t \<Longrightarrow> op_run k stored r s (es @ [e]) t"

inductive_cases op_stepE: "op_step k stored r s e t"
inductive_cases ran_stepE: "op_step k stored r s (Ran q err) t"

section \<open>What one reconciliation does to the objects\<close>

text \<open>The four outcomes: nothing, a finalizer and a failure, a reconciled object, and a released one.\<close>

definition reconciled :: "'w kube \<Rightarrow> gotime \<Rightarrow> gotime \<Rightarrow> CloudflareRecord \<Rightarrow> CloudflareRecord" where
  "reconciled k u now obj = (claimed k obj)\<lparr>cr_Status := reconciled_status u now (claimed k obj)\<rparr>"

lemma Reconcile_effect:
  assumes laws: "server_laws k stored" and run: "Reconcile k r pd q w = (res, err, w', ms)"
  obtains (idle) "stored w' = stored w"
        "stored w q = None \<or> err \<noteq> None \<or> reconciliation_disabled r \<and> RequeueAfter res = rr_RequeueInterval r"
    | (claims) obj where "stored w q = Some obj" "live obj" "err \<noteq> None" "stored w' = (stored w)(q \<mapsto> claimed k obj)"
    | (finished) obj u now where "stored w q = Some obj" "live obj" "err = None" "RequeueAfter res = rr_RequeueInterval r"
        "stored w' = (stored w)(q \<mapsto> reconciled k u now obj)"
    | (releases) obj where "stored w q = Some obj" "\<not> live obj" "err = None"
        "stored w' = (stored w)(q := kept (has_finalizers (kc_RemoveFinalizer k (om_Finalizers (cr_meta obj)) CloudflareRecordFinalizer) obj))"
  using laws run
proof (cases rule: Reconcile_cases)
  case (read obj t deadline w1 ms1)
  then have o: "stored w1 (key obj) = Some obj" by simp
  show thesis
  proof (cases "live obj")
    case True
    from reconcile_live [OF laws o True [unfolded live_def] read(5)] read(1,2,4) True show thesis
      by (cases err) (auto simp: reconciled_def intro: idle claims finished)
  next
    case False
    from reconcile_deleted [OF laws o False [unfolded live_def] read(5)] read(1,2,4) False show thesis
      by (cases err) (auto simp: kept_def live_def Let_def intro: idle releases)
  qed
qed (auto intro: idle)

lemma pinned_claimed: "finalizer_laws k \<Longrightarrow> pinned (claimed k obj)"
  by (simp add: pinned_def claimed_finalizers)

lemma claimed_pinned: "finalizer_laws k \<Longrightarrow> pinned obj \<Longrightarrow> claimed k obj = obj"
  by (simp add: claimed_def pinned_def finalizer_laws_def)

lemma reconciled_fields [simp]:
  "cr_meta (reconciled k u now obj) = cr_meta (claimed k obj)" "cr_Spec (reconciled k u now obj) = cr_Spec obj"
  "cr_Status (reconciled k u now obj) = reconciled_status u now (claimed k obj)"
  by (simp_all add: reconciled_def)

lemma marks_simps [simp]:
  "pinned (edited sp obj) = pinned obj" "pinned (marked t obj) = pinned obj"
  "pinned (has_finalizers fs obj) = (CloudflareRecordFinalizer \<in> set fs)"
  "live (edited sp obj) = live obj" "\<not> live (marked t obj)" "live (has_finalizers fs obj) = live obj"
  "live (claimed k obj) = live obj" "live (reconciled k u now obj) = live obj"
  by (simp_all add: pinned_def live_def edited_def marked_def)

lemma pinned_reconciled: "finalizer_laws k \<Longrightarrow> pinned (reconciled k u now obj)"
  using pinned_claimed [of k obj] by (simp add: pinned_def)

lemma kept_pinned: "pinned obj \<Longrightarrow> kept obj = Some obj"
  by (auto simp: kept_def pinned_def)

lemma kept_SomeD: "kept obj = Some x \<Longrightarrow> x = obj"
  by (simp add: kept_def split: if_splits)

lemma unpin_unpins: "finalizer_laws k \<Longrightarrow>
    \<not> pinned (has_finalizers (kc_RemoveFinalizer k fs CloudflareRecordFinalizer) obj)"
  by (simp add: finalizer_laws_def)

section \<open>The finalizer guards the record\<close>

lemma guarded_step:
  assumes "server_laws k stored" and "finalizer_laws k" and "op_step k stored r s e t"
    and "stored (os_world s) q = Some obj" and "pinned obj"
  shows "(\<exists>obj'. stored (os_world t) q = Some obj' \<and> pinned obj' \<and> (live obj' \<longleftrightarrow> live obj \<and> e \<noteq> Marked q))
    \<or> e = Ran q None \<and> \<not> live obj"
  using assms(3)
proof cases
  case (ran p pd res err ms)
  from assms(1) ran(3) show ?thesis
    by (cases rule: Reconcile_effect)
      (use assms(4,5) ran(1) in \<open>auto simp: pinned_claimed [OF assms(2)] pinned_reconciled [OF assms(2)]\<close>)
qed (use assms(4,5) in \<open>auto simp: kept_pinned\<close>)

text \<open>C8: The operator's finalizer guards a record: once a stored object carries it, then whatever users, other controllers
  and failing runs do, the object stays and keeps it until a successful run on the object, after it was marked.\<close>

theorem finalizer_guards_record:
  assumes "server_laws k stored" and "finalizer_laws k" and "op_run k stored r s es t"
    and "stored (os_world s) q = Some obj" and "pinned obj"
  shows "(\<exists>obj'. stored (os_world t) q = Some obj' \<and> pinned obj' \<and> (live obj' \<longleftrightarrow> live obj \<and> Marked q \<notin> set es))
    \<or> (\<exists>pre post. es = pre @ Ran q None # post \<and> (live obj \<longrightarrow> Marked q \<in> set pre))"
  using assms(3)
proof induction
  case (more es u e t)
  from more.IH show ?case
  proof (elim disjE exE conjE)
    fix x assume x: "stored (os_world u) q = Some x" "pinned x" "live x \<longleftrightarrow> live obj \<and> Marked q \<notin> set es"
    from guarded_step [OF assms(1,2) more.hyps(2) x(1,2)] x(3) show ?thesis
      by (auto intro: exI [of _ "[]"])
  qed auto
qed (use assms(4,5) in auto)

section \<open>No record is forgotten\<close>

text \<open>Every stored object is on the work queue, unless it is marked and the operator has let go of it.\<close>

definition remembered :: "('w \<Rightarrow> Request \<Rightarrow> CloudflareRecord option) \<Rightarrow> 'w op_state \<Rightarrow> bool" where
  "remembered stored s \<longleftrightarrow> (\<forall>q obj. stored (os_world s) q = Some obj \<longrightarrow> q \<in> os_queue s \<or> \<not> live obj \<and> \<not> pinned obj)"

lemma rememberedD: "remembered stored s \<Longrightarrow> stored (os_world s) q = Some obj \<Longrightarrow> q \<in> os_queue s \<or> \<not> live obj \<and> \<not> pinned obj"
  by (simp add: remembered_def)

lemma remembered_step:
  assumes "server_laws k stored" and "finalizer_laws k" and "0 < rr_RequeueInterval r"
    and "op_step k stored r s e t" and "remembered stored s"
  shows "remembered stored t"
  using assms(4)
proof cases
  case (ran p res err ms)
  have other: "q \<in> os_queue t" if "q \<in> os_queue s" "q \<noteq> p" for q using ran(4) that by blast
  from assms(1) ran(3) show ?thesis
  proof (cases rule: Reconcile_effect)
    case idle
    have "p \<in> os_queue t" if "stored (os_world s) p \<noteq> None"
      using idle(2) that ran(5) assms(3) by auto
    with idle(1) other show ?thesis
      unfolding remembered_def by (metis assms(5) option.distinct(1) rememberedD)
  next
    case (claims obj)
    then have "p \<in> os_queue t" using ran(5) by blast
    with claims(4) other show ?thesis
      unfolding remembered_def by (metis assms(5) fun_upd_other rememberedD)
  next
    case (finished obj u now)
    then have "p \<in> os_queue t" using ran(5) assms(3) by simp
    with finished(5) other show ?thesis
      unfolding remembered_def by (metis assms(5) fun_upd_other rememberedD)
  next
    case (releases obj)
    have "\<not> live x \<and> \<not> pinned x" if "stored (os_world t) p = Some x" for x
      using that releases unpin_unpins [OF assms(2)] by (auto dest!: kept_SomeD)
    with releases(4) other show ?thesis
      unfolding remembered_def by (metis assms(5) fun_upd_other rememberedD)
  qed
qed (use assms(5) in \<open>auto simp: remembered_def split: if_splits\<close>)

text \<open>C12: No record is forgotten: in every state that the operator reaches from its start, where all objects are queued, every
  stored object is queued for another run, unless it is marked for deletion and no longer carries the operator's
  finalizer; no failure, no order of events and no change of an object in between loses one.\<close>

theorem no_record_forgotten:
  assumes "server_laws k stored" and "finalizer_laws k" and "0 < rr_RequeueInterval r"
    and "op_run k stored r s es t" and "\<forall>q. stored (os_world s) q \<noteq> None \<longrightarrow> q \<in> os_queue s"
    and "stored (os_world t) q = Some obj" and "live obj \<or> pinned obj"
  shows "q \<in> os_queue t"
proof -
  have "remembered stored t"
    using assms(4)
  proof induction
    case none
    show ?case using assms(5) by (auto simp: remembered_def)
  next
    case (more es u e t)
    then show ?case by (blast intro: remembered_step [OF assms(1-3)])
  qed
  with assms(6,7) show ?thesis by (blast dest: rememberedD)
qed

text \<open>A live object stays live until somebody touches it.\<close>

lemma live_object_stays:
  assumes "server_laws k stored" and "finalizer_laws k" and "op_run k stored r s es t"
    and "\<forall>e \<in> set es. \<not> touches e q" and "live obj" and "stored (os_world s) q = Some obj"
  shows "\<exists>x. stored (os_world t) q = Some x \<and> live x"
  using assms(3,4)
proof induction
  case none
  show ?case using assms by blast
next
  case (more es u e t)
  then obtain x where x: "stored (os_world u) q = Some x" "live x" by auto
  from more.hyps(2) show ?case
  proof cases
    case (ran p res err ms)
    from assms(1) ran(3) show ?thesis
      by (cases rule: Reconcile_effect) (use x in auto)
  qed (use more.prems x in auto)
qed

section \<open>Convergence\<close>

text \<open>The goal of an object: what a successful run makes of it, whatever happens to other objects.\<close>

definition at_goal :: "'w kube \<Rightarrow> CloudflareRecord \<Rightarrow> CloudflareRecord \<Rightarrow> bool" where
  "at_goal k obj x \<longleftrightarrow> cr_meta x = cr_meta (claimed k obj) \<and> cr_Spec x = cr_Spec obj
     \<and> st_Ready (cr_Status x) \<and> st_ObservedGeneration (cr_Status x) = om_Generation (cr_meta obj)
     \<and> (\<exists>c rest. ready_conditions (st_Conditions (cr_Status x)) = c # rest
          \<and> cn_Status c = ConditionTrue \<and> cn_Reason c = ConditionReasonRecordCreated)"

text \<open>Before the first success the object is as it was, or carries the finalizer too.\<close>

definition on_the_way :: "'w kube \<Rightarrow> CloudflareRecord \<Rightarrow> CloudflareRecord \<Rightarrow> bool" where
  "on_the_way k obj x \<longleftrightarrow> x = obj \<or> x = claimed k obj"

lemma same_meta:
  assumes "cr_meta x = cr_meta y"
  shows "live x = live y" "pinned x = pinned y" "key x = key y"
  using assms by (simp_all add: live_def pinned_def key_def)

lemma claimed_twice: "finalizer_laws k \<Longrightarrow> claimed k (claimed k obj) = claimed k obj"
  by (rule claimed_pinned [OF _ pinned_claimed])

lemma reconciled_at_goal:
  assumes "finalizer_laws k" and "on_the_way k obj x \<or> at_goal k obj x"
  shows "at_goal k obj (reconciled k u now x)"
proof -
  have m: "cr_meta (claimed k x) = cr_meta (claimed k obj)" and sp: "cr_Spec x = cr_Spec obj"
    using assms claimed_twice [OF assms(1), of obj]
      claimed_pinned [OF assms(1), of x] same_meta(2) [of x "claimed k obj"] pinned_claimed [OF assms(1), of obj]
    by (auto simp: on_the_way_def at_goal_def)
  have g: "om_Generation (cr_meta (claimed k x)) = om_Generation (cr_meta obj)" by (simp only: m claimed_fields)
  obtain c rest where "ready_conditions (put_condition (created_condition u) (st_Conditions (cr_Status x))) = c # rest"
    "cn_Status c = ConditionTrue" "cn_Reason c = ConditionReasonRecordCreated"
    using put_ready [of "created_condition u" "st_Conditions (cr_Status x)"] by (auto simp: created_condition_def)
  with m sp g show ?thesis by (simp add: at_goal_def reconciled_status_def)
qed

lemma converging_step:
  assumes "server_laws k stored" and "finalizer_laws k" and "\<not> reconciliation_disabled r"
    and "op_step k stored r s e t" and "\<not> touches e q"
    and "stored (os_world s) q = Some x" and "live obj" and "on_the_way k obj x \<or> at_goal k obj x"
  shows "\<exists>y. stored (os_world t) q = Some y
    \<and> (on_the_way k obj y \<and> e \<noteq> Ran q None \<or> at_goal k obj y) \<and> (at_goal k obj x \<longrightarrow> at_goal k obj y)"
proof -
  have lx: "live x"
    using assms(7,8) same_meta(1) [of x "claimed k obj"] by (auto simp: on_the_way_def at_goal_def)
  have cx: "(on_the_way k obj (claimed k x) \<or> at_goal k obj (claimed k x))
      \<and> (at_goal k obj x \<longrightarrow> at_goal k obj (claimed k x))"
    using assms(2,8) claimed_twice [OF assms(2), of obj] claimed_pinned [OF assms(2), of x]
      same_meta(2) [of x "claimed k obj"] pinned_claimed [OF assms(2), of obj]
    by (auto simp: on_the_way_def at_goal_def)
  show ?thesis
    using assms(4)
  proof cases
    case (ran p res err ms)
    from assms(1) ran(3) show ?thesis
    proof (cases rule: Reconcile_effect)
      case idle
      then show ?thesis using assms(3,6,8) ran(1) by auto
    next
      case (claims o')
      then show ?thesis using assms(6,8) ran(1) cx by (cases "p = q") auto
    next
      case (finished o' u now)
      then show ?thesis
        using assms(6,8) ran(1) reconciled_at_goal [OF assms(2,8)] by (cases "p = q") auto
    next
      case (releases o')
      then show ?thesis using assms(6,8) ran(1) lx by (cases "p = q") auto
    qed
  qed (use assms(5,6,8) in auto)
qed

text \<open>C7: The operator converges: when nobody touches a live object any more, one successful run among any number of failing
  ones, on this object or others, brings it to its goal, and it stays there in every later state: all its metadata
  with the finalizer, its specification, a ready status of the current generation and a true Ready condition.\<close>

theorem operator_converges:
  assumes "server_laws k stored" and "finalizer_laws k" and "\<not> reconciliation_disabled r"
    and "op_run k stored r s es t" and "\<forall>e \<in> set es. \<not> touches e q"
    and "stored (os_world s) q = Some obj" and "live obj" and "Ran q None \<in> set es"
  shows "\<exists>x. stored (os_world t) q = Some x \<and> at_goal k obj x \<and> pinned x"
proof -
  have "\<exists>y. stored (os_world t) q = Some y \<and> (on_the_way k obj y \<and> Ran q None \<notin> set es \<or> at_goal k obj y)"
    using assms(4,5)
  proof induction
    case none
    show ?case using assms(6) by (simp add: on_the_way_def)
  next
    case (more es u e t)
    then obtain y where y: "stored (os_world u) q = Some y" "on_the_way k obj y \<and> Ran q None \<notin> set es \<or> at_goal k obj y"
      by auto
    from y(2) have "on_the_way k obj y \<or> at_goal k obj y" by blast
    from converging_step [OF assms(1-3) more.hyps(2) _ y(1) assms(7) this] more.prems y(2) show ?case
      by (auto simp: on_the_way_def)
  qed
  with assms(8) pinned_claimed [OF assms(2), of obj] same_meta(2) show ?thesis
    by (metis at_goal_def)
qed

section \<open>Witnesses\<close>

abbreviation demo_state :: "CloudflareRecord \<Rightarrow> demo_world op_state" where
  "demo_state obj \<equiv> \<lparr>os_world = demo_start obj, os_queue = {demo_request}\<rparr>"

lemma demo_run:
  "\<exists>t. op_run demo_kube fst demo_reconciler (demo_state (demo_record None fs)) [Ran demo_request None] t"
proof -
  let ?s = "demo_state (demo_record None fs)"
  obtain res w ms where
    r: "Reconcile demo_kube demo_reconciler None demo_request (demo_start (demo_record None fs)) = (res, None, w, ms)"
    using demo_succeeds [OF demo_stored demo_key] by blast
  have "op_step demo_kube fst demo_reconciler ?s (Ran demo_request None) \<lparr>os_world = w, os_queue = {demo_request}\<rparr>"
    by (rule op_step.ran) (use r in auto)
  from op_run.more [OF op_run.none this] show ?thesis by auto
qed

lemma demo_interval: "0 < rr_RequeueInterval demo_reconciler"
  by (simp add: demo_reconciler_def NewCloudflareRecordReconciler_def loadPerformanceConfig_def env_positive_def Let_def)

theorem finalizer_guards_record_witness:
  "\<exists>t obj'. op_run demo_kube fst demo_reconciler (demo_state (demo_record None [CloudflareRecordFinalizer]))
      [Quiet, Quiet] t \<and> fst (os_world t) demo_request = Some obj' \<and> pinned obj' \<and> live obj'"
proof -
  let ?o = "demo_record None [CloudflareRecordFinalizer]"
  have q: "op_step demo_kube fst demo_reconciler (demo_state ?o) Quiet (demo_state ?o)" by (rule op_step.quiet) simp_all
  have r: "op_run demo_kube fst demo_reconciler (demo_state ?o) [Quiet, Quiet] (demo_state ?o)"
    using op_run.more [OF op_run.more [OF op_run.none q] q] by simp
  have o: "pinned ?o" "live ?o" by (simp_all add: pinned_def live_def demo_record_def)
  show ?thesis
    using finalizer_guards_record [OF demo_laws r _ o(1), of demo_request] r o(2) demo_stored
    by (auto simp: Cons_eq_append_conv)
qed

theorem no_record_forgotten_witness:
  "\<exists>t. op_run demo_kube fst demo_reconciler (demo_state (demo_record None [])) [Ran demo_request None] t
    \<and> demo_request \<in> os_queue t"
proof -
  let ?o = "demo_record None []"
  obtain t where t: "op_run demo_kube fst demo_reconciler (demo_state ?o) [Ran demo_request None] t"
    using demo_run by blast
  have o: "live ?o" by (simp add: live_def demo_record_def)
  obtain x where x: "fst (os_world t) demo_request = Some x" "live x"
    using live_object_stays [OF demo_laws t _ o, of demo_request] demo_stored by auto
  show ?thesis
    using no_record_forgotten [OF demo_laws demo_interval t _ x(1)] x(2) t by (auto simp: demo_start_def)
qed

theorem operator_converges_witness:
  "\<exists>t x. op_run demo_kube fst demo_reconciler (demo_state (demo_record None [])) [Ran demo_request None] t
    \<and> fst (os_world t) demo_request = Some x \<and> st_Ready (cr_Status x) \<and> pinned x"
proof -
  let ?o = "demo_record None []"
  obtain t where t: "op_run demo_kube fst demo_reconciler (demo_state ?o) [Ran demo_request None] t"
    using demo_run by blast
  have o: "live ?o" by (simp add: live_def demo_record_def)
  show ?thesis
    using operator_converges [OF demo_laws demo_enabled t _ _ o, of demo_request] t demo_stored
    by (auto simp: at_goal_def)
qed

end
