(* ===== verification/GoDuration.thy ===== *)
theory GoDuration
  imports GoParse
begin

text \<open>
  \<open>time.Duration.String\<close> of Go's standard library, which prints the intervals of the manager's options, and the proof
  that \<open>time.ParseDuration\<close> reads back what it prints. The fraction is read in floating point; its digits are few
  enough that nothing is rounded.
\<close>

section \<open>Printing\<close>

text \<open>\<open>fmtFrac\<close>: the last \<open>p\<close> digits of \<open>v\<close> without trailing zeros, after a point; and what is left of \<open>v\<close>.\<close>

fun fmtFrac :: "nat \<Rightarrow> nat \<Rightarrow> bool \<Rightarrow> string \<Rightarrow> string \<times> nat" where
  "fmtFrac 0 v pr acc = ((if pr then CHR ''.'' # acc else acc), v)"
| "fmtFrac (Suc p) v pr acc =
     (let digit = v mod 10; pr' = (pr \<or> digit \<noteq> 0) in
      fmtFrac p (v div 10) pr' (if pr' then digit_char digit # acc else acc))"

definition micro_sign :: string where "micro_sign = [CHR 0xC2, CHR 0xB5]"

definition dur_String :: "duration \<Rightarrow> string" where
  "dur_String d =
     (let u = nat \<bar>d\<bar>; neg = (if d < 0 then ''-'' else []) in
      if u < 1000000000 then
        if u = 0 then ''0s''
        else
          let (prec, unit) = (if u < 1000 then (0, ''ns'') else if u < 1000000 then (3, micro_sign @ ''s'') else (6, ''ms''));
              (fr, v) = fmtFrac prec u False []
          in neg @ show_nat v @ fr @ unit
      else
        let (fr, v) = fmtFrac 9 u False [];
            secs = show_nat (v mod 60) @ fr @ ''s'';
            mins = v div 60
        in if mins = 0 then neg @ secs
           else if mins div 60 = 0 then neg @ show_nat (mins mod 60) @ ''m'' @ secs
           else neg @ show_nat (mins div 60) @ ''h'' @ show_nat (mins mod 60) @ ''m'' @ secs)"

section \<open>Digits\<close>

lemma digit_char_facts [simp]:
  assumes "d < 10"
  shows "is_digit (digit_char d)" "digit_val (digit_char d) = d"
  using assms by (simp_all add: is_digit_def digit_val_def digit_char_def)

lemma digits_val_Nil [simp]: "digits_val [] = 0"
  by (simp add: digits_val_def)

lemma digits_val_snoc [simp]: "digits_val (s @ [c]) = digits_val s * 10 + digit_val c"
  by (simp add: digits_val_def)

lemma show_nat_facts: "show_nat n \<noteq> [] \<and> list_all is_digit (show_nat n) \<and> digits_val (show_nat n) = n"
proof (induction n rule: show_nat.induct)
  case (1 n)
  then show ?case
    by (cases "n < 10") (simp_all add: show_nat.simps [of n] digits_val_def [of "[_]"])
qed

text \<open>Reading digits: no intermediate number exceeds the last one.\<close>

lemma digits_foldl_mono: "x \<le> foldl (\<lambda>x c. x * 10 + digit_val c) x s"
proof (induction s arbitrary: x)
  case (Cons c s)
  have "x \<le> x * 10 + digit_val c" by simp
  with Cons.IH [of "x * 10 + digit_val c"] show ?case by (simp del: mult_Suc_right)
qed simp

lemma leadingInt_digits:
  assumes "list_all is_digit ds" and "rest = [] \<or> \<not> is_digit (hd rest)"
    and "foldl (\<lambda>x c. x * 10 + digit_val c) x ds \<le> 2 ^ 63"
  shows "leadingInt x (ds @ rest) = Some (foldl (\<lambda>x c. x * 10 + digit_val c) x ds, rest)"
  using assms
proof (induction ds arbitrary: x)
  case Nil
  then show ?case by (cases rest) simp_all
next
  case (Cons c ds)
  have "x * 10 + digit_val c \<le> 2 ^ 63"
    using digits_foldl_mono [of "x * 10 + digit_val c" ds] Cons.prems(3) by simp
  moreover have "x \<le> 2 ^ 63 div 10" using calculation by simp
  ultimately show ?case using Cons by (simp add: Let_def)
qed

lemma leadingInt_show:
  "n \<le> 2 ^ 63 \<Longrightarrow> rest = [] \<or> \<not> is_digit (hd rest) \<Longrightarrow> leadingInt 0 (show_nat n @ rest) = Some (n, rest)"
  using leadingInt_digits [of "show_nat n" rest 0] show_nat_facts [of n] by (simp add: digits_val_def)

text \<open>The digits of a fraction are exact in floating point.\<close>

lemma pow10_exact: "k \<le> 9 \<Longrightarrow> f64_of_rat (10 ^ k) = Fin (10 ^ k)"
proof -
  assume "k \<le> 9"
  then have "(10::int) ^ k \<le> 10 ^ 9" by (intro power_increasing) simp_all
  then show ?thesis using f64_of_rat_of_int [of "10 ^ k"] by simp
qed

lemma leadingFraction_digits:
  assumes "list_all is_digit ds" and "rest = [] \<or> \<not> is_digit (hd rest)"
    and "foldl (\<lambda>x c. x * 10 + digit_val c) x ds < 10 ^ 9" and "j + length ds \<le> 9"
  shows "leadingFraction x (Fin (10 ^ j)) False (ds @ rest)
    = (foldl (\<lambda>x c. x * 10 + digit_val c) x ds, Fin (10 ^ (j + length ds)), rest)"
  using assms
proof (induction ds arbitrary: x j)
  case Nil
  then show ?case by (cases rest) simp_all
next
  case (Cons c ds)
  let ?y = "x * 10 + digit_val c"
  have y: "?y < 10 ^ 9" using digits_foldl_mono [of ?y ds] Cons.prems(3) by simp
  have s: "Fin (10 ^ j) * Fin 10 = Fin (10 ^ Suc j)"
    using pow10_exact [of "Suc j"] Cons.prems(4) by (simp add: mult.commute)
  have "leadingFraction ?y (Fin (10 ^ Suc j)) False (ds @ rest)
      = (foldl (\<lambda>x c. x * 10 + digit_val c) ?y ds, Fin (10 ^ (Suc j + length ds)), rest)"
    using Cons.prems by (intro Cons.IH) simp_all
  moreover have "\<not> (2 ^ 63 - 1) div 10 < x" "\<not> 2 ^ 63 < ?y" using y by simp_all
  ultimately show ?case using Cons.prems(1) s by (simp add: Let_def)
qed

section \<open>The fraction\<close>

text \<open>The last \<open>k\<close> digits of a number, with leading zeros.\<close>

fun last_digits :: "nat \<Rightarrow> nat \<Rightarrow> string" where
  "last_digits 0 v = []"
| "last_digits (Suc k) v = last_digits k (v div 10) @ [digit_char (v mod 10)]"

lemma last_digits_facts:
  "length (last_digits k v) = k \<and> list_all is_digit (last_digits k v) \<and> digits_val (last_digits k v) = v mod 10 ^ k"
  by (induction k arbitrary: v) (simp_all add: mod_mult2_eq)

lemma fmtFrac_printing: "fmtFrac p v True acc = (CHR ''.'' # last_digits p v @ acc, v div 10 ^ p)"
  by (induction p arbitrary: v acc) (simp_all add: Let_def div_mult2_eq)

text \<open>Without trailing zeros: as many digits as there are, or no point at all.\<close>

lemma fmtFrac_cases:
  "fmtFrac p v False [] = ([], v div 10 ^ p) \<and> v mod 10 ^ p = 0
   \<or> (\<exists>k \<le> p. 0 < k \<and> fmtFrac p v False [] = (CHR ''.'' # last_digits k (v div 10 ^ (p - k)), v div 10 ^ p)
        \<and> v mod 10 ^ p = (v div 10 ^ (p - k)) mod 10 ^ k * 10 ^ (p - k))"
proof (induction p arbitrary: v)
  case (Suc p)
  show ?case
  proof (cases "v mod 10 = 0")
    case False
    then have "fmtFrac (Suc p) v False [] = (CHR ''.'' # last_digits (Suc p) v, v div 10 ^ Suc p)"
      by (simp add: Let_def fmtFrac_printing div_mult2_eq)
    then show ?thesis by (intro disjI2 exI [of _ "Suc p"]) simp
  next
    case True
    have f: "fmtFrac (Suc p) v False [] = fmtFrac p (v div 10) False []" using True by (simp add: Let_def)
    have m: "v mod 10 ^ Suc p = v div 10 mod 10 ^ p * 10" using True by (simp add: mod_mult2_eq)
    from Suc.IH [of "v div 10"] show ?thesis
    proof (elim disjE exE conjE)
      assume "fmtFrac p (v div 10) False [] = ([], v div 10 div 10 ^ p)" "v div 10 mod 10 ^ p = 0"
      then show ?thesis using f m by (simp add: div_mult2_eq)
    next
      fix k assume k: "k \<le> p" "0 < k"
        and e: "fmtFrac p (v div 10) False [] = (CHR ''.'' # last_digits k (v div 10 div 10 ^ (p - k)), v div 10 div 10 ^ p)"
        and r: "v div 10 mod 10 ^ p = v div 10 div 10 ^ (p - k) mod 10 ^ k * 10 ^ (p - k)"
      have d: "v div 10 div 10 ^ (p - k) = v div 10 ^ (Suc p - k)" using k by (simp add: Suc_diff_le div_mult2_eq)
      show ?thesis
        using k e r m f unfolding d
        by (intro disjI2 exI [of _ k]) (simp add: Suc_diff_le div_mult2_eq)
    qed
  qed
qed simp

section \<open>Terms\<close>

lemma starts_with_digit: "\<exists>c t. show_nat n = c # t \<and> is_digit c"
  using show_nat_facts [of n] by (cases "show_nat n") auto

lemma show_nat_head [simp]: "show_nat n \<noteq> []" "is_digit (hd (show_nat n @ y))" "is_digit (hd (show_nat n))"
  using starts_with_digit [of n] by auto

lemma zero_digit: "is_digit (CHR ''0'')"
  by (simp add: is_digit_def)

definition unit_name :: "string \<Rightarrow> bool" where
  "unit_name u \<longleftrightarrow> u \<in> {''ns'', micro_sign @ ''s'', ''ms'', ''s'', ''m'', ''h''}"

lemma unit_name_chars: "unit_name u \<Longrightarrow> u \<noteq> [] \<and> list_all (\<lambda>c. \<not> (c = CHR ''.'' \<or> is_digit c)) u"
  by (auto simp: unit_name_def micro_sign_def is_digit_def)

lemma unit_part_name:
  assumes "unit_name u" and "rest = [] \<or> is_digit (hd rest)"
  shows "unit_part (u @ rest) = u"
proof -
  have "takeWhile (\<lambda>c. \<not> (c = CHR ''.'' \<or> is_digit c)) rest = []" using assms(2) by (cases rest) simp_all
  then show ?thesis
    using unit_name_chars [OF assms(1)] by (simp add: unit_part_def takeWhile_append2 list_all_iff)
qed

lemma whole_to_int64: "0 \<le> i \<Longrightarrow> in_int64 i \<Longrightarrow> f64_to_int64 (Fin (of_int i)) = i"
  by (simp add: f64_to_int64_def)

text \<open>A fraction of a unit of \<open>10 ^ p\<close> nanoseconds is computed exactly.\<close>

lemma fraction_value:
  assumes "f < 10 ^ k" and "k \<le> p" and "p \<le> 9"
  shows "f64_to_int64 (f64_of_int (int f) * (f64_of_int (int (10 ^ p)) / Fin (10 ^ k))) = int (f * 10 ^ (p - k))"
proof -
  have e: "f64_of_rat (10 ^ j) = Fin (10 ^ j)" if "j \<le> p" for j
    using pow10_exact [of j] that assms(3) by simp
  have "(10 ^ k :: nat) \<le> 10 ^ 9" using assms by (intro power_increasing) simp_all
  then have "int f \<le> 2 ^ 53" using assms(1) by simp
  then have F: "f64_of_int (int f) = Fin (of_int (int f))" by (intro f64_of_int_exact) simp
  have q: "(10 ^ p :: rat) / 10 ^ k = 10 ^ (p - k)" using assms(2) by (simp add: power_diff)
  have U: "f64_of_int (int (10 ^ p)) / Fin (10 ^ k) = Fin (10 ^ (p - k))"
    using e [of p] e [of "p - k"] by (simp add: f64_of_int_def q)
  have "f * 10 ^ (p - k) < 10 ^ k * 10 ^ (p - k)" using assms(1) by (intro mult_strict_right_mono) simp_all
  also have "\<dots> = 10 ^ p" using assms(2) by (simp flip: power_add)
  also have "(10 ^ p :: nat) \<le> 10 ^ 9" using assms(3) by (intro power_increasing) simp_all
  finally have small: "f * 10 ^ (p - k) < 10 ^ 9" .
  then have "f * 10 ^ (p - k) \<le> 2 ^ 53" by simp
  then have "int (f * 10 ^ (p - k)) \<le> int (2 ^ 53)" by (simp only: of_nat_le_iff)
  then have "\<bar>int (f * 10 ^ (p - k))\<bar> \<le> 2 ^ 53" by (simp only: abs_of_nat of_nat_power of_nat_numeral)
  from f64_of_rat_of_int [OF this]
  have "Fin (of_int (int f)) * Fin (10 ^ (p - k)) = Fin (of_int (int (f * 10 ^ (p - k))))" by simp
  moreover have "in_int64 (int x)" if "x < 10 ^ 9" for x using that by (simp add: in_int64_def)
  from this [OF small] have "in_int64 (int (f * 10 ^ (p - k)))" .
  then have "f64_to_int64 (Fin (of_int (int (f * 10 ^ (p - k))))) = int (f * 10 ^ (p - k))"
    by (intro whole_to_int64) simp
  ultimately show ?thesis by (simp only: F U)
qed

lemma term_value_name:
  assumes "unit_name u" and "duration_unit u = Some unit" and "rest = [] \<or> is_digit (hd rest)"
    and "v * unit \<le> 2 ^ 63" and "0 < unit"
  shows "term_value v f scale (u @ rest) =
    (let w' = (if 0 < f then v * unit + nat (f64_to_int64 (f64_of_int (int f) * (f64_of_int (int unit) / scale))) else v * unit)
     in if 0 < f \<and> 2 ^ 63 < w' then None else Some (w', rest))"
proof -
  have "\<not> 2 ^ 63 div unit < v" using assms(4,5) by (simp add: not_less less_eq_div_iff_mult_less_eq)
  then show ?thesis
    using unit_part_name [OF assms(1,3)] unit_name_chars [OF assms(1)] by (simp add: term_value_def assms(2) Let_def)
qed

lemma unit_not_point: "unit_name u \<Longrightarrow> \<not> has_prefix (u @ rest) ''.'' \<and> \<not> is_digit (hd (u @ rest)) \<and> u @ rest \<noteq> []"
  using unit_name_chars [of u] by (cases u) (auto simp: has_prefix_def)

text \<open>A term without a fraction.\<close>

lemma duration_term_plain:
  assumes "unit_name u" and "duration_unit u = Some unit" and "rest = [] \<or> is_digit (hd rest)"
    and "n * unit \<le> 2 ^ 63" and "0 < unit"
  shows "duration_term (show_nat n @ u @ rest) = Some (n * unit, rest)"
proof -
  obtain c t where c: "show_nat n = c # t" "is_digit c" using starts_with_digit by blast
  have "n \<le> n * unit" using assms(5) by simp
  with assms(4) have "n \<le> 2 ^ 63" by (rule order_trans [rotated])
  then have "leadingInt 0 (show_nat n @ u @ rest) = Some (n, u @ rest)"
    using unit_not_point [OF assms(1)] by (intro leadingInt_show) auto
  moreover have "fraction_part (u @ rest) = (0, Fin 1, False, u @ rest)"
    using unit_not_point [OF assms(1), of rest] by (simp add: fraction_part_def)
  ultimately show ?thesis
    using c term_value_name [OF assms, of 0 "Fin 1"] by (simp add: duration_term_def Let_def)
qed

text \<open>A term with the fraction that \<open>fmtFrac\<close> prints.\<close>

lemma duration_term_frac:
  assumes "unit_name u" and "duration_unit u = Some (10 ^ p)" and "rest = [] \<or> is_digit (hd rest)" and "p \<le> 9"
    and "fmtFrac p v False [] = (fr, w)" and "n * 10 ^ p + v mod 10 ^ p \<le> 2 ^ 63"
  shows "duration_term (show_nat n @ fr @ u @ rest) = Some (n * 10 ^ p + v mod 10 ^ p, rest)"
  using fmtFrac_cases [of p v]
proof (elim disjE exE conjE)
  assume "fmtFrac p v False [] = ([], v div 10 ^ p)" "v mod 10 ^ p = 0"
  then show ?thesis using duration_term_plain [OF assms(1-3), of n] assms(5,6) by simp
next
  fix k assume k: "k \<le> p" "0 < k"
    and e: "fmtFrac p v False [] = (CHR ''.'' # last_digits k (v div 10 ^ (p - k)), v div 10 ^ p)"
    and r: "v mod 10 ^ p = v div 10 ^ (p - k) mod 10 ^ k * 10 ^ (p - k)"
  define f where "f = v div 10 ^ (p - k) mod 10 ^ k"
  define ds where "ds = last_digits k (v div 10 ^ (p - k))"
  have ds: "length ds = k" "list_all is_digit ds" "digits_val ds = f"
    using last_digits_facts [of k "v div 10 ^ (p - k)"] by (simp_all add: ds_def f_def)
  have fk: "f < 10 ^ k" by (simp add: f_def)
  have fr: "fr = CHR ''.'' # ds" using assms(5) e by (simp add: ds_def)
  obtain c t where c: "show_nat n = c # t" "is_digit c" using starts_with_digit by blast
  have n1: "n * 10 ^ p \<le> 2 ^ 63" using assms(6) by linarith
  moreover have "n \<le> n * 10 ^ p" by simp
  ultimately have "n \<le> 2 ^ 63" by linarith
  then have i: "leadingInt 0 (show_nat n @ fr @ u @ rest) = Some (n, fr @ u @ rest)"
    by (intro leadingInt_show) (simp_all add: fr is_digit_def)
  have "(10 ^ k :: nat) \<le> 10 ^ 9" using k assms(4) by (intro power_increasing) simp_all
  then have "digits_val ds < 10 ^ 9" using ds(3) fk by linarith
  then have "leadingFraction 0 (Fin (10 ^ 0)) False (ds @ u @ rest) = (f, Fin (10 ^ (0 + k)), u @ rest)"
    using leadingFraction_digits [of ds "u @ rest" 0 0] ds unit_not_point [OF assms(1), of rest] k assms(4)
    by (simp add: digits_val_def)
  then have fp: "fraction_part (fr @ u @ rest) = (f, Fin (10 ^ k), True, u @ rest)"
    using ds(1) k(2) by (simp add: fraction_part_def fr has_prefix_def)
  have "term_value n f (Fin (10 ^ k)) (u @ rest) = Some (n * 10 ^ p + v mod 10 ^ p, rest)"
    using term_value_name [OF assms(1-3) n1, of f "Fin (10 ^ k)"] fraction_value [OF fk k(1) assms(4)] assms(6)
    by (cases "f = 0") (simp_all add: Let_def r f_def [symmetric] nat_int del: of_nat_mult)
  then show ?thesis using i fp c ds(1) by (simp add: duration_term_def fr)
qed

section \<open>Reading back\<close>

lemma terms_step:
  assumes "duration_term s = Some (v, rest)" and "s \<noteq> []" and "d + v \<le> 2 ^ 63"
  shows "duration_terms (length s) d s = duration_terms (length rest) (d + v) rest"
proof -
  obtain c t where s: "s = c # t" using assms(2) by (cases s) auto
  have "length rest \<le> length t" using duration_term_shorter [OF assms(1,2)] by (simp add: s)
  then have "duration_terms (length t) (d + v) rest = duration_terms (length rest) (d + v) rest"
    by (intro duration_fuel) simp_all
  then show ?thesis using assms(1,3) by (simp add: s)
qed

lemma terms_last: "duration_term s = Some (v, []) \<Longrightarrow> s \<noteq> [] \<Longrightarrow> d + v \<le> 2 ^ 63 \<Longrightarrow> duration_terms (length s) d s = Some (d + v)"
  by (simp add: terms_step)

text \<open>The text without its sign.\<close>

definition magnitude_text :: "nat \<Rightarrow> string" where
  "magnitude_text u = dur_String (int u)"

lemma sign_of_text: "dur_String d = (if d < 0 then ''-'' else []) @ magnitude_text (nat \<bar>d\<bar>)"
  by (auto simp: dur_String_def magnitude_text_def Let_def split: prod.split)

lemma fmtFrac_zero: "fmtFrac p 0 False [] = ([], 0)"
  by (induction p) (simp_all add: Let_def)

lemma fmtFrac_rest: "fmtFrac p v False [] = (fr, w) \<Longrightarrow> w = v div 10 ^ p"
  using fmtFrac_cases [of p v] by auto

lemma unit_facts [simp]:
  "unit_name ''ns'' \<and> unit_name (micro_sign @ ''s'') \<and> unit_name ''ms'' \<and> unit_name ''s'' \<and> unit_name ''m'' \<and> unit_name ''h''"
  "duration_unit ''ns'' = Some (10 ^ 0)" "duration_unit (micro_sign @ ''s'') = Some (10 ^ 3)"
  "duration_unit ''ms'' = Some (10 ^ 6)" "duration_unit ''s'' = Some (10 ^ 9)"
  "duration_unit ''m'' = Some 60000000000" "duration_unit ''h'' = Some 3600000000000"
  by (simp_all add: unit_name_def duration_unit_def micro_sign_def)

text \<open>One term with a fraction, the whole text of a short duration.\<close>

lemma short_text:
  assumes "unit_name u" and "duration_unit u = Some (10 ^ p)" and "p \<le> 9" and "fmtFrac p v False [] = (fr, w)" and "v \<le> 2 ^ 63"
  shows "duration_terms (length (show_nat w @ fr @ u)) 0 (show_nat w @ fr @ u) = Some v"
proof -
  have w: "w = v div 10 ^ p" by (rule fmtFrac_rest [OF assms(4)])
  have e: "w * 10 ^ p + v mod 10 ^ p = v" unfolding w by (rule div_mult_mod_eq)
  have "duration_term (show_nat w @ fr @ u @ []) = Some (w * 10 ^ p + v mod 10 ^ p, [])"
    using assms e by (intro duration_term_frac) simp_all
  then have "duration_term (show_nat w @ fr @ u) = Some (v, [])" by (simp only: e append_Nil2)
  from terms_last [OF this, of 0] show ?thesis using starts_with_digit [of w] assms(5) by auto
qed

lemma magnitude_read:
  assumes "u \<le> 2 ^ 63"
  shows "duration_terms (length (magnitude_text u)) 0 (magnitude_text u) = Some u"
proof (cases "u < 1000000000")
  case True
  show ?thesis
  proof (cases "u = 0")
    case True
    have "show_nat 0 = ''0''" by code_simp
    then have t: "magnitude_text u = show_nat 0 @ [] @ ''s''" using True by (simp add: magnitude_text_def dur_String_def)
    show ?thesis unfolding t using short_text [OF _ _ _ fmtFrac_zero [of 9], of "''s''"] True by simp
  next
    case False
    obtain p n where pn: "(if u < 1000 then (0, ''ns'') else if u < 1000000 then (3, micro_sign @ ''s'') else (6, ''ms'')) = (p, n)"
      "unit_name n" "duration_unit n = Some (10 ^ p)" "p \<le> 9"
      by (cases "u < 1000"; cases "u < 1000000") simp_all
    obtain fr w where f: "fmtFrac p u False [] = (fr, w)" by (cases "fmtFrac p u False []")
    have "magnitude_text u = show_nat w @ fr @ n"
      using True False pn(1) f by (simp add: magnitude_text_def dur_String_def Let_def)
    then show ?thesis using short_text [OF pn(2-4) f assms] by simp
  qed
next
  case False
  obtain fr w where f: "fmtFrac 9 u False [] = (fr, w)" by (cases "fmtFrac 9 u False []")
  have w: "w = u div 1000000000" using fmtFrac_rest [OF f] by simp
  define m where "m = w div 60"
  let ?secs = "show_nat (w mod 60) @ fr @ ''s''"
  have t: "magnitude_text u = (if m = 0 then ?secs
      else if m div 60 = 0 then show_nat (m mod 60) @ ''m'' @ ?secs
      else show_nat (m div 60) @ ''h'' @ show_nat (m mod 60) @ ''m'' @ ?secs)"
    using False f by (simp add: magnitude_text_def dur_String_def Let_def m_def)
  have u: "u = m * 60000000000 + ((w mod 60) * 10 ^ 9 + u mod 10 ^ 9)"
  proof -
    have "u = w * 1000000000 + u mod 1000000000" unfolding w by simp
    moreover have "w = m * 60 + w mod 60" unfolding m_def by simp
    ultimately show ?thesis by simp
  qed
  have m: "m * 60000000000 = (m div 60) * 3600000000000 + (m mod 60) * 60000000000" using div_mult_mod_eq [of m 60] by linarith
  have "m * 60000000000 \<le> 2 ^ 63" using u assms by linarith
  then have b1: "(m div 60) * 3600000000000 \<le> 2 ^ 63" and b2: "(m mod 60) * 60000000000 \<le> 2 ^ 63" using m by linarith+
  have dig: "is_digit (hd (show_nat x @ y))" "show_nat x @ y \<noteq> []" for x y using starts_with_digit [of x] by auto
  have S: "duration_term (?secs @ []) = Some ((w mod 60) * 10 ^ 9 + u mod 10 ^ 9, [])"
    unfolding append_assoc using u assms by (intro duration_term_frac [OF _ _ _ _ f]) simp_all
  have s: "duration_terms (length ?secs) d ?secs = Some (d + ((w mod 60) * 10 ^ 9 + u mod 10 ^ 9))"
    if "d + ((w mod 60) * 10 ^ 9 + u mod 10 ^ 9) \<le> 2 ^ 63" for d
    using terms_last [of ?secs] S that dig(2) by simp
  have M: "duration_term (show_nat (m mod 60) @ ''m'' @ ?secs) = Some ((m mod 60) * 60000000000, ?secs)"
    by (intro duration_term_plain) (simp_all add: b2 [simplified])
  have H: "duration_term (show_nat (m div 60) @ ''h'' @ show_nat (m mod 60) @ ''m'' @ ?secs)
      = Some ((m div 60) * 3600000000000, show_nat (m mod 60) @ ''m'' @ ?secs)"
    by (intro duration_term_plain) (simp_all add: b1 [simplified])
  show ?thesis
  proof (cases "m = 0")
    case True
    then show ?thesis using s [of 0] u assms by (simp add: t)
  next
    case m0: False
    show ?thesis
    proof (cases "m div 60 = 0")
      case True
      then have "m mod 60 = m" by simp
      then show ?thesis
        using terms_step [OF M dig(2), of 0] s [of "m * 60000000000"] u assms m0 True by (simp add: t)
    next
      case False
      show ?thesis
        using terms_step [OF H dig(2), of 0] terms_step [OF M dig(2), of "(m div 60) * 3600000000000"]
          s [of "m * 60000000000"] u m assms m0 False
        by (simp add: t)
    qed
  qed
qed

lemma magnitude_shape: "(\<exists>c t. magnitude_text u = c # t \<and> is_digit c) \<and> magnitude_text u \<noteq> ''0''"
proof -
  have "is_digit (hd (magnitude_text u)) \<and> last (magnitude_text u) = CHR ''s'' \<and> magnitude_text u \<noteq> []"
    by (auto simp: magnitude_text_def dur_String_def Let_def micro_sign_def zero_digit split: prod.split)
  then show ?thesis by (cases "magnitude_text u") auto
qed

theorem ParseDuration_String: "in_int64 d \<Longrightarrow> ParseDuration (dur_String d) = Some d"
proof -
  assume d: "in_int64 d"
  let ?u = "nat \<bar>d\<bar>" and ?t = "magnitude_text (nat \<bar>d\<bar>)"
  have "?u \<le> 2 ^ 63" using d by (auto simp: in_int64_def nat_le_iff abs_if)
  from magnitude_read [OF this] have r: "duration_terms (length ?t) 0 ?t = Some ?u" .
  obtain c t where c: "?t = c # t" "is_digit c" "?t \<noteq> ''0''" using magnitude_shape by blast
  have ne: "?t \<noteq> []" using c(1) by simp
  have np: "\<not> has_prefix ?t ''-''" "\<not> has_prefix ?t ''+''"
    using c by (auto simp: has_prefix_def is_digit_def)
  show ?thesis
  proof (cases "d < 0")
    case True
    then have "ParseDuration (dur_String d) = Some (wrap64 (- int ?u))"
      using r c(3) ne by (simp add: ParseDuration_def sign_of_text has_prefix_def Let_def)
    then show ?thesis using True d by simp
  next
    case False
    then have "ParseDuration (dur_String d) = (if 2 ^ 63 - 1 < ?u then None else Some (int ?u))"
      using r c(3) ne np by (simp add: ParseDuration_def sign_of_text Let_def)
    then show ?thesis using False d by (simp add: in_int64_def)
  qed
qed

text \<open>\<open>strconv.Itoa\<close> and \<open>Atoi\<close>, \<open>strconv.FormatBool\<close> and \<open>ParseBool\<close>.\<close>

lemma Atoi_show_int: "in_int64 i \<Longrightarrow> Atoi (show_int i) = Some i"
proof -
  assume i: "in_int64 i"
  obtain c t where c: "show_nat (nat \<bar>i\<bar>) = c # t" "is_digit c" using starts_with_digit by blast
  have s: "show_int i = (if i < 0 then ''-'' else []) @ show_nat (nat \<bar>i\<bar>)" by (simp add: show_int_def)
  show ?thesis
    using i c show_nat_facts [of "nat \<bar>i\<bar>"]
    by (cases "i < 0") (auto simp: Atoi_def s has_prefix_def Let_def is_digit_def)
qed

lemma ParseBool_show_bool: "ParseBool (show_bool b) = Some b"
  by (simp add: ParseBool_def show_bool_def)

end
