(* ===== verification/ConfigEnvironment.thy ===== *)
theory ConfigEnvironment
  imports ConfigManager GoDuration
begin

text \<open>
  Writing a configuration to the process environment and loading it back (\<open>LoadFromEnv\<close> of
  \<open>internal/config/loader.go\<close>), and the texts that \<open>internal/config/manager.go\<close> prints of itself.
\<close>

section \<open>The variables of a configuration\<close>

text \<open>Every variable that the loader reads, with the text of its field in the format of the standard library.\<close>

definition operator_vars :: "OperatorConfig \<Rightarrow> (string \<times> string) list" where
  "operator_vars oc =
     [(''CONFIG_OPERATOR_LOG_LEVEL'', LogLevel oc),
      (''CONFIG_OPERATOR_RECONCILE_INTERVAL'', dur_String (ReconcileInterval oc)),
      (''CONFIG_OPERATOR_METRICS_BIND_ADDRESS'', MetricsBindAddress oc),
      (''CONFIG_OPERATOR_HEALTH_PROBE_BIND_ADDRESS'', HealthProbeBindAddress oc),
      (''CONFIG_OPERATOR_LEADER_ELECTION'', show_bool (LeaderElection oc))]"

definition cloudflare_vars :: "CloudflareConfig \<Rightarrow> (string \<times> string) list" where
  "cloudflare_vars cc =
     [(''CONFIG_CLOUDFLARE_API_TIMEOUT'', dur_String (APITimeout cc)),
      (''CONFIG_CLOUDFLARE_RATE_LIMIT_RPS'', show_int (RateLimitRPS cc)),
      (''CONFIG_CLOUDFLARE_RETRY_ATTEMPTS'', show_int (RetryAttempts cc)),
      (''CONFIG_CLOUDFLARE_RETRY_DELAY'', dur_String (RetryDelay cc))]"

definition feature_vars :: "FeatureFlags \<Rightarrow> (string \<times> string) list" where
  "feature_vars ff =
     [(''CONFIG_FEATURES_ENABLE_WEBHOOKS'', show_bool (EnableWebhooks ff)),
      (''CONFIG_FEATURES_ENABLE_METRICS'', show_bool (EnableMetrics ff)),
      (''CONFIG_FEATURES_ENABLE_TRACING'', show_bool (EnableTracing ff)),
      (''CONFIG_FEATURES_EXPERIMENTAL_FEATURES'', show_bool (ExperimentalFeatures ff))]"

definition performance_vars :: "PerformanceConfig \<Rightarrow> (string \<times> string) list" where
  "performance_vars pc =
     [(''CONFIG_PERFORMANCE_MAX_CONCURRENT_RECONCILES'', show_int (MaxConcurrentReconciles pc)),
      (''CONFIG_PERFORMANCE_RESYNC_PERIOD'', dur_String (ResyncPeriod pc)),
      (''CONFIG_PERFORMANCE_LEADER_ELECTION_LEASE_DURATION'', dur_String (LeaderElectionLeaseDuration pc)),
      (''CONFIG_PERFORMANCE_LEADER_ELECTION_RENEW_DEADLINE'', dur_String (LeaderElectionRenewDeadline pc)),
      (''CONFIG_PERFORMANCE_LEADER_ELECTION_RETRY_PERIOD'', dur_String (LeaderElectionRetryPeriod pc))]"

definition config_vars :: "Config \<Rightarrow> (string \<times> string) list" where
  "config_vars c = (''CONFIG_ENVIRONMENT'', Environment c) # operator_vars (Operator c) @ cloudflare_vars (Cloudflare c)
     @ (case Features c of None \<Rightarrow> [] | Some ff \<Rightarrow> feature_vars ff) @ performance_vars (Performance c)"

lemmas vars_defs = config_vars_def operator_vars_def cloudflare_vars_def feature_vars_def performance_vars_def

definition spelled_out :: "load_env \<Rightarrow> Config \<Rightarrow> bool" where
  "spelled_out env c \<longleftrightarrow> (\<forall>(name, v) \<in> set (config_vars c). le_Getenv env name = v)"

text \<open>Numbers of 64 bits, as every configuration of the program has.\<close>

definition config_in_range :: "Config \<Rightarrow> bool" where
  "config_in_range c \<longleftrightarrow> in_int64 (ReconcileInterval (Operator c))
     \<and> (let cc = Cloudflare c in in_int64 (APITimeout cc) \<and> in_int64 (RateLimitRPS cc) \<and> in_int64 (RetryAttempts cc)
          \<and> in_int64 (RetryDelay cc))
     \<and> (let pc = Performance c in in_int64 (MaxConcurrentReconciles pc) \<and> in_int64 (ResyncPeriod pc)
          \<and> in_int64 (LeaderElectionLeaseDuration pc) \<and> in_int64 (LeaderElectionRenewDeadline pc)
          \<and> in_int64 (LeaderElectionRetryPeriod pc))"

lemma text_shapes [simp]: "dur_String d \<noteq> []" "show_int i \<noteq> []" "show_bool b \<noteq> []"
  using magnitude_shape [of "nat \<bar>d\<bar>"] by (auto simp: sign_of_text show_int_def show_bool_def)

text \<open>One variable: read back into its field, and marked.\<close>

lemma read_text:
  "le_Getenv env name = v \<Longrightarrow> from_env env name Some put key c = (if v = [] then c else mark key ConfigSourceEnv (put v c))"
  by (simp add: from_env_def take_value_def Let_def)

lemma read_duration:
  "le_Getenv env name = dur_String d \<Longrightarrow> in_int64 d \<Longrightarrow>
     from_env env name ParseDuration put key c = mark key ConfigSourceEnv (put d c)"
  by (simp add: from_env_def take_value_def Let_def ParseDuration_String)

lemma read_number:
  "le_Getenv env name = show_int i \<Longrightarrow> in_int64 i \<Longrightarrow>
     from_env env name Atoi put key c = mark key ConfigSourceEnv (put i c)"
  by (simp add: from_env_def take_value_def Let_def Atoi_show_int)

lemma read_switch:
  "le_Getenv env name = show_bool b \<Longrightarrow> from_env env name ParseBool put key c = mark key ConfigSourceEnv (put b c)"
  by (simp add: from_env_def take_value_def Let_def ParseBool_show_bool)

lemmas read_vars = read_text read_duration read_number read_switch

lemma operator_read:
  assumes "\<forall>(n, v) \<in> set (operator_vars oc). le_Getenv env n = v" and "in_int64 (ReconcileInterval oc)"
    and "Operator c = Operator zero_config"
  shows "Operator (loadOperatorConfig env c) = oc"
  using assms
  by (simp add: loadOperatorConfig_def operator_vars_def read_vars on_operator_def zero_config_def)

lemma cloudflare_read:
  assumes "\<forall>(n, v) \<in> set (cloudflare_vars cc). le_Getenv env n = v" and "in_int64 (APITimeout cc)"
    and "in_int64 (RateLimitRPS cc)" and "in_int64 (RetryAttempts cc)" and "in_int64 (RetryDelay cc)"
  shows "Cloudflare (loadCloudflareConfig env c) = cc"
  using assms by (simp add: loadCloudflareConfig_def cloudflare_vars_def read_vars on_cloudflare_def)

lemma features_read:
  assumes "\<forall>(n, v) \<in> set (feature_vars ff). le_Getenv env n = v"
  shows "Features (loadFeatureFlags env c) = Some (ff\<lparr>CustomFlags := fmempty\<rparr>)"
  using assms by (simp add: loadFeatureFlags_def feature_vars_def read_vars on_features_def zero_flags_def Let_def)

lemma performance_read:
  assumes "\<forall>(n, v) \<in> set (performance_vars pc). le_Getenv env n = v" and "in_int64 (MaxConcurrentReconciles pc)"
    and "in_int64 (ResyncPeriod pc)" and "in_int64 (LeaderElectionLeaseDuration pc)"
    and "in_int64 (LeaderElectionRenewDeadline pc)" and "in_int64 (LeaderElectionRetryPeriod pc)"
    and "Performance c = Performance zero_config"
  shows "Performance (loadPerformanceConfig_env env c)
    = pc\<lparr>ReconcileTimeout := 0, RequeueInterval := 0, RequeueIntervalOnError := 0\<rparr>"
  using assms
  by (simp add: loadPerformanceConfig_env_def performance_vars_def read_vars on_performance_def zero_config_def)

text \<open>Each part of the loader leaves the other sections alone.\<close>

lemmas part_keeps = from_env_other [where f = Environment] from_env_other [where f = Operator]
  from_env_other [where f = Cloudflare] from_env_other [where f = Features] from_env_other [where f = Performance]

lemma loaders_keep [simp]:
  "Operator (loadBasicFields env c) = Operator c" "Cloudflare (loadBasicFields env c) = Cloudflare c"
  "Features (loadBasicFields env c) = Features c" "Performance (loadBasicFields env c) = Performance c"
  "Environment (loadOperatorConfig env c) = Environment c" "Cloudflare (loadOperatorConfig env c) = Cloudflare c"
  "Features (loadOperatorConfig env c) = Features c" "Performance (loadOperatorConfig env c) = Performance c"
  "Environment (loadCloudflareConfig env c) = Environment c" "Operator (loadCloudflareConfig env c) = Operator c"
  "Features (loadCloudflareConfig env c) = Features c" "Performance (loadCloudflareConfig env c) = Performance c"
  "Environment (loadFeatureFlags env c) = Environment c" "Operator (loadFeatureFlags env c) = Operator c"
  "Cloudflare (loadFeatureFlags env c) = Cloudflare c" "Performance (loadFeatureFlags env c) = Performance c"
  "Environment (loadPerformanceConfig_env env c) = Environment c" "Operator (loadPerformanceConfig_env env c) = Operator c"
  "Cloudflare (loadPerformanceConfig_env env c) = Cloudflare c" "Features (loadPerformanceConfig_env env c) = Features c"
  by (simp_all add: load_env_defs part_keeps on_part_defs Let_def)

text \<open>C11: What is written to the environment is read back: when every variable holds the text of a field of a configuration,
  durations as \<open>Duration.String\<close> prints them, the loader finds exactly these values, for all 64-bit values, negative
  ones and fractions of a second included; only custom flags and three intervals have no variable.\<close>

theorem environment_round_trip:
  assumes "spelled_out env c" and "config_in_range c" and "Features c = Some ff"
  shows "\<exists>e. LoadFromEnv env = Inr e \<and> Environment e = Environment c \<and> Operator e = Operator c
    \<and> Cloudflare e = Cloudflare c \<and> Features e = Some (ff\<lparr>CustomFlags := fmempty\<rparr>)
    \<and> Performance e = (Performance c)\<lparr>ReconcileTimeout := 0, RequeueInterval := 0, RequeueIntervalOnError := 0\<rparr>"
proof -
  have v: "le_Getenv env ''CONFIG_ENVIRONMENT'' = Environment c"
    "\<forall>(n, v) \<in> set (operator_vars (Operator c)). le_Getenv env n = v"
    "\<forall>(n, v) \<in> set (cloudflare_vars (Cloudflare c)). le_Getenv env n = v"
    "\<forall>(n, v) \<in> set (feature_vars ff). le_Getenv env n = v"
    "\<forall>(n, v) \<in> set (performance_vars (Performance c)). le_Getenv env n = v"
    using assms(1,3) by (auto simp: spelled_out_def config_vars_def)
  have "Environment (loadBasicFields env zero_config) = Environment c"
    using v(1) by (simp add: loadBasicFields_def read_text zero_config_def)
  then show ?thesis
    using assms(2) operator_read [OF v(2)] cloudflare_read [OF v(3)] features_read [OF v(4)] performance_read [OF v(5)]
    by (simp add: LoadFromEnv_def config_in_range_def Let_def)
qed

section \<open>The manager in text\<close>

definition ManagerOptions_String :: "ManagerOptions \<Rightarrow> string" where
  "ManagerOptions_String opts =
     ''ManagerOptions{Environment: '' @ mo_Environment opts @ '', AutoReload: '' @ show_bool (mo_AutoReload opts)
     @ '', ReloadInterval: '' @ dur_String (mo_ReloadInterval opts)
     @ '', ValidateOnLoad: '' @ show_bool (mo_ValidateOnLoad opts) @ ''}''"

text \<open>\<open>rfc3339\<close> is \<open>Format(time.RFC3339)\<close>, which depends on the time zone of the process.\<close>

definition ConfigManager_String :: "(gotime \<Rightarrow> string) \<Rightarrow> ConfigManager \<Rightarrow> string" where
  "ConfigManager_String rfc3339 m =
     (let status = (if cm_currentConfig m \<noteq> None then ''configured (loaded at '' @ rfc3339 (cm_loadedAt m) @ '')''
                    else ''not configured'');
          autoReload = (if mo_AutoReload (cm_options m)
                        then ''enabled (interval: '' @ dur_String (mo_ReloadInterval (cm_options m)) @ '')'' else ''disabled'')
      in ''ConfigManager{namespace: '' @ cl_namespace (cm_loader m) @ '', status: '' @ status
         @ '', auto-reload: '' @ autoReload @ '', callbacks: '' @ show_nat (length (cm_callbacks m)) @ ''}'')"

section \<open>Witnesses\<close>

text \<open>An environment that spells out the defaults with a retry delay of one and a half milliseconds.\<close>

definition demo_settings :: Config where
  "demo_settings = NewConfig\<lparr>Cloudflare := (Cloudflare NewConfig)\<lparr>RetryDelay := 1500000\<rparr>\<rparr>"

definition spelled_env :: "load_env \<Rightarrow> Config \<Rightarrow> load_env" where
  "spelled_env env c = env\<lparr>le_Getenv := (\<lambda>n. case map_of (config_vars c) n of None \<Rightarrow> [] | Some v \<Rightarrow> v)\<rparr>"

lemma vars_distinct: "distinct (map fst (config_vars c))"
  by (cases "Features c") (simp_all add: vars_defs)

lemma spelled_env_spells: "spelled_out (spelled_env env c) c"
  using vars_distinct [of c] by (auto simp: spelled_out_def spelled_env_def)

theorem environment_round_trip_witness:
  "\<exists>e. LoadFromEnv (spelled_env demo_load_env demo_settings) = Inr e \<and> RetryDelay (Cloudflare e) = 1500000
     \<and> LogLevel (Operator e) = ''info''"
proof -
  have "config_in_range demo_settings"
    by (simp add: config_in_range_def demo_settings_def NewConfig_def in_int64_def Let_def)
  moreover have "spelled_out (spelled_env demo_load_env demo_settings) demo_settings"
    by (rule spelled_env_spells)
  moreover have "\<exists>ff. Features demo_settings = Some ff" by (simp add: demo_settings_def NewConfig_def)
  ultimately obtain e where "LoadFromEnv (spelled_env demo_load_env demo_settings) = Inr e"
    "Cloudflare e = Cloudflare demo_settings" "Operator e = Operator demo_settings"
    using environment_round_trip by blast
  then show ?thesis by (simp add: demo_settings_def NewConfig_def)
qed

end
