(* ===== verification/DeepCopyProps.thy ===== *)
theory DeepCopyProps
  imports DeepCopy
begin

text \<open>
  Every deep copy of the API types meets the contract \<open>deep_copier\<close>, given that the two copies of apimachinery do: it
  yields the same value, in the terms of the controller's model, on new addresses only.
\<close>

section \<open>Pointers and slices\<close>

definition pointed :: "(('m, 'c) cell \<Rightarrow> 'a) \<Rightarrow> ('m, 'c) heap \<Rightarrow> addr option \<Rightarrow> 'a option" where
  "pointed get h p = map_option (\<lambda>a. get (h_cell h a)) p"

definition elements :: "(('m, 'c) cell \<Rightarrow> 'a list) \<Rightarrow> ('m, 'c) heap \<Rightarrow> slice option \<Rightarrow> 'a list option" where
  "elements get h p = map_option (\<lambda>s. window s (get (h_cell h (sl_array s)))) p"

abbreviation pointer_cells :: "('m, 'c) heap \<Rightarrow> addr option \<Rightarrow> addr set" where
  "pointer_cells h p \<equiv> set_option p"

abbreviation slice_cells :: "('m, 'c) heap \<Rightarrow> slice option \<Rightarrow> addr set" where
  "slice_cells h p \<equiv> sl_array ` set_option p"

lemma alloc_facts:
  assumes "alloc v h = (a, h')"
  shows "a = h_next h" "h_next h' = Suc (h_next h)" "h_cell h' a = v" "extends h h'"
  using assms by (auto simp: alloc_def extends_def)

interpretation pointer: deep_copier copy_pointer pointer_cells "pointed get" for get
proof (unfold_locales, goal_cases)
  case (1 h x g)
  then show ?case by (cases x) (simp_all add: pointed_def)
next
  case (2 x h y h')
  then show ?case by (cases x) (auto simp: copy_pointer_def pointed_def alloc_def extends_def)
qed

lemma slice_copier:
  assumes "\<And>xs. get (put xs) = xs"
  shows "deep_copier (copy_slice get put) slice_cells (elements get)"
proof (unfold_locales, goal_cases)
  case (1 h x g)
  then show ?case by (cases x) (simp_all add: elements_def)
next
  case (2 x h y h')
  then show ?case by (cases x) (auto simp: copy_slice_def elements_def alloc_def extends_def Let_def assms)
qed

interpretation strings: deep_copier copy_strings slice_cells "elements strings_of_cell"
  by (rule slice_copier) simp

interpretation conditions: deep_copier copy_conditions slice_cells "elements conditions_of_cell"
  by (rule slice_copier) simp

section \<open>Structs\<close>

text \<open>Two copies one after the other, and a struct whose parts \<open>get\<close> are replaced by their copies.\<close>

definition copy_pair :: "('a, 'm, 'c) copier \<Rightarrow> ('b, 'm, 'c) copier \<Rightarrow> ('a \<times> 'b, 'm, 'c) copier" where
  "copy_pair c1 c2 x h = (let (y1, h1) = c1 (fst x) h; (y2, h2) = c2 (snd x) h1 in ((y1, y2), h2))"

definition pair_cells where
  "pair_cells a1 a2 h x = (a1 h (fst x) \<union> a2 h (snd x) :: addr set)"

definition pair_view where
  "pair_view v1 v2 h x = (v1 h (fst x), v2 h (snd x))"

lemma pair_copier:
  fixes c1 :: "('a, 'm, 'c) copier" and c2 :: "('b, 'm, 'c) copier"
  assumes "deep_copier c1 a1 v1" and "deep_copier c2 a2 v2"
  shows "deep_copier (copy_pair c1 c2) (pair_cells a1 a2) (pair_view v1 v2)"
proof
  fix h g :: "('m, 'c) heap" and x
  assume "\<forall>a \<in> pair_cells a1 a2 h x. h_cell g a = h_cell h a"
  then have "\<forall>a \<in> a1 h (fst x). h_cell g a = h_cell h a" "\<forall>a \<in> a2 h (snd x). h_cell g a = h_cell h a"
    unfolding pair_cells_def by blast+
  from deep_copier.reads [OF assms(1) this(1)] deep_copier.reads [OF assms(2) this(2)]
  show "pair_cells a1 a2 g x = pair_cells a1 a2 h x \<and> pair_view v1 v2 g x = pair_view v1 v2 h x"
    by (simp add: pair_cells_def pair_view_def)
next
  fix x h y h'
  assume run: "copy_pair c1 c2 x h = (y, h')" and below: "pair_cells a1 a2 h x \<subseteq> {..<h_next h}"
  obtain y1 h1 where 1: "c1 (fst x) h = (y1, h1)" by (cases "c1 (fst x) h")
  obtain y2 h2 where 2: "c2 (snd x) h1 = (y2, h2)" by (cases "c2 (snd x) h1")
  have y: "y = (y1, y2)" "h' = h2" using run by (simp_all add: copy_pair_def 1 2)
  have b: "a1 h (fst x) \<subseteq> {..<h_next h}" "a2 h (snd x) \<subseteq> {..<h_next h}" using below by (simp_all add: pair_cells_def)
  note c1 = deep_copier.copies [OF assms(1) 1 b(1)]
  from c1 have e1: "extends h h1" by blast
  note l2 = deep_copier.later [OF assms(2) e1 b(2)]
  have n1: "h_next h \<le> h_next h1" using e1 by (simp add: extends_def)
  have b2: "a2 h1 (snd x) \<subseteq> {..<h_next h1}" unfolding l2 using b(2) n1 by auto
  note c2 = deep_copier.copies [OF assms(2) 2 b2]
  from c2 have e2: "extends h1 h2" by blast
  have "a1 h1 y1 \<subseteq> {..<h_next h1}" using c1 by auto
  note l1 = deep_copier.later [OF assms(1) e2 this]
  have n2: "h_next h1 \<le> h_next h2" using e2 by (simp add: extends_def)
  show "extends h h' \<and> pair_cells a1 a2 h' y \<subseteq> {h_next h..<h_next h'} \<and> pair_view v1 v2 h' y = pair_view v1 v2 h x"
  proof (intro conjI)
    show "extends h h'" using extends_trans [OF e1 e2] by (simp add: y)
    have "a1 h1 y1 \<subseteq> {h_next h..<h_next h1}" "a2 h2 y2 \<subseteq> {h_next h1..<h_next h2}" using c1 c2 by blast+
    then show "pair_cells a1 a2 h' y \<subseteq> {h_next h..<h_next h'}"
      using n1 n2 by (auto simp: pair_cells_def y l1(1))
    show "pair_view v1 v2 h' y = pair_view v1 v2 h x"
      using c1 c2 by (simp add: pair_view_def y l1(2) l2(2))
  qed
qed

lemma struct_copier:
  fixes c :: "('t, 'm, 'c) copier" and copy :: "('a, 'm, 'c) copier"
  assumes "deep_copier c a v" and "\<And>t r. get (put t r) = t" and "\<And>t r. rest (put t r) = rest r"
    and "\<And>r h. copy r h = (let (t, h1) = c (get r) h in (put t r, h1))"
    and "\<And>h r. cells h r = a h (get r)" and "\<And>h r. view h r = w (v h (get r)) (rest r)"
  shows "deep_copier copy cells view"
proof
  fix h g :: "('m, 'c) heap" and x
  assume "\<forall>b \<in> cells h x. h_cell g b = h_cell h b"
  then have "\<forall>b \<in> a h (get x). h_cell g b = h_cell h b" unfolding assms(5) .
  from deep_copier.reads [OF assms(1) this]
  show "cells g x = cells h x \<and> view g x = view h x" unfolding assms(5,6) by simp
next
  fix x h y h'
  assume run: "copy x h = (y, h')" and below: "cells h x \<subseteq> {..<h_next h}"
  obtain t h1 where t: "c (get x) h = (t, h1)" by (cases "c (get x) h")
  have "copy x h = (put t x, h1)" unfolding assms(4) t by simp
  then have y: "y = put t x" "h' = h1" using run by simp_all
  from below have "a h (get x) \<subseteq> {..<h_next h}" unfolding assms(5) .
  from deep_copier.copies [OF assms(1) t this]
  show "extends h h' \<and> cells h' y \<subseteq> {h_next h..<h_next h'} \<and> view h' y = view h x"
    unfolding assms(5,6) y assms(2,3) by simp
qed

text \<open>A nil slice is read as an empty one.\<close>

definition list_of :: "'a list option \<Rightarrow> 'a list" where
  "list_of p = (case p of None \<Rightarrow> [] | Some xs \<Rightarrow> xs)"

definition ref_view :: "('m, 'c) heap \<Rightarrow> p_SecretReference \<Rightarrow> SecretReference" where
  "ref_view h p = \<lparr>sr_Name = ps_Name p, sr_Namespace = pointed string_of_cell h (ps_Namespace p)\<rparr>"

definition ref_cells :: "('m, 'c) heap \<Rightarrow> p_SecretReference \<Rightarrow> addr set" where
  "ref_cells h p = pointer_cells h (ps_Namespace p)"

interpretation reference: deep_copier SecretReference_DeepCopyInto ref_cells ref_view
  by (rule struct_copier [OF pointer.deep_copier_axioms [of string_of_cell],
        where get = ps_Namespace and put = "\<lambda>t r. r\<lparr>ps_Namespace := t\<rparr>" and rest = ps_Name
          and w = "\<lambda>v n. \<lparr>sr_Name = n, sr_Namespace = v\<rparr>"])
    (simp_all add: SecretReference_DeepCopyInto_def ref_cells_def ref_view_def)

definition spec_view :: "('m, 'c) heap \<Rightarrow> p_Spec \<Rightarrow> CloudflareRecordSpec" where
  "spec_view h p = \<lparr>sp_Zone = pp_Zone p, sp_Type = pp_Type p, sp_Name = pp_Name p, sp_Content = pp_Content p,
     sp_TTL = pointed int_of_cell h (pp_TTL p), sp_Priority = pointed int_of_cell h (pp_Priority p),
     sp_Proxied = pointed bool_of_cell h (pp_Proxied p), sp_Comment = pointed string_of_cell h (pp_Comment p),
     sp_Tags = list_of (elements strings_of_cell h (pp_Tags p)),
     sp_CredentialsSecretRef = ref_view h (pp_CredentialsSecretRef p)\<rparr>"

definition spec_cells :: "('m, 'c) heap \<Rightarrow> p_Spec \<Rightarrow> addr set" where
  "spec_cells h p = pointer_cells h (pp_TTL p) \<union> (pointer_cells h (pp_Priority p) \<union> (pointer_cells h (pp_Proxied p)
     \<union> (pointer_cells h (pp_Comment p) \<union> (slice_cells h (pp_Tags p) \<union> ref_cells h (pp_CredentialsSecretRef p)))))"

lemma spec_parts:
  "deep_copier (copy_pair copy_pointer (copy_pair copy_pointer (copy_pair copy_pointer (copy_pair copy_pointer
      (copy_pair copy_strings SecretReference_DeepCopyInto)))))
    (pair_cells pointer_cells (pair_cells pointer_cells (pair_cells pointer_cells (pair_cells pointer_cells
      (pair_cells slice_cells ref_cells)))))
    (pair_view (pointed int_of_cell) (pair_view (pointed int_of_cell) (pair_view (pointed bool_of_cell)
      (pair_view (pointed string_of_cell) (pair_view (elements strings_of_cell) ref_view)))))"
  by (intro pair_copier pointer.deep_copier_axioms strings.deep_copier_axioms reference.deep_copier_axioms)

interpretation spec: deep_copier Spec_DeepCopyInto spec_cells spec_view
  by (rule struct_copier [OF spec_parts,
        where get = "\<lambda>p. (pp_TTL p, pp_Priority p, pp_Proxied p, pp_Comment p, pp_Tags p, pp_CredentialsSecretRef p)"
          and put = "\<lambda>(ttl, pri, prox, com, tags, ref) r. r\<lparr>pp_TTL := ttl, pp_Priority := pri, pp_Proxied := prox, pp_Comment := com,
             pp_Tags := tags, pp_CredentialsSecretRef := ref\<rparr>"
          and rest = "\<lambda>p. (pp_Zone p, pp_Type p, pp_Name p, pp_Content p)"
          and w = "\<lambda>(ttl, pri, prox, com, tags, ref) (z, t, n, c). \<lparr>sp_Zone = z, sp_Type = t, sp_Name = n, sp_Content = c,
             sp_TTL = ttl, sp_Priority = pri, sp_Proxied = prox, sp_Comment = com, sp_Tags = list_of tags,
             sp_CredentialsSecretRef = ref\<rparr>"])
    (simp_all add: Spec_DeepCopyInto_def copy_pair_def spec_cells_def spec_view_def pair_cells_def pair_view_def
      Let_def split: prod.split)

definition status_view :: "('m, 'c) heap \<Rightarrow> p_Status \<Rightarrow> CloudflareRecordStatus" where
  "status_view h p = \<lparr>st_RecordID = pointed string_of_cell h (pt_RecordID p), st_ZoneID = pointed string_of_cell h (pt_ZoneID p),
     st_Ready = pt_Ready p, st_LastUpdated = pointed time_of_cell h (pt_LastUpdated p),
     st_Conditions = list_of (elements conditions_of_cell h (pt_Conditions p)),
     st_ObservedGeneration = pt_ObservedGeneration p\<rparr>"

definition status_cells :: "('m, 'c) heap \<Rightarrow> p_Status \<Rightarrow> addr set" where
  "status_cells h p = pointer_cells h (pt_RecordID p) \<union> (pointer_cells h (pt_ZoneID p) \<union> (pointer_cells h (pt_LastUpdated p)
     \<union> slice_cells h (pt_Conditions p)))"

lemma status_parts:
  "deep_copier (copy_pair copy_pointer (copy_pair copy_pointer (copy_pair copy_pointer copy_conditions)))
    (pair_cells pointer_cells (pair_cells pointer_cells (pair_cells pointer_cells slice_cells)))
    (pair_view (pointed string_of_cell) (pair_view (pointed string_of_cell) (pair_view (pointed time_of_cell)
      (elements conditions_of_cell))))"
  by (intro pair_copier pointer.deep_copier_axioms conditions.deep_copier_axioms)

interpretation status: deep_copier Status_DeepCopyInto status_cells status_view
  by (rule struct_copier [OF status_parts,
        where get = "\<lambda>p. (pt_RecordID p, pt_ZoneID p, pt_LastUpdated p, pt_Conditions p)"
          and put = "\<lambda>(i, z, u, cs) r. r\<lparr>pt_RecordID := i, pt_ZoneID := z, pt_LastUpdated := u, pt_Conditions := cs\<rparr>"
          and rest = "\<lambda>p. (pt_Ready p, pt_ObservedGeneration p)"
          and w = "\<lambda>(i, z, u, cs) (ready, g). \<lparr>st_RecordID = i, st_ZoneID = z, st_Ready = ready, st_LastUpdated = u,
             st_Conditions = list_of cs, st_ObservedGeneration = g\<rparr>"])
    (simp_all add: Status_DeepCopyInto_def copy_pair_def status_cells_def status_view_def pair_cells_def pair_view_def
      Let_def split: prod.split)

section \<open>Records\<close>

text \<open>\<open>mv\<close> reads the metadata, whose copy is apimachinery's.\<close>

definition record_view ::
  "(('m, 'c) heap \<Rightarrow> 'm \<Rightarrow> ObjectMeta) \<Rightarrow> ('m, 'c) heap \<Rightarrow> 'm p_Record \<Rightarrow> (string \<times> string) \<times> CloudflareRecord" where
  "record_view mv h p = (pr_TypeMeta p,
     \<lparr>cr_meta = mv h (pr_meta p), cr_Spec = spec_view h (pr_Spec p), cr_Status = status_view h (pr_Status p)\<rparr>)"

definition record_cells :: "(('m, 'c) heap \<Rightarrow> 'm \<Rightarrow> addr set) \<Rightarrow> ('m, 'c) heap \<Rightarrow> 'm p_Record \<Rightarrow> addr set" where
  "record_cells ma h p = ma h (pr_meta p) \<union> (spec_cells h (pr_Spec p) \<union> status_cells h (pr_Status p))"

lemma record_copier:
  assumes "deep_copier meta_copy ma mv"
  shows "deep_copier (Record_DeepCopyInto meta_copy) (record_cells ma) (record_view mv)"
  by (rule struct_copier [OF pair_copier [OF assms pair_copier [OF spec.deep_copier_axioms status.deep_copier_axioms]],
        where get = "\<lambda>p. (pr_meta p, pr_Spec p, pr_Status p)"
          and put = "\<lambda>(m, sp, st) r. r\<lparr>pr_meta := m, pr_Spec := sp, pr_Status := st\<rparr>"
          and rest = pr_TypeMeta
          and w = "\<lambda>(m, sp, st) t. (t, \<lparr>cr_meta = m, cr_Spec = sp, cr_Status = st\<rparr>)"])
    (simp_all add: Record_DeepCopyInto_def copy_pair_def record_cells_def record_view_def pair_cells_def pair_view_def
      Let_def split: prod.split)

section \<open>Lists and nil\<close>

text \<open>Copying the elements one after the other.\<close>

lemma each_copier:
  assumes "deep_copier c a v"
  shows "deep_copier (copy_each c) (\<lambda>h xs. \<Union>x \<in> set xs. a h x) (\<lambda>h xs. map (v h) xs)"
proof (unfold_locales, goal_cases)
  case (1 h xs g)
  then have "\<forall>x \<in> set xs. a g x = a h x \<and> v g x = v h x"
    by (auto intro!: deep_copier.reads [OF assms])
  then show ?case by simp
next
  case (2 xs h ys h')
  then show ?case
  proof (induction xs arbitrary: h ys h')
    case (Cons x xs)
    obtain y h1 where 1: "c x h = (y, h1)" by (cases "c x h")
    obtain zs h2 where 2: "copy_each c xs h1 = (zs, h2)" by (cases "copy_each c xs h1")
    have ys: "ys = y # zs" "h' = h2" using Cons.prems(1) by (simp_all add: 1 2)
    have b: "a h x \<subseteq> {..<h_next h}" "\<forall>z \<in> set xs. a h z \<subseteq> {..<h_next h}" using Cons.prems(2) by auto
    note c1 = deep_copier.copies [OF assms 1 b(1)]
    then have e1: "extends h h1" by blast
    have l: "\<forall>z \<in> set xs. a h1 z = a h z \<and> v h1 z = v h z"
      using b(2) by (auto simp: deep_copier.later [OF assms e1])
    have n1: "h_next h \<le> h_next h1" using e1 by (simp add: extends_def)
    have "(\<Union>z \<in> set xs. a h1 z) \<subseteq> {..<h_next h1}" using b(2) l n1 by fastforce
    note c2 = Cons.IH [OF 2 this]
    then have e2: "extends h1 h2" by blast
    have "a h1 y \<subseteq> {..<h_next h1}" using c1 by auto
    note l1 = deep_copier.later [OF assms e2 this]
    have n2: "h_next h1 \<le> h_next h2" using e2 by (simp add: extends_def)
    have "a h1 y \<subseteq> {h_next h..<h_next h1}" "(\<Union>z \<in> set zs. a h2 z) \<subseteq> {h_next h1..<h_next h2}" using c1 c2 by blast+
    then have cells: "(\<Union>z \<in> set ys. a h2 z) \<subseteq> {h_next h..<h_next h2}"
      using n1 n2 by (fastforce simp: ys l1(1))
    have "map (v h2) ys = map (v h) (x # xs)" using c1 c2 l by (simp add: ys l1(2))
    then show ?case using extends_trans [OF e1 e2] cells by (simp add: ys)
  qed simp
qed

text \<open>The items of a list: their array is a new one as well.\<close>

abbreviation items_of :: "('m, 'c) heap \<Rightarrow> slice \<Rightarrow> 'm p_Record list" where
  "items_of h s \<equiv> window s (records_of_cell (h_cell h (sl_array s)))"

definition items_cells :: "(('m, 'c) heap \<Rightarrow> 'm \<Rightarrow> addr set) \<Rightarrow> ('m, 'c) heap \<Rightarrow> slice option \<Rightarrow> addr set" where
  "items_cells ma h p = (case p of None \<Rightarrow> {}
     | Some s \<Rightarrow> insert (sl_array s) (\<Union>r \<in> set (items_of h s). record_cells ma h r))"

definition items_view ::
  "(('m, 'c) heap \<Rightarrow> 'm \<Rightarrow> ObjectMeta) \<Rightarrow> ('m, 'c) heap \<Rightarrow> slice option \<Rightarrow> ((string \<times> string) \<times> CloudflareRecord) list option" where
  "items_view mv h p = map_option (\<lambda>s. map (record_view mv h) (items_of h s)) p"

definition copy_items :: "('m, 'm, 'c) copier \<Rightarrow> (slice option, 'm, 'c) copier" where
  "copy_items meta_copy p h =
     (case p of None \<Rightarrow> (None, h)
      | Some s \<Rightarrow>
          let (a, h1) = alloc (RecordArray []) h;
              (ys, h2) = copy_each (Record_DeepCopyInto meta_copy) (items_of h s) h1
          in (Some (whole a ys), store a (RecordArray ys) h2))"

lemma items_copier:
  fixes meta_copy :: "('m, 'm, 'c) copier"
  assumes "deep_copier meta_copy ma mv"
  shows "deep_copier (copy_items meta_copy) (items_cells ma) (items_view mv)"
proof
  note all = each_copier [OF record_copier [OF assms]]
  {
    fix h g :: "('m, 'c) heap" and p
    assume same: "\<forall>a \<in> items_cells ma h p. h_cell g a = h_cell h a"
    show "items_cells ma g p = items_cells ma h p \<and> items_view mv g p = items_view mv h p"
    proof (cases p)
      case (Some s)
      then have "\<forall>a \<in> (\<Union>r \<in> set (items_of h s). record_cells ma h r). h_cell g a = h_cell h a"
        and arr: "h_cell g (sl_array s) = h_cell h (sl_array s)"
        using same by (simp_all add: items_cells_def)
      from deep_copier.reads [OF all this(1)] arr show ?thesis
        by (simp add: Some items_cells_def items_view_def)
    qed (simp add: items_cells_def items_view_def)
  next
    fix p and h :: "('m, 'c) heap" and q h'
    assume run: "copy_items meta_copy p h = (q, h')" and below: "items_cells ma h p \<subseteq> {..<h_next h}"
    show "extends h h' \<and> items_cells ma h' q \<subseteq> {h_next h..<h_next h'} \<and> items_view mv h' q = items_view mv h p"
    proof (cases p)
      case (Some s)
      let ?xs = "items_of h s"
      obtain a h1 where 1: "alloc (RecordArray []) h = (a, h1)" by (cases "alloc (RecordArray []) h :: addr \<times> ('m, 'c) heap")
      obtain ys h2 where 2: "copy_each (Record_DeepCopyInto meta_copy) ?xs h1 = (ys, h2)"
        by (cases "copy_each (Record_DeepCopyInto meta_copy) ?xs h1")
      have q: "q = Some (whole a ys)" "h' = store a (RecordArray ys) h2"
        using run by (simp_all add: copy_items_def Some 1 2)
      note new = alloc_facts [OF 1]
      have b: "(\<Union>r \<in> set ?xs. record_cells ma h r) \<subseteq> {..<h_next h}" using below by (simp add: items_cells_def Some)
      note l = deep_copier.later [OF all new(4) b]
      have "(\<Union>r \<in> set ?xs. record_cells ma h1 r) \<subseteq> {..<h_next h1}" unfolding l(1) using b new(2) by auto
      note c = deep_copier.copies [OF all 2 this]
      have up: "h_next h1 \<le> h_next h2" using c by (simp add: extends_def)
      have "\<forall>b \<in> (\<Union>r \<in> set ys. record_cells ma h2 r). h_cell h' b = h_cell h2 b"
        using c new by (auto simp: q store_def)
      note r = deep_copier.reads [OF all this]
      have i: "items_of h' (whole a ys) = ys" "h_next h' = h_next h2" by (simp_all add: q store_def)
      have "extends h h2" using extends_trans [OF new(4)] c by blast
      then have "extends h h'" using new(1) by (simp add: extends_def q store_def)
      moreover have "items_cells ma h' q \<subseteq> {h_next h..<h_next h'}"
        using c r new up i by (fastforce simp: items_cells_def q(1))
      moreover have "items_view mv h' q = items_view mv h p"
        using c r l(2) i by (simp add: items_view_def q(1) Some)
      ultimately show ?thesis by blast
    qed (use run in \<open>simp add: copy_items_def items_cells_def items_view_def\<close>)
  }
qed

definition list_cells where
  "list_cells la ma h p = (la h (pl_ListMeta p) \<union> items_cells ma h (pl_Items p) :: addr set)"

definition list_view where
  "list_view lv mv h p = (pl_TypeMeta p, lv h (pl_ListMeta p), items_view mv h (pl_Items p))"

lemma list_copier:
  assumes "deep_copier list_copy la lv" and "deep_copier meta_copy ma mv"
  shows "deep_copier (List_DeepCopyInto list_copy meta_copy) (list_cells la ma) (list_view lv mv)"
  by (rule struct_copier [OF pair_copier [OF assms(1) items_copier [OF assms(2)]],
        where get = "\<lambda>p. (pl_ListMeta p, pl_Items p)" and put = "\<lambda>(l, s) r. r\<lparr>pl_ListMeta := l, pl_Items := s\<rparr>"
          and rest = pl_TypeMeta and w = "\<lambda>(l, s) t. (t, l, s)"])
    (simp_all add: List_DeepCopyInto_def copy_items_def copy_pair_def list_cells_def list_view_def pair_cells_def
      pair_view_def Let_def split: prod.split option.split)

section \<open>What the copies promise\<close>

text \<open>C13: 
  C99: The deep copy of a \<open>CloudflareRecord\<close> (\<open>DeepCopyObject\<close>, which client and cache rely on) implements the copy of a
  value: it stands for the same record of the controller's model, reaches no address that the original reaches, and
  whatever is then written through one of the two leaves the other as it was. The copy of nil is nil. The metadata's
  copy is apimachinery's, which is supposed to keep this contract.
\<close>
theorem record_deep_copy_is_independent:
  assumes "deep_copier meta_copy ma mv" and "record_cells ma h r \<subseteq> {..<h_next h}"
    and "DeepCopyObject (Record_DeepCopyInto meta_copy) (Some r) h = (c, h')"
  shows "DeepCopyObject (Record_DeepCopyInto meta_copy) None h = (None, h)
    \<and> (\<exists>q. c = Some q \<and> record_view mv h' q = record_view mv h r \<and> record_view mv h' r = record_view mv h r
      \<and> record_cells ma h' r \<inter> record_cells ma h' q = {}
      \<and> (\<forall>a v. a \<in> record_cells ma h' r \<longrightarrow> record_view mv (store a v h') q = record_view mv h r)
      \<and> (\<forall>a v. a \<in> record_cells ma h' q \<longrightarrow> record_view mv (store a v h') r = record_view mv h r))"
proof
  show "DeepCopyObject (Record_DeepCopyInto meta_copy) None h = (None, h)"
    by (simp add: DeepCopyObject_def DeepCopy_def)
qed (rule deep_copier.object [OF record_copier [OF assms(1)] assms(2,3)], blast)

text \<open>A record on the heap, its metadata behind a pointer, the slice of its tags in the middle of an array.\<close>

definition sample_heap :: "(addr option, ObjectMeta) heap" where
  "sample_heap = \<lparr>h_next = 3,
     h_cell = (\<lambda>_. IntCell 0)(0 := IntCell 300, 1 := StringArray [''a'', ''b'', ''c''],
       2 := LibraryCell \<lparr>om_Name = ''www'', om_Namespace = ''prod'', om_Generation = 1, om_DeletionTimestamp = None, om_Finalizers = []\<rparr>)\<rparr>"

definition sample_record :: "addr option p_Record" where
  "sample_record = \<lparr>pr_TypeMeta = (''CloudflareRecord'', ''v1''), pr_meta = Some 2,
     pr_Spec = \<lparr>pp_Zone = ''example.com'', pp_Type = ''A'', pp_Name = ''www'', pp_Content = ''192.0.2.1'', pp_TTL = Some 0,
       pp_Priority = None, pp_Proxied = None, pp_Comment = None, pp_Tags = Some \<lparr>sl_array = 1, sl_offset = 1, sl_len = 2\<rparr>,
       pp_CredentialsSecretRef = \<lparr>ps_Name = ''token'', ps_Namespace = None\<rparr>\<rparr>,
     pr_Status = \<lparr>pt_RecordID = None, pt_ZoneID = None, pt_Ready = False, pt_LastUpdated = None, pt_Conditions = None,
       pt_ObservedGeneration = 0\<rparr>\<rparr>"

text \<open>A metadata copy that keeps the contract: all of the metadata in one cell.\<close>

definition meta_of :: "(addr option, ObjectMeta) heap \<Rightarrow> addr option \<Rightarrow> ObjectMeta" where
  "meta_of h p = (case p of Some a \<Rightarrow> (case h_cell h a of LibraryCell m \<Rightarrow> m
     | _ \<Rightarrow> \<lparr>om_Name = [], om_Namespace = [], om_Generation = 0, om_DeletionTimestamp = None, om_Finalizers = []\<rparr>)
     | None \<Rightarrow> \<lparr>om_Name = [], om_Namespace = [], om_Generation = 0, om_DeletionTimestamp = None, om_Finalizers = []\<rparr>)"

lemma meta_copier: "deep_copier copy_pointer pointer_cells meta_of"
proof (unfold_locales, goal_cases)
  case (1 h x g)
  then show ?case by (cases x) (simp_all add: meta_of_def)
next
  case (2 x h y h')
  then show ?case by (cases x) (auto simp: copy_pointer_def meta_of_def alloc_def extends_def)
qed

lemma sample_below: "record_cells pointer_cells sample_heap sample_record \<subseteq> {..<h_next sample_heap}"
  by (simp add: sample_heap_def sample_record_def record_cells_def spec_cells_def status_cells_def ref_cells_def)

theorem record_deep_copy_is_independent_witness:
  "\<exists>q. fst (DeepCopyObject (Record_DeepCopyInto copy_pointer) (Some sample_record) sample_heap) = Some q
     \<and> record_view meta_of (snd (DeepCopyObject (Record_DeepCopyInto copy_pointer) (Some sample_record) sample_heap)) q
         = record_view meta_of sample_heap sample_record"
  using record_deep_copy_is_independent [OF meta_copier sample_below,
      of "fst (DeepCopyObject (Record_DeepCopyInto copy_pointer) (Some sample_record) sample_heap)"
        "snd (DeepCopyObject (Record_DeepCopyInto copy_pointer) (Some sample_record) sample_heap)"]
  by auto

text \<open>C17: 
  C99: The deep copy of a \<open>CloudflareRecordList\<close> is as independent: its items are in a new array, every record in it is
  a deep copy of its own, in the original's order, and a nil slice of items stays nil.
\<close>
theorem list_deep_copy_is_independent:
  assumes "deep_copier list_copy la lv" and "deep_copier meta_copy ma mv" and "list_cells la ma h r \<subseteq> {..<h_next h}"
    and "DeepCopyObject (List_DeepCopyInto list_copy meta_copy) (Some r) h = (c, h')"
  shows "\<exists>q. c = Some q \<and> list_view lv mv h' q = list_view lv mv h r \<and> list_view lv mv h' r = list_view lv mv h r
      \<and> list_cells la ma h' r \<inter> list_cells la ma h' q = {}
      \<and> (\<forall>a v. a \<in> list_cells la ma h' r \<longrightarrow> list_view lv mv (store a v h') q = list_view lv mv h r)
      \<and> (\<forall>a v. a \<in> list_cells la ma h' q \<longrightarrow> list_view lv mv (store a v h') r = list_view lv mv h r)"
  by (rule deep_copier.object [OF list_copier [OF assms(1,2)] assms(3,4)], blast)

definition sample_list_heap :: "(addr option, ObjectMeta) heap" where
  "sample_list_heap = snd (alloc (RecordArray [sample_record, sample_record\<lparr>pr_meta := None\<rparr>]) sample_heap)"

definition sample_list :: "addr option p_List" where
  "sample_list = \<lparr>pl_TypeMeta = (''CloudflareRecordList'', ''v1''), pl_ListMeta = None,
     pl_Items = Some \<lparr>sl_array = 3, sl_offset = 0, sl_len = 2\<rparr>\<rparr>"

lemma sample_list_below: "list_cells pointer_cells pointer_cells sample_list_heap sample_list \<subseteq> {..<h_next sample_list_heap}"
  by (auto simp: sample_list_heap_def sample_heap_def sample_list_def sample_record_def alloc_def list_cells_def items_cells_def
      window_def record_cells_def spec_cells_def status_cells_def ref_cells_def)

theorem list_deep_copy_is_independent_witness:
  "\<exists>q. fst (DeepCopyObject (List_DeepCopyInto copy_pointer copy_pointer) (Some sample_list) sample_list_heap) = Some q
     \<and> list_view meta_of meta_of
         (snd (DeepCopyObject (List_DeepCopyInto copy_pointer copy_pointer) (Some sample_list) sample_list_heap)) q
         = list_view meta_of meta_of sample_list_heap sample_list"
  using list_deep_copy_is_independent [OF meta_copier meta_copier sample_list_below,
      of "fst (DeepCopyObject (List_DeepCopyInto copy_pointer copy_pointer) (Some sample_list) sample_list_heap)"
        "snd (DeepCopyObject (List_DeepCopyInto copy_pointer copy_pointer) (Some sample_list) sample_list_heap)"]
  by auto

end
