(* ===== verification/ConfigValidationProps.thy ===== *)
theory ConfigValidationProps
  imports ConfigValidation
begin

text \<open>
  What a validated configuration satisfies, that the shipped defaults validate, and two gaps.
\<close>

section \<open>The accepted configurations\<close>

definition in_bounds :: "duration \<Rightarrow> duration \<Rightarrow> duration \<Rightarrow> bool" where
  "in_bounds lo hi d \<longleftrightarrow> lo \<le> d \<and> d \<le> hi"

definition unset_or :: "bool \<Rightarrow> duration \<Rightarrow> bool" where
  "unset_or b d \<longleftrightarrow> d \<le> 0 \<or> b"

definition env_floor :: "string \<Rightarrow> duration" where
  "env_floor env =
     (if env = ProductionEnv then 30 * Second
      else if env = ''staging'' then 10 * Second
      else if env = ''development'' then 5 * Second else 1 * Second)"

definition good_operator :: "net_env \<Rightarrow> OperatorConfig \<Rightarrow> bool" where
  "good_operator net oc \<longleftrightarrow>
     LogLevel oc \<in> {''trace'', ''debug'', ''info'', ''warn'', ''error'', ''fatal'', ''panic''}
     \<and> in_bounds (1 * Second) (1 * Hour) (ReconcileInterval oc)
     \<and> (MetricsBindAddress oc = [] \<or> ValidateBindAddress net (MetricsBindAddress oc) = None)
     \<and> (HealthProbeBindAddress oc = [] \<or> ValidateBindAddress net (HealthProbeBindAddress oc) = None)
     \<and> addresses_conflict oc = None"

definition good_cloudflare :: "CloudflareConfig \<Rightarrow> bool" where
  "good_cloudflare cc \<longleftrightarrow>
     in_bounds (1 * Second) (5 * Minute) (APITimeout cc) \<and> 0 < RateLimitRPS cc \<and> 0 \<le> RetryAttempts cc
     \<and> unset_or (in_bounds (100 * Millisecond) (30 * Second) (RetryDelay cc)
          \<and> wrap64 (RetryAttempts cc * RetryDelay cc) < APITimeout cc) (RetryDelay cc)"

definition good_performance :: "PerformanceConfig \<Rightarrow> bool" where
  "good_performance pc \<longleftrightarrow>
     0 < MaxConcurrentReconciles pc
     \<and> in_bounds (1 * Second) (30 * Minute) (ReconcileTimeout pc)
     \<and> in_bounds (1 * Second) (24 * Hour) (RequeueInterval pc)
     \<and> in_bounds (1 * Second) (1 * Hour) (RequeueIntervalOnError pc)
     \<and> in_bounds (1 * Minute) (24 * Hour) (ResyncPeriod pc)
     \<and> in_bounds (1 * Second) (5 * Minute) (LeaderElectionLeaseDuration pc)
     \<and> unset_or (in_bounds (1 * Second) (1 * Minute) (LeaderElectionRenewDeadline pc)
          \<and> LeaderElectionRenewDeadline pc < LeaderElectionLeaseDuration pc)
         (LeaderElectionRenewDeadline pc)
     \<and> unset_or (in_bounds (100 * Millisecond) (30 * Second) (LeaderElectionRetryPeriod pc)
          \<and> unset_or (LeaderElectionRetryPeriod pc < LeaderElectionRenewDeadline pc)
              (LeaderElectionRenewDeadline pc))
         (LeaderElectionRetryPeriod pc)"

definition good_for_environment :: "Config \<Rightarrow> bool" where
  "good_for_environment c \<longleftrightarrow>
     Environment c \<in> {ProductionEnv, StagingEnv, DevelopmentEnv, TestEnv}
     \<and> env_floor (Environment c) \<le> ReconcileInterval (Operator c)
     \<and> (Environment c = ProductionEnv \<longrightarrow> RateLimitRPS (Cloudflare c) \<le> 50
          \<and> (\<forall>ff. Features c = Some ff \<longrightarrow> \<not> ExperimentalFeatures ff))"

lemma ValidateDuration_iff:
  "0 < lo \<Longrightarrow> 0 < hi \<Longrightarrow> ValidateDuration d lo hi field = None \<longleftrightarrow> in_bounds lo hi d"
  by (auto simp: ValidateDuration_def in_bounds_def)

lemma ValidateEnvironment_iff:
  "ValidateEnvironment env = None \<longleftrightarrow> env \<in> {ProductionEnv, StagingEnv, DevelopmentEnv, TestEnv}"
  by (auto simp: ValidateEnvironment_def go_defs)

lemma sections_iff:
  "OperatorConfig_IsValid oc = None \<longleftrightarrow>
     LogLevel oc \<in> {''trace'', ''debug'', ''info'', ''warn'', ''error'', ''fatal'', ''panic''}
     \<and> in_bounds (1 * Second) (1 * Hour) (ReconcileInterval oc)"
  "CloudflareConfig_IsValid cc = None \<longleftrightarrow>
     in_bounds (1 * Second) (5 * Minute) (APITimeout cc) \<and> 0 < RateLimitRPS cc \<and> 0 \<le> RetryAttempts cc
     \<and> unset_or (in_bounds (100 * Millisecond) (30 * Second) (RetryDelay cc)) (RetryDelay cc)"
  "PerformanceConfig_IsValid pc = None \<longleftrightarrow>
     0 < MaxConcurrentReconciles pc
     \<and> in_bounds (1 * Second) (30 * Minute) (ReconcileTimeout pc)
     \<and> in_bounds (1 * Second) (24 * Hour) (RequeueInterval pc)
     \<and> in_bounds (1 * Second) (1 * Hour) (RequeueIntervalOnError pc)
     \<and> in_bounds (1 * Minute) (24 * Hour) (ResyncPeriod pc)
     \<and> in_bounds (1 * Second) (5 * Minute) (LeaderElectionLeaseDuration pc)
     \<and> unset_or (in_bounds (1 * Second) (1 * Minute) (LeaderElectionRenewDeadline pc))
         (LeaderElectionRenewDeadline pc)
     \<and> unset_or (in_bounds (100 * Millisecond) (30 * Second) (LeaderElectionRetryPeriod pc))
         (LeaderElectionRetryPeriod pc)"
  by (force simp: OperatorConfig_IsValid_def ValidateLogLevel_def ValidateDuration_iff,
      simp_all add: CloudflareConfig_IsValid_def PerformanceConfig_IsValid_def
        ValidatePositiveInt_def ValidateDuration_iff unset_or_def not_less not_le)

lemma environment_specific_iff:
  "in_bounds (1 * Second) (1 * Hour) (ReconcileInterval (Operator c)) \<Longrightarrow>
   Environment c \<in> {ProductionEnv, StagingEnv, DevelopmentEnv, TestEnv} \<Longrightarrow>
     validateEnvironmentSpecific c = None \<longleftrightarrow> good_for_environment c"
  by (auto simp: validateEnvironmentSpecific_def good_for_environment_def env_floor_def Let_def
      in_bounds_def go_defs split: option.splits)

lemma cross_fields_iff:
  "validateCrossFields c = None \<longleftrightarrow>
     (0 < LeaderElectionRenewDeadline (Performance c) \<and> 0 < LeaderElectionLeaseDuration (Performance c)
        \<longrightarrow> LeaderElectionRenewDeadline (Performance c) < LeaderElectionLeaseDuration (Performance c))
     \<and> (0 < LeaderElectionRetryPeriod (Performance c) \<and> 0 < LeaderElectionRenewDeadline (Performance c)
        \<longrightarrow> LeaderElectionRetryPeriod (Performance c) < LeaderElectionRenewDeadline (Performance c))
     \<and> addresses_conflict (Operator c) = None
     \<and> (0 < RetryDelay (Cloudflare c) \<and> 0 < APITimeout (Cloudflare c)
        \<longrightarrow> wrap64 (RetryAttempts (Cloudflare c) * RetryDelay (Cloudflare c)) < APITimeout (Cloudflare c))"
  by (auto simp: validateCrossFields_def Let_def not_le)

lemma good_operator_iff:
  "good_operator net oc \<longleftrightarrow> OperatorConfig_IsValid oc = None
     \<and> (MetricsBindAddress oc = [] \<or> ValidateBindAddress net (MetricsBindAddress oc) = None)
     \<and> (HealthProbeBindAddress oc = [] \<or> ValidateBindAddress net (HealthProbeBindAddress oc) = None)
     \<and> addresses_conflict oc = None"
  unfolding good_operator_def sections_iff by (simp only: conj_assoc)

lemma good_cloudflare_iff:
  "good_cloudflare cc \<longleftrightarrow> CloudflareConfig_IsValid cc = None
     \<and> (0 < RetryDelay cc \<and> 0 < APITimeout cc \<longrightarrow> wrap64 (RetryAttempts cc * RetryDelay cc) < APITimeout cc)"
  unfolding good_cloudflare_def sections_iff unset_or_def
  by (cases "0 < RetryDelay cc") (auto simp: in_bounds_def)

lemma good_performance_iff:
  "good_performance pc \<longleftrightarrow> PerformanceConfig_IsValid pc = None
     \<and> (0 < LeaderElectionRenewDeadline pc \<and> 0 < LeaderElectionLeaseDuration pc
        \<longrightarrow> LeaderElectionRenewDeadline pc < LeaderElectionLeaseDuration pc)
     \<and> (0 < LeaderElectionRetryPeriod pc \<and> 0 < LeaderElectionRenewDeadline pc
        \<longrightarrow> LeaderElectionRetryPeriod pc < LeaderElectionRenewDeadline pc)"
  unfolding good_performance_def sections_iff unset_or_def
  by (cases "0 < LeaderElectionRetryPeriod pc"; cases "0 < LeaderElectionRenewDeadline pc")
    (auto simp: in_bounds_def)

lemma Validate_iff:
  "Validate net (Some c) = None \<longleftrightarrow>
      ValidateEnvironment (Environment c) = None \<and> OperatorConfig_IsValid (Operator c) = None
      \<and> (MetricsBindAddress (Operator c) = [] \<or> ValidateBindAddress net (MetricsBindAddress (Operator c)) = None)
      \<and> (HealthProbeBindAddress (Operator c) = []
          \<or> ValidateBindAddress net (HealthProbeBindAddress (Operator c)) = None)
      \<and> CloudflareConfig_IsValid (Cloudflare c) = None \<and> PerformanceConfig_IsValid (Performance c) = None
      \<and> validateEnvironmentSpecific c = None \<and> validateCrossFields c = None"
  by (auto simp: Validate_def FeatureFlags_Validate_def split: option.splits)

lemma accepted_parts:
  "Validate net (Some c) = None \<longleftrightarrow>
     good_operator net (Operator c) \<and> good_cloudflare (Cloudflare c)
     \<and> good_performance (Performance c) \<and> good_for_environment c"
proof (cases "ValidateEnvironment (Environment c) = None \<and> OperatorConfig_IsValid (Operator c) = None")
  case True
  then have "validateEnvironmentSpecific c = None \<longleftrightarrow> good_for_environment c"
    by (intro environment_specific_iff) (simp_all only: ValidateEnvironment_iff sections_iff)
  with True show ?thesis
    unfolding Validate_iff good_operator_iff good_cloudflare_iff good_performance_iff cross_fields_iff
    by argo
next
  case False
  then show ?thesis
    unfolding Validate_iff good_operator_iff good_for_environment_def ValidateEnvironment_iff by blast
qed


section \<open>The shipped defaults\<close>

lemma address_8080_8081:
  "SplitHostPort '':8080'' = Some ([], ''8080'')" "SplitHostPort '':8081'' = Some ([], ''8081'')"
  by (simp_all add: SplitHostPort_def Let_def)

lemma defaults_valid:
  assumes "net_LookupPort net ''8080''" and "net_LookupPort net ''8081''"
    and "env \<in> {ProductionEnv, StagingEnv, DevelopmentEnv, TestEnv}"
  shows "Validate net (Some (GetEnvironmentDefaults env)) = None"
proof -
  let ?c = "GetEnvironmentDefaults env"
  have same: "Performance ?c = Performance NewConfig" "Environment ?c = env"
    "MetricsBindAddress (Operator ?c) = '':8080''" "HealthProbeBindAddress (Operator ?c) = '':8081''"
    "RetryAttempts (Cloudflare ?c) = 3" "RetryDelay (Cloudflare ?c) = 1 * Second"
    by (simp_all add: GetEnvironmentDefaults_def NewConfig_def Let_def)
  have vary: "ReconcileInterval (Operator ?c) \<in> {5 * Minute, 1 * Minute, 30 * Second}"
    "LogLevel (Operator ?c) \<in> {''info'', DebugLevel}"
    "APITimeout (Cloudflare ?c) \<in> {30 * Second, 15 * Second, 10 * Second}"
    "RateLimitRPS (Cloudflare ?c) \<in> {10, 5, 2}"
    by (simp_all add: GetEnvironmentDefaults_def NewConfig_def Let_def)
  have "env = ProductionEnv \<Longrightarrow> RateLimitRPS (Cloudflare ?c) = 10 \<and> Features ?c = Features NewConfig"
    by (simp add: GetEnvironmentDefaults_def NewConfig_def Let_def)
  moreover have "env_floor env \<le> 30 * Second" by (simp add: env_floor_def)
  ultimately have "good_for_environment ?c"
    using assms(3) vary(1) by (auto simp: good_for_environment_def same NewConfig_def)
  moreover have "addresses_conflict (Operator ?c) = None"
    by (simp add: addresses_conflict_def same Let_def address_8080_8081)
  moreover have "ValidateBindAddress net '':8080'' = None" "ValidateBindAddress net '':8081'' = None"
    using assms(1,2) by (simp_all add: ValidateBindAddress_def address_8080_8081 has_prefix_def)
  ultimately have "good_for_environment ?c" "good_operator net (Operator ?c)"
    using vary(1,2) by (auto simp: good_operator_def in_bounds_def same DebugLevel_def)
  moreover have "good_cloudflare (Cloudflare ?c)"
    using vary(3,4) by (auto simp: good_cloudflare_def in_bounds_def unset_or_def same wrap64_def)
  moreover have "good_performance (Performance ?c)"
    by (simp add: good_performance_def in_bounds_def unset_or_def same NewConfig_def)
  ultimately show ?thesis by (simp add: accepted_parts)
qed

text \<open>The defaults of every environment pass their own validation, on a system that accepts the numeric
  ports 8080 and 8081.\<close>

theorem environment_defaults_valid:
  assumes "net_LookupPort net ''8080''" and "net_LookupPort net ''8081''"
    and "env \<in> {ProductionEnv, StagingEnv, DevelopmentEnv, TestEnv}"
  shows "Validate net (Some (GetEnvironmentDefaults env)) = None"
  using assms by (rule defaults_valid)

section \<open>Gaps\<close>

definition overflow_config :: Config where
  "overflow_config = NewConfig\<lparr>Cloudflare := \<lparr>APITimeout = 30 * Second, RateLimitRPS = 10,
     RetryAttempts = 400000000, RetryDelay = 30 * Second\<rparr>\<rparr>"

text \<open>The check that all retries together stay below the API timeout is defeated by overflow: a
  configuration with 400 million attempts, 30 seconds apart, passes, because the product of the two
  wraps around to a negative duration.\<close>

theorem retry_time_check_overflows:
  assumes "net_LookupPort net ''8080''" and "net_LookupPort net ''8081''"
  shows "Validate net (Some overflow_config) = None
    \<and> APITimeout (Cloudflare overflow_config)
        < RetryAttempts (Cloudflare overflow_config) * RetryDelay (Cloudflare overflow_config)"
proof -
  have v: "Validate net (Some (GetEnvironmentDefaults ProductionEnv)) = None"
    using assms by (intro defaults_valid) simp_all
  have d: "GetEnvironmentDefaults ProductionEnv = NewConfig"
    by (simp add: GetEnvironmentDefaults_def NewConfig_def)
  have "good_cloudflare (Cloudflare overflow_config)"
    by (simp add: overflow_config_def good_cloudflare_def in_bounds_def unset_or_def wrap64_def)
  then have "Validate net (Some overflow_config) = None"
    using v unfolding d accepted_parts by (simp add: overflow_config_def good_for_environment_def)
  then show ?thesis by (simp add: overflow_config_def)
qed

text \<open>The address check misses the IPv6 wildcard: metrics on \<open>[::]:8080\<close>, which listens on every
  address, and health probes on \<open>127.0.0.1:8080\<close> count as no conflict, although the same two
  with the IPv4 wildcard are refused.\<close>

theorem ipv6_wildcard_not_seen:
  "addresses_conflict (oc\<lparr>MetricsBindAddress := ''[::]:8080'', HealthProbeBindAddress := ''127.0.0.1:8080''\<rparr>) = None
   \<and> addresses_conflict (oc\<lparr>MetricsBindAddress := ''0.0.0.0:8080'', HealthProbeBindAddress := ''127.0.0.1:8080''\<rparr>)
       = Some (SamePort ''8080'')"
proof -
  have "SplitHostPort ''[::]:8080'' = Some (''::'', ''8080'')"
    "SplitHostPort ''127.0.0.1:8080'' = Some (''127.0.0.1'', ''8080'')"
    "SplitHostPort ''0.0.0.0:8080'' = Some (''0.0.0.0'', ''8080'')"
    by (simp_all add: SplitHostPort_def Let_def)
  then show ?thesis by (simp add: addresses_conflict_def Let_def fail_if_def first_error.simps)
qed

section \<open>Witnesses\<close>

definition plain_net :: net_env where
  "plain_net = \<lparr>net_ParseIP = (\<lambda>_. False), net_LookupPort = (\<lambda>p. p \<in> {''8080'', ''8081''})\<rparr>"

theorem environment_defaults_valid_witness:
  "Validate plain_net (Some (GetEnvironmentDefaults StagingEnv)) = None"
  by (rule environment_defaults_valid) (simp_all add: plain_net_def)

theorem retry_time_check_overflows_witness:
  "Validate plain_net (Some overflow_config) = None"
  using retry_time_check_overflows [of plain_net] by (simp add: plain_net_def)

end
