(* ===== verification/ConfigManagerProps.thy ===== *)
theory ConfigManagerProps
  imports ConfigManager ConfigValidationProps
begin

text \<open>What the configuration manager guarantees, in every state its operations reach.\<close>

lemma LoadConfig_inv: "manager_inv (le_net env) m \<Longrightarrow> manager_inv (le_net env) (snd (LoadConfig env now o' m))"
proof (cases rule: LoadConfig_cases [of env now o' m])
  case (loaded c src m' o'')
  assume "manager_inv (le_net env) m"
  with loaded show ?thesis
    by (simp add: manager_inv_def loaded_ok_def one_loop_def NewFeatureFlagManager_def)
qed simp

lemma ReloadConfig_state:
  "snd (ReloadConfig env now m) = m \<or> (\<exists>o'. snd (ReloadConfig env now m) = snd (LoadConfig env now o' m))"
proof (cases "cm_loadOptions m")
  case (Some o')
  then have "snd (ReloadConfig env now m) = snd (LoadConfig env now o' m)"
    by (simp add: ReloadConfig_def case_prod_unfold)
  then show ?thesis by blast
qed (simp add: ReloadConfig_def)

lemma ReloadConfig_inv: "manager_inv (le_net env) m \<Longrightarrow> manager_inv (le_net env) (snd (ReloadConfig env now m))"
  using ReloadConfig_state [of env now m] LoadConfig_inv by metis

lemma one_loop_stop: "one_loop m \<Longrightarrow> one_loop (StopAutoReload m)"
  by (cases "cm_reloadCancel m")
    (auto simp: one_loop_def StopAutoReload_def cancel_loop_def distinct_removeAll)

lemma StopAutoReload_frame [simp]:
  "cm_currentConfig (StopAutoReload m) = cm_currentConfig m"
  "cm_currentSources (StopAutoReload m) = cm_currentSources m"
  "cm_loadOptions (StopAutoReload m) = cm_loadOptions m" "cm_options (StopAutoReload m) = cm_options m"
  "cm_featureFlagManager (StopAutoReload m) = cm_featureFlagManager m"
  by (simp_all add: StopAutoReload_def split: option.split)

lemma one_loop_start: "one_loop m \<Longrightarrow> one_loop (snd (StartAutoReload m))"
  by (cases "cm_reloadCancel m")
    (auto simp: one_loop_def StartAutoReload_def cancel_loop_def distinct_removeAll)

lemma loaded_ok_frame:
  assumes "cm_currentConfig m' = cm_currentConfig m" and "cm_currentSources m' = cm_currentSources m"
    and "cm_loadOptions m' = cm_loadOptions m" and "cm_options m' = cm_options m"
    and "cm_featureFlagManager m' = cm_featureFlagManager m"
  shows "loaded_ok net m' = loaded_ok net m"
  by (simp only: loaded_ok_def assms)

lemma manager_inv_step:
  assumes "manager_inv net m" and "same_net net x m"
  shows "manager_inv net (manager_step x m)"
proof (cases x)
  case (MLoad env now o')
  with assms LoadConfig_inv [of env m now o'] show ?thesis by (simp add: same_net_def)
next
  case (MReload env now)
  with assms ReloadConfig_inv [of env m now] show ?thesis by (simp add: same_net_def)
next
  case (MTick env now i)
  with assms ReloadConfig_inv [of env m now] show ?thesis
    by (simp add: same_net_def autoReload_tick_def)
next
  case (MRegister cb)
  with assms show ?thesis
    by (auto simp: manager_inv_def loaded_ok_def one_loop_def RegisterConfigChangeCallback_def
        split: option.splits)
next
  case MStart
  have "loaded_ok net (snd (StartAutoReload m)) = loaded_ok net m"
    by (rule loaded_ok_frame) (simp_all add: StartAutoReload_def)
  with assms(1) have "loaded_ok net (snd (StartAutoReload m))" by (simp add: manager_inv_def)
  with MStart assms(1) one_loop_start show ?thesis by (simp add: manager_inv_def)
next
  case MStop
  have "loaded_ok net (StopAutoReload m) = loaded_ok net m" by (rule loaded_ok_frame) simp_all
  with MStop assms(1) one_loop_stop show ?thesis by (simp add: manager_inv_def)
next
  case (MDone i)
  have "loaded_ok net (autoReload_done i m) = loaded_ok net m"
    by (rule loaded_ok_frame) (simp_all add: autoReload_done_def)
  moreover have "one_loop m \<Longrightarrow> one_loop (autoReload_done i m)"
    by (auto simp: one_loop_def autoReload_done_def distinct_removeAll)
  ultimately show ?thesis using MDone assms(1) by (simp add: manager_inv_def)
next
  case MClose
  have "one_loop (StopAutoReload m)" using assms(1) one_loop_stop by (simp add: manager_inv_def)
  with MClose show ?thesis
    by (simp add: manager_inv_def loaded_ok_def one_loop_def Close_def)
qed

interpretation manager: invariant_machine manager_step "same_net net" "manager_inv net" for net
  by unfold_locales (rule manager_inv_step)

lemma manager_start: "manager_inv net (NewConfigManagerWithOptions namespace options)"
  by (simp add: manager_inv_def loaded_ok_def one_loop_def NewConfigManagerWithOptions_def Let_def)

lemma options_step [simp]: "cm_options (manager_step x m) = cm_options m"
proof -
  have l: "cm_options (snd (LoadConfig env now o' m)) = cm_options m" for env now o'
    by (cases rule: LoadConfig_cases [of env now o' m]) simp_all
  have r: "cm_options (snd (ReloadConfig env now m)) = cm_options m" for env now
    using ReloadConfig_state [of env now m] l by metis
  show ?thesis
    by (cases x) (simp_all add: l r autoReload_tick_def autoReload_done_def RegisterConfigChangeCallback_def
        StartAutoReload_def Close_def)
qed

lemma options_run: "cm_options (run_ops manager_step xs m) = cm_options m"
  by (induction xs arbitrary: m) simp_all

text \<open>C9: A manager that validates on load never holds an invalid configuration: through any sequence of
  loads, reloads, ticks of reload loops, registrations and closings, with any contents of the sources, the
  current configuration (when there is one) is valid, \<open>ValidateConfiguration\<close> confirms it, and the
  feature flags handed out are the ones of that configuration.\<close>

theorem manager_never_holds_invalid_config:
  assumes "run_ok (same_net net) manager_step xs (NewConfigManagerWithOptions namespace options)"
    and "m = run_ops manager_step xs (NewConfigManagerWithOptions namespace options)"
    and "mo_ValidateOnLoad (cm_options m)" and "GetConfig m = Some c"
  shows "Validate net (Some c) = None \<and> ValidateConfiguration net m = None
    \<and> GetFeatureFlagManager m = Some \<lparr>fm_flags = Features c\<rparr>"
proof -
  have "loaded_ok net m"
    using manager.inv_run [OF manager_start assms(1)] assms(2) by (simp add: manager_inv_def)
  with assms(3,4) show ?thesis
    by (auto simp: loaded_ok_def GetConfig_def ValidateConfiguration_def GetFeatureFlagManager_def
        Clone_def cloneFlags_def NewFeatureFlagManager_def split: option.splits)
qed



text \<open>A reload from unchanged sources changes nothing but the time: after a successful load, a reload with the
  same surroundings returns the same configuration, and the manager still holds it.\<close>

theorem reload_is_stable:
  assumes "LoadConfig env now o' m = (Inr c, m1)"
  shows "fst (ReloadConfig env now' m1) = Inr c
    \<and> GetConfig (snd (ReloadConfig env now' m1)) = GetConfig m1
    \<and> GetConfigSources (snd (ReloadConfig env now' m1)) = GetConfigSources m1"
proof (cases rule: LoadConfig_cases [of env now o' m])
  case (failed e)
  with assms show ?thesis by simp
next
  case (loaded c' src m' o'')
  have eq: "c' = c" "m' = m1" using assms loaded(1) by simp_all
  have m1: "cm_loadOptions m1 = Some o''" "cm_loader m1 = cm_loader m" "cm_options m1 = cm_options m"
    "cm_currentConfig m1 = Some c" "cm_currentSources m1 = Some src"
    unfolding loaded(7) [unfolded eq] by simp_all
  have idem: "o''\<lparr>lo_ValidateConfig := mo_ValidateOnLoad (cm_options m)\<rparr> = o''" if "\<not> lo_ValidateConfig o''"
    using that unfolding loaded(2) by (auto split: if_splits)
  have L: "LoadWithPriority env (cm_loader m) o'' = Inr (c, src)" using loaded(3) eq by simp
  show ?thesis
    using m1 L loaded(4) eq
    by (cases "lo_ValidateConfig o''")
      (simp_all add: ReloadConfig_def LoadConfig_def idem while_doing_def Let_def GetConfig_def GetConfigSources_def)
qed

section \<open>Witnesses\<close>

definition demo_manager_options :: ManagerOptions where
  "demo_manager_options = \<lparr>mo_Environment = StagingEnv, mo_AutoReload = True, mo_ReloadInterval = Minute,
     mo_ValidateOnLoad = False\<rparr>"

definition demo_manager :: ConfigManager where
  "demo_manager = NewConfigManagerWithOptions ''ns'' (Some demo_manager_options)"

lemma demo_manager_loads: "\<exists>c m1. LoadConfig demo_load_env 5 demo_env_options demo_manager = (Inr c, m1)"
proof -
  obtain c src where "LoadWithPriority demo_load_env (NewConfigLoader ''ns'') demo_env_options = Inr (c, src)"
    using demo_load by blast
  then show ?thesis
    by (simp add: LoadConfig_def demo_manager_def NewConfigManagerWithOptions_def demo_manager_options_def
        while_doing_def Let_def demo_env_options_def)
qed

theorem reload_is_stable_witness:
  "\<exists>c m1. LoadConfig demo_load_env 5 demo_env_options demo_manager = (Inr c, m1)
     \<and> fst (ReloadConfig demo_load_env 9 m1) = Inr c"
  using demo_manager_loads reload_is_stable by blast


text \<open>A validated load from an environment that sets nothing: the defaults.\<close>

definition quiet_env :: load_env where
  "quiet_env = \<lparr>le_Getenv = (\<lambda>_. []), le_ReadFile = (\<lambda>_. Inl []), le_json = (\<lambda>_ c. (c, None)),
     le_yaml = (\<lambda>_ c. (c, None)), le_ConfigMap = None, le_Secret = None, le_net = plain_net\<rparr>"

lemma marked_parts:
  "Environment (markFieldsFromSource c src) = Environment c" "Operator (markFieldsFromSource c src) = Operator c"
  "Cloudflare (markFieldsFromSource c src) = Cloudflare c" "Features (markFieldsFromSource c src) = Features c"
  "Performance (markFieldsFromSource c src) = Performance c"
proof -
  have m: "Environment (mark_if b k s d) = Environment d" "Operator (mark_if b k s d) = Operator d"
    "Cloudflare (mark_if b k s d) = Cloudflare d" "Features (mark_if b k s d) = Features d"
    "Performance (mark_if b k s d) = Performance d" for b k s d
    by (simp_all add: mark_if_def)
  show "Environment (markFieldsFromSource c src) = Environment c" "Operator (markFieldsFromSource c src) = Operator c"
    "Cloudflare (markFieldsFromSource c src) = Cloudflare c" "Features (markFieldsFromSource c src) = Features c"
    "Performance (markFieldsFromSource c src) = Performance c"
    by (simp_all add: markFieldsFromSource_def m Let_def)
qed

lemma from_quiet_env: "from_env quiet_env name parse put key c = c"
  by (simp add: from_env_def quiet_env_def)

lemma quiet_env_layer: "LoadFromEnv quiet_env = Inr (zero_config\<lparr>Features := Some zero_flags\<rparr>)"
  by (simp add: LoadFromEnv_def load_env_defs from_quiet_env)

lemma Merge_zero_flags:
  "Features b = Some f \<Longrightarrow> Merge b (Some (zero_config\<lparr>Features := Some zero_flags\<rparr>)) = b"
  by (simp add: Merge_def zero_config_def merge_operator_def merge_cloudflare_def
      merge_performance_def merge_features_def)

lemma marked_default_valid: "Validate plain_net (Some (markFieldsFromSource NewConfig src)) = None"
proof -
  have "Validate plain_net (Some NewConfig) = None"
    using defaults_valid [of plain_net ProductionEnv]
    by (simp add: plain_net_def GetEnvironmentDefaults_def NewConfig_def)
  then show ?thesis unfolding accepted_parts good_for_environment_def marked_parts .
qed

lemma quiet_load:
  "\<exists>src c. LoadWithPriority quiet_env (NewConfigLoader ''ns'') (demo_env_options\<lparr>lo_ValidateConfig := True\<rparr>)
     = Inr (c, src)"
proof -
  have f: "\<exists>f. Features (markFieldsFromSource NewConfig ConfigSourceDefault) = Some f"
    by (simp add: marked_parts NewConfig_def)
  have n: "le_net quiet_env = plain_net" by (simp add: quiet_env_def)
  from f Merge_zero_flags
  have "Merge (markFieldsFromSource NewConfig ConfigSourceDefault)
      (Some (zero_config\<lparr>Features := Some zero_flags\<rparr>)) = markFieldsFromSource NewConfig ConfigSourceDefault"
    by blast
  then show ?thesis
    by (simp add: LoadWithPriority_def LoadOptions_Validate_def fail_if_def demo_env_options_def bind_sum_def
        add_file_layer_def add_layer_def while_doing_def quiet_env_layer n marked_default_valid Let_def)
qed

theorem manager_never_holds_invalid_config_witness:
  "\<exists>c. GetConfig (run_ops manager_step [MLoad quiet_env 5 demo_env_options] (NewConfigManager ''ns'')) = Some c
     \<and> Validate plain_net (Some c) = None"
proof -
  let ?start = "NewConfigManagerWithOptions ''ns'' (Some default_manager_options)"
  let ?m = "run_ops manager_step [MLoad quiet_env 5 demo_env_options] ?start"
  obtain c src where "LoadWithPriority quiet_env (NewConfigLoader ''ns'')
      (demo_env_options\<lparr>lo_ValidateConfig := True\<rparr>) = Inr (c, src)" using quiet_load by blast
  then have "\<exists>c. GetConfig ?m = Some c"
    by (simp add: LoadConfig_def NewConfigManagerWithOptions_def default_manager_options_def
        while_doing_def Let_def demo_env_options_def GetConfig_def)
  then obtain d where d: "GetConfig ?m = Some d" by blast
  have "mo_ValidateOnLoad (cm_options ?m)"
    unfolding options_run by (simp add: NewConfigManagerWithOptions_def default_manager_options_def)
  moreover have "run_ok (same_net plain_net) manager_step [MLoad quiet_env 5 demo_env_options] ?start"
    by (simp add: same_net_def quiet_env_def)
  ultimately have "Validate plain_net (Some d) = None"
    using manager_never_holds_invalid_config [OF _ refl _ d] by blast
  with d show ?thesis by (auto simp: NewConfigManager_def)
qed

end
