(* ===== verification/ConfigWatcher.thy ===== *)
theory ConfigWatcher
  imports ConfigManagerProps
begin

text \<open>
  The watcher of \<open>internal/config/loader.go\<close> (\<open>WatchConfig\<close>): what it sends on its two channels, when each tick of its
  ticker loads the configuration in the surroundings of that moment, and whether it closes them. The JSON encoder
  that the comparison uses is a parameter, and so is the time: one list element per load.
\<close>

section \<open>The watcher\<close>

text \<open>
  \<open>ToJSON\<close> and \<open>FromJSON\<close> of \<open>internal/config/types.go\<close> hand the configuration to \<open>encoding/json\<close>; \<open>json_text\<close> is the text that the
  watcher compares, which is empty when encoding fails. The \<open>toJSON\<close> below is \<open>json_text\<close> of the encoder.
\<close>

definition ToJSON :: "(Config \<Rightarrow> string \<Rightarrow> string \<Rightarrow> go_error + string) \<Rightarrow> Config \<Rightarrow> go_error + string" where
  "ToJSON marshalIndent c = marshalIndent c [] ''  ''"

definition FromJSON :: "(string \<Rightarrow> Config \<Rightarrow> go_error option \<times> Config) \<Rightarrow> string \<Rightarrow> Config \<Rightarrow> go_error option \<times> Config" where
  "FromJSON unmarshal data c = unmarshal data c"

definition json_text :: "(Config \<Rightarrow> string \<Rightarrow> string \<Rightarrow> go_error + string) \<Rightarrow> Config \<Rightarrow> string" where
  "json_text marshalIndent c = (case ToJSON marshalIndent c of Inr t \<Rightarrow> t | Inl _ \<Rightarrow> [])"

datatype watch_output = SentConfig Config | SentError load_error

text \<open>The loads after the first: an error is sent and the loop goes on; a configuration is sent when its JSON differs.\<close>

fun watch_ticks :: "(Config \<Rightarrow> string) \<Rightarrow> Config \<Rightarrow> (load_error + layered) list \<Rightarrow> watch_output list" where
  "watch_ticks toJSON lastConfig [] = []"
| "watch_ticks toJSON lastConfig (Inl e # rs) = SentError e # watch_ticks toJSON lastConfig rs"
| "watch_ticks toJSON lastConfig (Inr (newConfig, sources) # rs) =
     (if toJSON lastConfig \<noteq> toJSON newConfig then SentConfig newConfig # watch_ticks toJSON newConfig rs
      else watch_ticks toJSON lastConfig rs)"

definition watch_load_options :: "WatchOptions \<Rightarrow> LoadOptions" where
  "watch_load_options options =
     \<lparr>lo_FilePath = [], lo_ConfigMapName = wo_ConfigMapName options, lo_SecretName = wo_SecretName options,
      lo_LoadFromEnv = True, lo_ValidateConfig = True\<rparr>"

text \<open>
  The channels: \<open>configCh\<close> is nil when the options are invalid; what is sent; and whether the goroutine has ended, which
  closes them. A first load that fails ends it.
\<close>

record watch_channels =
  wc_nil_config :: bool
  wc_sent :: "watch_output list"
  wc_closed :: bool

definition WatchConfig ::
  "(Config \<Rightarrow> string) \<Rightarrow> ConfigLoader \<Rightarrow> WatchOptions \<Rightarrow> load_env \<Rightarrow> load_env list \<Rightarrow> watch_channels" where
  "WatchConfig toJSON cl options env envs =
     (case WatchOptions_Validate options of
        Some e \<Rightarrow> \<lparr>wc_nil_config = True, wc_sent = [SentError (While ''invalid watch options'' e)], wc_closed = True\<rparr>
      | None \<Rightarrow>
          let load = (\<lambda>en. LoadWithPriority en cl (watch_load_options options)) in
          (case load env of
             Inl e \<Rightarrow> \<lparr>wc_nil_config = False, wc_sent = [SentError e], wc_closed = True\<rparr>
           | Inr (config, sources) \<Rightarrow>
               \<lparr>wc_nil_config = False,
                wc_sent = SentConfig config # watch_ticks toJSON config (map load envs), wc_closed = False\<rparr>))"

section \<open>Properties\<close>

fun sent_configs :: "watch_output list \<Rightarrow> Config list" where
  "sent_configs [] = []"
| "sent_configs (SentConfig c # xs) = c # sent_configs xs"
| "sent_configs (SentError e # xs) = sent_configs xs"

fun sent_errors :: "watch_output list \<Rightarrow> load_error list" where
  "sent_errors [] = []"
| "sent_errors (SentConfig c # xs) = sent_errors xs"
| "sent_errors (SentError e # xs) = e # sent_errors xs"

text \<open>The configurations that the loads gave, the first one included.\<close>

definition loaded :: "(load_error + layered) list \<Rightarrow> Config list" where
  "loaded rs = map (\<lambda>r. fst (projr r)) (filter (\<lambda>r. \<exists>x. r = Inr x) rs)"

lemma loaded_simps [simp]:
  "loaded [] = []" "loaded (Inl e # rs) = loaded rs" "loaded (Inr x # rs) = fst x # loaded rs"
  by (simp_all add: loaded_def)

lemma ticks_configs:
  "map toJSON (c # sent_configs (watch_ticks toJSON c rs)) = remdups_adj (map toJSON (c # loaded rs))
   \<and> set (sent_configs (watch_ticks toJSON c rs)) \<subseteq> set (loaded rs)
   \<and> sent_errors (watch_ticks toJSON c rs) = map projl (filter (\<lambda>r. \<exists>e. r = Inl e) rs)"
  by (induction toJSON c rs rule: watch_ticks.induct) auto

lemma last_remdups_adj: "last (remdups_adj xs) = last xs"
  by (induction xs rule: remdups_adj.induct) auto


section \<open>A cluster with an empty ConfigMap\<close>

definition plain_env :: load_env where
  "plain_env = quiet_env\<lparr>le_ConfigMap := Some (\<lambda>_ _. GetFound [])\<rparr>"

lemma from_plain_env: "from_env plain_env = from_env quiet_env"
  by (simp add: fun_eq_iff from_env_def plain_env_def)

lemma plain_env_load:
  assumes "n \<noteq> []"
  shows "\<exists>src. LoadWithPriority plain_env cl
      \<lparr>lo_FilePath = [], lo_ConfigMapName = n, lo_SecretName = [], lo_LoadFromEnv = True, lo_ValidateConfig = True\<rparr>
      = Inr (markFieldsFromSource NewConfig ConfigSourceDefault, src)"
proof -
  let ?b = "markFieldsFromSource NewConfig ConfigSourceDefault"
  have e: "LoadFromEnv plain_env = Inr (zero_config\<lparr>Features := Some zero_flags\<rparr>)"
    using quiet_env_layer by (simp add: LoadFromEnv_def load_env_defs from_plain_env)
  have k: "LoadFromConfigMap plain_env cl n = Inr zero_config"
    using assms by (simp add: LoadFromConfigMap_def plain_env_def configmap_keys_def from_data_def)
  obtain f where "Features ?b = Some f" by (simp add: marked_parts NewConfig_def)
  then have z: "Merge ?b (Some (zero_config\<lparr>Features := Some zero_flags\<rparr>)) = ?b" by (rule Merge_zero_flags)
  have net: "le_net plain_env = plain_net" by (simp add: plain_env_def quiet_env_def)
  show ?thesis
    using assms by (simp add: LoadWithPriority_def LoadOptions_Validate_def fail_if_def bind_sum_def add_file_layer_def
        add_layer_def while_doing_def Let_def e k z net Merge_zero marked_default_valid)
qed


end
