(* ===== verification/Logging.thy ===== *)
theory Logging
  imports GoParse GoRuntime
begin

text \<open>
  Structured logging: the configuration of \<open>internal/logging/config.go\<close>, the loggers that \<open>logger.go\<close> builds from it,
  and the request context and middleware of \<open>middleware.go\<close>. The zap library is a parameter: its level parser,
  its two base configurations, its builder and the operation that attaches fields to a logger.
\<close>

section \<open>Configuration\<close>

definition FormatConsole :: string where "FormatConsole = ''console''"
definition FormatJSON :: string where "FormatJSON = ''json''"

record LogSampling =
  ls_Enabled :: bool
  ls_Initial :: int
  ls_Thereafter :: int

record LogConfig =
  lc_Level :: string
  lc_Format :: string
  lc_Development :: bool
  lc_Sampling :: LogSampling
  lc_Outputs :: "string list"

definition log_NewDefaultConfig :: LogConfig where
  "log_NewDefaultConfig = \<lparr>lc_Level = ''info'', lc_Format = FormatJSON, lc_Development = False,
     lc_Sampling = \<lparr>ls_Enabled = False, ls_Initial = 100, ls_Thereafter = 100\<rparr>, lc_Outputs = [''stdout'']\<rparr>"

definition log_NewEnvironmentConfig :: "string \<Rightarrow> LogConfig" where
  "log_NewEnvironmentConfig environment =
     (let config = log_NewDefaultConfig; e = ToLower environment in
      if e = ''development'' \<or> e = ''dev'' then
        config\<lparr>lc_Level := ''debug'', lc_Format := FormatConsole, lc_Development := True\<rparr>
      else if e = ''production'' \<or> e = ''prod'' then
        config\<lparr>lc_Level := ''info'', lc_Format := FormatJSON, lc_Development := False,
               lc_Sampling := (lc_Sampling config)\<lparr>ls_Enabled := True\<rparr>\<rparr>
      else config\<lparr>lc_Level := ''info'', lc_Format := FormatJSON, lc_Development := False\<rparr>)"

text \<open>\<open>level.UnmarshalText\<close> of zapcore; no level stands for \<open>InvalidLevel\<close>.\<close>

type_synonym level_parser = "string \<Rightarrow> int option"

definition GetLevel :: "level_parser \<Rightarrow> LogConfig \<Rightarrow> int option" where
  "GetLevel parse c = parse (lc_Level c)"

datatype log_error =
    InvalidLogLevel string
  | InvalidLogFormat string
  | InvalidSampling log_error
  | SamplingInitialNegative int
  | SamplingThereafterNegative int
  | InvalidLoggingConfig log_error
  | BuildFailed go_error

definition LogSampling_Validate :: "LogSampling \<Rightarrow> log_error option" where
  "LogSampling_Validate s =
     (if \<not> ls_Enabled s then None
      else if ls_Initial s < 0 then Some (SamplingInitialNegative (ls_Initial s))
      else if ls_Thereafter s < 0 then Some (SamplingThereafterNegative (ls_Thereafter s))
      else None)"

text \<open>Validation also fills in the outputs.\<close>

definition LogConfig_Validate :: "level_parser \<Rightarrow> LogConfig \<Rightarrow> log_error option \<times> LogConfig" where
  "LogConfig_Validate parse c =
     (if GetLevel parse c = None then (Some (InvalidLogLevel (lc_Level c)), c)
      else if lc_Format c \<noteq> FormatJSON \<and> lc_Format c \<noteq> FormatConsole then
        (Some (InvalidLogFormat (lc_Format c)), c)
      else
        (case LogSampling_Validate (lc_Sampling c) of
           Some e \<Rightarrow> (Some (InvalidSampling e), c)
         | None \<Rightarrow> (None, if lc_Outputs c = [] then c\<lparr>lc_Outputs := [''stdout'']\<rparr> else c)))"

definition IsJSON :: "LogConfig \<Rightarrow> bool" where
  "IsJSON c \<longleftrightarrow> lc_Format c = FormatJSON"

definition LogConfig_String :: "LogConfig \<Rightarrow> string" where
  "LogConfig_String c = ''level='' @ lc_Level c @ '', format='' @ lc_Format c @ '', development=''
     @ show_bool (lc_Development c) @ '', sampling='' @ show_bool (ls_Enabled (lc_Sampling c))"

section \<open>Loggers\<close>

text \<open>The part of \<open>zap.Config\<close> that is set here; the encoders are named by their functions.\<close>

record zap_config =
  zc_Level :: int
  zc_Encoding :: string
  zc_TimeKey :: string
  zc_LevelKey :: string
  zc_NameKey :: string
  zc_CallerKey :: string
  zc_MessageKey :: string
  zc_StacktraceKey :: string
  zc_EncodeTime :: string
  zc_EncodeLevel :: string
  zc_OutputPaths :: "string list"
  zc_ErrorOutputPaths :: "string list"
  zc_Sampling :: "(int \<times> int) option"

record 'l zap_lib =
  zl_parse :: level_parser
  zl_NewDevelopmentConfig :: zap_config
  zl_NewProductionConfig :: zap_config
  zl_Build :: "zap_config \<Rightarrow> go_error + 'l"

definition zap_config_of :: "'l zap_lib \<Rightarrow> LogConfig \<Rightarrow> zap_config" where
  "zap_config_of lib config =
     (let z0 = (if lc_Development config then zl_NewDevelopmentConfig lib else zl_NewProductionConfig lib);
          z1 = z0\<lparr>zc_Level := the (GetLevel (zl_parse lib) config)\<rparr>;
          z2 = (if IsJSON config
                then z1\<lparr>zc_Encoding := ''json'', zc_TimeKey := ''timestamp'', zc_LevelKey := ''level'',
                       zc_NameKey := ''logger'', zc_CallerKey := ''caller'', zc_MessageKey := ''message'',
                       zc_StacktraceKey := ''stacktrace''\<rparr>
                else z1\<lparr>zc_Encoding := ''console'', zc_EncodeTime := ''ISO8601TimeEncoder'',
                       zc_EncodeLevel := ''CapitalColorLevelEncoder''\<rparr>);
          z3 = z2\<lparr>zc_OutputPaths := lc_Outputs config, zc_ErrorOutputPaths := lc_Outputs config\<rparr>
      in if ls_Enabled (lc_Sampling config)
         then z3\<lparr>zc_Sampling := Some (ls_Initial (lc_Sampling config), ls_Thereafter (lc_Sampling config))\<rparr>
         else z3)"

definition NewLogger :: "'l zap_lib \<Rightarrow> LogConfig \<Rightarrow> log_error + 'l" where
  "NewLogger lib config0 =
     (case LogConfig_Validate (zl_parse lib) config0 of
        (Some e, _) \<Rightarrow> Inl (InvalidLoggingConfig e)
      | (None, config) \<Rightarrow>
          (case zl_Build lib (zap_config_of lib config) of
             Inl e \<Rightarrow> Inl (BuildFailed e)
           | Inr logger \<Rightarrow> Inr logger))"

text \<open>A \<open>logr.Logger\<close> wraps the zap logger (\<open>zapr.NewLogger\<close>); it is identified with it.\<close>

definition NewLogrLogger :: "'l zap_lib \<Rightarrow> LogConfig \<Rightarrow> log_error + 'l" where
  "NewLogrLogger lib config = (case NewLogger lib config of Inl e \<Rightarrow> Inl e | Inr l \<Rightarrow> Inr l)"

definition logger_config_from_env :: "(string \<Rightarrow> string) \<Rightarrow> string \<Rightarrow> LogConfig" where
  "logger_config_from_env getenv environment =
     (let config = log_NewEnvironmentConfig environment;
          c1 = (if getenv ''LOG_LEVEL'' \<noteq> [] then config\<lparr>lc_Level := getenv ''LOG_LEVEL''\<rparr> else config);
          c2 = (if getenv ''LOG_FORMAT'' \<noteq> [] then c1\<lparr>lc_Format := getenv ''LOG_FORMAT''\<rparr> else c1)
      in if getenv ''LOG_DEVELOPMENT'' = ''true'' then c2\<lparr>lc_Development := True\<rparr> else c2)"

definition LoggerFromConfig :: "(string \<Rightarrow> string) \<Rightarrow> 'l zap_lib \<Rightarrow> string \<Rightarrow> log_error + 'l" where
  "LoggerFromConfig getenv lib environment = NewLogger lib (logger_config_from_env getenv environment)"

definition LogrFromConfig :: "(string \<Rightarrow> string) \<Rightarrow> 'l zap_lib \<Rightarrow> string \<Rightarrow> log_error + 'l" where
  "LogrFromConfig getenv lib environment =
     (case LoggerFromConfig getenv lib environment of Inl e \<Rightarrow> Inl e | Inr l \<Rightarrow> Inr l)"

text \<open>The global zap logger is replaced only when the new one could be built.\<close>

definition SetupGlobalLogger :: "'l zap_lib \<Rightarrow> LogConfig \<Rightarrow> 'l \<Rightarrow> log_error option \<times> 'l" where
  "SetupGlobalLogger lib config global =
     (case NewLogger lib config of Inl e \<Rightarrow> (Some e, global) | Inr l \<Rightarrow> (None, l))"

section \<open>The request context\<close>

record RequestContext =
  rc_RequestID :: string
  rc_UserAgent :: string
  rc_RemoteIP :: string
  rc_Operation :: string
  rc_Resource :: string
  rc_Namespace :: string
  rc_StartTime :: gotime
  rc_TraceID :: string
  rc_SpanID :: string

definition RequestContextKey :: string where "RequestContextKey = ''request_context''"
definition LoggerContextKey :: string where "LoggerContextKey = ''logger''"

text \<open>
  What a context holds: a value of one of the three types stored here under each key, and the identifiers of the
  current span when its span context is valid.
\<close>

datatype 'l ctx_value = CtxRequest RequestContext | CtxZap 'l | CtxLogr 'l

record 'l go_ctx =
  cx_values :: "string \<Rightarrow> 'l ctx_value option"
  cx_span :: "(string \<times> string) option"

definition WithValue :: "'l go_ctx \<Rightarrow> string \<Rightarrow> 'l ctx_value \<Rightarrow> 'l go_ctx" where
  "WithValue ctx k v = ctx\<lparr>cx_values := (cx_values ctx)(k \<mapsto> v)\<rparr>"

definition GetTraceID :: "'l go_ctx \<Rightarrow> string" where
  "GetTraceID ctx = (case cx_span ctx of None \<Rightarrow> [] | Some (t, s) \<Rightarrow> t)"

definition GetSpanID :: "'l go_ctx \<Rightarrow> string" where
  "GetSpanID ctx = (case cx_span ctx of None \<Rightarrow> [] | Some (t, s) \<Rightarrow> s)"

definition ContextWithRequestInfo :: "'l go_ctx \<Rightarrow> RequestContext \<Rightarrow> 'l go_ctx" where
  "ContextWithRequestInfo ctx reqCtx = WithValue ctx RequestContextKey (CtxRequest reqCtx)"

text \<open>The type assertion \<open>.(RequestContext)\<close> gives no value when another type is stored.\<close>

definition RequestInfoFromContext :: "'l go_ctx \<Rightarrow> RequestContext option" where
  "RequestInfoFromContext ctx =
     (case cx_values ctx RequestContextKey of Some (CtxRequest rc) \<Rightarrow> Some rc | _ \<Rightarrow> None)"

definition ContextWithLogger :: "'l go_ctx \<Rightarrow> 'l \<Rightarrow> 'l go_ctx" where
  "ContextWithLogger ctx logger = WithValue ctx LoggerContextKey (CtxZap logger)"

definition LoggerFromContext :: "'l go_ctx \<Rightarrow> 'l option" where
  "LoggerFromContext ctx = (case cx_values ctx LoggerContextKey of Some (CtxZap l) \<Rightarrow> Some l | _ \<Rightarrow> None)"

definition ContextWithLogr :: "'l go_ctx \<Rightarrow> 'l \<Rightarrow> 'l go_ctx" where
  "ContextWithLogr ctx logger = WithValue ctx LoggerContextKey (CtxLogr logger)"

text \<open>Without a \<open>logr.Logger\<close> the logger that discards everything (\<open>None\<close>).\<close>

definition LogrFromContext :: "'l go_ctx \<Rightarrow> 'l option" where
  "LogrFromContext ctx = (case cx_values ctx LoggerContextKey of Some (CtxLogr l) \<Rightarrow> Some l | _ \<Rightarrow> None)"

section \<open>Fields\<close>

datatype log_value = LText string | LTime gotime | LRFC3339 gotime

text \<open>A zap field has a key and a value; \<open>logr\<close> gets keys and values in turn.\<close>

type_synonym zap_field = "string \<times> log_value"

definition opt_field :: "string \<Rightarrow> string \<Rightarrow> zap_field list" where
  "opt_field key s = (if s \<noteq> [] then [(key, LText s)] else [])"

definition opt_values :: "string \<Rightarrow> string \<Rightarrow> log_value list" where
  "opt_values key s = (if s \<noteq> [] then [LText key, LText s] else [])"

definition WithTraceContext :: "(zap_field list \<Rightarrow> 'l \<Rightarrow> 'l) \<Rightarrow> 'l go_ctx \<Rightarrow> 'l \<Rightarrow> 'l" where
  "WithTraceContext with_fields ctx logger =
     (let fields = opt_field ''trace.id'' (GetTraceID ctx) @ opt_field ''span.id'' (GetSpanID ctx)
      in if fields \<noteq> [] then with_fields fields logger else logger)"

definition WithTraceContextLogr :: "(log_value list \<Rightarrow> 'l \<Rightarrow> 'l) \<Rightarrow> 'l go_ctx \<Rightarrow> 'l \<Rightarrow> 'l" where
  "WithTraceContextLogr with_values ctx logger =
     (let values = opt_values ''trace.id'' (GetTraceID ctx) @ opt_values ''span.id'' (GetSpanID ctx)
      in if values \<noteq> [] then with_values values logger else logger)"

definition EnrichLogger :: "(zap_field list \<Rightarrow> 'l \<Rightarrow> 'l) \<Rightarrow> 'l go_ctx \<Rightarrow> 'l \<Rightarrow> 'l" where
  "EnrichLogger with_fields ctx logger0 =
     (let logger = WithTraceContext with_fields ctx logger0 in
      case RequestInfoFromContext ctx of
        None \<Rightarrow> logger
      | Some rc \<Rightarrow>
          let fields =
            opt_field ''request.id'' (rc_RequestID rc) @ opt_field ''operation'' (rc_Operation rc)
            @ opt_field ''resource'' (rc_Resource rc) @ opt_field ''namespace'' (rc_Namespace rc)
            @ opt_field ''user_agent'' (rc_UserAgent rc) @ opt_field ''remote_ip'' (rc_RemoteIP rc)
            @ (if \<not> time_is_zero (rc_StartTime rc) then [(''start_time'', LTime (rc_StartTime rc))] else [])
          in if fields \<noteq> [] then with_fields fields logger else logger)"

definition EnrichLogr :: "(log_value list \<Rightarrow> 'l \<Rightarrow> 'l) \<Rightarrow> 'l go_ctx \<Rightarrow> 'l \<Rightarrow> 'l" where
  "EnrichLogr with_values ctx logger0 =
     (let logger = WithTraceContextLogr with_values ctx logger0 in
      case RequestInfoFromContext ctx of
        None \<Rightarrow> logger
      | Some rc \<Rightarrow>
          let values =
            opt_values ''request.id'' (rc_RequestID rc) @ opt_values ''operation'' (rc_Operation rc)
            @ opt_values ''resource'' (rc_Resource rc) @ opt_values ''namespace'' (rc_Namespace rc)
            @ opt_values ''user_agent'' (rc_UserAgent rc) @ opt_values ''remote_ip'' (rc_RemoteIP rc)
            @ (if \<not> time_is_zero (rc_StartTime rc)
               then [LText ''start_time'', LRFC3339 (rc_StartTime rc)] else [])
          in if values \<noteq> [] then with_values values logger else logger)"

section \<open>The middleware\<close>

datatype 'l log_event =
    LogStarted 'l
  | LogFailed 'l go_error duration duration
  | LogCompleted 'l duration duration

text \<open>
  The wrapped reconciler takes the context, the request and the world, and returns the requeue delay, its error and
  the world. The request identifier is the formatted current time.
\<close>

definition ReconcilerMiddleware ::
  "(zap_field list \<Rightarrow> 'l \<Rightarrow> 'l) \<Rightarrow> ('w \<Rightarrow> gotime \<times> 'w) \<Rightarrow> (gotime \<Rightarrow> string) \<Rightarrow> 'l
   \<Rightarrow> ('l go_ctx \<Rightarrow> string \<Rightarrow> string \<Rightarrow> 'w \<Rightarrow> duration \<times> go_error option \<times> 'w)
   \<Rightarrow> 'l go_ctx \<Rightarrow> string \<Rightarrow> string \<Rightarrow> 'w \<Rightarrow> duration \<times> go_error option \<times> 'w \<times> 'l log_event list" where
  "ReconcilerMiddleware with_fields now format logger reconciler ctx name namespace w =
     (let (startTime, w1) = now w;
          (idTime, w2) = now w1;
          rc = \<lparr>rc_RequestID = format idTime, rc_UserAgent = [], rc_RemoteIP = [], rc_Operation = ''reconcile'',
                rc_Resource = name, rc_Namespace = namespace, rc_StartTime = startTime,
                rc_TraceID = GetTraceID ctx, rc_SpanID = GetSpanID ctx\<rparr>;
          ctx1 = ContextWithRequestInfo ctx rc;
          enriched = EnrichLogger with_fields ctx1 logger;
          ctx2 = ContextWithLogger ctx1 enriched;
          (requeueAfter, err, w3) = reconciler ctx2 name namespace w2;
          (t, w4) = now w3;
          duration = time_sub t startTime
      in (requeueAfter, err, w4,
          [LogStarted enriched,
           (case err of
              Some e \<Rightarrow> LogFailed enriched e duration requeueAfter
            | None \<Rightarrow> LogCompleted enriched duration requeueAfter)]))"

section \<open>Properties\<close>

lemma log_defaults_valid:
  assumes "parse ''info'' \<noteq> None" and "parse ''debug'' \<noteq> None"
  shows "LogConfig_Validate parse (log_NewEnvironmentConfig e) = (None, log_NewEnvironmentConfig e)"
  using assms
  by (simp add: log_NewEnvironmentConfig_def log_NewDefaultConfig_def LogConfig_Validate_def GetLevel_def
      LogSampling_Validate_def Let_def FormatJSON_def FormatConsole_def)

text \<open>The two ways of enriching a logger attach the same information: the keys and values handed to a \<open>logr\<close> logger are
  those handed to a zap logger, in the same order, with the start time formatted; in particular the same
  ones are left out.\<close>

theorem enrichments_agree:
  "EnrichLogr with_values ctx logger
   = EnrichLogger (\<lambda>fields. with_values (concat (map (\<lambda>(k, v).
        [LText k, case v of LTime t \<Rightarrow> LRFC3339 t | x \<Rightarrow> x]) fields))) ctx logger"
proof -
  let ?flat = "\<lambda>fields. concat (map (\<lambda>(k, v). [LText k, case v of LTime t \<Rightarrow> LRFC3339 t | x \<Rightarrow> x]) fields)"
  have o: "opt_values k s = ?flat (opt_field k s)" for k s by (simp add: opt_values_def opt_field_def)
  have n: "?flat fields = [] \<longleftrightarrow> fields = []" for fields :: "zap_field list" by (cases fields) auto
  have t: "WithTraceContextLogr with_values ctx logger = WithTraceContext (\<lambda>fields. with_values (?flat fields)) ctx logger"
    unfolding WithTraceContextLogr_def WithTraceContext_def Let_def o map_append [symmetric] concat_append [symmetric] n ..
  show ?thesis
  proof (cases "RequestInfoFromContext ctx")
    case None
    then show ?thesis by (simp add: EnrichLogr_def EnrichLogger_def t Let_def)
  next
    case (Some rc)
    have s: "(if \<not> time_is_zero (rc_StartTime rc) then [LText ''start_time'', LRFC3339 (rc_StartTime rc)] else [])
        = ?flat (if \<not> time_is_zero (rc_StartTime rc) then [(''start_time'', LTime (rc_StartTime rc))] else [])"
      by simp
    show ?thesis
      unfolding EnrichLogr_def EnrichLogger_def t Let_def Some option.case o s
        map_append [symmetric] concat_append [symmetric] n ..
  qed
qed

text \<open>The middleware is transparent and the request reaches the wrapped reconciler: its result and error are
  returned unchanged, and the context it receives carries the request information and the zap logger, while a
  lookup of a \<open>logr\<close> logger in that context finds none, because both kinds share one key.\<close>

theorem middleware_transparent:
  assumes "now w = (t0, w1)" and "now w1 = (t1, w2)"
  shows "\<exists>ctx' rc. (case reconciler ctx' name namespace w2 of (d, err, w3) \<Rightarrow>
        ReconcilerMiddleware with_fields now format logger reconciler ctx name namespace w
        = (d, err, snd (now w3),
           [LogStarted (EnrichLogger with_fields ctx' logger),
            case err of
              Some e \<Rightarrow> LogFailed (EnrichLogger with_fields ctx' logger) e (time_sub (fst (now w3)) t0) d
            | None \<Rightarrow> LogCompleted (EnrichLogger with_fields ctx' logger) (time_sub (fst (now w3)) t0) d]))
    \<and> RequestInfoFromContext ctx' = Some rc \<and> rc_Resource rc = name \<and> rc_Namespace rc = namespace
    \<and> rc_StartTime rc = t0
    \<and> LoggerFromContext ctx' = Some (EnrichLogger with_fields ctx' logger) \<and> LogrFromContext ctx' = None"
proof -
  define rc where "rc = \<lparr>rc_RequestID = format t1, rc_UserAgent = [], rc_RemoteIP = [], rc_Operation = ''reconcile'',
      rc_Resource = name, rc_Namespace = namespace, rc_StartTime = t0,
      rc_TraceID = GetTraceID ctx, rc_SpanID = GetSpanID ctx\<rparr>"
  define ctx1 where "ctx1 = ContextWithRequestInfo ctx rc"
  define ctx' where "ctx' = ContextWithLogger ctx1 (EnrichLogger with_fields ctx1 logger)"
  have keys: "RequestContextKey \<noteq> LoggerContextKey" by (simp add: RequestContextKey_def LoggerContextKey_def)
  have r: "RequestInfoFromContext ctx' = RequestInfoFromContext ctx1" "cx_span ctx' = cx_span ctx1"
    using keys by (simp_all add: ctx'_def ContextWithLogger_def WithValue_def RequestInfoFromContext_def)
  have e: "EnrichLogger with_fields ctx' logger = EnrichLogger with_fields ctx1 logger"
    by (simp add: EnrichLogger_def WithTraceContext_def GetTraceID_def GetSpanID_def r)
  have i: "RequestInfoFromContext ctx' = Some rc"
    unfolding r by (simp add: ctx1_def ContextWithRequestInfo_def WithValue_def RequestInfoFromContext_def)
  have l: "LoggerFromContext ctx' = Some (EnrichLogger with_fields ctx1 logger)" "LogrFromContext ctx' = None"
    by (simp_all add: ctx'_def ContextWithLogger_def WithValue_def LoggerFromContext_def LogrFromContext_def)
  have m: "case reconciler ctx' name namespace w2 of (d, err, w3) \<Rightarrow>
        ReconcilerMiddleware with_fields now format logger reconciler ctx name namespace w
        = (d, err, snd (now w3),
           [LogStarted (EnrichLogger with_fields ctx' logger),
            case err of
              Some e \<Rightarrow> LogFailed (EnrichLogger with_fields ctx' logger) e (time_sub (fst (now w3)) t0) d
            | None \<Rightarrow> LogCompleted (EnrichLogger with_fields ctx' logger) (time_sub (fst (now w3)) t0) d])"
    unfolding ReconcilerMiddleware_def assms Let_def prod.case rc_def [symmetric] ctx1_def [symmetric]
      ctx'_def [symmetric] e
    by (simp add: case_prod_unfold)
  show ?thesis
    by (rule exI [of _ ctx'], rule exI [of _ rc]) (intro conjI m i l [folded e], simp_all add: rc_def)
qed

text \<open>Turning sampling off does not turn it off: outside development mode a configuration with \<open>sampling.enabled\<close> false
  is built with the sampling of zap's production configuration, and never with none when that one samples.\<close>

theorem disabled_sampling_still_samples:
  assumes "\<not> ls_Enabled (lc_Sampling config)" and "\<not> lc_Development config"
    and "LogConfig_Validate (zl_parse lib) config = (None, config')"
  shows "\<exists>z. NewLogger lib config = (case zl_Build lib z of Inl e \<Rightarrow> Inl (BuildFailed e) | Inr l \<Rightarrow> Inr l)
    \<and> zc_Sampling z = zc_Sampling (zl_NewProductionConfig lib)"
proof (intro exI conjI)
  show "NewLogger lib config = (case zl_Build lib (zap_config_of lib config') of Inl e \<Rightarrow> Inl (BuildFailed e) | Inr l \<Rightarrow> Inr l)"
    by (simp add: NewLogger_def assms(3))
  have "lc_Development config' = lc_Development config" "lc_Sampling config' = lc_Sampling config"
    using assms(3) by (auto simp: LogConfig_Validate_def split: if_splits option.splits)
  then show "zc_Sampling (zap_config_of lib config') = zc_Sampling (zl_NewProductionConfig lib)"
    using assms(1,2) by (simp add: zap_config_of_def Let_def)
qed

section \<open>Witnesses\<close>

definition demo_zap :: "zap_config zap_lib" where
  "demo_zap =
     (let z = \<lparr>zc_Level = 0, zc_Encoding = [], zc_TimeKey = [], zc_LevelKey = [], zc_NameKey = [], zc_CallerKey = [],
               zc_MessageKey = [], zc_StacktraceKey = [], zc_EncodeTime = [], zc_EncodeLevel = [],
               zc_OutputPaths = [], zc_ErrorOutputPaths = [], zc_Sampling = None\<rparr>
      in \<lparr>zl_parse = (\<lambda>s. if s = ''info'' then Some 0 else None), zl_NewDevelopmentConfig = z,
          zl_NewProductionConfig = z\<lparr>zc_Sampling := Some (100, 100)\<rparr>, zl_Build = Inr\<rparr>)"

theorem disabled_sampling_still_samples_witness:
  "\<exists>z. NewLogger demo_zap log_NewDefaultConfig = Inr z \<and> zc_Sampling z = Some (100, 100)"
proof -
  have v: "LogConfig_Validate (zl_parse demo_zap) log_NewDefaultConfig = (None, log_NewDefaultConfig)"
    by (simp add: demo_zap_def log_NewDefaultConfig_def LogConfig_Validate_def GetLevel_def LogSampling_Validate_def Let_def)
  show ?thesis
    using disabled_sampling_still_samples [OF _ _ v] by (auto simp: log_NewDefaultConfig_def demo_zap_def Let_def)
qed

theorem middleware_transparent_witness:
  "\<exists>ctx' rc. RequestInfoFromContext ctx' = Some rc \<and> rc_Resource rc = ''www'' \<and> rc_StartTime rc = 3
     \<and> LogrFromContext ctx' = (None :: nat option)"
  using middleware_transparent [where now = "\<lambda>t. (t, t + 1)" and w = 3 and name = "''www''" and namespace = "''web''"
      and reconciler = "\<lambda>c n ns t. (0, None, t)" and logger = "0::nat" and with_fields = "\<lambda>fs l. l"
      and format = "\<lambda>t. ''id''" and ctx = "\<lparr>cx_values = (\<lambda>_. None), cx_span = None\<rparr>"] by fastforce

end
