(* ===== verification/Tracing.thy ===== *)
theory Tracing
  imports GoParse GoRuntime "HOL-Library.Finite_Map"
begin

text \<open>
  The tracing configuration of \<open>internal/tracing/config.go\<close> and the provider that \<open>tracer.go\<close> builds from it. The
  OpenTelemetry library is a parameter: what its constructors return. A provider is described by the resource
  attributes, the exporter and the sampler it was given.
\<close>

section \<open>Configuration\<close>

definition ExporterOTLP :: string where "ExporterOTLP = ''otlp''"
definition SamplingTraceIDRatio :: string where "SamplingTraceIDRatio = ''trace_id_ratio''"

record ExporterConfig =
  ex_Type :: string
  ex_Endpoint :: string
  ex_Insecure :: bool
  ex_Headers :: "(string, string) fmap"
  ex_Timeout :: duration
  ex_Compression :: string

record TraceSampling =
  ts_Type :: string
  ts_Ratio :: f64

record TracingConfig =
  tc_Enabled :: bool
  tc_ServiceName :: string
  tc_ServiceVersion :: string
  tc_Environment :: string
  tc_Exporter :: ExporterConfig
  tc_Sampling :: TraceSampling
  tc_ResourceAttributes :: "(string, string) fmap"

definition trace_NewDefaultConfig :: TracingConfig where
  "trace_NewDefaultConfig = \<lparr>tc_Enabled = False, tc_ServiceName = ''k8s-operator-cloudflare'',
     tc_ServiceVersion = ''0.1.0'', tc_Environment = ''development'',
     tc_Exporter = \<lparr>ex_Type = ''console'', ex_Endpoint = [], ex_Insecure = True, ex_Headers = fmempty,
       ex_Timeout = 10 * Second, ex_Compression = ''none''\<rparr>,
     tc_Sampling = \<lparr>ts_Type = ''parent_based'', ts_Ratio = Fin 1\<rparr>, tc_ResourceAttributes = fmempty\<rparr>"

text \<open>The constants 0.5 and 0.1 are the doubles nearest to them.\<close>

definition trace_NewEnvironmentConfig :: "string \<Rightarrow> TracingConfig" where
  "trace_NewEnvironmentConfig environment =
     (let config = trace_NewDefaultConfig\<lparr>tc_Environment := environment\<rparr>; e = ToLower environment in
      if e = ''development'' \<or> e = ''dev'' then
        config\<lparr>tc_Enabled := True, tc_Exporter := (tc_Exporter config)\<lparr>ex_Type := ''console''\<rparr>,
               tc_Sampling := \<lparr>ts_Type = ''always'', ts_Ratio = Fin 1\<rparr>\<rparr>
      else if e = ''staging'' then
        config\<lparr>tc_Enabled := True,
               tc_Exporter := (tc_Exporter config)\<lparr>ex_Type := ExporterOTLP,
                 ex_Endpoint := ''http://localhost:4318/v1/traces''\<rparr>,
               tc_Sampling := \<lparr>ts_Type = SamplingTraceIDRatio, ts_Ratio = f64_of_rat (1/2)\<rparr>\<rparr>
      else if e = ''production'' \<or> e = ''prod'' then
        config\<lparr>tc_Enabled := True,
               tc_Exporter := (tc_Exporter config)\<lparr>ex_Type := ExporterOTLP,
                 ex_Endpoint := ''http://localhost:4318/v1/traces'', ex_Insecure := False\<rparr>,
               tc_Sampling := \<lparr>ts_Type = SamplingTraceIDRatio, ts_Ratio = f64_of_rat (1/10)\<rparr>\<rparr>
      else config\<lparr>tc_Enabled := False\<rparr>)"

datatype trace_error =
    ServiceNameRequired
  | InvalidExporter trace_error
  | InvalidTraceSampling trace_error
  | InvalidExporterType string
  | EndpointRequired string
  | InvalidCompression string
  | InvalidSamplingType string
  | RatioOutOfRange f64
  | InvalidTracingConfig trace_error
  | ResourceFailed go_error
  | ExporterFailed trace_error
  | SamplerFailed trace_error
  | UnsupportedExporter string
  | UnsupportedSampling string
  | LibraryError go_error

text \<open>
  Validation of the exporter also sets the default timeout, before the compression is looked at: the
  configuration is changed even when it is rejected.
\<close>

definition ExporterConfig_Validate :: "ExporterConfig \<Rightarrow> trace_error option \<times> ExporterConfig" where
  "ExporterConfig_Validate e =
     (if ex_Type e \<notin> {''otlp'', ''jaeger'', ''console'', ''none''} then (Some (InvalidExporterType (ex_Type e)), e)
      else if (ex_Type e = ''otlp'' \<or> ex_Type e = ''jaeger'') \<and> ex_Endpoint e = [] then
        (Some (EndpointRequired (ex_Type e)), e)
      else
        let e1 = (if ex_Timeout e \<le> 0 then e\<lparr>ex_Timeout := 10 * Second\<rparr> else e) in
        if ex_Compression e1 \<noteq> [] \<and> ex_Compression e1 \<noteq> ''gzip'' \<and> ex_Compression e1 \<noteq> ''none''
        then (Some (InvalidCompression (ex_Compression e1)), e1)
        else (None, e1))"

definition TraceSampling_Validate :: "TraceSampling \<Rightarrow> trace_error option" where
  "TraceSampling_Validate s =
     (if ts_Type s \<notin> {''always'', ''never'', ''trace_id_ratio'', ''parent_based''}
      then Some (InvalidSamplingType (ts_Type s))
      else if ts_Type s = ''trace_id_ratio'' \<and> (ts_Ratio s < Fin 0 \<or> Fin 1 < ts_Ratio s)
      then Some (RatioOutOfRange (ts_Ratio s))
      else None)"

definition TracingConfig_Validate :: "TracingConfig \<Rightarrow> trace_error option \<times> TracingConfig" where
  "TracingConfig_Validate c =
     (if \<not> tc_Enabled c then (None, c)
      else if tc_ServiceName c = [] then (Some ServiceNameRequired, c)
      else
        (case ExporterConfig_Validate (tc_Exporter c) of
           (Some e, x) \<Rightarrow> (Some (InvalidExporter e), c\<lparr>tc_Exporter := x\<rparr>)
         | (None, x) \<Rightarrow>
             (map_option InvalidTraceSampling (TraceSampling_Validate (tc_Sampling c)), c\<lparr>tc_Exporter := x\<rparr>)))"

definition trace_IsEnabled :: "TracingConfig \<Rightarrow> bool" where
  "trace_IsEnabled c \<longleftrightarrow> tc_Enabled c"

definition GetServiceName :: "TracingConfig \<Rightarrow> string" where
  "GetServiceName c = (if tc_ServiceName c \<noteq> [] then tc_ServiceName c else ''k8s-operator-cloudflare'')"

definition GetServiceVersion :: "TracingConfig \<Rightarrow> string" where
  "GetServiceVersion c = (if tc_ServiceVersion c \<noteq> [] then tc_ServiceVersion c else ''unknown'')"

definition TracingConfig_String :: "TracingConfig \<Rightarrow> string" where
  "TracingConfig_String c = ''enabled='' @ show_bool (tc_Enabled c) @ '', service='' @ GetServiceName c
     @ '', version='' @ GetServiceVersion c @ '', environment='' @ tc_Environment c
     @ '', exporter='' @ ex_Type (tc_Exporter c)"

section \<open>The provider\<close>

text \<open>The options handed to the OTLP constructor, and what the exporters and samplers are.\<close>

datatype otlp_option =
    WithEndpoint string
  | WithTimeout duration
  | WithInsecure
  | WithHeaders "(string, string) fmap"
  | WithGzip

datatype exporter = OTLPExporter "otlp_option list" | StdoutExporter | NoopExporter

datatype sampler = AlwaysSample | NeverSample | RatioBased f64 | ParentBased sampler

text \<open>The library calls that can fail.\<close>

record otel_lib =
  ot_otlp :: "otlp_option list \<Rightarrow> go_error option"
  ot_stdout :: "go_error option"
  ot_resource :: "string \<Rightarrow> string \<Rightarrow> string \<Rightarrow> (string, string) fmap \<Rightarrow> go_error option"

definition createResource :: "otel_lib \<Rightarrow> TracingConfig \<Rightarrow> go_error option" where
  "createResource lib config =
     ot_resource lib (GetServiceName config) (GetServiceVersion config) (tc_Environment config)
       (tc_ResourceAttributes config)"

definition createExporter :: "otel_lib \<Rightarrow> ExporterConfig \<Rightarrow> trace_error + exporter" where
  "createExporter lib config =
     (if ex_Type config = ''otlp'' then
        let opts = [WithEndpoint (ex_Endpoint config), WithTimeout (ex_Timeout config)]
              @ (if ex_Insecure config then [WithInsecure] else [])
              @ (if ex_Headers config \<noteq> fmempty then [WithHeaders (ex_Headers config)] else [])
              @ (if ex_Compression config = ''gzip'' then [WithGzip] else [])
        in (case ot_otlp lib opts of Some e \<Rightarrow> Inl (LibraryError e) | None \<Rightarrow> Inr (OTLPExporter opts))
      else if ex_Type config = ''console'' then
        (case ot_stdout lib of Some e \<Rightarrow> Inl (LibraryError e) | None \<Rightarrow> Inr StdoutExporter)
      else if ex_Type config = ''none'' then Inr NoopExporter
      else Inl (UnsupportedExporter (ex_Type config)))"

definition createSampler :: "TraceSampling \<Rightarrow> trace_error + sampler" where
  "createSampler config =
     (if ts_Type config = ''always'' then Inr AlwaysSample
      else if ts_Type config = ''never'' then Inr NeverSample
      else if ts_Type config = ''trace_id_ratio'' then Inr (RatioBased (ts_Ratio config))
      else if ts_Type config = ''parent_based'' then Inr (ParentBased (RatioBased (ts_Ratio config)))
      else Inl (UnsupportedSampling (ts_Type config)))"

text \<open>A provider without exporter and sampler is the no-op one.\<close>

record Provider =
  pv_provider :: "(exporter \<times> sampler) option"
  pv_config :: TracingConfig

definition NewProvider :: "otel_lib \<Rightarrow> TracingConfig \<Rightarrow> trace_error + Provider" where
  "NewProvider lib config0 =
     (case TracingConfig_Validate config0 of
        (Some e, _) \<Rightarrow> Inl (InvalidTracingConfig e)
      | (None, config) \<Rightarrow>
          if \<not> trace_IsEnabled config then Inr \<lparr>pv_provider = None, pv_config = config\<rparr>
          else case createResource lib config of
              Some e \<Rightarrow> Inl (ResourceFailed e)
            | None \<Rightarrow>
                (case createExporter lib (tc_Exporter config) of
                   Inl e \<Rightarrow> Inl (ExporterFailed e)
                 | Inr x \<Rightarrow>
                     (case createSampler (tc_Sampling config) of
                        Inl e \<Rightarrow> Inl (SamplerFailed e)
                      | Inr s \<Rightarrow> Inr \<lparr>pv_provider = Some (x, s), pv_config = config\<rparr>)))"

text \<open>The global provider is replaced only on success.\<close>

definition SetupGlobalTracer :: "otel_lib \<Rightarrow> TracingConfig \<Rightarrow> Provider \<Rightarrow> (trace_error + Provider) \<times> Provider" where
  "SetupGlobalTracer lib config global =
     (case NewProvider lib config of Inl e \<Rightarrow> (Inl e, global) | Inr p \<Rightarrow> (Inr p, p))"

definition provider_IsEnabled :: "Provider \<Rightarrow> bool" where
  "provider_IsEnabled p = trace_IsEnabled (pv_config p)"

definition TracerFromConfig :: "(string \<Rightarrow> string) \<Rightarrow> otel_lib \<Rightarrow> string \<Rightarrow> trace_error + Provider" where
  "TracerFromConfig getenv lib environment =
     (let config = trace_NewEnvironmentConfig environment;
          set = (\<lambda>name (f :: string \<Rightarrow> TracingConfig \<Rightarrow> TracingConfig) c.
                  let v = getenv name in if v \<noteq> [] then f v c else c);
          c1 = set ''TRACING_ENABLED'' (\<lambda>v c. c\<lparr>tc_Enabled := (v = ''true'')\<rparr>) config;
          c2 = set ''TRACING_SERVICE_NAME'' (\<lambda>v c. c\<lparr>tc_ServiceName := v\<rparr>) c1;
          c3 = set ''TRACING_SERVICE_VERSION'' (\<lambda>v c. c\<lparr>tc_ServiceVersion := v\<rparr>) c2;
          c4 = set ''TRACING_EXPORTER_TYPE'' (\<lambda>v c. c\<lparr>tc_Exporter := (tc_Exporter c)\<lparr>ex_Type := v\<rparr>\<rparr>) c3;
          c5 = set ''TRACING_EXPORTER_ENDPOINT'' (\<lambda>v c. c\<lparr>tc_Exporter := (tc_Exporter c)\<lparr>ex_Endpoint := v\<rparr>\<rparr>) c4;
          c6 = set ''TRACING_SAMPLING_TYPE'' (\<lambda>v c. c\<lparr>tc_Sampling := (tc_Sampling c)\<lparr>ts_Type := v\<rparr>\<rparr>) c5
      in NewProvider lib c6)"

text \<open>
  \<open>p.provider\<close> is a pointer here, nil in a \<open>Provider\<close> that \<open>NewProvider\<close> has not made; the tracer and the shutdown of a
  provider are the library's.
\<close>

definition Provider_Tracer :: "('p \<Rightarrow> string \<Rightarrow> 'opt list \<Rightarrow> 't) \<Rightarrow> 'p \<Rightarrow> string \<Rightarrow> 'opt list \<Rightarrow> 't" where
  "Provider_Tracer lib_tracer p name opts = lib_tracer p name opts"

definition Provider_Shutdown :: "('p \<Rightarrow> 'ctx \<Rightarrow> go_error option) \<Rightarrow> 'p option \<Rightarrow> 'ctx \<Rightarrow> go_error option" where
  "Provider_Shutdown lib_shutdown p ctx = (case p of None \<Rightarrow> None | Some q \<Rightarrow> lib_shutdown q ctx)"

text \<open>The exporter of type \<open>none\<close>: it accepts every span and drops it.\<close>

definition noop_ExportSpans :: "'ctx \<Rightarrow> 'span list \<Rightarrow> go_error option" where
  "noop_ExportSpans ctx spans = None"

definition noop_Shutdown :: "'ctx \<Rightarrow> go_error option" where
  "noop_Shutdown ctx = None"

section \<open>Spans\<close>

text \<open>What the helpers use of OpenTelemetry: contexts carry a span, and a span has a context with identifiers.\<close>

record ('ctx, 'span, 'opt) span_api =
  sa_Start :: "string \<Rightarrow> 'ctx \<Rightarrow> string \<Rightarrow> 'opt list \<Rightarrow> 'ctx \<times> 'span"
  sa_SpanFromContext :: "'ctx \<Rightarrow> 'span"
  sa_ContextWithSpan :: "'ctx \<Rightarrow> 'span \<Rightarrow> 'ctx"
  sa_IsValid :: "'span \<Rightarrow> bool"
  sa_TraceID :: "'span \<Rightarrow> string"
  sa_SpanID :: "'span \<Rightarrow> string"

definition StartSpan :: "('ctx, 'span, 'opt) span_api \<Rightarrow> 'ctx \<Rightarrow> string \<Rightarrow> 'opt list \<Rightarrow> 'ctx \<times> 'span" where
  "StartSpan api ctx name opts = sa_Start api ''k8s-operator-cloudflare'' ctx name opts"

definition SpanFromContext :: "('ctx, 'span, 'opt) span_api \<Rightarrow> 'ctx \<Rightarrow> 'span" where
  "SpanFromContext api ctx = sa_SpanFromContext api ctx"

definition ContextWithSpan :: "('ctx, 'span, 'opt) span_api \<Rightarrow> 'ctx \<Rightarrow> 'span \<Rightarrow> 'ctx" where
  "ContextWithSpan api ctx sp = sa_ContextWithSpan api ctx sp"

definition trace_GetTraceID :: "('ctx, 'span, 'opt) span_api \<Rightarrow> 'ctx \<Rightarrow> string" where
  "trace_GetTraceID api ctx =
     (let sp = SpanFromContext api ctx in if \<not> sa_IsValid api sp then [] else sa_TraceID api sp)"

definition trace_GetSpanID :: "('ctx, 'span, 'opt) span_api \<Rightarrow> 'ctx \<Rightarrow> string" where
  "trace_GetSpanID api ctx =
     (let sp = SpanFromContext api ctx in if \<not> sa_IsValid api sp then [] else sa_SpanID api sp)"

text \<open>A span put into a context is the one whose identifiers are read; without a valid span they are empty.\<close>

lemma ids_of_span:
  assumes "\<And>ctx sp. sa_SpanFromContext api (sa_ContextWithSpan api ctx sp) = sp"
  shows "trace_GetTraceID api (ContextWithSpan api ctx sp) = (if sa_IsValid api sp then sa_TraceID api sp else [])"
    and "trace_GetSpanID api (ContextWithSpan api ctx sp) = (if sa_IsValid api sp then sa_SpanID api sp else [])"
  by (simp_all add: trace_GetTraceID_def trace_GetSpanID_def SpanFromContext_def ContextWithSpan_def Let_def assms)

section \<open>Properties\<close>

text \<open>The library accepts everything it is asked for.\<close>

definition otel_works :: "otel_lib \<Rightarrow> bool" where
  "otel_works lib \<longleftrightarrow> (\<forall>opts. ot_otlp lib opts = None) \<and> ot_stdout lib = None
     \<and> (\<forall>n v e attrs. ot_resource lib n v e attrs = None)"

lemma validated_timeout:
  "ExporterConfig_Validate e = (None, e') \<Longrightarrow> 0 < ex_Timeout e' \<and> ex_Type e' = ex_Type e \<and> ex_Endpoint e' = ex_Endpoint e"
  by (auto simp: ExporterConfig_Validate_def Let_def split: if_splits)

text \<open>A tracing configuration that validation accepts yields a provider, unless its exporter is \<open>jaeger\<close>, which
  validation accepts and the provider does not support: with a library that accepts everything, building the
  provider fails exactly on invalid configurations and on enabled ones with the Jaeger exporter. A provider
  that is built has an exporter with a positive timeout, and a sampler, exactly when tracing is enabled.\<close>

theorem provider_or_jaeger:
  assumes "otel_works lib"
  shows "(case NewProvider lib config of
      Inr p \<Rightarrow> fst (TracingConfig_Validate config) = None \<and> provider_IsEnabled p = tc_Enabled config
        \<and> (pv_provider p \<noteq> None \<longleftrightarrow> tc_Enabled config)
        \<and> (tc_Enabled config \<longrightarrow> 0 < ex_Timeout (tc_Exporter (pv_config p)) \<and> ex_Type (tc_Exporter config) \<noteq> ''jaeger'')
    | Inl e \<Rightarrow> (case fst (TracingConfig_Validate config) of
        Some v \<Rightarrow> e = InvalidTracingConfig v
      | None \<Rightarrow> tc_Enabled config \<and> ex_Type (tc_Exporter config) = ''jaeger''
          \<and> e = ExporterFailed (UnsupportedExporter ''jaeger'')))"
proof (cases "TracingConfig_Validate config")
  case (Pair v c)
  show ?thesis
  proof (cases v)
    case (Some e)
    then show ?thesis by (simp add: NewProvider_def Pair)
  next
    case None
    show ?thesis
    proof (cases "tc_Enabled config")
      case False
      then have "c = config" using Pair by (simp add: TracingConfig_Validate_def)
      then show ?thesis using False None Pair by (simp add: NewProvider_def provider_IsEnabled_def trace_IsEnabled_def)
    next
      case True
      obtain x where x: "ExporterConfig_Validate (tc_Exporter config) = (None, x)" "c = config\<lparr>tc_Exporter := x\<rparr>"
        "TraceSampling_Validate (tc_Sampling config) = None"
        using Pair None True by (auto simp: TracingConfig_Validate_def split: if_splits prod.splits option.splits)
      obtain s where s: "createSampler (tc_Sampling config) = Inr s"
        using x(3) by (auto simp: TraceSampling_Validate_def createSampler_def split: if_splits)
      have t: "ex_Type x \<in> {''otlp'', ''jaeger'', ''console'', ''none''}"
        using x(1) by (auto simp: ExporterConfig_Validate_def Let_def split: if_splits)
      have e: "createExporter lib x = (if ex_Type x = ''jaeger'' then Inl (UnsupportedExporter ''jaeger'')
          else Inr (the (case createExporter lib x of Inr y \<Rightarrow> Some y | Inl _ \<Rightarrow> None)))"
        using t assms by (auto simp: createExporter_def otel_works_def Let_def)
      show ?thesis
        using validated_timeout [OF x(1)] True None Pair x s e assms
        by (cases "ex_Type x = ''jaeger''")
          (auto simp: NewProvider_def provider_IsEnabled_def trace_IsEnabled_def createResource_def otel_works_def
            split: sum.splits)
    qed
  qed
qed

text \<open>The built-in tracing configuration of every environment is valid, tracing is on exactly in development, staging and
  production (in either spelling and any case), and the ratio-based samplers get a ratio between 0 and 1.\<close>

theorem environment_tracing_valid:
  "TracingConfig_Validate (trace_NewEnvironmentConfig env) = (None, trace_NewEnvironmentConfig env)
   \<and> (tc_Enabled (trace_NewEnvironmentConfig env)
      \<longleftrightarrow> ToLower env \<in> {''development'', ''dev'', ''staging'', ''production'', ''prod''})
   \<and> (\<exists>q. ts_Ratio (tc_Sampling (trace_NewEnvironmentConfig env)) = Fin q \<and> 0 \<le> q \<and> q \<le> 1)"
proof -
  have ratio: "\<exists>r. f64_of_rat q = Fin r \<and> 0 \<le> r \<and> r \<le> 1" if "0 \<le> q" "q \<le> 1" for q
    using f64_of_rat_between [of "of_int 0" "of_int 1" q] representable_of_int [of 0] representable_of_int [of 1] that
      of_int_le_max_f64 [of 1]
    by auto
  have e: "ToLower env \<in> {''development'', ''dev''} \<or> ToLower env = ''staging'' \<or> ToLower env \<in> {''production'', ''prod''}
      \<or> ToLower env \<notin> {''development'', ''dev'', ''staging'', ''production'', ''prod''}" by blast
  have r: "\<not> (x < Fin 0) \<and> \<not> (Fin 1 < x)" if "x = Fin q" "0 \<le> q" "q \<le> 1" for x q using that by simp
  note defs = trace_NewEnvironmentConfig_def trace_NewDefaultConfig_def TracingConfig_Validate_def
    ExporterConfig_Validate_def TraceSampling_Validate_def ExporterOTLP_def SamplingTraceIDRatio_def Let_def
  from ratio [of "1/2"] obtain h where h: "f64_of_rat (1/2) = Fin h" "0 \<le> h" "h \<le> 1" by auto
  from ratio [of "1/10"] obtain t where t: "f64_of_rat (1/10) = Fin t" "0 \<le> t" "t \<le> 1" by auto
  from e consider (dev) "ToLower env \<in> {''development'', ''dev''}" | (staging) "ToLower env = ''staging''"
    | (prod) "ToLower env \<in> {''production'', ''prod''}"
    | (other) "ToLower env \<notin> {''development'', ''dev'', ''staging'', ''production'', ''prod''}" by blast
  then show ?thesis
  proof cases
    case dev
    then show ?thesis by (auto simp: defs)
  next
    case staging
    then show ?thesis using h by (simp add: defs)
  next
    case prod
    then show ?thesis using t by (auto simp: defs)
  next
    case other
    then show ?thesis by (simp add: defs)
  qed
qed

definition demo_otel :: otel_lib where
  "demo_otel = \<lparr>ot_otlp = (\<lambda>_. None), ot_stdout = None, ot_resource = (\<lambda>_ _ _ _. None)\<rparr>"

definition jaeger_config :: TracingConfig where
  "jaeger_config = trace_NewDefaultConfig\<lparr>tc_Enabled := True,
     tc_Exporter := (tc_Exporter trace_NewDefaultConfig)\<lparr>ex_Type := ''jaeger'', ex_Endpoint := ''jaeger:4318''\<rparr>\<rparr>"

theorem provider_or_jaeger_witness:
  "fst (TracingConfig_Validate jaeger_config) = None
   \<and> NewProvider demo_otel jaeger_config = Inl (ExporterFailed (UnsupportedExporter ''jaeger''))"
proof -
  have w: "otel_works demo_otel" by (simp add: otel_works_def demo_otel_def)
  have v: "fst (TracingConfig_Validate jaeger_config) = None"
    by (simp add: TracingConfig_Validate_def ExporterConfig_Validate_def TraceSampling_Validate_def jaeger_config_def
        trace_NewDefaultConfig_def Let_def)
  have j: "tc_Enabled jaeger_config" "ex_Type (tc_Exporter jaeger_config) = ''jaeger''" by (simp_all add: jaeger_config_def)
  show ?thesis
  proof (cases "NewProvider demo_otel jaeger_config")
    case (Inl e)
    with provider_or_jaeger [OF w, of jaeger_config] v show ?thesis by simp
  next
    case (Inr p)
    with provider_or_jaeger [OF w, of jaeger_config] j show ?thesis by simp
  qed
qed

end
