(* ===== verification/Health.thy ===== *)
theory Health
  imports GoParse GoRuntime
begin

text \<open>
  Health checks (\<open>internal/health/checker.go\<close>), graceful shutdown (\<open>shutdown.go\<close>) and the profiling switch
  (\<open>profiling.go\<close>). The Kubernetes and Cloudflare clients are parameters: what a call on them gives, a panic included.
\<close>

section \<open>Interface values\<close>

text \<open>
  A Go interface that holds a nil pointer is not nil: \<open>NilIface\<close> is the nil interface, \<open>Holds None\<close> holds a
  nil pointer. A call on a client returns or panics.
\<close>

datatype 'a iface = NilIface | Holds "'a option"

datatype 'a call = Panics | Returns 'a

text \<open>
  The clients: the server version, the kinds of the resources of a group version, and the status of an API token,
  each with an error.
\<close>

record clients =
  hc_ServerVersion :: "unit option \<Rightarrow> (go_error option) call"
  hc_ServerResources :: "unit option \<Rightarrow> string \<Rightarrow> (go_error + string list) call"
  hc_VerifyAPIToken :: "unit option \<Rightarrow> (go_error + string) call"

record Checker =
  ck_k8sClient :: "unit iface"
  ck_discoveryClient :: "unit iface"
  ck_manager :: bool
  ck_cloudflareAPI :: "unit iface"

text \<open>
  \<open>NewChecker\<close>: the constructors of the clients give a pointer, nil when they fail (their errors are dropped), and the
  pointers are stored in interface fields. The manager is not nil (it has been asked for its configuration).
\<close>

definition NewChecker :: "unit option \<Rightarrow> unit option \<Rightarrow> unit option \<Rightarrow> Checker" where
  "NewChecker k8sClient discoveryClient cfAPI =
     \<lparr>ck_k8sClient = Holds k8sClient, ck_discoveryClient = Holds discoveryClient, ck_manager = True,
      ck_cloudflareAPI = Holds cfAPI\<rparr>"

section \<open>Checks\<close>

definition errorf :: "string \<Rightarrow> go_error \<Rightarrow> go_error" where
  "errorf p e = ErrWrap (p @ '': '') e"

definition checkKubernetesAPI :: "clients \<Rightarrow> Checker \<Rightarrow> (go_error option) call" where
  "checkKubernetesAPI hc c =
     (case ck_k8sClient c of
        NilIface \<Rightarrow> Returns (Some (ErrNew ''kubernetes client not initialized''))
      | Holds p \<Rightarrow>
          (case hc_ServerVersion hc p of
             Panics \<Rightarrow> Panics
           | Returns (Some e) \<Rightarrow> Returns (Some (errorf ''failed to get server version'' e))
           | Returns None \<Rightarrow> Returns None))"

definition checkCRDAvailability :: "clients \<Rightarrow> Checker \<Rightarrow> (go_error option) call" where
  "checkCRDAvailability hc c =
     (case ck_discoveryClient c of
        NilIface \<Rightarrow> Returns (Some (ErrNew ''discovery client not initialized''))
      | Holds p \<Rightarrow>
          (case hc_ServerResources hc p ''dns.cloudflare.io/v1'' of
             Panics \<Rightarrow> Panics
           | Returns (Inl e) \<Rightarrow> Returns (Some (errorf ''failed to get API resources'' e))
           | Returns (Inr kinds) \<Rightarrow>
               Returns (if ''CloudflareRecord'' \<in> set kinds then None
                        else Some (ErrNew ''CloudflareRecord CRD not found''))))"

text \<open>A panic of the verification is recovered from, which returns the zero value: no error.\<close>

definition checkCloudflareAPI :: "clients \<Rightarrow> Checker \<Rightarrow> (go_error option) call" where
  "checkCloudflareAPI hc c =
     (case ck_cloudflareAPI c of
        NilIface \<Rightarrow> Returns None
      | Holds p \<Rightarrow>
          (case hc_VerifyAPIToken hc p of
             Panics \<Rightarrow> Returns None
           | Returns (Inl e) \<Rightarrow> Returns None
           | Returns (Inr status) \<Rightarrow> if status \<noteq> ''active'' then Returns None else Returns None))"

definition checkLeaderElectionStatus :: "Checker \<Rightarrow> (go_error option) call" where
  "checkLeaderElectionStatus c =
     (if \<not> ck_manager c then Returns (Some (ErrNew ''manager not initialized'')) else Returns None)"

text \<open>One check after another: an error is wrapped and ends the sequence, a panic goes through.\<close>

definition check_then :: "string \<Rightarrow> (go_error option) call \<Rightarrow> (go_error option) call \<Rightarrow> (go_error option) call" where
  "check_then what r next =
     (case r of
        Panics \<Rightarrow> Panics
      | Returns (Some e) \<Rightarrow> Returns (Some (errorf what e))
      | Returns None \<Rightarrow> next)"

definition LivenessCheck :: "clients \<Rightarrow> Checker \<Rightarrow> (go_error option) call" where
  "LivenessCheck hc c =
     (if \<not> ck_manager c then Returns (Some (ErrNew ''manager is not initialized''))
      else check_then ''kubernetes API check failed'' (checkKubernetesAPI hc c) (Returns None))"

definition ReadinessCheck :: "clients \<Rightarrow> Checker \<Rightarrow> (go_error option) call" where
  "ReadinessCheck hc c =
     check_then ''kubernetes API not ready'' (checkKubernetesAPI hc c)
    (check_then ''CRD not ready'' (checkCRDAvailability hc c)
    (check_then ''cloudflare API not ready''
       (if ck_cloudflareAPI c \<noteq> NilIface then checkCloudflareAPI hc c else Returns None)
    (check_then ''leader election not ready'' (checkLeaderElectionStatus c) (Returns None))))"

definition GetHealthzHandler :: "clients \<Rightarrow> Checker \<Rightarrow> (go_error option) call" where
  "GetHealthzHandler hc c = LivenessCheck hc c"

definition GetReadyzHandler :: "clients \<Rightarrow> Checker \<Rightarrow> (go_error option) call" where
  "GetReadyzHandler hc c = ReadinessCheck hc c"

section \<open>Graceful shutdown\<close>

text \<open>A callback takes the deadline of its context and the world, and returns its error.\<close>

type_synonym 'w callback = "gotime \<Rightarrow> 'w \<Rightarrow> go_error option \<times> 'w"

record 'w GracefulShutdownManager =
  gs_callbacks :: "'w callback list"
  gs_timeout :: duration

definition NewGracefulShutdownManager :: "duration \<Rightarrow> 'w GracefulShutdownManager" where
  "NewGracefulShutdownManager timeout = \<lparr>gs_callbacks = [], gs_timeout = timeout\<rparr>"

definition AddShutdownCallback :: "'w callback \<Rightarrow> 'w GracefulShutdownManager \<Rightarrow> 'w GracefulShutdownManager" where
  "AddShutdownCallback cb g = g\<lparr>gs_callbacks := gs_callbacks g @ [cb]\<rparr>"

text \<open>\<open>for i := len(callbacks) - 1; i >= 0; i--\<close>; the errors are logged with their index.\<close>

fun run_callbacks :: "gotime \<Rightarrow> 'w callback list \<Rightarrow> nat \<Rightarrow> 'w \<Rightarrow> (nat \<times> go_error) list \<times> 'w" where
  "run_callbacks deadline cbs 0 w = ([], w)"
| "run_callbacks deadline cbs (Suc i) w =
     (let (err, w1) = (cbs ! i) deadline w;
          (logged, w2) = run_callbacks deadline cbs i w1
      in ((case err of Some e \<Rightarrow> [(i, e)] | None \<Rightarrow> []) @ logged, w2))"

definition executeGracefulShutdown ::
  "gotime \<Rightarrow> 'w GracefulShutdownManager \<Rightarrow> 'w \<Rightarrow> (nat \<times> go_error) list \<times> 'w" where
  "executeGracefulShutdown now g w =
     (let callbacks = gs_callbacks g
      in run_callbacks (time_add now (gs_timeout g)) callbacks (length callbacks) w)"

text \<open>The signals that start the shutdown; others are not delivered to the channel.\<close>

datatype signal = SIGTERM | SIGINT | OtherSignal string

fun WaitForShutdownSignal ::
  "gotime \<Rightarrow> 'w GracefulShutdownManager \<Rightarrow> signal list \<Rightarrow> 'w \<Rightarrow> ((nat \<times> go_error) list \<times> 'w) option" where
  "WaitForShutdownSignal now g [] w = None"
| "WaitForShutdownSignal now g (sig # sigs) w =
     (if sig = SIGTERM \<or> sig = SIGINT then Some (executeGracefulShutdown now g w)
      else WaitForShutdownSignal now g sigs w)"

text \<open>The default callbacks log, and the first sleeps two seconds.\<close>

definition DefaultShutdownCallbacks ::
  "(duration \<Rightarrow> 'w \<Rightarrow> 'w) \<Rightarrow> (string \<Rightarrow> 'w \<Rightarrow> 'w) \<Rightarrow> 'w callback list" where
  "DefaultShutdownCallbacks sleep info =
     [\<lambda>_ w. (None, sleep (2 * Second) (info ''Waiting for in-flight reconciliations to complete'' w)),
      \<lambda>_ w. (None, info ''Closing external connections'' w),
      \<lambda>_ w. (None, info ''Performing final cleanup'' w)]"

section \<open>Profiling\<close>

definition isPprofEnabled :: "(string \<Rightarrow> string) \<Rightarrow> bool" where
  "isPprofEnabled getenv =
     (let enabled = getenv ''ENABLE_PPROF'' in
      case (if enabled \<noteq> [] then ParseBool enabled else None) of
        Some val \<Rightarrow> val
      | None \<Rightarrow> getenv ''GO_ENV'' = ''development'')"

definition SetupProfiling :: "(string \<Rightarrow> string) \<Rightarrow> string list \<Rightarrow> string list" where
  "SetupProfiling getenv mux =
     (if \<not> isPprofEnabled getenv then mux
      else mux @ [''/debug/pprof/'', ''/debug/pprof/cmdline'', ''/debug/pprof/profile'', ''/debug/pprof/symbol'',
        ''/debug/pprof/trace'', ''/debug/pprof/goroutine'', ''/debug/pprof/heap'', ''/debug/pprof/threadcreate'',
        ''/debug/pprof/block'', ''/debug/pprof/mutex''])"

section \<open>Properties\<close>

lemma cloudflare_always_fine: "checkCloudflareAPI hc c = Returns None"
  by (simp add: checkCloudflareAPI_def split: iface.split call.split sum.split)

text \<open>Readiness is decided by Kubernetes alone: the operator is ready exactly when the API server answers and serves the
  CloudflareRecord kind, whatever the Cloudflare API says about the token, and a panic of the Cloudflare client never
  escapes. Whenever it is ready it is live too.\<close>

theorem readiness_ignores_cloudflare:
  assumes "ck_manager c"
  shows "(ReadinessCheck hc c = Returns None
      \<longleftrightarrow> checkKubernetesAPI hc c = Returns None \<and> checkCRDAvailability hc c = Returns None)
    \<and> (ReadinessCheck hc c = Panics
      \<longleftrightarrow> checkKubernetesAPI hc c = Panics
        \<or> checkKubernetesAPI hc c = Returns None \<and> checkCRDAvailability hc c = Panics)
    \<and> ReadinessCheck (hc\<lparr>hc_VerifyAPIToken := v\<rparr>) c = ReadinessCheck hc c
    \<and> (ReadinessCheck hc c = Returns None \<longrightarrow> LivenessCheck hc c = Returns None)"
proof -
  let ?r = "\<lambda>hc. check_then ''kubernetes API not ready'' (checkKubernetesAPI hc c)
      (check_then ''CRD not ready'' (checkCRDAvailability hc c) (Returns None))"
  have r: "ReadinessCheck hc c = ?r hc" for hc
    using assms by (simp add: ReadinessCheck_def cloudflare_always_fine checkLeaderElectionStatus_def check_then_def
        split: call.split option.split)
  have "checkKubernetesAPI (hc\<lparr>hc_VerifyAPIToken := v\<rparr>) c = checkKubernetesAPI hc c"
    "checkCRDAvailability (hc\<lparr>hc_VerifyAPIToken := v\<rparr>) c = checkCRDAvailability hc c"
    by (simp_all add: checkKubernetesAPI_def checkCRDAvailability_def split: iface.split)
  then have v: "?r (hc\<lparr>hc_VerifyAPIToken := v\<rparr>) = ?r hc" by simp
  show ?thesis
    unfolding r v LivenessCheck_def
    using assms by (auto simp: check_then_def split: call.splits option.splits)
qed

text \<open>A checker made by \<open>NewChecker\<close> never reports a missing client: the fields hold pointers, so they are not nil even when
  the constructors failed or no Cloudflare API was configured, and the checks call the nil pointers instead.\<close>

theorem missing_clients_not_noticed:
  "checkKubernetesAPI hc (NewChecker k d a) \<noteq> Returns (Some (ErrNew ''kubernetes client not initialized''))
   \<and> checkCRDAvailability hc (NewChecker k d a) \<noteq> Returns (Some (ErrNew ''discovery client not initialized''))
   \<and> (hc_ServerVersion hc None = Panics \<longrightarrow> LivenessCheck hc (NewChecker None d a) = Panics)
   \<and> ck_cloudflareAPI (NewChecker k d None) \<noteq> NilIface"
  by (auto simp: NewChecker_def checkKubernetesAPI_def checkCRDAvailability_def LivenessCheck_def check_then_def errorf_def
      split: call.split option.split sum.split)

text \<open>The callbacks with their indices, run in the order of the list.\<close>

primrec in_order :: "gotime \<Rightarrow> (nat \<times> 'w callback) list \<Rightarrow> 'w \<Rightarrow> (nat \<times> go_error) list \<times> 'w" where
  "in_order deadline [] w = ([], w)"
| "in_order deadline (x # xs) w =
     (case (snd x) deadline w of
        (None, w1) \<Rightarrow> in_order deadline xs w1
      | (Some e, w1) \<Rightarrow> (case in_order deadline xs w1 of (es, w2) \<Rightarrow> ((fst x, e) # es, w2)))"

lemma run_callbacks_in_order:
  "n \<le> length cbs \<Longrightarrow> run_callbacks d cbs n w = in_order d (rev (enumerate 0 (take n cbs))) w"
proof (induction n arbitrary: w)
  case (Suc n)
  then have "enumerate 0 (take (Suc n) cbs) = enumerate 0 (take n cbs) @ [(n, cbs ! n)]"
    by (simp add: take_Suc_conv_app_nth enumerate_append_eq)
  then show ?case using Suc by (auto simp: Let_def split: prod.splits option.splits)
qed simp

lemma registered: "gs_callbacks (fold AddShutdownCallback cbs g) = gs_callbacks g @ cbs"
    "gs_timeout (fold AddShutdownCallback cbs g) = gs_timeout g"
  by (induction cbs arbitrary: g) (simp_all add: AddShutdownCallback_def)

text \<open>C40: Shutdown runs every registered callback exactly once, in the reverse order of registration, also when some of them
  fail, under the deadline of the configured timeout, and reports exactly the failures with their indices; it runs
  on the first SIGTERM or SIGINT, and no other signal starts it.\<close>

theorem shutdown_runs_all_in_reverse:
  "WaitForShutdownSignal now (fold AddShutdownCallback cbs (NewGracefulShutdownManager timeout)) sigs w
   = (if SIGTERM \<in> set sigs \<or> SIGINT \<in> set sigs
      then Some (in_order (time_add now timeout) (rev (enumerate 0 cbs)) w) else None)"
proof -
  have "executeGracefulShutdown now (fold AddShutdownCallback cbs (NewGracefulShutdownManager timeout)) w
      = in_order (time_add now timeout) (rev (enumerate 0 cbs)) w"
    by (simp add: executeGracefulShutdown_def run_callbacks_in_order registered NewGracefulShutdownManager_def)
  then show ?thesis
    by (induction sigs) auto
qed

lemma pprof_off_in_production:
  "getenv ''ENABLE_PPROF'' = [] \<Longrightarrow> getenv ''GO_ENV'' \<noteq> ''development'' \<Longrightarrow> SetupProfiling getenv mux = mux"
  by (simp add: SetupProfiling_def isPprofEnabled_def)

section \<open>Witnesses\<close>

theorem readiness_ignores_cloudflare_witness:
  "let hc = \<lparr>hc_ServerVersion = \<lambda>_. Returns None, hc_ServerResources = \<lambda>_ _. Returns (Inr [''CloudflareRecord'']),
             hc_VerifyAPIToken = \<lambda>_. Panics\<rparr>
   in ReadinessCheck hc (NewChecker (Some ()) (Some ()) None) = Returns None"
proof -
  let ?hc = "\<lparr>hc_ServerVersion = \<lambda>_. Returns None, hc_ServerResources = \<lambda>_ _. Returns (Inr [''CloudflareRecord'']),
      hc_VerifyAPIToken = \<lambda>_. Panics\<rparr>"
  have "ck_manager (NewChecker (Some ()) (Some ()) None)" by (simp add: NewChecker_def)
  moreover have "checkKubernetesAPI ?hc (NewChecker (Some ()) (Some ()) None) = Returns None"
    "checkCRDAvailability ?hc (NewChecker (Some ()) (Some ()) None) = Returns None"
    by (simp_all add: checkKubernetesAPI_def checkCRDAvailability_def NewChecker_def)
  ultimately show ?thesis using readiness_ignores_cloudflare by (simp add: Let_def)
qed

theorem missing_clients_not_noticed_witness:
  "LivenessCheck \<lparr>hc_ServerVersion = \<lambda>p. if p = None then Panics else Returns None,
     hc_ServerResources = \<lambda>_ _. Panics, hc_VerifyAPIToken = \<lambda>_. Panics\<rparr> (NewChecker None None None) = Panics"
  using missing_clients_not_noticed [of "\<lparr>hc_ServerVersion = \<lambda>p. if p = None then Panics else Returns None,
     hc_ServerResources = \<lambda>_ _. Panics, hc_VerifyAPIToken = \<lambda>_. Panics\<rparr>" None None None] by simp

end
