(* ===== verification/Startup.thy ===== *)
theory Startup
  imports ControllerProps ConfigWatcher Logging Tracing Health
begin

text \<open>
  The program's start (\<open>cmd/main.go\<close>): what it takes from its flags and environment, the loggers and tracing it sets up, the
  options of the controller manager, the configuration it loads, the reconciler, and the hot reload. The steps
  of the start are in order, each with the library's outcome; the scheme and the controller manager themselves are
  the library's.
\<close>

section \<open>Flags\<close>

record Flags =
  fl_metricsAddr :: string
  fl_metricsCertPath :: string
  fl_metricsCertName :: string
  fl_metricsCertKey :: string
  fl_webhookCertPath :: string
  fl_webhookCertName :: string
  fl_webhookCertKey :: string
  fl_probeAddr :: string
  fl_enableLeaderElection :: bool
  fl_secureMetrics :: bool
  fl_enableHTTP2 :: bool
  fl_leaseDuration :: duration
  fl_renewDeadline :: duration
  fl_retryPeriod :: duration
  fl_leaderResourceName :: string
  fl_leaderResourceNamespace :: string
  fl_logLevel :: string
  fl_logFormat :: string
  fl_enableTracing :: bool

definition default_flags :: Flags where
  "default_flags = \<lparr>fl_metricsAddr = ''0'', fl_metricsCertPath = [],
     fl_metricsCertName = ''tls.crt'', fl_metricsCertKey = ''tls.key'', fl_webhookCertPath = [],
     fl_webhookCertName = ''tls.crt'', fl_webhookCertKey = ''tls.key'', fl_probeAddr = '':8081'', fl_enableLeaderElection = False,
     fl_secureMetrics = True, fl_enableHTTP2 = False, fl_leaseDuration = 15 * Second, fl_renewDeadline = 10 * Second,
     fl_retryPeriod = 2 * Second, fl_leaderResourceName = ''cloudflare-dns-operator-leader'',
     fl_leaderResourceNamespace = [], fl_logLevel = ''info'', fl_logFormat = ''json'', fl_enableTracing = False\<rparr>"

definition DefaultConfigMapName :: string where "DefaultConfigMapName = ''cloudflare-dns-operator-config''"
definition ProductionEnvironment :: string where "ProductionEnvironment = ''production''"
definition DefaultNamespace :: string where "DefaultNamespace = ''default''"

definition getenv_or :: "(string \<Rightarrow> string) \<Rightarrow> string \<Rightarrow> string \<Rightarrow> string" where
  "getenv_or getenv name dflt = (if getenv name = [] then dflt else getenv name)"

definition override :: "string \<Rightarrow> (string \<Rightarrow> 'a \<Rightarrow> 'a) \<Rightarrow> 'a \<Rightarrow> 'a" where
  "override s f c = (if s \<noteq> [] then f s c else c)"

section \<open>Logging and tracing\<close>

definition main_environment :: "(string \<Rightarrow> string) \<Rightarrow> string" where
  "main_environment getenv = getenv_or getenv ''OPERATOR_ENVIRONMENT'' ''development''"

definition main_logging_config :: "Flags \<Rightarrow> (string \<Rightarrow> string) \<Rightarrow> LogConfig" where
  "main_logging_config fl getenv =
     override (getenv ''LOG_FORMAT'') (\<lambda>v c. c\<lparr>lc_Format := v\<rparr>)
    (override (getenv ''LOG_LEVEL'') (\<lambda>v c. c\<lparr>lc_Level := v\<rparr>)
    (override (fl_logFormat fl) (\<lambda>v c. c\<lparr>lc_Format := v\<rparr>)
    (override (fl_logLevel fl) (\<lambda>v c. c\<lparr>lc_Level := v\<rparr>)
      (log_NewEnvironmentConfig (main_environment getenv)))))"

text \<open>The global zap logger and the logger of the controllers; \<open>None\<close> is the default development logger.\<close>

definition main_loggers :: "Flags \<Rightarrow> (string \<Rightarrow> string) \<Rightarrow> 'l zap_lib \<Rightarrow> 'l \<Rightarrow> 'l \<times> 'l option" where
  "main_loggers fl getenv lib global =
     (case SetupGlobalLogger lib (main_logging_config fl getenv) global of
        (Some e, g) \<Rightarrow> (g, None)
      | (None, g) \<Rightarrow>
          (case LogrFromConfig getenv lib (main_environment getenv) of
             Inl e \<Rightarrow> (g, None)
           | Inr l \<Rightarrow> (g, Some l)))"

definition main_tracing_config :: "Flags \<Rightarrow> (string \<Rightarrow> string) \<Rightarrow> TracingConfig" where
  "main_tracing_config fl getenv =
     (let c0 = trace_NewEnvironmentConfig (main_environment getenv);
          c1 = (if fl_enableTracing fl then c0\<lparr>tc_Enabled := True\<rparr> else c0)
      in override (getenv ''TRACING_ENABLED'') (\<lambda>v c. c\<lparr>tc_Enabled := (v = ''true'')\<rparr>) c1)"

text \<open>A provider that cannot be set up is reported and left out.\<close>

definition main_tracing :: "Flags \<Rightarrow> (string \<Rightarrow> string) \<Rightarrow> otel_lib \<Rightarrow> Provider \<Rightarrow> Provider option \<times> Provider" where
  "main_tracing fl getenv lib global =
     (let config = main_tracing_config fl getenv in
      if tc_Enabled config then
        (case SetupGlobalTracer lib config global of
           (Inl e, g) \<Rightarrow> (None, g)
         | (Inr p, g) \<Rightarrow> (Some p, g))
      else (None, global))"

section \<open>The controller manager's options\<close>

text \<open>\<open>filepath.Join\<close> of two elements.\<close>

definition path_join :: "string \<Rightarrow> string \<Rightarrow> string" where
  "path_join a b =
     (if a = [] \<and> b = [] then [] else if a = [] then path_Clean b else if b = [] then path_Clean a
      else path_Clean (a @ ''/'' @ b))"

text \<open>
  The TLS options of the two servers, functions that change a \<open>tls.Config\<close> in the code. Both lists start from
  \<open>tlsOpts\<close>, whose capacity is its length, so the appended certificate of one server never overwrites the other's.
\<close>

datatype tls_opt =
    DisableHTTP2
  | CertificateFrom (tls_cert: string) (tls_key: string)

record tls_config =
  tls_NextProtos :: "string list"
  tls_GetCertificate :: "(string \<times> string) option"

fun apply_tls :: "tls_opt \<Rightarrow> tls_config \<Rightarrow> tls_config" where
  "apply_tls DisableHTTP2 c = c\<lparr>tls_NextProtos := [''http/1.1'']\<rparr>"
| "apply_tls (CertificateFrom cert k) c = c\<lparr>tls_GetCertificate := Some (cert, k)\<rparr>"

definition base_tls_opts :: "Flags \<Rightarrow> tls_opt list" where
  "base_tls_opts fl = (if \<not> fl_enableHTTP2 fl then [DisableHTTP2] else [])"

definition webhook_tls_opts :: "Flags \<Rightarrow> tls_opt list" where
  "webhook_tls_opts fl = base_tls_opts fl @
     (if fl_webhookCertPath fl \<noteq> []
      then [CertificateFrom (path_join (fl_webhookCertPath fl) (fl_webhookCertName fl))
              (path_join (fl_webhookCertPath fl) (fl_webhookCertKey fl))] else [])"

definition metrics_tls_opts :: "Flags \<Rightarrow> tls_opt list" where
  "metrics_tls_opts fl = base_tls_opts fl @
     (if fl_metricsCertPath fl \<noteq> []
      then [CertificateFrom (path_join (fl_metricsCertPath fl) (fl_metricsCertName fl))
              (path_join (fl_metricsCertPath fl) (fl_metricsCertKey fl))] else [])"

text \<open>Each server serves the certificate its own flags name, and neither offers HTTP/2 unless the flag enables it.\<close>

theorem servers_keep_their_certificates:
  "tls_NextProtos (fold apply_tls (webhook_tls_opts fl) c)
     = (if fl_enableHTTP2 fl then tls_NextProtos c else [''http/1.1''])
   \<and> tls_NextProtos (fold apply_tls (metrics_tls_opts fl) c)
     = (if fl_enableHTTP2 fl then tls_NextProtos c else [''http/1.1''])
   \<and> tls_GetCertificate (fold apply_tls (webhook_tls_opts fl) c)
     = (if fl_webhookCertPath fl = [] then tls_GetCertificate c
        else Some (path_join (fl_webhookCertPath fl) (fl_webhookCertName fl),
                   path_join (fl_webhookCertPath fl) (fl_webhookCertKey fl)))
   \<and> tls_GetCertificate (fold apply_tls (metrics_tls_opts fl) c)
     = (if fl_metricsCertPath fl = [] then tls_GetCertificate c
        else Some (path_join (fl_metricsCertPath fl) (fl_metricsCertName fl),
                   path_join (fl_metricsCertPath fl) (fl_metricsCertKey fl)))"
  by (simp add: webhook_tls_opts_def metrics_tls_opts_def base_tls_opts_def)

record manager_opts =
  mgr_MetricsBindAddress :: string
  mgr_SecureServing :: bool
  mgr_FilterProvider :: bool
  mgr_MetricsTLSOpts :: "tls_opt list"
  mgr_WebhookTLSOpts :: "tls_opt list"
  mgr_HealthProbeBindAddress :: string
  mgr_LeaderElection :: bool
  mgr_LeaderElectionID :: string
  mgr_LeaderElectionNamespace :: string
  mgr_LeaseDuration :: duration
  mgr_RenewDeadline :: duration
  mgr_RetryPeriod :: duration

definition main_manager_options :: "Flags \<Rightarrow> manager_opts" where
  "main_manager_options fl =
     \<lparr>mgr_MetricsBindAddress = fl_metricsAddr fl, mgr_SecureServing = fl_secureMetrics fl,
      mgr_FilterProvider = fl_secureMetrics fl, mgr_MetricsTLSOpts = metrics_tls_opts fl,
      mgr_WebhookTLSOpts = webhook_tls_opts fl,
      mgr_HealthProbeBindAddress = fl_probeAddr fl, mgr_LeaderElection = fl_enableLeaderElection fl,
      mgr_LeaderElectionID =
        (if fl_leaderResourceName fl = [] then ''085fc383.cloudflare.io'' else fl_leaderResourceName fl),
      mgr_LeaderElectionNamespace = fl_leaderResourceNamespace fl, mgr_LeaseDuration = fl_leaseDuration fl,
      mgr_RenewDeadline = fl_renewDeadline fl, mgr_RetryPeriod = fl_retryPeriod fl\<rparr>"

section \<open>Configuration and reconciler\<close>

definition main_load_options :: "(string \<Rightarrow> string) \<Rightarrow> LoadOptions" where
  "main_load_options getenv =
     \<lparr>lo_FilePath = [], lo_ConfigMapName = getenv_or getenv ''CONFIG_CONFIGMAP_NAME'' DefaultConfigMapName,
      lo_SecretName = getenv ''CONFIG_SECRET_NAME'', lo_LoadFromEnv = True, lo_ValidateConfig = True\<rparr>"

definition main_config_manager :: "(string \<Rightarrow> string) \<Rightarrow> ConfigManager" where
  "main_config_manager getenv = NewConfigManager (getenv_or getenv ''POD_NAMESPACE'' DefaultNamespace)"

text \<open>The configuration in use after the first load (the fallback is only logged), the manager and the reconciler.\<close>

definition main_configure :: "load_env \<Rightarrow> gotime \<Rightarrow> Config \<times> ConfigManager \<times> CloudflareRecordReconciler" where
  "main_configure env now =
     (let getenv = le_Getenv env;
          configEnv = getenv_or getenv ''OPERATOR_ENVIRONMENT'' ProductionEnvironment;
          (r, m) = LoadConfig env now (main_load_options getenv) (main_config_manager getenv);
          operatorConfig = (case r of Inl e \<Rightarrow> GetEnvironmentDefaults configEnv | Inr c \<Rightarrow> c)
      in (operatorConfig, m, NewCloudflareRecordReconciler getenv (Some m)))"

text \<open>
  What the hot-reload goroutine receives: what the watcher sends, then, once its channels are closed, nil values from
  either channel, without ever blocking; \<open>choices\<close> says which channel each of these receives comes from.
\<close>

datatype watch_event = ConfigEvent "Config option" | ErrorEvent "load_error option"

definition main_watch_options :: "(string \<Rightarrow> string) \<Rightarrow> WatchOptions" where
  "main_watch_options getenv =
     \<lparr>wo_ConfigMapName = getenv_or getenv ''CONFIG_CONFIGMAP_NAME'' DefaultConfigMapName,
      wo_SecretName = getenv ''CONFIG_SECRET_NAME'', wo_Interval = 30 * Second\<rparr>"

fun sent_event :: "watch_output \<Rightarrow> watch_event" where
  "sent_event (SentConfig c) = ConfigEvent (Some c)"
| "sent_event (SentError e) = ErrorEvent (Some e)"

definition watch_receives :: "watch_channels \<Rightarrow> bool list \<Rightarrow> watch_event list" where
  "watch_receives wc choices =
     map sent_event (wc_sent wc)
     @ (if wc_closed wc then map (\<lambda>b. if b \<and> \<not> wc_nil_config wc then ConfigEvent None else ErrorEvent None) choices
        else [])"

definition hot_reload_step :: "load_env \<Rightarrow> gotime \<Rightarrow> watch_event \<Rightarrow> ConfigManager \<Rightarrow> ConfigManager" where
  "hot_reload_step env now ev m =
     (case ev of
        ConfigEvent (Some c) \<Rightarrow> snd (ReloadConfig env now m)
      | _ \<Rightarrow> m)"

fun hot_reload :: "(load_env \<times> gotime \<times> watch_event) list \<Rightarrow> ConfigManager \<Rightarrow> ConfigManager" where
  "hot_reload [] m = m"
| "hot_reload ((env, now, ev) # evs) m = hot_reload evs (hot_reload_step env now ev m)"

definition zip3 :: "'a list \<Rightarrow> 'b list \<Rightarrow> 'c list \<Rightarrow> ('a \<times> 'b \<times> 'c) list" where
  "zip3 xs ys zs = zip xs (zip ys zs)"

text \<open>The reconciler keeps the manager by reference and its own settings by value.\<close>

definition after_reload :: "ConfigManager \<Rightarrow> CloudflareRecordReconciler \<Rightarrow> CloudflareRecordReconciler" where
  "after_reload m r = r\<lparr>rr_configManager := Some m\<rparr>"

section \<open>The API types and the controller's registration\<close>

text \<open>
  The group and version of \<open>api/v1/groupversion_info.go\<close>, the types that \<open>cloudflarerecord_types.go\<close> registers, and \<open>init\<close> of
  the main package: \<open>utilruntime.Must\<close> panics on an error. A scheme and what adds types to it are the library's.
\<close>

record GroupVersion =
  gv_Group :: string
  gv_Version :: string

definition api_GroupVersion :: GroupVersion where
  "api_GroupVersion = \<lparr>gv_Group = ''dns.cloudflare.io'', gv_Version = ''v1''\<rparr>"

definition registered_types :: "string list" where
  "registered_types = [''CloudflareRecord'', ''CloudflareRecordList'']"

definition AddToScheme ::
  "(GroupVersion \<Rightarrow> string list \<Rightarrow> 's \<Rightarrow> go_error option \<times> 's) \<Rightarrow> 's \<Rightarrow> go_error option \<times> 's" where
  "AddToScheme builder scheme = builder api_GroupVersion registered_types scheme"

definition main_init ::
  "('s \<Rightarrow> go_error option \<times> 's) \<Rightarrow> (GroupVersion \<Rightarrow> string list \<Rightarrow> 's \<Rightarrow> go_error option \<times> 's) \<Rightarrow> 's \<Rightarrow> 's option" where
  "main_init clientgo builder scheme =
     (case clientgo scheme of
        (Some e, _) \<Rightarrow> None
      | (None, s1) \<Rightarrow> (case AddToScheme builder s1 of (Some e, _) \<Rightarrow> None | (None, s2) \<Rightarrow> Some s2))"

text \<open>What \<open>SetupWithManager\<close> asks the library's builder for; \<open>build\<close> is its outcome.\<close>

record controller_options =
  co_For :: string
  co_Named :: string
  co_MaxConcurrentReconciles :: int

definition SetupWithManager ::
  "(controller_options \<Rightarrow> CloudflareRecordReconciler \<Rightarrow> go_error option) \<Rightarrow> CloudflareRecordReconciler \<Rightarrow> go_error option" where
  "SetupWithManager build r =
     build \<lparr>co_For = ''CloudflareRecord'', co_Named = ''cloudflarerecord'',
       co_MaxConcurrentReconciles = rr_MaxConcurrentReconciles r\<rparr> r"

text \<open>The settings that the library is given are never zero or negative.\<close>

lemma env_positive_positive: "0 < d \<Longrightarrow> 0 < env_positive getenv n parse d"
  by (simp add: env_positive_def Let_def split: option.splits)

lemma registered_workers_positive: "0 < rr_MaxConcurrentReconciles (NewCloudflareRecordReconciler getenv m)"
  by (simp add: NewCloudflareRecordReconciler_def loadPerformanceConfig_def Let_def override_positive_def env_positive_positive
      split: option.splits)

section \<open>The whole start\<close>

text \<open>
  What \<open>main\<close> sets up after tracing, in order, as far as it gets: a step that fails is the last one and ends the
  program with exit code 1. The libraries decide which steps fail. The manager runs in the step \<open>StartManager\<close>.
\<close>

datatype start_step =
    WatchWebhookCert string string
  | WatchMetricsCert string string
  | CreateManager manager_opts
  | SetupController CloudflareRecordReconciler
  | StartHotReload WatchOptions
  | AddMetricsWatcher
  | AddWebhookWatcher
  | AddHealthz
  | AddReadyz
  | ServeProfiles "string list"
  | StartManager

fun run_steps :: "(start_step \<Rightarrow> go_error option) \<Rightarrow> start_step list \<Rightarrow> start_step list \<times> go_error option" where
  "run_steps f [] = ([], None)"
| "run_steps f (s # ss) =
     (case f s of
        Some e \<Rightarrow> ([s], Some e)
      | None \<Rightarrow> (case run_steps f ss of (done, r) \<Rightarrow> (s # done, r)))"

definition cert_steps :: "Flags \<Rightarrow> start_step list" where
  "cert_steps fl =
     (if fl_webhookCertPath fl \<noteq> []
      then [WatchWebhookCert (path_join (fl_webhookCertPath fl) (fl_webhookCertName fl))
              (path_join (fl_webhookCertPath fl) (fl_webhookCertKey fl))] else [])
     @ (if fl_metricsCertPath fl \<noteq> []
        then [WatchMetricsCert (path_join (fl_metricsCertPath fl) (fl_metricsCertName fl))
                (path_join (fl_metricsCertPath fl) (fl_metricsCertKey fl))] else [])"

definition main_steps :: "Flags \<Rightarrow> load_env \<Rightarrow> gotime \<Rightarrow> start_step list" where
  "main_steps fl env now =
     (let getenv = le_Getenv env; (operatorConfig, m, r) = main_configure env now; wo = main_watch_options getenv in
      cert_steps fl
      @ [CreateManager (main_manager_options fl), SetupController r]
      @ (if wo_ConfigMapName wo \<noteq> [] then [StartHotReload wo] else [])
      @ (if fl_metricsCertPath fl \<noteq> [] then [AddMetricsWatcher] else [])
      @ (if fl_webhookCertPath fl \<noteq> [] then [AddWebhookWatcher] else [])
      @ [AddHealthz, AddReadyz, ServeProfiles (SetupProfiling getenv []), StartManager])"

text \<open>Steps that cannot fail: starting the goroutine of the hot reload and registering the profiles.\<close>

definition cannot_fail :: "start_step \<Rightarrow> bool" where
  "cannot_fail s \<longleftrightarrow> (case s of StartHotReload _ \<Rightarrow> True | ServeProfiles _ \<Rightarrow> True | _ \<Rightarrow> False)"

record main_outcome =
  mo_steps :: "start_step list"
  mo_tracer_shutdown :: bool
  mo_exit_code :: nat

text \<open>
  The deferred shutdown of the tracing provider runs when \<open>main\<close> returns; \<open>os.Exit\<close> runs no deferred call.
\<close>

definition main_run ::
  "Flags \<Rightarrow> load_env \<Rightarrow> otel_lib \<Rightarrow> (start_step \<Rightarrow> go_error option) \<Rightarrow> gotime \<Rightarrow> Provider \<Rightarrow> main_outcome" where
  "main_run fl env lib fails now globalProvider =
     (let tracingProvider = fst (main_tracing fl (le_Getenv env) lib globalProvider);
          (done, r) = run_steps (\<lambda>s. if cannot_fail s then None else fails s) (main_steps fl env now)
      in case r of
           Some e \<Rightarrow> \<lparr>mo_steps = done, mo_tracer_shutdown = False, mo_exit_code = 1\<rparr>
         | None \<Rightarrow> \<lparr>mo_steps = done, mo_tracer_shutdown = (tracingProvider \<noteq> None), mo_exit_code = 0\<rparr>)"

section \<open>Properties\<close>

lemma run_steps_ok: "snd (run_steps f ss) = None \<Longrightarrow> fst (run_steps f ss) = ss \<and> (\<forall>s \<in> set ss. f s = None)"
  by (induction ss) (auto split: option.splits prod.splits)

lemma run_steps_fails:
  "snd (run_steps f ss) = Some e \<Longrightarrow>
   \<exists>pre s post. ss = pre @ s # post \<and> fst (run_steps f ss) = pre @ [s] \<and> f s = Some e \<and> (\<forall>x \<in> set pre. f x = None)"
proof (induction ss)
  case (Cons x xs)
  show ?case
  proof (cases "f x")
    case None
    then obtain pre s post where "xs = pre @ s # post" "fst (run_steps f xs) = pre @ [s]" "f s = Some e"
      "\<forall>y \<in> set pre. f y = None"
      using Cons by (auto split: prod.splits)
    then show ?thesis
      using None by (intro exI [of _ "x # pre"] exI [of _ s] exI [of _ post]) (auto split: prod.splits)
  next
    case (Some e')
    then show ?thesis using Cons.prems by (intro exI [of _ "[]"] exI [of _ x] exI [of _ xs]) simp
  qed
qed simp

text \<open>The program ends with code 0 exactly when no step fails, the run of the manager included; then every step was
  taken, the hot reload always among them, and the tracing provider was shut down. When a step fails it was the last
  one, and the spans that tracing still holds are never flushed, also when the manager fails after running.\<close>

theorem start_stops_at_first_failure:
  fixes fl :: Flags and env :: load_env and now :: gotime and lib :: otel_lib and g :: Provider
    and fails :: "start_step \<Rightarrow> go_error option"
  defines "ss \<equiv> main_steps fl env now" and "mo \<equiv> main_run fl env lib fails now g"
  shows "(mo_exit_code mo = 0 \<longleftrightarrow> (\<forall>s \<in> set ss. cannot_fail s \<or> fails s = None))
    \<and> (mo_exit_code mo = 0 \<longrightarrow> mo_steps mo = ss \<and> (\<exists>wo. StartHotReload wo \<in> set ss)
        \<and> (mo_tracer_shutdown mo \<longleftrightarrow> fst (main_tracing fl (le_Getenv env) lib g) \<noteq> None))
    \<and> (mo_exit_code mo \<noteq> 0 \<longrightarrow> \<not> mo_tracer_shutdown mo \<and>
        (\<exists>pre s post. ss = pre @ s # post \<and> mo_steps mo = pre @ [s] \<and> fails s \<noteq> None))"
proof -
  define f where "f = (\<lambda>s. if cannot_fail s then None else fails s)"
  obtain d r where dr: "run_steps f ss = (d, r)" by (cases "run_steps f ss")
  have mo: "mo = (case r of
       Some e \<Rightarrow> \<lparr>mo_steps = d, mo_tracer_shutdown = False, mo_exit_code = 1\<rparr>
     | None \<Rightarrow> \<lparr>mo_steps = d, mo_tracer_shutdown = (fst (main_tracing fl (le_Getenv env) lib g) \<noteq> None), mo_exit_code = 0\<rparr>)"
    unfolding mo_def main_run_def Let_def f_def [symmetric] ss_def [symmetric] dr prod.case ..
  have hot: "\<exists>wo. StartHotReload wo \<in> set ss"
    by (cases "main_configure env now")
      (auto simp: ss_def main_steps_def main_watch_options_def getenv_or_def DefaultConfigMapName_def Let_def)
  have f: "f s = None \<longleftrightarrow> cannot_fail s \<or> fails s = None" for s by (simp add: f_def)
  show ?thesis
  proof (cases r)
    case None
    then show ?thesis using run_steps_ok [of f ss] hot by (auto simp: mo dr f)
  next
    case (Some e)
    then obtain pre s post where p: "ss = pre @ s # post" "d = pre @ [s]" "f s = Some e"
      using run_steps_fails [of f ss e] dr by auto
    then have s: "\<not> (cannot_fail s \<or> fails s = None)" using f [of s] by auto
    then have "\<not> (\<forall>s \<in> set ss. cannot_fail s \<or> fails s = None)" using p(1) by auto
    moreover have "\<exists>pre s post. ss = pre @ s # post \<and> d = pre @ [s] \<and> fails s \<noteq> None" using p s by blast
    ultimately show ?thesis using Some by (simp add: mo)
  qed
qed


lemma hot_reload_unconfigured:
  "cm_loadOptions m = None \<Longrightarrow> hot_reload evs m = m"
proof (induction evs arbitrary: m)
  case (Cons x evs)
  obtain env now ev where x: "x = (env, now, ev)" by (cases x) auto
  have "hot_reload_step env now ev m = m"
    using Cons.prems by (auto simp: hot_reload_step_def ReloadConfig_def split: watch_event.split option.split)
  with Cons x show ?case by simp
qed simp

text \<open>An operator whose first load fails never gets a configuration: whatever the watcher reports later and however
  good the configuration has become, every hot reload fails for lack of load options, the manager stays
  unconfigured, and the reconciler keeps the settings of its environment variables.\<close>

theorem failed_start_never_recovers:
  assumes "main_configure env now = (c, m, r)"
    and "LoadConfig env now (main_load_options (le_Getenv env)) (main_config_manager (le_Getenv env)) = (Inl e, m')"
  shows "\<not> IsConfigured (hot_reload evs m) \<and> fst (ReloadConfig env' now' (hot_reload evs m)) = Inl NoLoadOptions
    \<and> GetConfig (hot_reload evs m) = None \<and> after_reload (hot_reload evs m) r = r
    \<and> c = GetEnvironmentDefaults (getenv_or (le_Getenv env) ''OPERATOR_ENVIRONMENT'' ProductionEnvironment)"
proof -
  have m: "m = main_config_manager (le_Getenv env)"
    using assms
    by (cases rule: LoadConfig_cases [of env now "main_load_options (le_Getenv env)" "main_config_manager (le_Getenv env)"])
      (auto simp: main_configure_def Let_def)
  have r: "r = NewCloudflareRecordReconciler (le_Getenv env) (Some m)"
    and c: "c = GetEnvironmentDefaults (getenv_or (le_Getenv env) ''OPERATOR_ENVIRONMENT'' ProductionEnvironment)"
    using assms by (auto simp: main_configure_def Let_def)
  have n: "cm_loadOptions m = None" "cm_currentConfig m = None"
    by (simp_all add: m main_config_manager_def NewConfigManager_def NewConfigManagerWithOptions_def Let_def)
  have "rr_configManager r = Some m"
    using performance_settings_positive [of "le_Getenv env" "Some m"] by (simp add: r Let_def)
  then show ?thesis
    unfolding hot_reload_unconfigured [OF n(1)]
    using n c by (simp add: IsConfigured_def GetConfig_def ReloadConfig_def after_reload_def)
qed


lemma custom_flags_layers:
  "\<forall>l \<in> set ls. custom_flags l = fmempty \<Longrightarrow> custom_flags (merge_all base ls) = custom_flags base"
  by (induction ls arbitrary: base) (simp_all add: custom_merge)

lemma custom_flags_parts [simp]:
  "custom_flags (mark k s c) = custom_flags c" "custom_flags (on_operator g c) = custom_flags c"
  "custom_flags (on_cloudflare h c) = custom_flags c" "custom_flags (on_performance p c) = custom_flags c"
  "custom_flags (Environment_update e c) = custom_flags c"
  by (simp_all add: custom_flags_def on_part_defs mark_def)

lemma custom_flags_env: "LoadFromEnv env = Inr e \<Longrightarrow> custom_flags e = fmempty"
proof -
  assume e: "LoadFromEnv env = Inr e"
  have s: "custom_flags (on_features (EnableWebhooks_update u) c) = custom_flags c"
    "custom_flags (on_features (EnableMetrics_update u) c) = custom_flags c"
    "custom_flags (on_features (EnableTracing_update u) c) = custom_flags c"
    "custom_flags (on_features (ExperimentalFeatures_update u) c) = custom_flags c" for u c
    by (cases "Features c"; simp add: custom_flags_def on_features_def)+
  have z: "custom_flags (c\<lparr>Features := Some zero_flags\<rparr>) = fmempty" for c
    by (simp add: custom_flags_def zero_flags_def)
  have e': "e = loadPerformanceConfig_env env (loadFeatureFlags env (loadCloudflareConfig env
       (loadOperatorConfig env (loadBasicFields env zero_config))))" using e by (simp add: LoadFromEnv_def)
  show ?thesis
    by (simp add: e' load_env_defs Let_def from_env_other [where f = custom_flags] s z)
qed

lemma custom_flags_keys:
  "custom_flags (configmap_keys kvs) = fmempty" "custom_flags (secret_keys kvs) = fmempty"
proof -
  have g: "custom_flags (from_data kvs n parse put k src c) = custom_flags c"
    if "\<And>x c. custom_flags (put x c) = custom_flags c" for n k src c and parse :: "string \<Rightarrow> int option" and put
    using that by (simp add: from_data_def take_value_def split: option.split)
  have h: "custom_flags (from_data kvs n parse put k src c) = custom_flags c"
    if "\<And>x c. custom_flags (put x c) = custom_flags c" for n k src c and parse :: "string \<Rightarrow> string option" and put
    using that by (simp add: from_data_def take_value_def split: option.split)
  show "custom_flags (configmap_keys kvs) = fmempty" "custom_flags (secret_keys kvs) = fmempty"
    by (simp_all add: configmap_keys_def secret_keys_def g h) (simp_all add: custom_flags_def zero_config_def)
qed

text \<open>No whole configuration is embedded in the ConfigMap or the Secret: only single keys.\<close>

definition plain_sources :: "load_env \<Rightarrow> ConfigLoader \<Rightarrow> LoadOptions \<Rightarrow> bool" where
  "plain_sources env cl o' \<longleftrightarrow>
     (\<forall>get kvs. le_ConfigMap env = Some get \<longrightarrow> get (cl_namespace cl) (lo_ConfigMapName o') = GetFound kvs \<longrightarrow>
        structured_entry env kvs = None)
     \<and> (\<forall>get kvs. le_Secret env = Some get \<longrightarrow> get (cl_namespace cl) (lo_SecretName o') = GetFound kvs \<longrightarrow>
        structured_entry env kvs = None)"

lemma plain_sources_no_flags:
  assumes "LoadWithPriority env cl o' = Inr (c, src)" and "plain_sources env cl o'" and "lo_FilePath o' = []"
  shows "custom_flags c = fmempty"
proof -
  obtain ls where ls: "used_layers env cl o' = map Inr ls"
    "c = merge_all (markFieldsFromSource NewConfig ConfigSourceDefault) ls" using load_layers [OF assms(1)] by blast
  have "custom_flags l = fmempty" if "l \<in> set ls" for l
  proof -
    have "Inr l \<in> set (used_layers env cl o')" using that by (simp add: ls(1))
    then consider "LoadFromSecret env cl (lo_SecretName o') = Inr l"
      | "LoadFromConfigMap env cl (lo_ConfigMapName o') = Inr l" | "LoadFromEnv env = Inr l"
      using assms(3) by (auto simp: used_layers_def split: if_splits)
    then show ?thesis
    proof cases
      case 1
      then show ?thesis
        using assms(2) by (auto simp: LoadFromSecret_def plain_sources_def custom_flags_keys split: option.splits k8s_get.splits)
    next
      case 2
      then show ?thesis
        using assms(2)
        by (auto simp: LoadFromConfigMap_def plain_sources_def custom_flags_keys split: option.splits k8s_get.splits)
    qed (rule custom_flags_env)
  qed
  then have "custom_flags c = custom_flags (markFieldsFromSource NewConfig ConfigSourceDefault)"
    unfolding ls(2) by (intro custom_flags_layers) simp
  also have "\<dots> = fmempty" by (simp add: custom_flags_def marked_parts NewConfig_def)
  finally show ?thesis .
qed


text \<open>The global logger does not follow the environment: with the default flags it logs at level \<open>info\<close> in JSON in every
  environment unless \<open>LOG_LEVEL\<close> or \<open>LOG_FORMAT\<close> say otherwise, while the controllers' logger, built from the environment
  alone, ignores the flags; in development the two differ in level and format.\<close>

theorem loggers_disagree:
  assumes "getenv ''LOG_LEVEL'' = []" and "getenv ''LOG_FORMAT'' = []"
  shows "lc_Level (main_logging_config default_flags getenv) = ''info''
    \<and> lc_Format (main_logging_config default_flags getenv) = FormatJSON
    \<and> (ToLower (main_environment getenv) \<in> {''development'', ''dev''} \<longrightarrow>
         lc_Level (logger_config_from_env getenv (main_environment getenv)) = ''debug''
         \<and> lc_Format (logger_config_from_env getenv (main_environment getenv)) = FormatConsole)"
  using assms
  by (auto simp: main_logging_config_def override_def default_flags_def FormatJSON_def FormatConsole_def
      logger_config_from_env_def log_NewEnvironmentConfig_def Let_def)

section \<open>Witnesses\<close>

text \<open>A process environment that sets nothing, and a cluster without the ConfigMap.\<close>

definition bare_env :: load_env where
  "bare_env = quiet_env\<lparr>le_ConfigMap := Some (\<lambda>_ _. GetNotFound)\<rparr>"

theorem failed_start_never_recovers_witness:
  "\<not> IsConfigured (hot_reload [(quiet_env, 9, ConfigEvent (Some NewConfig))] (fst (snd (main_configure bare_env 5))))"
proof -
  let ?g = "le_Getenv bare_env"
  have "LoadFromConfigMap bare_env (NewConfigLoader ''default'') DefaultConfigMapName
      = Inl (ResourceNotFound ''ConfigMap'' ''default'' DefaultConfigMapName)"
    by (simp add: LoadFromConfigMap_def bare_env_def NewConfigLoader_def)
  then have "\<exists>e m'. LoadConfig bare_env 5 (main_load_options ?g) (main_config_manager ?g) = (Inl e, m')"
    by (simp add: LoadConfig_def LoadWithPriority_def LoadOptions_Validate_def fail_if_def main_load_options_def
        main_config_manager_def NewConfigManager_def NewConfigManagerWithOptions_def bare_env_def quiet_env_def
        getenv_or_def DefaultNamespace_def DefaultConfigMapName_def bind_sum_def add_file_layer_def add_layer_def
        while_doing_def Let_def)
  then obtain e m' where "LoadConfig bare_env 5 (main_load_options ?g) (main_config_manager ?g) = (Inl e, m')" by blast
  moreover obtain c m r where mc: "main_configure bare_env 5 = (c, m, r)" by (cases "main_configure bare_env 5")
  ultimately show ?thesis
    using failed_start_never_recovers [OF mc, of e m' "[(quiet_env, 9, ConfigEvent (Some NewConfig))]"] by simp
qed

lemma plain_env_loads:
  "\<exists>c m. LoadConfig plain_env 5 (main_load_options (le_Getenv plain_env)) (main_config_manager (le_Getenv plain_env))
     = (Inr c, m) \<and> cm_loader m = NewConfigLoader ''default''"
proof -
  let ?b = "markFieldsFromSource NewConfig ConfigSourceDefault"
  have g: "le_Getenv plain_env = (\<lambda>_. [])" by (simp add: plain_env_def quiet_env_def)
  have o: "main_load_options (le_Getenv plain_env) = \<lparr>lo_FilePath = [], lo_ConfigMapName = DefaultConfigMapName,
      lo_SecretName = [], lo_LoadFromEnv = True, lo_ValidateConfig = True\<rparr>"
    by (simp add: main_load_options_def g getenv_or_def)
  have "\<exists>src. LoadWithPriority plain_env (NewConfigLoader ''default'') (main_load_options (le_Getenv plain_env))
      = Inr (?b, src)"
    unfolding o by (rule plain_env_load) (simp add: DefaultConfigMapName_def)
  then obtain src where l: "LoadWithPriority plain_env (NewConfigLoader ''default'')
      (main_load_options (le_Getenv plain_env)) = Inr (?b, src)" by blast
  have m0: "cm_loader (main_config_manager (le_Getenv plain_env)) = NewConfigLoader ''default''"
    by (simp add: main_config_manager_def NewConfigManager_def NewConfigManagerWithOptions_def Let_def g getenv_or_def
        DefaultNamespace_def)
  show ?thesis
  proof (cases rule: LoadConfig_cases [of plain_env 5 "main_load_options (le_Getenv plain_env)"
        "main_config_manager (le_Getenv plain_env)"])
    case (failed x)
    with l m0 show ?thesis by (simp add: LoadConfig_def while_doing_def Let_def o)
  next
    case (loaded c src' m' o')
    have "cm_loader m' = cm_loader (main_config_manager (le_Getenv plain_env))" unfolding loaded(7) by simp
    with loaded(1) m0 show ?thesis by auto
  qed
qed


theorem loggers_disagree_witness:
  "lc_Level (main_logging_config default_flags (\<lambda>_. [])) = ''info''
   \<and> lc_Level (logger_config_from_env (\<lambda>_. []) (main_environment (\<lambda>_. []))) = ''debug''"
proof -
  have "ToLower (main_environment (\<lambda>_. [])) = ''development''"
    unfolding main_environment_def getenv_or_def by code_simp
  with loggers_disagree [of "\<lambda>_. []"] show ?thesis by simp
qed


theorem start_stops_at_first_failure_witness:
  "mo_exit_code (main_run default_flags bare_env demo_otel
     (\<lambda>s. if s = StartManager then Some (ErrNew ''lost the lease'') else None) 0 \<lparr>pv_provider = None, pv_config = trace_NewDefaultConfig\<rparr>) = 1
   \<and> \<not> mo_tracer_shutdown (main_run default_flags bare_env demo_otel
     (\<lambda>s. if s = StartManager then Some (ErrNew ''lost the lease'') else None) 0 \<lparr>pv_provider = None, pv_config = trace_NewDefaultConfig\<rparr>)"
proof -
  let ?f = "\<lambda>s. if s = StartManager then Some (ErrNew ''lost the lease'') else None"
  have "StartManager \<in> set (main_steps default_flags bare_env 0)"
    by (cases "main_configure bare_env 0") (simp add: main_steps_def Let_def)
  then have "\<not> (\<forall>s \<in> set (main_steps default_flags bare_env 0). cannot_fail s \<or> ?f s = None)"
    by (auto simp: cannot_fail_def intro!: bexI [of _ StartManager])
  moreover have "mo_exit_code (main_run default_flags bare_env demo_otel ?f 0 \<lparr>pv_provider = None, pv_config = trace_NewDefaultConfig\<rparr>) \<le> 1"
    by (auto simp: main_run_def Let_def split: prod.split option.split)
  ultimately show ?thesis
    using start_stops_at_first_failure [where fl = default_flags and env = bare_env and now = 0 and lib = demo_otel and fails = ?f and g = "\<lparr>pv_provider = None, pv_config = trace_NewDefaultConfig\<rparr>"]
    by auto
qed

end
