(* ===== verification/SloConfig.thy ===== *)
theory SloConfig
  imports GoRuntime
begin

text \<open>
  The configuration of the SLO monitoring (\<open>internal/slo/config.go\<close>): targets, error budget policies, windows and
  burn-rate alerts, with the default configuration. Decimal constants are the doubles nearest to them.
\<close>

record SLOTargets =
  tg_Availability :: f64
  tg_SuccessRate :: f64
  tg_LatencyP95 :: duration
  tg_LatencyP99 :: duration
  tg_ThroughputMin :: f64

record ErrorBudgetThresholds =
  th_Warning :: f64
  th_Critical :: f64

record ErrorBudgetPolicy =
  pl_Threshold :: f64
  pl_Action :: string
  pl_Description :: string

record ErrorBudgetConfig =
  eb_WindowDays :: int64
  eb_AlertThresholds :: ErrorBudgetThresholds
  eb_Policies :: "ErrorBudgetPolicy list"

record TimeWindow =
  tw_Name :: string
  tw_Duration :: duration
  tw_IsShortTerm :: bool

record BurnRateAlert =
  ba_Enabled :: bool
  ba_ShortWindow :: duration
  ba_LongWindow :: duration
  ba_BurnRateThreshold :: f64
  ba_Severity :: string

record AlertingConfig =
  al_PageAlerts :: BurnRateAlert
  al_TicketAlerts :: BurnRateAlert

record SloConfig =
  sc_Enabled :: bool
  sc_Targets :: SLOTargets
  sc_ErrorBudget :: ErrorBudgetConfig
  sc_Windows :: "TimeWindow list"
  sc_AlertingRules :: AlertingConfig

definition slo_DefaultConfig :: SloConfig where
  "slo_DefaultConfig = \<lparr>
     sc_Enabled = True,
     sc_Targets = \<lparr>tg_Availability = f64_of_rat (999/10), tg_SuccessRate = f64_of_rat (995/10),
       tg_LatencyP95 = 30 * Second, tg_LatencyP99 = 60 * Second, tg_ThroughputMin = Fin 10\<rparr>,
     sc_ErrorBudget = \<lparr>
       eb_WindowDays = 30,
       eb_AlertThresholds = \<lparr>th_Warning = f64_of_rat (1/2), th_Critical = f64_of_rat (9/10)\<rparr>,
       eb_Policies = [
         \<lparr>pl_Threshold = f64_of_rat (1/2), pl_Action = ''notify'',
          pl_Description = ''Notify team when 50% of error budget is consumed''\<rparr>,
         \<lparr>pl_Threshold = f64_of_rat (9/10), pl_Action = ''freeze_deployments'',
          pl_Description = ''Freeze non-critical deployments when 90% of error budget is consumed''\<rparr>]\<rparr>,
     sc_Windows = [
       \<lparr>tw_Name = ''5m'', tw_Duration = 5 * Minute, tw_IsShortTerm = True\<rparr>,
       \<lparr>tw_Name = ''30m'', tw_Duration = 30 * Minute, tw_IsShortTerm = True\<rparr>,
       \<lparr>tw_Name = ''1h'', tw_Duration = 1 * Hour, tw_IsShortTerm = False\<rparr>,
       \<lparr>tw_Name = ''6h'', tw_Duration = 6 * Hour, tw_IsShortTerm = False\<rparr>,
       \<lparr>tw_Name = ''1d'', tw_Duration = 24 * Hour, tw_IsShortTerm = False\<rparr>,
       \<lparr>tw_Name = ''30d'', tw_Duration = 30 * 24 * Hour, tw_IsShortTerm = False\<rparr>],
     sc_AlertingRules = \<lparr>
       al_PageAlerts = \<lparr>ba_Enabled = True, ba_ShortWindow = 5 * Minute, ba_LongWindow = 1 * Hour,
         ba_BurnRateThreshold = f64_of_rat (144/10), ba_Severity = ''critical''\<rparr>,
       al_TicketAlerts = \<lparr>ba_Enabled = True, ba_ShortWindow = 30 * Minute, ba_LongWindow = 6 * Hour,
         ba_BurnRateThreshold = Fin 6, ba_Severity = ''warning''\<rparr>\<rparr>\<rparr>"

text \<open>\<open>Validate\<close> accepts everything.\<close>

definition SloConfig_Validate :: "SloConfig \<Rightarrow> go_error option" where
  "SloConfig_Validate c = None"

section \<open>Decimal formatting\<close>

text \<open>
  The verbs \<open>%.1f\<close>, \<open>%.2f\<close> and so on: the exact value, rounded to so many decimal places, ties to even.
\<close>

definition pad_zeros :: "nat \<Rightarrow> string \<Rightarrow> string" where
  "pad_zeros n s = replicate (n - length s) (CHR ''0'') @ s"

definition fmt_fixed :: "nat \<Rightarrow> f64 \<Rightarrow> string" where
  "fmt_fixed prec x =
     (case x of
        NaN \<Rightarrow> ''NaN''
      | PInf \<Rightarrow> ''+Inf''
      | NInf \<Rightarrow> ''-Inf''
      | Fin q \<Rightarrow>
          let n = nat (round_half_even (\<bar>q\<bar> * 10 ^ prec)) in
          (if q < 0 then ''-'' else []) @ show_nat (n div 10 ^ prec)
          @ (if prec = 0 then [] else ''.'' @ pad_zeros prec (show_nat (n mod 10 ^ prec))))"

end
