(* ===== verification/ErrorBudget.thy ===== *)
theory ErrorBudget
  imports SloConfig
begin

text \<open>
  The error budget manager (\<open>internal/slo/error_budget.go\<close>): budgets from an actual and a target ratio, the history of
  snapshots, burn rates and the prediction of exhaustion from it, alert thresholds, the recommended action, and
  reports with their statistics. Its lock makes every operation one step; each \<open>time.Now()\<close> is an argument.
\<close>

section \<open>State\<close>

record ErrorBudgetSnapshot =
  sn_Timestamp :: gotime
  sn_Remaining :: f64
  sn_ConsumedPercent :: f64
  sn_BurnRate :: f64
  sn_SLOName :: string
  sn_Window :: string

record ErrorBudgetManager =
  em_config :: ErrorBudgetConfig
  em_history :: "string \<rightharpoonup> ErrorBudgetSnapshot list"

record ErrorBudgetCalculation =
  bc_SLOName :: string
  bc_Actual :: f64
  bc_Target :: f64
  bc_TotalBudget :: f64
  bc_ConsumedBudget :: f64
  bc_RemainingBudget :: f64
  bc_RemainingPercent :: f64
  bc_ConsumedPercent :: f64
  bc_Timestamp :: gotime

record AlertThreshold =
  at_Name :: string
  at_Threshold :: f64
  at_Severity :: string
  at_Message :: string

record ErrorBudgetStatistics =
  es_MinRemaining :: f64
  es_MaxRemaining :: f64
  es_AvgRemaining :: f64
  es_MinBurnRate :: f64
  es_MaxBurnRate :: f64
  es_AvgBurnRate :: f64
  es_TotalViolations :: int
  es_LongestViolation :: duration

record ErrorBudgetReport =
  er_SLOName :: string
  er_Window :: string
  er_Generated :: gotime
  er_CurrentRemaining :: f64
  er_CurrentConsumed :: f64
  er_BurnRate :: f64
  er_PredictedExhaustion :: "gotime option"
  er_RecommendedAction :: string
  er_Statistics :: ErrorBudgetStatistics

definition NewErrorBudgetManager :: "ErrorBudgetConfig \<Rightarrow> ErrorBudgetManager" where
  "NewErrorBudgetManager config = \<lparr>em_config = config, em_history = Map.empty\<rparr>"

section \<open>Budgets\<close>

definition clamp :: "f64 \<Rightarrow> f64 \<Rightarrow> f64 \<Rightarrow> f64" where
  "clamp value minVal maxVal = (if value < minVal then minVal else if maxVal < value then maxVal else value)"

definition CalculateErrorBudget :: "gotime \<Rightarrow> string \<Rightarrow> f64 \<Rightarrow> f64 \<Rightarrow> ErrorBudgetCalculation" where
  "CalculateErrorBudget now sloName actual target =
     (let totalBudget = Fin 1 - target;
          consumed = (if target \<le> actual then Fin 0 else target - actual);
          remaining = totalBudget - consumed;
          (remainingPercent, consumedPercent) =
            (if Fin 0 < totalBudget then (remaining / totalBudget, consumed / totalBudget) else (Fin 1, Fin 0))
      in \<lparr>bc_SLOName = sloName, bc_Actual = actual, bc_Target = target, bc_TotalBudget = totalBudget,
          bc_ConsumedBudget = consumed, bc_RemainingBudget = remaining,
          bc_RemainingPercent = clamp remainingPercent (Fin 0) (Fin 1),
          bc_ConsumedPercent = clamp consumedPercent (Fin 0) (Fin 1), bc_Timestamp = now\<rparr>)"

section \<open>History\<close>

definition history_key :: "string \<Rightarrow> string \<Rightarrow> string" where
  "history_key sloName window = sloName @ ''_'' @ window"

definition last_n :: "nat \<Rightarrow> 'a list \<Rightarrow> 'a list" where
  "last_n n xs = (if n < length xs then drop (length xs - n) xs else xs)"

definition RecordSnapshot :: "ErrorBudgetSnapshot \<Rightarrow> ErrorBudgetManager \<Rightarrow> ErrorBudgetManager" where
  "RecordSnapshot snapshot m =
     (let key = history_key (sn_SLOName snapshot) (sn_Window snapshot);
          old = (case em_history m key of None \<Rightarrow> [] | Some h \<Rightarrow> h)
      in m\<lparr>em_history := (em_history m)(key \<mapsto> last_n 1000 (old @ [snapshot]))\<rparr>)"

text \<open>
  The scan of the burn rate: the start is the snapshot before the first one after the beginning of the period (or
  that one, when it is the first), the end is the last snapshot.
\<close>

fun period_bounds ::
  "gotime \<Rightarrow> ErrorBudgetSnapshot option \<Rightarrow> ErrorBudgetSnapshot option \<Rightarrow> ErrorBudgetSnapshot option
   \<Rightarrow> ErrorBudgetSnapshot list \<Rightarrow> ErrorBudgetSnapshot option \<times> ErrorBudgetSnapshot option" where
  "period_bounds periodStart prev start final [] = (start, final)"
| "period_bounds periodStart prev start final (s # ss) =
     period_bounds periodStart (Some s)
       (if periodStart < sn_Timestamp s \<and> start = None
        then Some (case prev of Some p \<Rightarrow> p | None \<Rightarrow> s) else start)
       (Some s) ss"

definition CalculateBurnRate ::
  "gotime \<Rightarrow> string \<Rightarrow> string \<Rightarrow> duration \<Rightarrow> ErrorBudgetManager \<Rightarrow> go_error + f64" where
  "CalculateBurnRate now sloName window period m =
     (case em_history m (history_key sloName window) of
        None \<Rightarrow> Inl (ErrNew ''insufficient historical data for burn rate calculation'')
      | Some snapshots \<Rightarrow>
          if length snapshots < 2 then Inl (ErrNew ''insufficient historical data for burn rate calculation'')
          else case period_bounds (time_add now (wrap64 (- period))) None None None snapshots of
              (Some s, Some e) \<Rightarrow>
                let timeDiff = time_sub (sn_Timestamp e) (sn_Timestamp s) in
                if timeDiff \<le> 0 then Inl (ErrNew ''invalid time difference for burn rate calculation'')
                else
                  let d = sn_ConsumedPercent s - sn_ConsumedPercent e;
                      budgetConsumed = (if d < Fin 0 then - d else d);
                      hoursElapsed = dur_Hours timeDiff
                  in Inr (if Fin 0 < hoursElapsed then budgetConsumed / hoursElapsed else Fin 0)
            | _ \<Rightarrow> Inl (ErrNew ''could not find snapshots for period''))"

text \<open>\<open>time.Duration(hoursUntilExhaustion) * time.Hour\<close> truncates, then multiplies in 64 bits.\<close>

definition whole_hours :: "f64 \<Rightarrow> duration" where
  "whole_hours h = wrap64 (f64_to_int64 h * Hour)"

definition PredictExhaustion ::
  "gotime \<Rightarrow> gotime \<Rightarrow> string \<Rightarrow> string \<Rightarrow> ErrorBudgetManager \<Rightarrow> go_error + gotime" where
  "PredictExhaustion now later sloName window m =
     (case CalculateBurnRate now sloName window (1 * Hour) m of
        Inl e \<Rightarrow> Inl (ErrWrap ''calculating burn rate: '' e)
      | Inr burnRate \<Rightarrow>
          if burnRate \<le> Fin 0 then Inl (ErrNew ''burn rate is zero or negative'')
          else case em_history m (history_key sloName window) of
              None \<Rightarrow> Inl (ErrNew ''no historical data available'')
            | Some snapshots \<Rightarrow>
                if snapshots = [] then Inl (ErrNew ''no historical data available'')
                else
                  let latest = last snapshots; remainingBudget = Fin 1 - sn_ConsumedPercent latest in
                  if remainingBudget \<le> Fin 0 then Inr (sn_Timestamp latest)
                  else Inr (time_add later (whole_hours (remainingBudget / burnRate))))"

section \<open>Alerts and actions\<close>

definition CheckAlertThresholds :: "ErrorBudgetManager \<Rightarrow> ErrorBudgetCalculation \<Rightarrow> AlertThreshold list" where
  "CheckAlertThresholds m calc =
     (let th = eb_AlertThresholds (em_config m);
          percent = fmt_fixed 1 (bc_ConsumedPercent calc * Fin 100) @ ''% consumed''
      in (if th_Warning th \<le> bc_ConsumedPercent calc then
            [\<lparr>at_Name = ''warning'', at_Threshold = th_Warning th, at_Severity = ''warning'',
              at_Message = ''Error budget warning: '' @ percent\<rparr>] else [])
       @ (if th_Critical th \<le> bc_ConsumedPercent calc then
            [\<lparr>at_Name = ''critical'', at_Threshold = th_Critical th, at_Severity = ''critical'',
              at_Message = ''Error budget critical: '' @ percent\<rparr>] else []))"

fun best_policy :: "f64 \<Rightarrow> ErrorBudgetPolicy list \<Rightarrow> string \<times> f64 \<Rightarrow> string \<times> f64" where
  "best_policy consumedPercent [] acc = acc"
| "best_policy consumedPercent (p # ps) (action, highest) =
     best_policy consumedPercent ps
       (if pl_Threshold p \<le> consumedPercent \<and> highest < pl_Threshold p
        then (pl_Action p, pl_Threshold p) else (action, highest))"

definition GetRecommendedAction :: "ErrorBudgetManager \<Rightarrow> f64 \<Rightarrow> string" where
  "GetRecommendedAction m consumedPercent =
     (let (action, highest) = best_policy consumedPercent (eb_Policies (em_config m)) ([], Fin (- 1))
      in if action \<noteq> [] then action else ''continue_normal_operations'')"

section \<open>Reports\<close>

text \<open>The variables of the statistics loop: the results, and the locals.\<close>

record stat_loop =
  sl_stats :: ErrorBudgetStatistics
  sl_totalRemaining :: f64
  sl_totalBurnRate :: f64
  sl_burnRateCount :: nat
  sl_inViolation :: bool
  sl_violationStart :: gotime

definition stat_init :: stat_loop where
  "stat_init = \<lparr>sl_stats = \<lparr>es_MinRemaining = Fin 1, es_MaxRemaining = Fin 0, es_AvgRemaining = Fin 0,
     es_MinBurnRate = Fin 1000000000, es_MaxBurnRate = Fin 0, es_AvgBurnRate = Fin 0, es_TotalViolations = 0,
     es_LongestViolation = 0\<rparr>, sl_totalRemaining = Fin 0, sl_totalBurnRate = Fin 0, sl_burnRateCount = 0,
     sl_inViolation = False, sl_violationStart = 0\<rparr>"

definition longest :: "duration \<Rightarrow> ErrorBudgetStatistics \<Rightarrow> ErrorBudgetStatistics" where
  "longest d st = (if es_LongestViolation st < d then st\<lparr>es_LongestViolation := d\<rparr> else st)"

definition stat_remaining :: "ErrorBudgetSnapshot \<Rightarrow> stat_loop \<Rightarrow> stat_loop" where
  "stat_remaining s l =
     (let r = sn_Remaining s; st = sl_stats l;
          st1 = (if r < es_MinRemaining st then st\<lparr>es_MinRemaining := r\<rparr> else st);
          st2 = (if es_MaxRemaining st1 < r then st1\<lparr>es_MaxRemaining := r\<rparr> else st1)
      in l\<lparr>sl_stats := st2, sl_totalRemaining := sl_totalRemaining l + r\<rparr>)"

definition stat_burn :: "ErrorBudgetSnapshot \<Rightarrow> stat_loop \<Rightarrow> stat_loop" where
  "stat_burn s l =
     (let b = sn_BurnRate s; st = sl_stats l;
          st1 = (if b < es_MinBurnRate st then st\<lparr>es_MinBurnRate := b\<rparr> else st);
          st2 = (if es_MaxBurnRate st1 < b then st1\<lparr>es_MaxBurnRate := b\<rparr> else st1)
      in if Fin 0 < b
         then l\<lparr>sl_stats := st2, sl_totalBurnRate := sl_totalBurnRate l + b, sl_burnRateCount := sl_burnRateCount l + 1\<rparr>
         else l)"

definition stat_violation :: "f64 \<Rightarrow> ErrorBudgetSnapshot \<Rightarrow> stat_loop \<Rightarrow> stat_loop" where
  "stat_violation warning s l =
     (let st = sl_stats l in
      if warning \<le> sn_ConsumedPercent s then
        (if \<not> sl_inViolation l then
           l\<lparr>sl_inViolation := True, sl_violationStart := sn_Timestamp s,
             sl_stats := st\<lparr>es_TotalViolations := es_TotalViolations st + 1\<rparr>\<rparr>
         else l)
      else if sl_inViolation l then
        l\<lparr>sl_stats := longest (time_sub (sn_Timestamp s) (sl_violationStart l)) st, sl_inViolation := False\<rparr>
      else l)"

definition stat_step :: "f64 \<Rightarrow> ErrorBudgetSnapshot \<Rightarrow> stat_loop \<Rightarrow> stat_loop" where
  "stat_step warning s l = stat_violation warning s (stat_burn s (stat_remaining s l))"

definition calculateStatistics :: "gotime \<Rightarrow> ErrorBudgetManager \<Rightarrow> ErrorBudgetSnapshot list \<Rightarrow> ErrorBudgetStatistics" where
  "calculateStatistics now m snapshots =
     (if snapshots = [] then
        \<lparr>es_MinRemaining = Fin 0, es_MaxRemaining = Fin 0, es_AvgRemaining = Fin 0, es_MinBurnRate = Fin 0,
         es_MaxBurnRate = Fin 0, es_AvgBurnRate = Fin 0, es_TotalViolations = 0, es_LongestViolation = 0\<rparr>
      else
        let l = fold (stat_step (th_Warning (eb_AlertThresholds (em_config m)))) snapshots stat_init;
            st0 = (sl_stats l)\<lparr>es_AvgRemaining := sl_totalRemaining l / f64_of_int (int (length snapshots))\<rparr>;
            st1 = (if 0 < sl_burnRateCount l
                   then st0\<lparr>es_AvgBurnRate := sl_totalBurnRate l / f64_of_int (int (sl_burnRateCount l))\<rparr> else st0)
        in if sl_inViolation l then longest (time_sub now (sl_violationStart l)) st1 else st1)"

text \<open>The clock is read for the report, for the two burn rates, for the prediction and for the statistics: its readings, in order.\<close>

definition GenerateReport ::
  "(nat \<Rightarrow> gotime) \<Rightarrow> string \<Rightarrow> string \<Rightarrow> ErrorBudgetManager \<Rightarrow> go_error + ErrorBudgetReport" where
  "GenerateReport now sloName window m =
     (case em_history m (history_key sloName window) of
        None \<Rightarrow> Inl (ErrNew ''no data available for report'')
      | Some snapshots \<Rightarrow>
          if snapshots = [] then Inl (ErrNew ''no data available for report'')
          else
            let latest = last snapshots;
                windowDuration = wrap64 (wrap64 (eb_WindowDays (em_config m) * 24) * Hour)
            in Inr \<lparr>er_SLOName = sloName, er_Window = window, er_Generated = now 0,
                 er_CurrentRemaining = sn_Remaining latest, er_CurrentConsumed = sn_ConsumedPercent latest,
                 er_BurnRate = (case CalculateBurnRate (now 1) sloName window windowDuration m of
                    Inr b \<Rightarrow> b | Inl _ \<Rightarrow> Fin 0),
                 er_PredictedExhaustion = (case PredictExhaustion (now 2) (now 3) sloName window m of
                    Inr t \<Rightarrow> Some t | Inl _ \<Rightarrow> None),
                 er_RecommendedAction = GetRecommendedAction m (sn_ConsumedPercent latest),
                 er_Statistics = calculateStatistics (now 4) m snapshots\<rparr>)"

end
