(* ===== verification/SloManager.thy ===== *)
theory SloManager
  imports ErrorBudget Metrics
begin

text \<open>
  The SLI calculator (\<open>internal/slo/calculator.go\<close>) and the SLO manager (\<open>slo.go\<close>): error budget states, policies,
  burn-rate alerts, the tickers of the monitoring loop and the life cycle of its channels. The error budget states
  live behind pointers that the getters hand out, so they are kept in a store indexed by address. The calculator
  is a stub that reports constants; it is modelled as it is.
\<close>

section \<open>Calculator\<close>

definition availabilityRatio :: collector where
  "availabilityRatio = Collector GaugeVec ''sli_availability_ratio'' [''window'']"

definition successRateRatio :: collector where
  "successRateRatio = Collector GaugeVec ''sli_success_rate_ratio'' [''window'', ''controller'', ''namespace'']"

definition latencyHistogram :: collector where
  "latencyHistogram = Collector (HistogramVec (Buckets (map (\<lambda>i. 2 ^ i / 1000) [0..<20])))
     ''sli_latency_seconds'' [''window'', ''controller'', ''namespace'', ''operation'']"

definition throughputGauge :: collector where
  "throughputGauge = Collector GaugeVec ''sli_throughput_operations_per_minute''
     [''window'', ''controller'', ''namespace'']"

definition errorBudgetGauge :: collector where
  "errorBudgetGauge = Collector GaugeVec ''sli_error_budget_remaining_ratio'' [''slo_name'', ''window'']"

definition slo_collectors :: "collector list" where
  "slo_collectors = [availabilityRatio, successRateRatio, latencyHistogram, throughputGauge, errorBudgetGauge]"

text \<open>\<open>MustRegister\<close> panics (\<open>None\<close>) when a name is taken.\<close>

fun MustRegister :: "collector list \<Rightarrow> string list \<Rightarrow> string list option" where
  "MustRegister [] names = Some names"
| "MustRegister (c # cs) names =
     (if col_name c \<in> set names then None else MustRegister cs (names @ [col_name c]))"

text \<open>Without a registerer nothing is registered.\<close>

definition NewCalculatorWithRegistry :: "string list option \<Rightarrow> string list option option" where
  "NewCalculatorWithRegistry registerer =
     (case registerer of
        None \<Rightarrow> Some None
      | Some names \<Rightarrow> map_option Some (MustRegister slo_collectors names))"

record SLIValues =
  sv_Availability :: f64
  sv_SuccessRate :: f64
  sv_LatencyP95 :: duration
  sv_LatencyP99 :: duration
  sv_Throughput :: f64
  sv_Timestamp :: gotime
  sv_Window :: string

definition calculateAvailability :: "TimeWindow \<Rightarrow> go_error + f64" where
  "calculateAvailability w = Inr (f64_of_rat (999/1000))"

definition calculateSuccessRate :: "TimeWindow \<Rightarrow> go_error + f64" where
  "calculateSuccessRate w = Inr (f64_of_rat (995/1000))"

definition calculateLatencyPercentiles :: "TimeWindow \<Rightarrow> go_error + duration \<times> duration" where
  "calculateLatencyPercentiles w = Inr (25 * Second, 45 * Second)"

definition calculateThroughput :: "TimeWindow \<Rightarrow> go_error + f64" where
  "calculateThroughput w = Inr (Fin 15)"

definition calculateSingleErrorBudget :: "f64 \<Rightarrow> f64 \<Rightarrow> f64" where
  "calculateSingleErrorBudget actual target =
     (if Fin 1 \<le> target then Fin 1
      else if target \<le> actual then Fin 1
      else
        let errorBudgetTotal = Fin 1 - target; errorBudgetConsumed = target - actual in
        if errorBudgetTotal \<le> Fin 0 then Fin 1
        else
          let errorBudgetRemaining = (errorBudgetTotal - errorBudgetConsumed) / errorBudgetTotal in
          if errorBudgetRemaining < Fin 0 then Fin 0
          else if Fin 1 < errorBudgetRemaining then Fin 1
          else errorBudgetRemaining)"

definition latency_conformance :: "SloConfig \<Rightarrow> SLIValues \<Rightarrow> f64" where
  "latency_conformance config values =
     (if tg_LatencyP95 (sc_Targets config) < sv_LatencyP95 values then f64_of_rat (95/100) else Fin 1)"

definition calculateErrorBudgets :: "SloConfig \<Rightarrow> SLIValues \<Rightarrow> metric_op list" where
  "calculateErrorBudgets config values =
     (let availabilityBudget =
            calculateSingleErrorBudget (sv_Availability values) (tg_Availability (sc_Targets config) / Fin 100);
          successRateBudget =
            calculateSingleErrorBudget (sv_SuccessRate values) (tg_SuccessRate (sc_Targets config) / Fin 100);
          latencyBudget = calculateSingleErrorBudget (latency_conformance config values) (f64_of_rat (95/100))
      in [gauge_set errorBudgetGauge [''availability'', sv_Window values] availabilityBudget,
          gauge_set errorBudgetGauge [''success_rate'', sv_Window values] successRateBudget,
          gauge_set errorBudgetGauge [''latency_p95'', sv_Window values] latencyBudget])"

text \<open>The gauges are set as the values come in, so an error leaves those before it set.\<close>

definition Calculate :: "gotime \<Rightarrow> SloConfig \<Rightarrow> TimeWindow \<Rightarrow> (go_error + SLIValues) \<times> metric_op list" where
  "Calculate now config window =
     (let name = tw_Name window in
      case calculateAvailability window of
        Inl e \<Rightarrow> (Inl (ErrWrap ''calculating availability: '' e), [])
      | Inr availability \<Rightarrow>
          let ms1 = [gauge_set availabilityRatio [name] availability] in
          (case calculateSuccessRate window of
             Inl e \<Rightarrow> (Inl (ErrWrap ''calculating success rate: '' e), ms1)
           | Inr successRate \<Rightarrow>
               let ms2 = ms1 @ [gauge_set successRateRatio [name, ''cloudflarerecord'', ''all''] successRate] in
               (case calculateLatencyPercentiles window of
                  Inl e \<Rightarrow> (Inl (ErrWrap ''calculating latency percentiles: '' e), ms2)
                | Inr (p95, p99) \<Rightarrow>
                    let ms3 = ms2 @ [histogram_observe latencyHistogram
                          [name, ''cloudflarerecord'', ''all'', ''reconcile''] (dur_Seconds p95)] in
                    (case calculateThroughput window of
                       Inl e \<Rightarrow> (Inl (ErrWrap ''calculating throughput: '' e), ms3)
                     | Inr throughput \<Rightarrow>
                         let ms4 = ms3 @ [gauge_set throughputGauge [name, ''cloudflarerecord'', ''all''] throughput];
                             values = \<lparr>sv_Availability = availability, sv_SuccessRate = successRate,
                               sv_LatencyP95 = p95, sv_LatencyP99 = p99, sv_Throughput = throughput,
                               sv_Timestamp = now, sv_Window = name\<rparr>
                         in (Inr values, ms4 @ calculateErrorBudgets config values)))))"

definition CalculateMultiWindowBurnRate ::
  "(nat \<Rightarrow> gotime) \<Rightarrow> SloConfig \<Rightarrow> TimeWindow \<Rightarrow> TimeWindow \<Rightarrow> (go_error + f64) \<times> metric_op list" where
  "CalculateMultiWindowBurnRate now config shortWindow longWindow =
     (case Calculate (now 0) config shortWindow of
        (Inl e, ms) \<Rightarrow> (Inl (ErrWrap ''calculating short window SLI: '' e), ms)
      | (Inr shortValues, ms1) \<Rightarrow>
          (case Calculate (now 1) config longWindow of
             (Inl e, ms) \<Rightarrow> (Inl (ErrWrap ''calculating long window SLI: '' e), ms1 @ ms)
           | (Inr longValues, ms2) \<Rightarrow>
               let budget = Fin 1 - tg_SuccessRate (sc_Targets config) / Fin 100;
                   shortBurnRate = (Fin 1 - sv_SuccessRate shortValues) / budget;
                   longBurnRate = (Fin 1 - sv_SuccessRate longValues) / budget
               in (Inr ((shortBurnRate + longBurnRate) / Fin 2), ms1 @ ms2)))"

text \<open>
  Reading a gauge back: the library refuses a wrong number of label values with an error of its own; a gauge always
  has a value.
\<close>

definition GetMetricValue :: "go_error \<Rightarrow> metric_op list \<Rightarrow> collector \<Rightarrow> string list \<Rightarrow> go_error + f64" where
  "GetMetricValue cardinality calls vec labels =
     (if length labels \<noteq> length (col_labels vec) then Inl (ErrWrap ''getting metric with labels: '' cardinality)
      else Inr (gauge_of calls (col_name vec) labels))"

section \<open>Manager\<close>

record ErrorBudgetState =
  bs_SLOName :: string
  bs_CurrentRemaining :: f64
  bs_ConsumedPercent :: f64
  bs_LastUpdated :: gotime
  bs_PolicyTriggered :: "string list"
  bs_BurnRate :: f64
  bs_TimeToExhaustion :: duration

text \<open>The map of budgets holds addresses into the store of states.\<close>

record SloManager =
  sm_config :: SloConfig
  sm_lastCalculation :: "string \<rightharpoonup> SLIValues"
  sm_errorBudgets :: "string \<rightharpoonup> nat"
  sm_store :: "ErrorBudgetState list"

datatype slo_log =
    PolicyTriggered string f64 f64 string string
  | WindowsNotFound string duration duration
  | BurnRateFailed string go_error
  | BurnRateExceeded string f64 f64 string
  | CalculationFailed string go_error

text \<open>The outcome of the constructors: an error, a panic of the registration, or the manager and the registry.\<close>

datatype new_manager = NewErr go_error | NewPanics | NewOk SloManager "string list option"

definition NewManagerWithRegistry :: "SloConfig option \<Rightarrow> unit option \<Rightarrow> string list option \<Rightarrow> new_manager" where
  "NewManagerWithRegistry config logger registerer =
     (case config of
        None \<Rightarrow> NewErr (ErrNew ''config cannot be nil'')
      | Some c \<Rightarrow>
          if logger = None then NewErr (ErrNew ''logger cannot be nil'')
          else case SloConfig_Validate c of
              Some e \<Rightarrow> NewErr (ErrWrap ''invalid SLO config: '' e)
            | None \<Rightarrow>
                (case NewCalculatorWithRegistry registerer of
                   None \<Rightarrow> NewPanics
                 | Some r \<Rightarrow> NewOk \<lparr>sm_config = c, sm_lastCalculation = Map.empty, sm_errorBudgets = Map.empty,
                     sm_store = []\<rparr> r))"

definition NewManager :: "SloConfig option \<Rightarrow> unit option \<Rightarrow> string list \<Rightarrow> new_manager" where
  "NewManager config logger defaultRegisterer =
     (case config of
        None \<Rightarrow> NewErr (ErrNew ''config cannot be nil'')
      | Some c \<Rightarrow>
          if logger = None then NewErr (ErrNew ''logger cannot be nil'')
          else case SloConfig_Validate c of
              Some e \<Rightarrow> NewErr (ErrWrap ''invalid SLO config: '' e)
            | None \<Rightarrow> NewManagerWithRegistry config logger (Some defaultRegisterer))"

section \<open>Error budgets\<close>

definition checkErrorBudgetPolicies ::
  "ErrorBudgetPolicy list \<Rightarrow> ErrorBudgetState \<Rightarrow> ErrorBudgetState \<times> slo_log list" where
  "checkErrorBudgetPolicies policies state =
     (let hit = filter (\<lambda>p. pl_Threshold p \<le> bs_ConsumedPercent state) policies in
      (state\<lparr>bs_PolicyTriggered := map pl_Action hit\<rparr>,
       map (\<lambda>p. PolicyTriggered (bs_SLOName state) (bs_ConsumedPercent state) (pl_Threshold p) (pl_Action p)
              (pl_Description p)) hit))"

definition next_state :: "gotime \<Rightarrow> f64 \<Rightarrow> f64 \<Rightarrow> ErrorBudgetState \<Rightarrow> ErrorBudgetState" where
  "next_state now actual target state =
     (let errorBudgetTotal = Fin 1 - target;
          errorBudgetConsumed = (if actual < target then target - actual else Fin 0);
          remaining =
            (if Fin 0 < errorBudgetTotal then (errorBudgetTotal - errorBudgetConsumed) / errorBudgetTotal else Fin 1);
          consumed = Fin 1 - remaining;
          burn =
            (if f64_eq (bs_BurnRate state) (Fin 0) then consumed
             else f64_of_rat (9/10) * bs_BurnRate state + f64_of_rat (1/10) * consumed);
          exhaustion =
            (if Fin 0 < burn \<and> Fin 0 < remaining then whole_hours (remaining / (burn / Fin 24))
             else bs_TimeToExhaustion state)
      in state\<lparr>bs_CurrentRemaining := remaining, bs_ConsumedPercent := consumed, bs_LastUpdated := now,
           bs_BurnRate := burn, bs_TimeToExhaustion := exhaustion\<rparr>)"

definition zero_state :: "string \<Rightarrow> ErrorBudgetState" where
  "zero_state sloName = \<lparr>bs_SLOName = sloName, bs_CurrentRemaining = Fin 0, bs_ConsumedPercent = Fin 0,
     bs_LastUpdated = 0, bs_PolicyTriggered = [], bs_BurnRate = Fin 0, bs_TimeToExhaustion = 0\<rparr>"

text \<open>The address of the state under a key, allocated when there is none.\<close>

definition find_or_add :: "string \<Rightarrow> string \<Rightarrow> SloManager \<Rightarrow> nat \<times> SloManager" where
  "find_or_add key sloName m =
     (case sm_errorBudgets m key of
        Some a \<Rightarrow> (a, m)
      | None \<Rightarrow>
          let a = length (sm_store m) in
          (a, m\<lparr>sm_errorBudgets := (sm_errorBudgets m)(key \<mapsto> a), sm_store := sm_store m @ [zero_state sloName]\<rparr>))"

definition updateSingleErrorBudget ::
  "gotime \<Rightarrow> string \<Rightarrow> f64 \<Rightarrow> f64 \<Rightarrow> string \<Rightarrow> SloManager \<Rightarrow> SloManager \<times> slo_log list" where
  "updateSingleErrorBudget now sloName actual target window m =
     (let (a, m1) = find_or_add (history_key sloName window) sloName m;
          (state, logs) = checkErrorBudgetPolicies (eb_Policies (sc_ErrorBudget (sm_config m1)))
            (next_state now actual target (sm_store m1 ! a))
      in (m1\<lparr>sm_store := (sm_store m1)[a := state]\<rparr>, logs))"

definition updateErrorBudgets :: "(nat \<Rightarrow> gotime) \<Rightarrow> SLIValues \<Rightarrow> SloManager \<Rightarrow> SloManager \<times> slo_log list" where
  "updateErrorBudgets now values m =
     (let targets = sc_Targets (sm_config m); window = sv_Window values;
          (m1, l1) = updateSingleErrorBudget (now 0) ''availability'' (sv_Availability values)
            (tg_Availability targets / Fin 100) window m;
          (m2, l2) = updateSingleErrorBudget (now 1) ''success_rate'' (sv_SuccessRate values)
            (tg_SuccessRate targets / Fin 100) window m1;
          (m3, l3) = updateSingleErrorBudget (now 2) ''latency_p95'' (latency_conformance (sm_config m) values)
            (f64_of_rat (95/100)) window m2
      in (m3, l1 @ l2 @ l3))"

section \<open>Burn-rate alerts\<close>

text \<open>The loop keeps the last window whose duration matches.\<close>

definition find_window :: "duration \<Rightarrow> TimeWindow list \<Rightarrow> TimeWindow option" where
  "find_window d ws = foldl (\<lambda>found w. if tw_Duration w = d then Some w else found) None ws"

definition checkBurnRateAlert ::
  "(nat \<Rightarrow> gotime) \<Rightarrow> SloConfig \<Rightarrow> BurnRateAlert \<Rightarrow> string \<Rightarrow> slo_log list \<times> metric_op list" where
  "checkBurnRateAlert now config alert alertType =
     (case (find_window (ba_ShortWindow alert) (sc_Windows config), find_window (ba_LongWindow alert) (sc_Windows config)) of
        (Some shortWindow, Some longWindow) \<Rightarrow>
          (case CalculateMultiWindowBurnRate now config shortWindow longWindow of
             (Inl e, ms) \<Rightarrow> ([BurnRateFailed alertType e], ms)
           | (Inr burnRate, ms) \<Rightarrow>
               (if ba_BurnRateThreshold alert \<le> burnRate
                then [BurnRateExceeded alertType burnRate (ba_BurnRateThreshold alert) (ba_Severity alert)] else [], ms))
      | _ \<Rightarrow> ([WindowsNotFound alertType (ba_ShortWindow alert) (ba_LongWindow alert)], []))"

definition checkBurnRates :: "(nat \<Rightarrow> gotime) \<Rightarrow> SloConfig \<Rightarrow> slo_log list \<times> metric_op list" where
  "checkBurnRates now config =
     (let page = al_PageAlerts (sc_AlertingRules config); ticket = al_TicketAlerts (sc_AlertingRules config);
          (l1, ms1) = (if ba_Enabled page then checkBurnRateAlert now config page ''page'' else ([], []));
          (l2, ms2) = (if ba_Enabled ticket
            then checkBurnRateAlert (\<lambda>i. now (i + 2)) config ticket ''ticket'' else ([], []))
      in (l1 @ l2, ms1 @ ms2))"

definition calculateForWindow ::
  "(nat \<Rightarrow> gotime) \<Rightarrow> TimeWindow \<Rightarrow> SloManager \<Rightarrow> SloManager \<times> slo_log list \<times> metric_op list" where
  "calculateForWindow now window m =
     (case Calculate (now 0) (sm_config m) window of
        (Inl e, ms) \<Rightarrow> (m, [CalculationFailed (tw_Name window) e], ms)
      | (Inr values, ms1) \<Rightarrow>
          let m1 = m\<lparr>sm_lastCalculation := (sm_lastCalculation m)(tw_Name window \<mapsto> values)\<rparr>;
              (m2, l1) = updateErrorBudgets (\<lambda>i. now (i + 1)) values m1;
              (l2, ms2) =
                (if tw_IsShortTerm window then checkBurnRates (\<lambda>i. now (i + 4)) (sm_config m2) else ([], []))
          in (m2, l1 @ l2, ms1 @ ms2))"

section \<open>Getters\<close>

definition GetSLIValues :: "SloManager \<Rightarrow> string \<Rightarrow> SLIValues option" where
  "GetSLIValues m window = sm_lastCalculation m window"

text \<open>The getters return addresses; \<open>read_state\<close> follows one in the store of a manager.\<close>

definition GetErrorBudgetState :: "SloManager \<Rightarrow> string \<Rightarrow> string \<Rightarrow> nat option" where
  "GetErrorBudgetState m sloName window = sm_errorBudgets m (history_key sloName window)"

definition GetAllErrorBudgets :: "SloManager \<Rightarrow> (string \<rightharpoonup> nat)" where
  "GetAllErrorBudgets m = sm_errorBudgets m"

definition read_state :: "SloManager \<Rightarrow> nat \<Rightarrow> ErrorBudgetState" where
  "read_state m a = sm_store m ! a"

section \<open>The monitoring loop\<close>

definition ticker_interval :: "TimeWindow \<Rightarrow> duration" where
  "ticker_interval window =
     (let interval = go_div (tw_Duration window) 10 in
      if tw_IsShortTerm window then 30 * Second
      else if interval < 5 * Minute then 5 * Minute
      else interval)"

text \<open>The tickers, by name of their window: a later window of the same name replaces the ticker of an earlier one.\<close>

definition start_tickers :: "TimeWindow list \<Rightarrow> (string \<rightharpoonup> duration)" where
  "start_tickers ws = foldl (\<lambda>ts w. ts(tw_Name w \<mapsto> ticker_interval w)) Map.empty ws"

text \<open>
  One pass of the loop: it ends when \<open>stopCh\<close> or the context is closed; otherwise each window whose ticker has a tick
  pending takes that tick and is calculated.
\<close>

fun take_ticks :: "string set \<Rightarrow> TimeWindow list \<Rightarrow> TimeWindow list \<times> string set" where
  "take_ticks pending [] = ([], pending)"
| "take_ticks pending (w # ws) =
     (if tw_Name w \<in> pending
      then (case take_ticks (pending - {tw_Name w}) ws of (due, left) \<Rightarrow> (w # due, left))
      else take_ticks pending ws)"

definition loop_pass :: "bool \<Rightarrow> bool \<Rightarrow> string set \<Rightarrow> TimeWindow list \<Rightarrow> (TimeWindow list \<times> string set) option" where
  "loop_pass stopped ctxDone pending ws = (if stopped \<or> ctxDone then None else Some (take_ticks pending ws))"

text \<open>
  The channels of a manager, and where its callers are: the loops that run, whether \<open>stopCh\<close> and \<open>doneCh\<close> are closed,
  whether the context has ended, and the calls of \<open>Stop\<close> that wait and that have returned. Closing a channel
  twice panics and ends the program.
\<close>

record slo_life =
  lf_loops :: nat
  lf_stop :: bool
  lf_done :: bool
  lf_ctx :: bool
  lf_waiting :: nat
  lf_returned :: nat
  lf_panic :: bool

definition fresh_life :: slo_life where
  "fresh_life = \<lparr>lf_loops = 0, lf_stop = False, lf_done = False, lf_ctx = False, lf_waiting = 0, lf_returned = 0,
     lf_panic = False\<rparr>"

datatype life_event = StartCall | StopCall | StopReturn | LoopExit | CtxEnd

inductive life_step :: "bool \<Rightarrow> slo_life \<Rightarrow> life_event \<Rightarrow> slo_life \<Rightarrow> bool" for enabled :: bool where
  start_off: "\<not> lf_panic s \<Longrightarrow> \<not> enabled \<Longrightarrow> life_step enabled s StartCall s"
| start_on: "\<not> lf_panic s \<Longrightarrow> enabled \<Longrightarrow> life_step enabled s StartCall (s\<lparr>lf_loops := Suc (lf_loops s)\<rparr>)"
| stop_panics: "\<not> lf_panic s \<Longrightarrow> lf_stop s \<Longrightarrow> life_step enabled s StopCall (s\<lparr>lf_panic := True\<rparr>)"
| stop_off: "\<not> lf_panic s \<Longrightarrow> \<not> lf_stop s \<Longrightarrow> \<not> enabled \<Longrightarrow>
    life_step enabled s StopCall (s\<lparr>lf_stop := True, lf_returned := Suc (lf_returned s)\<rparr>)"
| stop_on: "\<not> lf_panic s \<Longrightarrow> \<not> lf_stop s \<Longrightarrow> enabled \<Longrightarrow>
    life_step enabled s StopCall (s\<lparr>lf_stop := True, lf_waiting := Suc (lf_waiting s)\<rparr>)"
| stop_return: "\<not> lf_panic s \<Longrightarrow> lf_done s \<Longrightarrow> 0 < lf_waiting s \<Longrightarrow>
    life_step enabled s StopReturn (s\<lparr>lf_waiting := lf_waiting s - 1, lf_returned := Suc (lf_returned s)\<rparr>)"
| exit: "\<not> lf_panic s \<Longrightarrow> 0 < lf_loops s \<Longrightarrow> lf_stop s \<or> lf_ctx s \<Longrightarrow> \<not> lf_done s \<Longrightarrow>
    life_step enabled s LoopExit (s\<lparr>lf_loops := lf_loops s - 1, lf_done := True\<rparr>)"
| exit_panics: "\<not> lf_panic s \<Longrightarrow> 0 < lf_loops s \<Longrightarrow> lf_stop s \<or> lf_ctx s \<Longrightarrow> lf_done s \<Longrightarrow>
    life_step enabled s LoopExit (s\<lparr>lf_panic := True\<rparr>)"
| ctx_end: "\<not> lf_panic s \<Longrightarrow> life_step enabled s CtxEnd (s\<lparr>lf_ctx := True\<rparr>)"

inductive life_run :: "bool \<Rightarrow> slo_life \<Rightarrow> life_event list \<Rightarrow> slo_life \<Rightarrow> bool" for enabled :: bool and s :: slo_life where
  none: "life_run enabled s [] s"
| one: "life_run enabled s evs t \<Longrightarrow> life_step enabled t ev u \<Longrightarrow> life_run enabled s (evs @ [ev]) u"

inductive_cases life_stepE: "life_step enabled s ev t"
inductive_simps life_step_simps: "life_step enabled s ev t"

end
