(* ===== verification/ErrorBudgetProps.thy ===== *)
theory ErrorBudgetProps
  imports ErrorBudget
begin

text \<open>
  What the error budget manager guarantees: budgets between 0 and 1 that move with the measured ratio, a history
  that is exactly the last thousand snapshots of its key, burn rates and predictions from it, the recommended
  action, and the statistics of a report.
\<close>

section \<open>Budgets\<close>

lemma fin_minus: "Fin a - Fin b = f64_of_rat (a - b)"
  by (simp add: minus_f64_def)

lemma representable_small [simp]: "representable 0" "representable 1" "representable (- 1)"
  using representable_of_int [of 0] representable_of_int [of 1] representable_of_int [of "- 1"] by simp_all

lemma f64_unit: "\<bar>q\<bar> \<le> 1 \<Longrightarrow> f64_of_rat q = Fin (rnd q) \<and> \<bar>rnd q\<bar> \<le> 1"
  using f64_of_rat_between [of "- 1" 1 q] max_f64_pos(2) by (auto simp: abs_le_iff simp del: max_f64_pos)

lemma clamp_mono:
  "x \<le> y \<Longrightarrow> clamp x (Fin 0) (Fin 1) \<le> clamp y (Fin 0) (Fin 1)"
  by (cases x; cases y) (auto simp: clamp_def)

lemma clamp_range:
  "x \<noteq> NaN \<Longrightarrow> Fin 0 \<le> clamp x (Fin 0) (Fin 1) \<and> clamp x (Fin 0) (Fin 1) \<le> Fin 1"
  by (cases x) (auto simp: clamp_def)

lemma clamp_fixed [simp]: "clamp (Fin 0) (Fin 0) (Fin 1) = Fin 0" "clamp (Fin 1) (Fin 0) (Fin 1) = Fin 1"
  by (simp_all add: clamp_def)

text \<open>The budget that is consumed, and the percentages, in closed form.\<close>

definition consumed_budget :: "rat \<Rightarrow> rat \<Rightarrow> rat" where
  "consumed_budget a t = rnd (max 0 (t - a))"

definition budget_of :: "rat \<Rightarrow> rat \<Rightarrow> f64 \<times> f64" where
  "budget_of a t =
     (let T = rnd (1 - t); c = consumed_budget a t in
      if t < 1 \<and> 0 < T
      then (clamp (f64_of_rat (rnd (T - c) / T)) (Fin 0) (Fin 1), clamp (f64_of_rat (c / T)) (Fin 0) (Fin 1))
      else (Fin 1, Fin 0))"

abbreviation percents :: "ErrorBudgetCalculation \<Rightarrow> f64 \<times> f64" where
  "percents c \<equiv> (bc_RemainingPercent c, bc_ConsumedPercent c)"

lemma consumed_range: "0 \<le> a \<Longrightarrow> t \<le> 1 \<Longrightarrow> 0 \<le> consumed_budget a t \<and> consumed_budget a t \<le> 1"
  using binary64.r_between [of 0 1 "max 0 (t - a)"] by (simp add: consumed_budget_def)

lemma budget_terms:
  assumes "0 \<le> a" and "0 \<le> t" and "t < 1"
  defines "T \<equiv> rnd (1 - t)" and "c \<equiv> consumed_budget a t"
  shows "Fin 1 - Fin t = Fin T" and "(if t \<le> a then Fin 0 else Fin t - Fin a) = Fin c"
    and "Fin T - Fin c = Fin (rnd (T - c))" and "0 \<le> T" and "0 \<le> c"
proof -
  have T: "f64_of_rat (1 - t) = Fin T" "\<bar>T\<bar> \<le> 1"
    using f64_unit [of "1 - t"] assms(2,3) by (simp_all add: T_def)
  have c: "(if t \<le> a then Fin 0 else Fin t - Fin a) = Fin c" "0 \<le> c" "c \<le> 1"
    using f64_unit [of "t - a"] consumed_range [of a t] assms(1-3)
    by (auto simp: c_def consumed_budget_def fin_minus)
  have T0: "0 \<le> T" using assms(3) by (simp add: T_def rnd_nonneg)
  show "Fin T - Fin c = Fin (rnd (T - c))"
    using f64_unit [of "T - c"] T(2) c T0 by (simp add: abs_le_iff fin_minus)
  show "Fin 1 - Fin t = Fin T" using T by (simp add: fin_minus)
  show "0 \<le> T" "0 \<le> c" "(if t \<le> a then Fin 0 else Fin t - Fin a) = Fin c" by fact+
qed

lemma no_budget: "1 \<le> t \<Longrightarrow> Fin 1 - Fin t \<le> Fin 0 \<and> \<not> Fin 0 < Fin 1 - Fin t"
  using f64_of_rat_mono [of "1 - t" 0] by (cases "f64_of_rat (1 - t)") (auto simp: fin_minus)

lemma budget_closed_form:
  assumes "0 \<le> a" and "0 \<le> t"
  shows "percents (CalculateErrorBudget now n (Fin a) (Fin t)) = budget_of a t"
proof (cases "t < 1")
  case False
  with no_budget [of t] show ?thesis by (simp add: CalculateErrorBudget_def budget_of_def Let_def)
next
  case True
  have "percents (CalculateErrorBudget now n (Fin a) (Fin t))
    = (if 0 < rnd (1 - t)
       then (clamp (f64_of_rat (rnd (rnd (1 - t) - consumed_budget a t) / rnd (1 - t))) (Fin 0) (Fin 1),
             clamp (f64_of_rat (consumed_budget a t / rnd (1 - t))) (Fin 0) (Fin 1))
       else (Fin 1, Fin 0))"
    using budget_terms [OF assms True] by (simp add: CalculateErrorBudget_def Let_def)
  with True show ?thesis by (simp add: budget_of_def Let_def)
qed

lemma budget_met: "t \<le> a \<Longrightarrow> budget_of a t = (Fin 1, Fin 0)"
  by (simp add: budget_of_def consumed_budget_def Let_def rnd_representable representable_rnd)

lemma budget_mono:
  assumes "a \<le> a'"
  shows "fst (budget_of a t) \<le> fst (budget_of a' t) \<and> snd (budget_of a' t) \<le> snd (budget_of a t)"
proof -
  have c: "consumed_budget a' t \<le> consumed_budget a t"
    unfolding consumed_budget_def using assms by (intro rnd_mono) simp
  then have "rnd (T - consumed_budget a t) \<le> rnd (T - consumed_budget a' t)" for T
    by (intro rnd_mono) simp
  with c show ?thesis
    by (auto simp: budget_of_def Let_def intro!: clamp_mono f64_of_rat_mono divide_right_mono)
qed

lemma budget_range:
  "Fin 0 \<le> fst (budget_of a t) \<and> fst (budget_of a t) \<le> Fin 1
   \<and> Fin 0 \<le> snd (budget_of a t) \<and> snd (budget_of a t) \<le> Fin 1"
  using clamp_range by (simp add: budget_of_def Let_def)



section \<open>History\<close>

lemma last_n_drop: "last_n n xs = drop (length xs - n) xs"
  by (simp add: last_n_def)

lemma last_n_snoc: "last_n n (last_n n xs @ [x]) = last_n n (xs @ [x])"
  by (cases "length xs \<le> n") (auto simp: last_n_drop Suc_diff_le)

definition snapshots_of :: "string \<Rightarrow> ErrorBudgetSnapshot list \<Rightarrow> ErrorBudgetSnapshot list" where
  "snapshots_of k ss = filter (\<lambda>s. history_key (sn_SLOName s) (sn_Window s) = k) ss"


lemma record_config [simp]: "em_config (fold RecordSnapshot ss m) = em_config m"
  by (induction ss arbitrary: m) (simp_all add: RecordSnapshot_def Let_def)

section \<open>Burn rate and prediction\<close>

lemma period_bounds_started:
  "period_bounds ps prev (Some s) e ss = (Some s, if ss = [] then e else Some (last ss))"
  by (induction ss arbitrary: prev e) auto

lemma period_bounds_split:
  "\<forall>x \<in> set xs. sn_Timestamp x \<le> ps \<Longrightarrow> ps < sn_Timestamp y \<Longrightarrow>
   period_bounds ps prev None e (xs @ y # ys) =
     (Some (case (if xs = [] then prev else Some (last xs)) of None \<Rightarrow> y | Some p \<Rightarrow> p), Some (last (y # ys)))"
  by (induction xs arbitrary: prev e) (auto simp: period_bounds_started)

text \<open>The change of the consumed part between two snapshots, per hour.\<close>

definition change_per_hour :: "ErrorBudgetSnapshot \<Rightarrow> ErrorBudgetSnapshot \<Rightarrow> f64" where
  "change_per_hour s e =
     (let d = sn_ConsumedPercent s - sn_ConsumedPercent e; h = dur_Hours (time_sub (sn_Timestamp e) (sn_Timestamp s))
      in if Fin 0 < h then (if d < Fin 0 then - d else d) / h else Fin 0)"

lemma f64_uminus_Fin: "- Fin a = Fin (- a)" by simp

lemma quotient_nonneg: "Fin 0 \<le> x \<Longrightarrow> 0 < h \<Longrightarrow> Fin 0 \<le> x / Fin h"
  using f64_of_rat_mono [of 0 "p / h" for p] by (cases x) (auto simp: inf_of_sign_def)

lemma change_nonneg:
  assumes "sn_ConsumedPercent s = Fin a" and "sn_ConsumedPercent e = Fin b"
    and "sn_Timestamp s \<le> sn_Timestamp e"
  shows "Fin 0 \<le> change_per_hour s e"
proof -
  obtain h where h: "dur_Hours (time_sub (sn_Timestamp e) (sn_Timestamp s)) = Fin h"
    using dur_Hours_nonneg [OF time_sub_nonneg [OF assms(3)]] by auto
  have "Fin 0 \<le> (if d < Fin 0 then - d else d)" if "d \<noteq> NaN" for d :: f64
    using that by (cases d) auto
  then have "Fin 0 \<le> (let d = Fin a - Fin b in if d < Fin 0 then - d else d)"
    by (simp add: fin_minus Let_def)
  then show ?thesis
    using quotient_nonneg [of _ h] by (simp add: change_per_hour_def assms(1,2) h Let_def)
qed

text \<open>When \<open>y\<close> is the first snapshot after the beginning of the period, the burn rate is the change of the consumed
  part from the snapshot before \<open>y\<close> (from \<open>y\<close>, when there is none before) to the latest one, per hour, and it is not
  negative; there is none when no time lies between them.\<close>

theorem burn_rate_over_period:
  assumes "em_history m (history_key sloName window) = Some (xs @ y # ys)"
    and "2 \<le> length (xs @ y # ys)"
    and "\<forall>x \<in> set xs. sn_Timestamp x \<le> time_add now (wrap64 (- period))"
    and "time_add now (wrap64 (- period)) < sn_Timestamp y"
  defines "s \<equiv> (if xs = [] then y else last xs)" and "e \<equiv> last (y # ys)"
  shows "(sn_Timestamp s < sn_Timestamp e \<longrightarrow>
      CalculateBurnRate now sloName window period m = Inr (change_per_hour s e)
      \<and> (\<forall>a b. sn_ConsumedPercent s = Fin a \<longrightarrow> sn_ConsumedPercent e = Fin b \<longrightarrow> Fin 0 \<le> change_per_hour s e))
    \<and> (sn_Timestamp e \<le> sn_Timestamp s \<longrightarrow>
      CalculateBurnRate now sloName window period m =
        Inl (ErrNew ''invalid time difference for burn rate calculation''))"
proof -
  have b: "period_bounds (time_add now (wrap64 (- period))) None None None (xs @ y # ys) = (Some s, Some e)"
    using period_bounds_split [OF assms(3,4)] by (simp add: s_def e_def)
  have t: "time_sub u v \<le> 0 \<longleftrightarrow> u \<le> v" for u v by (auto simp: time_sub_def)
  have "CalculateBurnRate now sloName window period m =
    (if sn_Timestamp e \<le> sn_Timestamp s then Inl (ErrNew ''invalid time difference for burn rate calculation'')
     else Inr (change_per_hour s e))"
    using assms(2) unfolding CalculateBurnRate_def assms(1)
    by (auto simp add: b t change_per_hour_def Let_def)
  then show ?thesis using change_nonneg [of s _ e] by auto
qed

definition demo_snapshot :: "gotime \<Rightarrow> rat \<Rightarrow> ErrorBudgetSnapshot" where
  "demo_snapshot t consumed = \<lparr>sn_Timestamp = t, sn_Remaining = Fin (1 - consumed), sn_ConsumedPercent = Fin consumed,
     sn_BurnRate = Fin 0, sn_SLOName = ''availability'', sn_Window = ''1h''\<rparr>"

definition demo_budget_manager :: ErrorBudgetManager where
  "demo_budget_manager =
     RecordSnapshot (demo_snapshot (9 * Hour) (1/2))
       (RecordSnapshot (demo_snapshot (8 * Hour) (1/2 - 1 / 2 ^ 23)) (NewErrorBudgetManager (sc_ErrorBudget slo_DefaultConfig)))"

lemma demo_history:
  "em_history demo_budget_manager (history_key ''availability'' ''1h'') =
     Some ([demo_snapshot (8 * Hour) (1/2 - 1 / 2 ^ 23)] @ demo_snapshot (9 * Hour) (1/2) # [])"
  by (simp add: demo_budget_manager_def RecordSnapshot_def NewErrorBudgetManager_def demo_snapshot_def last_n_def Let_def)

lemma demo_snapshot_simps [simp]:
  "sn_Timestamp (demo_snapshot t c) = t" "sn_ConsumedPercent (demo_snapshot t c) = Fin c"
  by (simp_all add: demo_snapshot_def)

lemma demo_hour: "dur_Hours Hour = Fin 1"
  by (simp add: dur_Hours_def go_div_def go_mod_def f64_of_int_exact)

lemma representable_powi: "- 1074 \<le> e \<Longrightarrow> representable (2 powi e)"
  unfolding representable_def by (rule exI [of _ 1], rule exI [of _ e]) simp

lemma demo_tiny: "f64_of_rat (- 1 / 2 ^ 23) = Fin (- 1 / 2 ^ 23)" "f64_of_rat (1 / 2 ^ 23) = Fin (1 / 2 ^ 23)"
proof -
  have "representable (2 powi (- 23))" by (rule representable_powi) simp
  then have r: "representable (1 / 2 ^ 23)" by (simp add: power_int_minus inverse_eq_divide)
  have b: "\<bar>1 / 2 ^ 23\<bar> \<le> max_f64" by (rule order_trans [of _ 1]) simp_all
  show "f64_of_rat (1 / 2 ^ 23) = Fin (1 / 2 ^ 23)" by (rule f64_of_rat_exact [OF r b])
  show "f64_of_rat (- 1 / 2 ^ 23) = Fin (- 1 / 2 ^ 23)"
    using f64_of_rat_exact [OF representable_uminus [OF r]] b by simp
qed

lemma demo_change: "change_per_hour (demo_snapshot (8 * Hour) (1/2 - 1 / 2 ^ 23)) (demo_snapshot (9 * Hour) (1/2)) = Fin (1 / 2 ^ 23)"
  using demo_tiny demo_hour by (simp add: change_per_hour_def fin_minus time_sub_def Let_def)

theorem burn_rate_over_period_witness:
  "CalculateBurnRate (9 * Hour) ''availability'' ''1h'' Hour demo_budget_manager = Inr (Fin (1 / 2 ^ 23))"
proof -
  have "wrap64 (- Hour) = - Hour" by (rule wrap64_id) (simp add: in_int64_def)
  then show ?thesis
    using burn_rate_over_period [OF demo_history, of "9 * Hour" Hour] demo_change by (simp add: time_add_def)
qed

lemma truncated_hours:
  assumes "0 \<le> q" and "q < 2 ^ 63"
  shows "f64_to_int64 (Fin q) = \<lfloor>q\<rfloor>"
  using assms by (simp add: f64_to_int64_def in_int64_def Let_def floor_less_iff le_floor_iff)

text \<open>The predicted time is cut to whole hours, so it lies up to an hour early (and is the present when less than an
  hour is left); beyond the range of a duration it wraps around, and a budget that lasts for centuries is
  reported as exhausted in the past.\<close>

theorem prediction_truncates_and_wraps:
  assumes "CalculateBurnRate now sloName window Hour m = Inr burnRate" and "Fin 0 < burnRate"
    and "em_history m (history_key sloName window) = Some snapshots"
    and "Fin 1 - sn_ConsumedPercent (last snapshots) = Fin left" and "0 < left"
    and "Fin left / burnRate = Fin hours" and "0 \<le> hours"
  shows "\<exists>t. PredictExhaustion now later sloName window m = Inr t
    \<and> (hours < 2562047 \<longrightarrow> t = later + \<lfloor>hours\<rfloor> * Hour \<and> of_int (t - later) \<le> hours * of_int Hour
        \<and> hours * of_int Hour < of_int (t - later + Hour))
    \<and> (2562048 \<le> hours \<and> hours < 5124095 \<longrightarrow> t < later)"
proof -
  have n: "snapshots \<noteq> []"
    using assms(1,3) by (auto simp: CalculateBurnRate_def split: option.splits)
  have b: "\<not> burnRate \<le> Fin 0" using assms(2) by (cases burnRate) auto
  have p: "PredictExhaustion now later sloName window m = Inr (later + whole_hours (Fin hours))"
    using n b assms by (simp add: PredictExhaustion_def Let_def time_add_def)
  have fl: "of_int \<lfloor>hours\<rfloor> \<le> hours" "hours < of_int \<lfloor>hours\<rfloor> + 1" "0 \<le> \<lfloor>hours\<rfloor>"
    using assms(7) floor_correct [of hours] by simp_all
  have small: "whole_hours (Fin hours) = \<lfloor>hours\<rfloor> * Hour" if "hours < 2562047"
  proof -
    have f: "f64_to_int64 (Fin hours) = \<lfloor>hours\<rfloor>" using that assms(7) by (intro truncated_hours) simp_all
    define n where "n = \<lfloor>hours\<rfloor>"
    have "n < 2562047" "0 \<le> n" using that fl(3) by (simp_all add: n_def floor_less_iff)
    then have "in_int64 (n * Hour)" by (simp add: in_int64_def)
    then show ?thesis unfolding whole_hours_def f n_def by (rule wrap64_id)
  qed
  have large: "whole_hours (Fin hours) < 0" if "2562048 \<le> hours" "hours < 5124095"
  proof -
    have f: "f64_to_int64 (Fin hours) = \<lfloor>hours\<rfloor>" using that assms(7) by (intro truncated_hours) simp_all
    define n where "n = \<lfloor>hours\<rfloor>"
    define x where "x = n * Hour + 2 ^ 63"
    have r: "2562048 \<le> n" "n < 5124095" using that by (simp_all add: n_def floor_less_iff le_floor_iff)
    then have "2 ^ 64 \<le> x" "x < 2 ^ 64 + 2 ^ 63" by (simp_all add: x_def)
    then have "(x - 2 ^ 64) mod 2 ^ 64 = x - 2 ^ 64" by (intro mod_pos_pos_trivial) simp_all
    moreover have "x mod 2 ^ 64 = (x - 2 ^ 64) mod 2 ^ 64" by (rule minus_mod_self2 [symmetric])
    ultimately have "x mod 2 ^ 64 < 2 ^ 63" using \<open>x < 2 ^ 64 + 2 ^ 63\<close> by linarith
    then show ?thesis unfolding whole_hours_def f wrap64_def by (simp add: x_def n_def)
  qed
  have frac: "of_int (\<lfloor>hours\<rfloor> * Hour) \<le> hours * of_int Hour" "hours * of_int Hour < of_int (\<lfloor>hours\<rfloor> * Hour + Hour)"
    using fl(1,2) by (simp_all add: field_simps)
  show ?thesis
    by (intro exI [of _ "later + whole_hours (Fin hours)"] conjI impI)
      (use p small large frac in \<open>simp_all del: of_int_mult of_int_add\<close>)
qed

theorem prediction_truncates_and_wraps_witness:
  "\<exists>t. PredictExhaustion (9 * Hour) (9 * Hour) ''availability'' ''1h'' demo_budget_manager = Inr t \<and> t < 9 * Hour"
proof -
  have half: "f64_of_rat (1/2) = Fin (1/2)"
    using f64_of_rat_exact [of "1/2"] representable_powi [of "- 1"] order_trans [of "1/2" 1 max_f64]
    by (simp add: power_int_minus inverse_eq_divide)
  have h: "f64_of_rat 4194304 = Fin 4194304" by simp
  have "\<exists>t. PredictExhaustion (9 * Hour) (9 * Hour) ''availability'' ''1h'' demo_budget_manager = Inr t
    \<and> (4194304 < (2562047 :: rat) \<longrightarrow> t = 9 * Hour + \<lfloor>4194304 :: rat\<rfloor> * Hour \<and> of_int (t - 9 * Hour) \<le> 4194304 * (of_int Hour :: rat)
        \<and> 4194304 * (of_int Hour :: rat) < of_int (t - 9 * Hour + Hour))
    \<and> ((2562048 :: rat) \<le> 4194304 \<and> (4194304 :: rat) < 5124095 \<longrightarrow> t < 9 * Hour)"
    by (rule prediction_truncates_and_wraps [OF _ _ demo_history, where burnRate = "Fin (1 / 2 ^ 23)" and left = "1/2"])
      (use burn_rate_over_period [OF demo_history, of "9 * Hour" Hour] demo_change half h
        in \<open>simp_all add: time_add_def wrap64_id in_int64_def fin_minus\<close>)
  then show ?thesis by auto
qed

section \<open>Recommended action\<close>

text \<open>The policies that apply, and the best of them: the greatest threshold, the first one among equals.\<close>

definition applies :: "f64 \<Rightarrow> ErrorBudgetPolicy \<Rightarrow> bool" where
  "applies consumed p \<longleftrightarrow> pl_Threshold p \<le> consumed"

lemma best_policy_skip:
  "\<forall>p \<in> set ps. applies consumed p \<longrightarrow> \<not> highest < pl_Threshold p \<Longrightarrow>
   best_policy consumed ps (action, highest) = (action, highest)"
  by (induction ps) (auto simp: applies_def)

lemma f64_less_le_trans: "x < y \<Longrightarrow> y \<le> z \<Longrightarrow> x < (z :: f64)"
  by (cases x; cases y; cases z) auto

lemma f64_le_less_trans: "x \<le> y \<Longrightarrow> y < z \<Longrightarrow> x < (z :: f64)"
  by (cases x; cases y; cases z) auto

lemma best_policy_found:
  "applies consumed p \<Longrightarrow> highest < pl_Threshold p \<Longrightarrow>
   \<forall>q \<in> set before. applies consumed q \<longrightarrow> pl_Threshold q < pl_Threshold p \<Longrightarrow>
   \<forall>q \<in> set after. applies consumed q \<longrightarrow> \<not> pl_Threshold p < pl_Threshold q \<Longrightarrow>
   best_policy consumed (before @ p # after) (action, highest) = (pl_Action p, pl_Threshold p)"
proof (induction before arbitrary: action highest)
  case Nil
  then show ?case by (simp add: best_policy_skip) (simp add: applies_def)
next
  case (Cons q before)
  show ?case
    using Cons.prems Cons.IH by (simp add: applies_def)
qed

text \<open>The recommended action is that of the applicable policy with the greatest threshold, the first one among equals;
  without an applicable policy normal operations continue. Thresholds of -1 and below never count.\<close>

theorem recommended_action_is_strictest:
  assumes "eb_Policies (em_config m) = before @ p # after"
    and "applies consumed p" and "Fin (- 1) < pl_Threshold p" and "pl_Action p \<noteq> []"
    and "\<forall>q \<in> set before. applies consumed q \<longrightarrow> pl_Threshold q < pl_Threshold p"
    and "\<forall>q \<in> set after. applies consumed q \<longrightarrow> \<not> pl_Threshold p < pl_Threshold q"
  shows "GetRecommendedAction m consumed = pl_Action p
    \<and> (\<forall>c. c < pl_Threshold p \<longrightarrow> (\<forall>q \<in> set (before @ after). c < pl_Threshold q) \<longrightarrow>
         GetRecommendedAction m c = ''continue_normal_operations'')"
proof -
  have "best_policy c (before @ p # after) ([], Fin (- 1)) = ([], Fin (- 1))"
    if "c < pl_Threshold p" "\<forall>q \<in> set (before @ after). c < pl_Threshold q" for c
  proof (rule best_policy_skip)
    have "\<not> y \<le> x" if "x < y" for x y :: f64 using that by (cases x; cases y) auto
    then show "\<forall>q \<in> set (before @ p # after). applies c q \<longrightarrow> \<not> Fin (- 1) < pl_Threshold q"
      using that by (auto simp: applies_def)
  qed
  then show ?thesis
    using best_policy_found [OF assms(2,3,5,6), of "[]"] assms(1,4)
    by (simp add: GetRecommendedAction_def del: best_policy.simps)
qed

definition two_policies :: ErrorBudgetConfig where
  "two_policies = \<lparr>eb_WindowDays = 30, eb_AlertThresholds = \<lparr>th_Warning = Fin 0, th_Critical = Fin 1\<rparr>,
     eb_Policies = [\<lparr>pl_Threshold = Fin 0, pl_Action = ''notify'', pl_Description = []\<rparr>,
       \<lparr>pl_Threshold = Fin 1, pl_Action = ''freeze_deployments'', pl_Description = []\<rparr>]\<rparr>"

theorem recommended_action_is_strictest_witness:
  "GetRecommendedAction (NewErrorBudgetManager two_policies) (Fin 1) = ''freeze_deployments''"
proof -
  let ?n = "\<lparr>pl_Threshold = Fin 0, pl_Action = ''notify'', pl_Description = []\<rparr>"
  let ?f = "\<lparr>pl_Threshold = Fin 1, pl_Action = ''freeze_deployments'', pl_Description = []\<rparr>"
  have "GetRecommendedAction (NewErrorBudgetManager two_policies) (Fin 1) = pl_Action ?f
    \<and> (\<forall>c. c < pl_Threshold ?f \<longrightarrow> (\<forall>q \<in> set ([?n] @ []). c < pl_Threshold q) \<longrightarrow>
         GetRecommendedAction (NewErrorBudgetManager two_policies) c = ''continue_normal_operations'')"
    by (rule recommended_action_is_strictest) (simp_all add: NewErrorBudgetManager_def two_policies_def applies_def)
  then show ?thesis by simp
qed

section \<open>Statistics\<close>

definition violation :: "f64 \<Rightarrow> ErrorBudgetSnapshot \<Rightarrow> bool" where
  "violation warning s \<longleftrightarrow> warning \<le> sn_ConsumedPercent s"

text \<open>The number of runs of violations: how often a list without adjacent repetitions holds true.\<close>

definition violation_runs :: "f64 \<Rightarrow> ErrorBudgetSnapshot list \<Rightarrow> nat" where
  "violation_runs warning ss = count_list (remdups_adj (map (violation warning) ss)) True"

lemma stat_step_fields:
  "es_TotalViolations (sl_stats (stat_step w s l)) =
     es_TotalViolations (sl_stats l) + (if violation w s \<and> \<not> sl_inViolation l then 1 else 0)"
  "sl_inViolation (stat_step w s l) = violation w s"
  "es_MinRemaining (sl_stats (stat_step w s l)) =
     (if sn_Remaining s < es_MinRemaining (sl_stats l) then sn_Remaining s else es_MinRemaining (sl_stats l))"
  "es_MaxRemaining (sl_stats (stat_step w s l)) =
     (if es_MaxRemaining (sl_stats l) < sn_Remaining s then sn_Remaining s else es_MaxRemaining (sl_stats l))"
  by (auto simp: stat_step_def stat_violation_def stat_burn_def stat_remaining_def longest_def violation_def Let_def)

lemma fold_violations:
  "es_TotalViolations (sl_stats (fold (stat_step w) ss l)) + (if sl_inViolation l then 1 else 0) =
     es_TotalViolations (sl_stats l) + int (count_list (remdups_adj (sl_inViolation l # map (violation w) ss)) True)"
proof (induction ss arbitrary: l)
  case (Cons s ss)
  show ?case using Cons.IH [of "stat_step w s l"] by (auto simp: stat_step_fields split: if_splits)
qed simp

lemma fold_min_max:
  fixes ss :: "ErrorBudgetSnapshot list"
  assumes "\<forall>s \<in> set ss. \<exists>r. sn_Remaining s = Fin r"
    and "es_MinRemaining (sl_stats l) = Fin a" and "es_MaxRemaining (sl_stats l) = Fin b"
  shows "\<exists>a' b'. es_MinRemaining (sl_stats (fold (stat_step w) ss l)) = Fin a'
    \<and> es_MaxRemaining (sl_stats (fold (stat_step w) ss l)) = Fin b'
    \<and> a' \<le> a \<and> b \<le> b' \<and> (\<forall>s \<in> set ss. Fin a' \<le> sn_Remaining s \<and> sn_Remaining s \<le> Fin b')
    \<and> (a' = a \<or> Fin a' \<in> sn_Remaining ` set ss) \<and> (b' = b \<or> Fin b' \<in> sn_Remaining ` set ss)"
  using assms
proof (induction ss arbitrary: l a b)
  case (Cons s ss)
  obtain r where r: "sn_Remaining s = Fin r" using Cons.prems(1) by auto
  have m: "es_MinRemaining (sl_stats (stat_step w s l)) = Fin (min r a)"
    "es_MaxRemaining (sl_stats (stat_step w s l)) = Fin (max r b)"
    using Cons.prems(2,3) r by (auto simp: stat_step_fields min_def max_def)
  obtain a' b' where "es_MinRemaining (sl_stats (fold (stat_step w) ss (stat_step w s l))) = Fin a'"
    "es_MaxRemaining (sl_stats (fold (stat_step w) ss (stat_step w s l))) = Fin b'"
    "a' \<le> min r a" "max r b \<le> b'" "\<forall>s \<in> set ss. Fin a' \<le> sn_Remaining s \<and> sn_Remaining s \<le> Fin b'"
    "a' = min r a \<or> Fin a' \<in> sn_Remaining ` set ss" "b' = max r b \<or> Fin b' \<in> sn_Remaining ` set ss"
    using Cons.IH [OF _ m] Cons.prems(1) by auto
  then show ?case
    by (intro exI [of _ a'] exI [of _ b']) (auto simp: r min_def max_def split: if_splits)
qed simp

lemma statistics_of_fold:
  fixes m :: ErrorBudgetManager
  assumes "snapshots \<noteq> []"
  defines "l \<equiv> fold (stat_step (th_Warning (eb_AlertThresholds (em_config m)))) snapshots stat_init"
  shows "es_TotalViolations (calculateStatistics now m snapshots) = es_TotalViolations (sl_stats l)"
    and "es_MinRemaining (calculateStatistics now m snapshots) = es_MinRemaining (sl_stats l)"
    and "es_MaxRemaining (calculateStatistics now m snapshots) = es_MaxRemaining (sl_stats l)"
  using assms(1) by (simp_all add: calculateStatistics_def longest_def Let_def l_def [symmetric])

text \<open>For remaining budgets between 0 and 1 the reported minimum and maximum are taken by snapshots and bound them all,
  and the violations are the runs of snapshots at or above the warning threshold.\<close>

theorem statistics_summarise_history:
  fixes now :: gotime and m :: ErrorBudgetManager
  assumes "snapshots \<noteq> []"
    and "\<forall>s \<in> set snapshots. \<exists>r. sn_Remaining s = Fin r \<and> 0 \<le> r \<and> r \<le> 1"
  defines "st \<equiv> calculateStatistics now m snapshots"
  shows "es_TotalViolations st = int (violation_runs (th_Warning (eb_AlertThresholds (em_config m))) snapshots)
    \<and> es_MinRemaining st \<in> sn_Remaining ` set snapshots \<and> es_MaxRemaining st \<in> sn_Remaining ` set snapshots
    \<and> (\<forall>s \<in> set snapshots. es_MinRemaining st \<le> sn_Remaining s \<and> sn_Remaining s \<le> es_MaxRemaining st)"
proof -
  define w where "w = th_Warning (eb_AlertThresholds (em_config m))"
  have i: "es_MinRemaining (sl_stats stat_init) = Fin 1" "es_MaxRemaining (sl_stats stat_init) = Fin 0"
    "es_TotalViolations (sl_stats stat_init) = 0" "\<not> sl_inViolation stat_init"
    by (simp_all add: stat_init_def)
  have "count_list (remdups_adj (False # xs)) True = count_list (remdups_adj xs) True" for xs
    by (cases xs) auto
  then have v: "es_TotalViolations st = int (violation_runs w snapshots)"
    using fold_violations [of w snapshots stat_init] i
    by (simp add: st_def statistics_of_fold [OF assms(1)] violation_runs_def w_def)
  have "\<forall>s \<in> set snapshots. \<exists>r. sn_Remaining s = Fin r" using assms(2) by blast
  then obtain a b where ab: "es_MinRemaining st = Fin a" "es_MaxRemaining st = Fin b" "a \<le> 1" "0 \<le> b"
    "\<forall>s \<in> set snapshots. Fin a \<le> sn_Remaining s \<and> sn_Remaining s \<le> Fin b"
    "a = 1 \<or> Fin a \<in> sn_Remaining ` set snapshots" "b = 0 \<or> Fin b \<in> sn_Remaining ` set snapshots"
    using fold_min_max [OF _ i(1,2), of snapshots w] by (auto simp: st_def statistics_of_fold [OF assms(1)] w_def)
  obtain s r where s: "s \<in> set snapshots" "sn_Remaining s = Fin r" "0 \<le> r" "r \<le> 1"
    using assms(1,2) by (metis list.set_intros(1) neq_Nil_conv)
  have sr: "Fin r \<in> sn_Remaining ` set snapshots" using s(1,2) by (metis image_eqI)
  have le: "a \<le> r" "r \<le> b" using ab(5) s(1,2) by fastforce+
  have "Fin a \<in> sn_Remaining ` set snapshots"
    using ab(6) sr s(4) le(1) by (cases "a = 1") (auto dest: antisym)
  moreover have "Fin b \<in> sn_Remaining ` set snapshots"
    using ab(7) sr s(3) le(2) by (cases "b = 0") (auto dest: antisym)
  ultimately show ?thesis using v ab(1,2,5) by (simp add: w_def)
qed

theorem statistics_summarise_history_witness:
  "es_TotalViolations (calculateStatistics 5
     (NewErrorBudgetManager (two_policies\<lparr>eb_AlertThresholds := \<lparr>th_Warning = Fin 1, th_Critical = Fin 1\<rparr>\<rparr>))
     [demo_snapshot 1 1, demo_snapshot 2 1, demo_snapshot 3 0, demo_snapshot 4 1]) = 2"
  using statistics_summarise_history [of "[demo_snapshot 1 1, demo_snapshot 2 1, demo_snapshot 3 0, demo_snapshot 4 1]"
    5 "NewErrorBudgetManager (two_policies\<lparr>eb_AlertThresholds := \<lparr>th_Warning = Fin 1, th_Critical = Fin 1\<rparr>\<rparr>)"]
  by (simp add: demo_snapshot_def NewErrorBudgetManager_def violation_runs_def violation_def)

end
