(* ===== verification/SloManagerProps.thy ===== *)
theory SloManagerProps
  imports SloManager ErrorBudgetProps
begin

text \<open>
  What the SLO manager guarantees: the three computations of an error budget agree, every window has its own three
  states with up-to-date policies, the tickers are well defined, and the life cycle of a manager; and what the code
  gives away: budgets of latency that cannot be consumed, shared states, and a \<open>Stop\<close> that waits forever.
\<close>

section \<open>The three budgets\<close>

lemma error_budget_forms:
  assumes "0 \<le> a" and "0 \<le> t"
  shows "calculateSingleErrorBudget (Fin a) (Fin t) = fst (budget_of a t)"
    and "clamp (bs_CurrentRemaining (next_state later (Fin a) (Fin t) s)) (Fin 0) (Fin 1) = fst (budget_of a t)"
proof (atomize (full), cases "t < 1")
  case False
  then show "calculateSingleErrorBudget (Fin a) (Fin t) = fst (budget_of a t)
    \<and> clamp (bs_CurrentRemaining (next_state later (Fin a) (Fin t) s)) (Fin 0) (Fin 1) = fst (budget_of a t)"
    using no_budget [of t] by (simp add: calculateSingleErrorBudget_def next_state_def budget_of_def Let_def)
next
  case True
  note terms = budget_terms [OF assms True]
  have "calculateSingleErrorBudget (Fin a) (Fin t) = fst (budget_of a t)"
  proof (cases "t \<le> a")
    case True
    then show ?thesis using budget_met [OF True] by (simp add: calculateSingleErrorBudget_def)
  next
    case False
    then have "Fin t - Fin a = Fin (consumed_budget a t)" using terms(2) by simp
    with False True show ?thesis
      by (simp add: calculateSingleErrorBudget_def terms(1,3) budget_of_def clamp_def Let_def)
  qed
  moreover have "(if Fin a < Fin t then Fin t - Fin a else Fin 0) = Fin (consumed_budget a t)"
    using terms(2) by (simp split: if_splits)
  then have "clamp (bs_CurrentRemaining (next_state later (Fin a) (Fin t) s)) (Fin 0) (Fin 1) = fst (budget_of a t)"
    using True by (simp add: next_state_def terms(1,3) budget_of_def Let_def)
  ultimately show "calculateSingleErrorBudget (Fin a) (Fin t) = fst (budget_of a t)
    \<and> clamp (bs_CurrentRemaining (next_state later (Fin a) (Fin t) s)) (Fin 0) (Fin 1) = fst (budget_of a t)" by simp
qed

text \<open>C30: The calculator's gauge, the error budget manager and the manager's state compute the same remaining budget; only
  the manager leaves it unclamped.\<close>

theorem error_budgets_agree:
  assumes "0 \<le> a" and "0 \<le> t"
  shows "calculateSingleErrorBudget (Fin a) (Fin t) = bc_RemainingPercent (CalculateErrorBudget now n (Fin a) (Fin t))
    \<and> clamp (bs_CurrentRemaining (next_state later (Fin a) (Fin t) s)) (Fin 0) (Fin 1)
      = bc_RemainingPercent (CalculateErrorBudget now n (Fin a) (Fin t))"
  using budget_closed_form [OF assms, of now n] error_budget_forms(1) [OF assms] error_budget_forms(2) [OF assms, of later s]
  by (simp add: prod_eq_iff)

theorem error_budgets_agree_witness:
  "calculateSingleErrorBudget (Fin (1/2)) (Fin (3/4)) =
     bc_RemainingPercent (CalculateErrorBudget 0 ''s'' (Fin (1/2)) (Fin (3/4)))"
  using error_budgets_agree [of "1/2" "3/4" 0 "''s''"] by simp

text \<open>The latency budget cannot be consumed: a violated latency target counts as a conformance of 0.95, which is the
  target itself, so the gauge and the state always show the whole budget.\<close>

lemma ninety_five: "\<exists>q. f64_of_rat (95/100) = Fin q \<and> 0 \<le> q \<and> q \<le> 1"
  using f64_unit [of "95/100"] rnd_nonneg [of "95/100"] by auto

lemma met_target:
  assumes "t \<le> a" and "0 \<le> t" and "t \<le> 1"
  shows "bs_CurrentRemaining (next_state now (Fin a) (Fin t) s) = Fin 1"
    and "bs_ConsumedPercent (next_state now (Fin a) (Fin t) s) = Fin 0"
proof -
  have "(Fin T - Fin 0) / Fin T = Fin 1" if "0 < T" "representable T" "\<bar>T\<bar> \<le> 1" for T
  proof -
    have "f64_of_rat T = Fin T" using f64_unit [of T] that by (simp add: rnd_representable)
    then show ?thesis using that(1) by (simp add: fin_minus)
  qed
  moreover have "Fin 1 - Fin t = Fin (rnd (1 - t))" "\<bar>rnd (1 - t)\<bar> \<le> 1"
    using f64_unit [of "1 - t"] assms(2,3) by (simp_all add: fin_minus)
  ultimately show "bs_CurrentRemaining (next_state now (Fin a) (Fin t) s) = Fin 1"
    "bs_ConsumedPercent (next_state now (Fin a) (Fin t) s) = Fin 0"
    using assms by (simp_all add: next_state_def representable_rnd Let_def) (simp_all add: fin_minus)
qed

theorem latency_budget_never_consumed:
  "calculateSingleErrorBudget (latency_conformance config values) (f64_of_rat (95/100)) = Fin 1
   \<and> bs_CurrentRemaining (next_state now (latency_conformance config values) (f64_of_rat (95/100)) s) = Fin 1
   \<and> bs_ConsumedPercent (next_state now (latency_conformance config values) (f64_of_rat (95/100)) s) = Fin 0"
proof -
  obtain q where q: "f64_of_rat (95/100) = Fin q" "0 \<le> q" "q \<le> 1" using ninety_five by blast
  then obtain a where a: "latency_conformance config values = Fin a" "q \<le> a"
    by (cases "tg_LatencyP95 (sc_Targets config) < sv_LatencyP95 values") (auto simp: latency_conformance_def)
  show ?thesis
    unfolding a(1) q(1) using met_target [OF a(2) q(2,3)] a(2) by (simp add: calculateSingleErrorBudget_def)
qed

section \<open>Tickers\<close>

lemma start_tickers_value:
  "foldl (\<lambda>ts w. ts(tw_Name w \<mapsto> ticker_interval w)) m ws n = Some d \<Longrightarrow> m n = Some d \<or> d \<in> ticker_interval ` set ws"
proof (induction ws arbitrary: m)
  case (Cons w ws)
  have "(m(tw_Name w \<mapsto> ticker_interval w)) n = Some d \<or> d \<in> ticker_interval ` set ws"
    using Cons.prems unfolding foldl_Cons by (rule Cons.IH)
  then show ?case by (auto split: if_splits)
qed simp

lemma start_tickers_dom:
  "dom (foldl (\<lambda>ts w. ts(tw_Name w \<mapsto> ticker_interval w)) m ws) = dom m \<union> tw_Name ` set ws"
proof (induction ws arbitrary: m)
  case (Cons w ws)
  show ?case unfolding foldl_Cons Cons.IH by auto
qed simp

lemma take_ticks_left: "snd (take_ticks pending ws) = pending - tw_Name ` set ws"
proof (induction pending ws rule: take_ticks.induct)
  case (2 pending w ws)
  show ?case
  proof (cases "tw_Name w \<in> pending")
    case True
    then show ?thesis using 2(1) by (simp add: split_beta Diff_insert2 [symmetric])
  next
    case False
    then show ?thesis using 2(2) by (simp add: Diff_insert0)
  qed
qed simp

text \<open>Whatever the durations of the windows, every ticker gets a positive interval (anything else would panic): half a
  minute for a short-term window, a tenth of the window but at least five minutes for any other; every window has
  a ticker; and a pass of the loop takes all ticks, so that no window waits for one that was already there.\<close>

theorem ticker_intervals_positive:
  "ran (start_tickers ws) \<subseteq> {d. 0 < d} \<and> dom (start_tickers ws) = tw_Name ` set ws
   \<and> ticker_interval w = (if tw_IsShortTerm w then 30 * Second else max (5 * Minute) (go_div (tw_Duration w) 10))
   \<and> snd (take_ticks pending ws) = pending - tw_Name ` set ws"
proof -
  have p: "0 < ticker_interval v" for v by (auto simp: ticker_interval_def Let_def)
  have "d \<in> ticker_interval ` set ws" if "start_tickers ws n = Some d" for n d
    using start_tickers_value [of Map.empty ws n d] that by (simp add: start_tickers_def)
  then have "ran (start_tickers ws) \<subseteq> {d. 0 < d}" using p by (auto simp: ran_def)
  moreover have "dom (start_tickers ws) = tw_Name ` set ws"
    using start_tickers_dom [of Map.empty ws] by (simp add: start_tickers_def)
  ultimately show ?thesis using take_ticks_left [of pending ws] by (auto simp: ticker_interval_def Let_def)
qed

section \<open>The store of states\<close>

definition policies_current :: "ErrorBudgetPolicy list \<Rightarrow> ErrorBudgetState \<Rightarrow> bool" where
  "policies_current ps s \<longleftrightarrow>
     bs_PolicyTriggered s = map pl_Action (filter (\<lambda>p. pl_Threshold p \<le> bs_ConsumedPercent s) ps)"

definition store_ok :: "SloManager \<Rightarrow> bool" where
  "store_ok m \<longleftrightarrow>
     (\<forall>k a. sm_errorBudgets m k = Some a \<longrightarrow> a < length (sm_store m))
     \<and> inj_on (sm_errorBudgets m) (dom (sm_errorBudgets m))
     \<and> (\<forall>s \<in> set (sm_store m). policies_current (eb_Policies (sc_ErrorBudget (sm_config m))) s)"

lemma store_okI:
  "(\<And>k a. sm_errorBudgets m k = Some a \<Longrightarrow> a < length (sm_store m)) \<Longrightarrow>
   inj_on (sm_errorBudgets m) (dom (sm_errorBudgets m)) \<Longrightarrow>
   (\<And>s. s \<in> set (sm_store m) \<Longrightarrow> policies_current (eb_Policies (sc_ErrorBudget (sm_config m))) s) \<Longrightarrow> store_ok m"
  by (auto simp: store_ok_def)

lemma fresh_address:
  fixes f :: "'k \<rightharpoonup> nat"
  assumes "\<And>k a. f k = Some a \<Longrightarrow> a < n" and "inj_on f (dom f)"
  shows "inj_on (f(key \<mapsto> n)) (dom (f(key \<mapsto> n)))"
proof -
  have "f k \<noteq> Some n" for k using assms(1) [of k n] by auto
  then show ?thesis using assms(2) by (auto simp: inj_on_def dom_def eq_commute [of "Some n"])
qed

lemma checked_current: "policies_current ps (fst (checkErrorBudgetPolicies ps s))"
  by (simp add: policies_current_def checkErrorBudgetPolicies_def Let_def)

text \<open>One update: the key gets an address (its old one, if any), and only the state there changes.\<close>

lemma update_single:
  assumes "store_ok m"
  obtains a where "sm_errorBudgets (fst (updateSingleErrorBudget now n x y w m)) = (sm_errorBudgets m)(history_key n w \<mapsto> a)"
    and "\<And>b. sm_errorBudgets m (history_key n w) = Some b \<Longrightarrow> b = a"
    and "store_ok (fst (updateSingleErrorBudget now n x y w m))"
    and "sm_config (fst (updateSingleErrorBudget now n x y w m)) = sm_config m"
    and "sm_lastCalculation (fst (updateSingleErrorBudget now n x y w m)) = sm_lastCalculation m"
    and "bs_LastUpdated (read_state (fst (updateSingleErrorBudget now n x y w m)) a) = now"
proof -
  define k where "k = history_key n w"
  obtain a m1 where am: "find_or_add k n m = (a, m1)" by (cases "find_or_add k n m")
  define st where "st = fst (checkErrorBudgetPolicies (eb_Policies (sc_ErrorBudget (sm_config m1)))
    (next_state now x y (sm_store m1 ! a)))"
  have u: "fst (updateSingleErrorBudget now n x y w m) = m1\<lparr>sm_store := (sm_store m1)[a := st]\<rparr>"
    by (simp add: updateSingleErrorBudget_def k_def [symmetric] am st_def Let_def split: prod.split)
  have last: "bs_LastUpdated st = now"
    by (simp add: st_def checkErrorBudgetPolicies_def next_state_def Let_def)
  have cur: "policies_current (eb_Policies (sc_ErrorBudget (sm_config m1))) st"
    unfolding st_def by (rule checked_current)
  have m1: "sm_errorBudgets m1 = (sm_errorBudgets m)(k \<mapsto> a)" "\<And>b. sm_errorBudgets m k = Some b \<Longrightarrow> b = a"
    "a < length (sm_store m1)" "sm_config m1 = sm_config m" "sm_lastCalculation m1 = sm_lastCalculation m"
    "inj_on (sm_errorBudgets m1) (dom (sm_errorBudgets m1))"
    "length (sm_store m) \<le> length (sm_store m1)"
    "\<And>b. b < length (sm_store m) \<Longrightarrow> sm_store m1 ! b = sm_store m ! b"
    "\<And>b. b < length (sm_store m1) \<Longrightarrow> b \<noteq> a \<Longrightarrow> b < length (sm_store m)"
    using assms am fresh_address [of "sm_errorBudgets m" "length (sm_store m)" k]
    by (auto simp: find_or_add_def store_ok_def nth_append Let_def fun_upd_idem split: option.splits)
  have "store_ok (m1\<lparr>sm_store := (sm_store m1)[a := st]\<rparr>)"
  proof (rule store_okI)
    show "inj_on (sm_errorBudgets (m1\<lparr>sm_store := (sm_store m1)[a := st]\<rparr>))
      (dom (sm_errorBudgets (m1\<lparr>sm_store := (sm_store m1)[a := st]\<rparr>)))" using m1(6) by simp
    fix s assume "s \<in> set (sm_store (m1\<lparr>sm_store := (sm_store m1)[a := st]\<rparr>))"
    then obtain b where b: "b < length (sm_store m1)" "s = (sm_store m1)[a := st] ! b"
      by (auto simp: in_set_conv_nth)
    show "policies_current (eb_Policies (sc_ErrorBudget (sm_config (m1\<lparr>sm_store := (sm_store m1)[a := st]\<rparr>)))) s"
    proof (cases "b = a")
      case True
      then show ?thesis using cur b m1(3) by simp
    next
      case False
      then have "s = sm_store m ! b" "b < length (sm_store m)" using b m1(8,9) by simp_all
      then show ?thesis using assms m1(4) by (simp add: store_ok_def)
    qed
  next
    fix k' b assume "sm_errorBudgets (m1\<lparr>sm_store := (sm_store m1)[a := st]\<rparr>) k' = Some b"
    then show "b < length (sm_store (m1\<lparr>sm_store := (sm_store m1)[a := st]\<rparr>))"
      using assms m1(1,3,7) by (auto simp: store_ok_def split: if_splits) (meson order_less_le_trans)
  qed
  then show ?thesis
    using that [of a] m1 last unfolding u k_def by (simp add: read_state_def)
qed

text \<open>The three budgets of a window, and a whole calculation for it.\<close>

definition budget_names :: "string list" where
  "budget_names = [''availability'', ''success_rate'', ''latency_p95'']"

lemma budget_keys_distinct:
  "history_key ''availability'' w \<noteq> history_key ''success_rate'' w'"
  "history_key ''availability'' w \<noteq> history_key ''latency_p95'' w'"
  "history_key ''success_rate'' w \<noteq> history_key ''latency_p95'' w'"
  by (simp_all add: history_key_def)

text \<open>What an update, or a sequence of updates, of the keys of a window leaves behind.\<close>

definition updated :: "SloManager \<Rightarrow> SloManager \<Rightarrow> string set \<Rightarrow> bool" where
  "updated m m' ks \<longleftrightarrow> store_ok m' \<and> sm_config m' = sm_config m \<and> sm_lastCalculation m' = sm_lastCalculation m
     \<and> dom (sm_errorBudgets m') = dom (sm_errorBudgets m) \<union> ks
     \<and> (\<forall>k a. sm_errorBudgets m k = Some a \<longrightarrow> sm_errorBudgets m' k = Some a)"

lemma updated_trans: "updated m m1 ks \<Longrightarrow> updated m1 m2 ls \<Longrightarrow> updated m m2 (ks \<union> ls)"
  by (auto simp: updated_def)

lemma update_single_updated:
  assumes "store_ok m"
  shows "updated m (fst (updateSingleErrorBudget now n x y w m)) {history_key n w}"
proof -
  obtain a where "sm_errorBudgets (fst (updateSingleErrorBudget now n x y w m)) = (sm_errorBudgets m)(history_key n w \<mapsto> a)"
    "\<And>b. sm_errorBudgets m (history_key n w) = Some b \<Longrightarrow> b = a"
    "store_ok (fst (updateSingleErrorBudget now n x y w m))"
    "sm_config (fst (updateSingleErrorBudget now n x y w m)) = sm_config m"
    "sm_lastCalculation (fst (updateSingleErrorBudget now n x y w m)) = sm_lastCalculation m"
    by (rule update_single [OF assms, of now n x y w]) (rule that; assumption)
  then show ?thesis by (auto simp: updated_def)
qed

lemma update_budgets_fst:
  "fst (updateErrorBudgets now v m) =
     (let t = sc_Targets (sm_config m);
          m1 = fst (updateSingleErrorBudget (now 0) ''availability'' (sv_Availability v) (tg_Availability t / Fin 100) (sv_Window v) m);
          m2 = fst (updateSingleErrorBudget (now 1) ''success_rate'' (sv_SuccessRate v) (tg_SuccessRate t / Fin 100) (sv_Window v) m1)
      in fst (updateSingleErrorBudget (now 2) ''latency_p95'' (latency_conformance (sm_config m) v) (f64_of_rat (95/100)) (sv_Window v) m2))"
  by (simp add: updateErrorBudgets_def Let_def split: prod.split)

lemma update_budgets_chain:
  assumes "store_ok m"
  obtains m2 x y where
    "updated m m2 {history_key ''availability'' (sv_Window v), history_key ''success_rate'' (sv_Window v)}"
    and "fst (updateErrorBudgets now v m) = fst (updateSingleErrorBudget (now 2) ''latency_p95'' x y (sv_Window v) m2)"
proof -
  define t where "t = sc_Targets (sm_config m)"
  define m1 where "m1 = fst (updateSingleErrorBudget (now 0) ''availability'' (sv_Availability v)
    (tg_Availability t / Fin 100) (sv_Window v) m)"
  define m2 where "m2 = fst (updateSingleErrorBudget (now 1) ''success_rate'' (sv_SuccessRate v)
    (tg_SuccessRate t / Fin 100) (sv_Window v) m1)"
  have u1: "updated m m1 {history_key ''availability'' (sv_Window v)}"
    unfolding m1_def by (rule update_single_updated [OF assms])
  then have "store_ok m1" by (simp add: updated_def)
  then have u2: "updated m1 m2 {history_key ''success_rate'' (sv_Window v)}"
    unfolding m2_def by (rule update_single_updated)
  have "fst (updateErrorBudgets now v m) = fst (updateSingleErrorBudget (now 2) ''latency_p95''
      (latency_conformance (sm_config m) v) (f64_of_rat (95/100)) (sv_Window v) m2)"
    by (simp only: update_budgets_fst Let_def m1_def m2_def t_def)
  with updated_trans [OF u1 u2] show ?thesis by (intro that) (simp_all add: insert_commute)
qed

lemma update_budgets_updated:
  assumes "store_ok m"
  shows "updated m (fst (updateErrorBudgets now v m)) ((\<lambda>n. history_key n (sv_Window v)) ` set budget_names)"
proof -
  obtain m2 x y where
    u: "updated m m2 {history_key ''availability'' (sv_Window v), history_key ''success_rate'' (sv_Window v)}"
    and e: "fst (updateErrorBudgets now v m) = fst (updateSingleErrorBudget (now 2) ''latency_p95'' x y (sv_Window v) m2)"
    by (rule update_budgets_chain [OF assms])
  have "store_ok m2" using u by (simp add: updated_def)
  from updated_trans [OF u update_single_updated [OF this]] show ?thesis
    by (simp add: e budget_names_def insert_commute)
qed

lemma calculated:
  obtains v where "fst (Calculate now config window) = Inr v" and "sv_Window v = tw_Name window"
    and "sv_Availability v = f64_of_rat (999/1000)" and "sv_SuccessRate v = f64_of_rat (995/1000)"
    and "sv_Timestamp v = now"
  by (simp add: Calculate_def calculateAvailability_def calculateSuccessRate_def calculateLatencyPercentiles_def
      calculateThroughput_def Let_def)

lemma calculate_for_window:
  obtains v where "fst (Calculate (now 0) (sm_config m) window) = Inr v" and "sv_Window v = tw_Name window"
    and "fst (calculateForWindow now window m) = fst (updateErrorBudgets (\<lambda>i. now (i + 1)) v
      (m\<lparr>sm_lastCalculation := (sm_lastCalculation m)(tw_Name window \<mapsto> v)\<rparr>))"
proof -
  obtain v where v: "fst (Calculate (now 0) (sm_config m) window) = Inr v" "sv_Window v = tw_Name window"
    by (rule calculated)
  then obtain ms where "Calculate (now 0) (sm_config m) window = (Inr v, ms)" by (metis prod.collapse)
  then show ?thesis
    using v by (intro that [of v]) (simp_all add: calculateForWindow_def Let_def split: prod.split)
qed

text \<open>A run: a list of calculations, each for a window with its readings of the clock.\<close>

definition slo_run :: "((nat \<Rightarrow> gotime) \<times> TimeWindow) list \<Rightarrow> SloManager \<Rightarrow> SloManager" where
  "slo_run = fold (\<lambda>(now, w) m. fst (calculateForWindow now w m))"

lemma calculate_keeps:
  fixes now :: "nat \<Rightarrow> gotime" and w :: TimeWindow
  assumes "store_ok m"
  defines "m' \<equiv> fst (calculateForWindow now w m)"
  shows "store_ok m'" and "sm_config m' = sm_config m"
    and "dom (sm_errorBudgets m') = dom (sm_errorBudgets m) \<union> (\<lambda>n. history_key n (tw_Name w)) ` set budget_names"
    and "\<And>k a. sm_errorBudgets m k = Some a \<Longrightarrow> sm_errorBudgets m' k = Some a"
    and "dom (sm_lastCalculation m') = dom (sm_lastCalculation m) \<union> {tw_Name w}"
proof -
  obtain v where v: "sv_Window v = tw_Name w"
    "m' = fst (updateErrorBudgets (\<lambda>i. now (i + 1)) v (m\<lparr>sm_lastCalculation := (sm_lastCalculation m)(tw_Name w \<mapsto> v)\<rparr>))"
    unfolding m'_def by (rule calculate_for_window)
  have "store_ok (m\<lparr>sm_lastCalculation := (sm_lastCalculation m)(tw_Name w \<mapsto> v)\<rparr>)"
    using assms(1) by (simp add: store_ok_def)
  then have u: "updated (m\<lparr>sm_lastCalculation := (sm_lastCalculation m)(tw_Name w \<mapsto> v)\<rparr>) m'
    ((\<lambda>n. history_key n (tw_Name w)) ` set budget_names)"
    unfolding v(2) using update_budgets_updated v(1) by metis
  then show "store_ok m'" "sm_config m' = sm_config m"
    "dom (sm_errorBudgets m') = dom (sm_errorBudgets m) \<union> (\<lambda>n. history_key n (tw_Name w)) ` set budget_names"
    "\<And>k a. sm_errorBudgets m k = Some a \<Longrightarrow> sm_errorBudgets m' k = Some a"
    by (simp_all add: updated_def)
  have "sm_lastCalculation m' = (sm_lastCalculation m)(tw_Name w \<mapsto> v)" using u by (simp add: updated_def)
  then show "dom (sm_lastCalculation m') = dom (sm_lastCalculation m) \<union> {tw_Name w}" by auto
qed

lemma run_keeps:
  assumes "store_ok m"
  shows "store_ok (slo_run evs m) \<and> sm_config (slo_run evs m) = sm_config m
    \<and> dom (sm_errorBudgets (slo_run evs m)) = dom (sm_errorBudgets m)
        \<union> {history_key n (tw_Name w) | n w. n \<in> set budget_names \<and> w \<in> snd ` set evs}
    \<and> dom (sm_lastCalculation (slo_run evs m)) = dom (sm_lastCalculation m) \<union> tw_Name ` snd ` set evs
    \<and> (\<forall>k a. sm_errorBudgets m k = Some a \<longrightarrow> sm_errorBudgets (slo_run evs m) k = Some a)"
  using assms
proof (induction evs arbitrary: m)
  case (Cons e evs)
  obtain now w where e: "e = (now, w)" by (cases e)
  note keeps = calculate_keeps [OF Cons.prems, where now = now and w = w]
  have r: "slo_run (e # evs) m = slo_run evs (fst (calculateForWindow now w m))" by (simp add: slo_run_def e)
  show ?case
    unfolding r using Cons.IH [OF keeps(1)] keeps(2-5) by (auto simp: e)
qed (simp add: slo_run_def)

lemma new_manager_ok:
  "NewManagerWithRegistry (Some c) (Some l) r = NewOk m r' \<Longrightarrow>
   store_ok m \<and> sm_errorBudgets m = Map.empty \<and> sm_lastCalculation m = Map.empty \<and> sm_config m = c"
  by (auto simp: NewManagerWithRegistry_def SloConfig_Validate_def store_ok_def split: option.splits)

text \<open>C31: After any calculations of a new manager: the windows with values are those calculated, each with exactly its
  three budgets; two budgets never share a state; and in every state the triggered policies are exactly those
  whose threshold its consumption reaches.\<close>

theorem window_budgets_separate:
  fixes evs :: "((nat \<Rightarrow> gotime) \<times> TimeWindow) list"
  assumes "NewManagerWithRegistry (Some c) (Some l) r = NewOk m0 r'"
  defines "m \<equiv> slo_run evs m0"
  shows "dom (sm_lastCalculation m) = tw_Name ` snd ` set evs
    \<and> dom (sm_errorBudgets m) = {history_key n (tw_Name w) | n w. n \<in> set budget_names \<and> w \<in> snd ` set evs}
    \<and> (\<forall>k a. sm_errorBudgets m k = Some a \<longrightarrow>
         a < length (sm_store m) \<and> policies_current (eb_Policies (sc_ErrorBudget c)) (read_state m a)
         \<and> (\<forall>k'. sm_errorBudgets m k' = Some a \<longrightarrow> k' = k))"
proof -
  note new = new_manager_ok [OF assms(1)]
  have ok: "store_ok m" "sm_config m = c" using run_keeps [of m0 evs] new by (auto simp: m_def)
  have "k' = k" if "sm_errorBudgets m k = Some a" "sm_errorBudgets m k' = Some a" for k k' a
    using ok(1) that unfolding store_ok_def inj_on_def by (metis domI)
  moreover have "a < length (sm_store m)" "policies_current (eb_Policies (sc_ErrorBudget c)) (read_state m a)"
    if "sm_errorBudgets m k = Some a" for k a
    using ok that by (auto simp: store_ok_def read_state_def)
  moreover have "dom (sm_lastCalculation m) = tw_Name ` snd ` set evs"
    "dom (sm_errorBudgets m) = {history_key n (tw_Name w) | n w. n \<in> set budget_names \<and> w \<in> snd ` set evs}"
    using run_keeps [of m0 evs] new by (simp_all add: m_def)
  ultimately show ?thesis by blast
qed

definition default_manager :: SloManager where
  "default_manager = \<lparr>sm_config = slo_DefaultConfig, sm_lastCalculation = Map.empty, sm_errorBudgets = Map.empty, sm_store = []\<rparr>"

lemma default_manager_new:
  "NewManagerWithRegistry (Some slo_DefaultConfig) (Some ()) (Some []) = NewOk default_manager (Some (map col_name slo_collectors))"
  by (simp add: NewManagerWithRegistry_def NewCalculatorWithRegistry_def SloConfig_Validate_def slo_collectors_def
      availabilityRatio_def successRateRatio_def latencyHistogram_def throughputGauge_def errorBudgetGauge_def
      default_manager_def)

definition five_minutes :: TimeWindow where
  "five_minutes = \<lparr>tw_Name = ''5m'', tw_Duration = 5 * Minute, tw_IsShortTerm = True\<rparr>"

theorem window_budgets_separate_witness:
  "dom (sm_lastCalculation (slo_run [(\<lambda>_. 0, five_minutes)] default_manager)) = {''5m''}"
  using window_budgets_separate [OF default_manager_new, of "[(\<lambda>_. 0, five_minutes)]"]
  by (simp add: five_minutes_def)

text \<open>The getters hand out the states themselves: a state that \<open>GetAllErrorBudgets\<close> returned (in the map it copies) or
  \<open>GetErrorBudgetState\<close> returned is the one that the next calculation for its window writes.\<close>

theorem returned_budgets_are_shared:
  assumes "NewManagerWithRegistry (Some c) (Some l) r = NewOk m0 r'"
    and "GetErrorBudgetState (slo_run evs m0) ''latency_p95'' (tw_Name w) = Some a"
  defines "m \<equiv> slo_run evs m0"
  shows "GetAllErrorBudgets m (history_key ''latency_p95'' (tw_Name w)) = Some a
    \<and> GetErrorBudgetState (fst (calculateForWindow now w m)) ''latency_p95'' (tw_Name w) = Some a
    \<and> bs_LastUpdated (read_state (fst (calculateForWindow now w m)) a) = now 3"
proof -
  have ok: "store_ok m" using run_keeps [of m0 evs] new_manager_ok [OF assms(1)] by (simp add: m_def)
  have a: "sm_errorBudgets m (history_key ''latency_p95'' (tw_Name w)) = Some a"
    using assms(2) by (simp add: GetErrorBudgetState_def m_def)
  obtain v where v: "sv_Window v = tw_Name w" "fst (calculateForWindow now w m) = fst (updateErrorBudgets (\<lambda>i. now (i + 1)) v
      (m\<lparr>sm_lastCalculation := (sm_lastCalculation m)(tw_Name w \<mapsto> v)\<rparr>))"
    by (rule calculate_for_window)
  define m1 where "m1 = m\<lparr>sm_lastCalculation := (sm_lastCalculation m)(tw_Name w \<mapsto> v)\<rparr>"
  have ok1: "store_ok m1" using ok by (simp add: m1_def store_ok_def)
  obtain m2 x y where
    u: "updated m1 m2 {history_key ''availability'' (sv_Window v), history_key ''success_rate'' (sv_Window v)}"
    and e: "fst (updateErrorBudgets (\<lambda>i. now (i + 1)) v m1)
      = fst (updateSingleErrorBudget (now (2 + 1)) ''latency_p95'' x y (sv_Window v) m2)"
    by (rule update_budgets_chain [OF ok1])
  have m2: "store_ok m2"
    "fst (updateErrorBudgets (\<lambda>i. now (i + 1)) v m1) = fst (updateSingleErrorBudget (now 3) ''latency_p95'' x y (tw_Name w) m2)"
    using u e by (simp_all add: updated_def v(1))
  obtain b where b: "sm_errorBudgets (fst (updateSingleErrorBudget (now 3) ''latency_p95'' x y (tw_Name w) m2))
      = (sm_errorBudgets m2)(history_key ''latency_p95'' (tw_Name w) \<mapsto> b)"
    "bs_LastUpdated (read_state (fst (updateSingleErrorBudget (now 3) ''latency_p95'' x y (tw_Name w) m2)) b) = now 3"
    by (rule update_single [OF m2(1), of "now 3" "''latency_p95''" x y "tw_Name w"])
  have eq: "fst (calculateForWindow now w m) = fst (updateSingleErrorBudget (now 3) ''latency_p95'' x y (tw_Name w) m2)"
    unfolding v(2) m1_def [symmetric] by (rule m2(2))
  have same: "sm_errorBudgets (fst (calculateForWindow now w m)) (history_key ''latency_p95'' (tw_Name w)) = Some a"
    using calculate_keeps(4) [OF ok a] by simp
  then have "b = a" using b(1) by (simp add: eq)
  then show ?thesis using a same b(2) by (simp add: GetAllErrorBudgets_def GetErrorBudgetState_def eq)
qed

section \<open>Life cycle\<close>

abbreviation starts :: "life_event list \<Rightarrow> nat" where "starts evs \<equiv> count_list evs StartCall"
abbreviation stops :: "life_event list \<Rightarrow> nat" where "stops evs \<equiv> count_list evs StopCall"

text \<open>Loops are started by \<open>Start\<close> and end by closing \<open>doneCh\<close>; \<open>Stop\<close> closes \<open>stopCh\<close> and returns once \<open>doneCh\<close> is closed.\<close>

definition life_inv :: "life_event list \<Rightarrow> slo_life \<Rightarrow> bool" where
  "life_inv evs s \<longleftrightarrow>
     lf_loops s + (if lf_done s then 1 else 0) = starts evs
     \<and> (lf_stop s \<longleftrightarrow> 0 < stops evs)
     \<and> (lf_panic s \<or> (stops evs \<le> 1 \<and> lf_waiting s + lf_returned s = stops evs))
     \<and> (lf_panic s \<longrightarrow> 2 \<le> starts evs \<or> 2 \<le> stops evs)
     \<and> (0 < lf_returned s \<longrightarrow> lf_done s)"

lemma life_inv_run: "life_run True fresh_life evs s \<Longrightarrow> life_inv evs s"
proof (induction rule: life_run.induct)
  case none
  then show ?case by (simp add: life_inv_def fresh_life_def)
next
  case (one evs t ev u)
  from one.hyps(2) one.IH show ?case
    by (cases rule: life_step.cases) (auto simp: life_inv_def split: if_splits)
qed

text \<open>C33: A manager that is started and stopped at most once never closes a channel twice; a second \<open>Stop\<close> ends the program;
  and once it was started, a waiting \<open>Stop\<close> can always return.\<close>

theorem started_manager_stops:
  assumes "life_run True fresh_life evs s"
  shows "(starts evs \<le> 1 \<and> stops evs \<le> 1 \<longrightarrow> \<not> lf_panic s)
    \<and> (2 \<le> stops evs \<longrightarrow> lf_panic s)
    \<and> (0 < starts evs \<and> 0 < lf_waiting s \<and> \<not> lf_panic s \<longrightarrow>
        (\<exists>evs' u. life_run True fresh_life (evs @ evs') u \<and> set evs' \<subseteq> {LoopExit, StopReturn}
           \<and> lf_returned u = Suc (lf_returned s)))"
proof -
  note i = life_inv_run [OF assms]
  have "\<exists>evs' u. life_run True fresh_life (evs @ evs') u \<and> set evs' \<subseteq> {LoopExit, StopReturn}
           \<and> lf_returned u = Suc (lf_returned s)"
    if h: "0 < starts evs" "0 < lf_waiting s" "\<not> lf_panic s"
  proof (cases "lf_done s")
    case True
    then have "life_step True s StopReturn (s\<lparr>lf_waiting := lf_waiting s - 1, lf_returned := Suc (lf_returned s)\<rparr>)"
      using h by (intro life_step.stop_return) simp_all
    from life_run.one [OF assms this] show ?thesis
      by (intro exI [of _ "[StopReturn]"]
        exI [of _ "s\<lparr>lf_waiting := lf_waiting s - 1, lf_returned := Suc (lf_returned s)\<rparr>"] conjI) simp_all
  next
    case False
    define t where "t = s\<lparr>lf_loops := lf_loops s - 1, lf_done := True\<rparr>"
    have "lf_stop s" "0 < lf_loops s" using i h False by (auto simp: life_inv_def)
    then have "life_step True s LoopExit t" unfolding t_def using h False by (intro life_step.exit) simp_all
    note t = life_run.one [OF assms this]
    have "life_step True t StopReturn (t\<lparr>lf_waiting := lf_waiting t - 1, lf_returned := Suc (lf_returned t)\<rparr>)"
      using h by (intro life_step.stop_return) (simp_all add: t_def)
    from life_run.one [OF t this]
    have "life_run True fresh_life (evs @ [LoopExit, StopReturn])
      (t\<lparr>lf_waiting := lf_waiting t - 1, lf_returned := Suc (lf_returned t)\<rparr>)" by simp
    then show ?thesis
      by (intro exI [of _ "[LoopExit, StopReturn]"]
        exI [of _ "t\<lparr>lf_waiting := lf_waiting t - 1, lf_returned := Suc (lf_returned t)\<rparr>"] conjI) (simp_all add: t_def)
  qed
  with i show ?thesis by (auto simp: life_inv_def)
qed

text \<open>A manager that is enabled and was never started does not come back from \<open>Stop\<close>: in no run without a \<open>Start\<close> is
  \<open>doneCh\<close> ever closed, whatever else happens.\<close>

theorem unstarted_stop_never_returns:
  assumes "life_run True fresh_life evs s" and "StartCall \<notin> set evs"
  shows "lf_returned s = 0 \<and> \<not> lf_done s \<and> (stops evs = 1 \<longrightarrow> lf_waiting s = 1)"
proof -
  have "starts evs = 0" using assms(2) by (simp add: count_list_0_iff)
  then show ?thesis using life_inv_run [OF assms(1)] by (auto simp: life_inv_def split: if_splits)
qed

lemma demo_life:
  "life_run True fresh_life [StartCall, StopCall] (fresh_life\<lparr>lf_loops := 1, lf_stop := True, lf_waiting := 1\<rparr>)"
proof -
  have "life_step True fresh_life StartCall (fresh_life\<lparr>lf_loops := Suc (lf_loops fresh_life)\<rparr>)"
    by (rule life_step.start_on) (simp_all add: fresh_life_def)
  from life_run.one [OF life_run.none this]
  have r: "life_run True fresh_life [StartCall] (fresh_life\<lparr>lf_loops := 1\<rparr>)" by (simp add: fresh_life_def)
  have "life_step True (fresh_life\<lparr>lf_loops := 1\<rparr>) StopCall
    (fresh_life\<lparr>lf_loops := 1, lf_stop := True, lf_waiting := Suc (lf_waiting (fresh_life\<lparr>lf_loops := 1\<rparr>))\<rparr>)"
    by (rule life_step.stop_on) (simp_all add: fresh_life_def)
  from life_run.one [OF r this] show ?thesis by (simp add: fresh_life_def)
qed

theorem started_manager_stops_witness:
  "\<exists>evs' u. life_run True fresh_life ([StartCall, StopCall] @ evs') u \<and> set evs' \<subseteq> {LoopExit, StopReturn} \<and> lf_returned u = 1"
  using started_manager_stops [OF demo_life] by (simp add: fresh_life_def)

theorem unstarted_stop_never_returns_witness:
  "\<exists>s. life_run True fresh_life [StopCall] s \<and> lf_waiting s = 1 \<and> \<not> lf_done s"
proof -
  have "life_step True fresh_life StopCall (fresh_life\<lparr>lf_stop := True, lf_waiting := Suc (lf_waiting fresh_life)\<rparr>)"
    by (rule life_step.stop_on) (simp_all add: fresh_life_def)
  from life_run.one [OF life_run.none this]
  have "life_run True fresh_life [StopCall] (fresh_life\<lparr>lf_stop := True, lf_waiting := Suc (lf_waiting fresh_life)\<rparr>)" by simp
  with unstarted_stop_never_returns [OF this] show ?thesis by auto
qed

theorem returned_budgets_are_shared_witness:
  "\<exists>a m. GetAllErrorBudgets m (history_key ''latency_p95'' ''5m'') = Some a
    \<and> bs_LastUpdated (read_state (fst (calculateForWindow (\<lambda>i. int i) five_minutes m)) a) = 3"
proof -
  let ?m = "slo_run [(\<lambda>_. 0, five_minutes)] default_manager"
  have "history_key ''latency_p95'' ''5m'' \<in> dom (sm_errorBudgets ?m)"
    using run_keeps [of default_manager "[(\<lambda>_. 0, five_minutes)]"] new_manager_ok [OF default_manager_new]
    by (auto simp: budget_names_def five_minutes_def)
  then obtain a where a: "sm_errorBudgets ?m (history_key ''latency_p95'' ''5m'') = Some a" by blast
  then have g: "GetErrorBudgetState ?m ''latency_p95'' (tw_Name five_minutes) = Some a"
    by (simp add: GetErrorBudgetState_def five_minutes_def)
  have "bs_LastUpdated (read_state (fst (calculateForWindow (\<lambda>i. int i) five_minutes ?m)) a) = 3"
    using returned_budgets_are_shared [OF default_manager_new g, where now = "\<lambda>i. int i"] by simp
  then show ?thesis using a by (intro exI [of _ a] exI [of _ ?m]) (simp add: GetAllErrorBudgets_def)
qed

section \<open>The availability placeholder\<close>

lemma f64_999_1000: "f64_of_rat (999/1000) = Fin (8998192055486251 / 2 ^ 53)"
proof -
  have "rnd (999/1000) = of_int 8998192055486251 * 2 powi (- 53)"
    by (rule rnd_nearest) (simp_all add: power_int_minus)
  moreover have "\<bar>999/1000\<bar> \<le> max_f64" by (rule order_trans [of _ 1]) simp_all
  ultimately show ?thesis by (simp add: f64_of_rat_bounded power_int_minus)
qed

lemma f64_999_10: "f64_of_rat (999/10) = Fin (7029837543348634 / 2 ^ 46)"
proof -
  have "rnd (999/10) = of_int 7029837543348634 * 2 powi (- 46)"
    by (rule rnd_nearest) (simp_all add: power_int_minus)
  moreover have "\<bar>999/10\<bar> \<le> max_f64"
  proof (rule order_trans)
    show "of_int 100 \<le> max_f64" by (rule of_int_le_max_f64) simp
  qed simp
  ultimately show ?thesis by (simp add: f64_of_rat_bounded power_int_minus)
qed

lemma default_availability_target: "tg_Availability (sc_Targets slo_DefaultConfig) / Fin 100 = Fin (8998192055486252 / 2 ^ 53)"
proof -
  have "rnd (7029837543348634 / 2 ^ 46 / 100) = of_int 8998192055486252 * 2 powi (- 53)"
    by (rule rnd_nearest) (simp_all add: power_int_minus)
  moreover have "\<bar>7029837543348634 / 2 ^ 46 / 100\<bar> \<le> max_f64" by (rule order_trans [of _ 1]) simp_all
  ultimately have "f64_of_rat (7029837543348634 / 2 ^ 46 / 100) = Fin (8998192055486252 / 2 ^ 53)"
    by (simp add: f64_of_rat_bounded power_int_minus)
  then show ?thesis by (simp add: slo_DefaultConfig_def f64_999_10 del: times_divide_eq_left divide_divide_eq_left)
qed

text \<open>With the default targets the constant availability of 0.999 misses the target of 99.9 percent: the division by
  100 rounds to the next larger double, so the budget is reported as partly consumed from the first calculation on.\<close>

theorem placeholder_misses_default_target:
  "calculateAvailability w = Inr (f64_of_rat (999/1000))
   \<and> f64_of_rat (999/1000) < tg_Availability (sc_Targets slo_DefaultConfig) / Fin 100
   \<and> calculateSingleErrorBudget (f64_of_rat (999/1000)) (tg_Availability (sc_Targets slo_DefaultConfig) / Fin 100) < Fin 1"
proof -
  define a :: rat where "a = 8998192055486251 / 2 ^ 53"
  define t :: rat where "t = 8998192055486252 / 2 ^ 53"
  have at: "0 \<le> a" "0 \<le> t" "t < 1" "\<not> t \<le> a" by (simp_all add: a_def t_def)
  have ex: "rnd (of_int m / 2 ^ 53) = of_int m / 2 ^ 53" if "\<bar>m\<bar> \<le> 2 ^ 53" for m
  proof (rule rnd_representable)
    have "of_int m / 2 ^ 53 = of_int m * (2 powi (- 53) :: rat)" by (simp add: power_int_minus field_simps)
    then show "representable (of_int m / 2 ^ 53)"
      unfolding representable_def using that by (intro exI [of _ m] exI [of _ "- 53"] conjI) simp_all
  qed
  have T: "rnd (1 - t) = 9007199254740 / 2 ^ 53" using ex [of 9007199254740] by (simp add: t_def)
  have c: "consumed_budget a t = 1 / 2 ^ 53" using ex [of 1] by (simp add: consumed_budget_def a_def t_def)
  have r: "rnd (rnd (1 - t) - consumed_budget a t) = 9007199254739 / 2 ^ 53"
    using ex [of 9007199254739] by (simp add: T c)
  have "9007199254739 / 9007199254740 \<le> (of_int (2 ^ 53 - 1) / 2 ^ 53 :: rat)" by simp
  then have "f64_of_rat (9007199254739 / 9007199254740) \<le> f64_of_rat (of_int (2 ^ 53 - 1) / 2 ^ 53)"
    by (rule f64_of_rat_mono)
  also have "\<bar>of_int (2 ^ 53 - 1) / 2 ^ 53\<bar> \<le> max_f64" by (rule order_trans [of _ 1]) simp_all
  then have "f64_of_rat (of_int (2 ^ 53 - 1) / 2 ^ 53) = Fin (of_int (2 ^ 53 - 1) / 2 ^ 53)"
    using ex [of "2 ^ 53 - 1"] by (simp add: f64_of_rat_bounded)
  finally have q: "f64_of_rat (9007199254739 / 9007199254740) \<le> Fin (of_int (2 ^ 53 - 1) / 2 ^ 53)" .
  have "fst (budget_of a t) = clamp (f64_of_rat (9007199254739 / 9007199254740)) (Fin 0) (Fin 1)"
    unfolding budget_of_def Let_def unfolding r unfolding T using at(3) by simp
  also have "\<dots> < Fin 1"
    using q by (cases "f64_of_rat (9007199254739 / 9007199254740)") (auto simp: clamp_def)
  finally have "calculateSingleErrorBudget (Fin a) (Fin t) < Fin 1"
    using error_budget_forms(1) [OF at(1,2)] by simp
  moreover have "Fin a < Fin t" using at(4) by simp
  ultimately show ?thesis
    unfolding default_availability_target f64_999_1000 a_def [symmetric] t_def [symmetric]
    by (simp add: calculateAvailability_def a_def f64_999_1000)
qed

end
