(* ===== verification/RecordingRules.thy ===== *)
theory RecordingRules
  imports SloConfig GoParse
begin

text \<open>
  The generator of Prometheus recording rules (\<open>internal/slo/recording_rules.go\<close>). The raw string literals of the
  expressions are written line by line, each with the tabs it begins with. The order in which Go ranges over the map
  of targets is an argument; the YAML encoder is a parameter.
\<close>

section \<open>Rules\<close>

record RecordingRule =
  ru_Record :: string
  ru_Expr :: string
  ru_Labels :: "string \<rightharpoonup> string"

record RecordingRuleGroup =
  gr_Name :: string
  gr_Interval :: string
  gr_Rules :: "RecordingRule list"

type_synonym PrometheusRulesSpec = "RecordingRuleGroup list"

text \<open>A raw string literal: its lines, each with the number of tabs before it.\<close>

fun raw :: "(nat \<times> string) list \<Rightarrow> string" where
  "raw [] = []"
| "raw [(n, s)] = replicate n (CHR 0x09) @ s"
| "raw ((n, s) # l # ls) = replicate n (CHR 0x09) @ s @ [CHR 0x0A] @ raw (l # ls)"

section \<open>SLI rules\<close>

definition sli_rule :: "string \<Rightarrow> string \<Rightarrow> string \<Rightarrow> string \<Rightarrow> RecordingRule" where
  "sli_rule recordName expr sliType window =
     \<lparr>ru_Record = recordName, ru_Expr = expr, ru_Labels = [''sli_type'' \<mapsto> sliType, ''window'' \<mapsto> window]\<rparr>"

definition availability_expr :: "string \<Rightarrow> string" where
  "availability_expr window = raw [
     (0, ''(''),
     (4, ''sum(rate(http_requests_total{job=\"cloudflare-dns-operator\",code!~\"5..\"}['' @ window @ ''])) /''),
     (4, ''sum(rate(http_requests_total{job=\"cloudflare-dns-operator\"}['' @ window @ '']))''),
     (3, '')'')]"

definition success_rate_expr :: "string \<Rightarrow> string" where
  "success_rate_expr window = raw [
     (0, ''(''),
     (4, ''sum(rate(http_requests_total{job=\"cloudflare-dns-operator\",code=~\"2..\"}['' @ window @ ''])) /''),
     (4, ''sum(rate(http_requests_total{job=\"cloudflare-dns-operator\"}['' @ window @ '']))''),
     (3, '')'')]"

definition latency_expr :: "string \<Rightarrow> string" where
  "latency_expr window = raw [
     (0, ''histogram_quantile(0.95,''),
     (4, ''sum(rate(http_request_duration_seconds_bucket{job=\"cloudflare-dns-operator\"}['' @ window @ ''])) by (le)''),
     (3, '')'')]"

definition throughput_expr :: "string \<Rightarrow> string" where
  "throughput_expr window = ''sum(rate(http_requests_total{job=\"cloudflare-dns-operator\"}['' @ window @ '']))''"

definition generateSLIRules :: RecordingRuleGroup where
  "generateSLIRules = \<lparr>gr_Name = ''cloudflare-dns-operator.sli'', gr_Interval = ''30s'', gr_Rules = [
     sli_rule ''sli:availability:rate5m'' (availability_expr ''5m'') ''availability'' ''5m'',
     sli_rule ''sli:availability:rate30m'' (availability_expr ''30m'') ''availability'' ''30m'',
     sli_rule ''sli:availability:rate1h'' (availability_expr ''1h'') ''availability'' ''1h'',
     sli_rule ''sli:success_rate:rate5m'' (success_rate_expr ''5m'') ''success_rate'' ''5m'',
     sli_rule ''sli:success_rate:rate30m'' (success_rate_expr ''30m'') ''success_rate'' ''30m'',
     sli_rule ''sli:success_rate:rate1h'' (success_rate_expr ''1h'') ''success_rate'' ''1h'',
     sli_rule ''sli:latency_p95:5m'' (latency_expr ''5m'') ''latency_p95'' ''5m'',
     sli_rule ''sli:latency_p95:30m'' (latency_expr ''30m'') ''latency_p95'' ''30m'',
     sli_rule ''sli:latency_p95:1h'' (latency_expr ''1h'') ''latency_p95'' ''1h'',
     sli_rule ''sli:throughput:rate5m'' (throughput_expr ''5m'') ''throughput'' ''5m'',
     sli_rule ''sli:throughput:rate30m'' (throughput_expr ''30m'') ''throughput'' ''30m'',
     sli_rule ''sli:throughput:rate1h'' (throughput_expr ''1h'') ''throughput'' ''1h'']\<rparr>"

section \<open>Burn rates\<close>

definition slo_target :: "SloConfig \<Rightarrow> string \<Rightarrow> f64" where
  "slo_target config sloName =
     (let t = sc_Targets config in
      if sloName = ''availability'' then tg_Availability t / Fin 100
      else if sloName = ''success_rate'' then tg_SuccessRate t / Fin 100
      else if sloName = ''latency_p95'' then dur_Seconds (tg_LatencyP95 t)
      else tg_ThroughputMin t)"

definition slo_names :: "string list" where
  "slo_names = [''availability'', ''success_rate'', ''latency_p95'', ''throughput'']"

definition burn_windows :: "string list" where
  "burn_windows = [''5m'', ''30m'', ''1h'', ''6h'', ''24h'']"

definition burn_labels :: "string \<Rightarrow> string \<Rightarrow> string \<Rightarrow> (string \<rightharpoonup> string)" where
  "burn_labels sloName window target = [''slo_type'' \<mapsto> sloName, ''window'' \<mapsto> window, ''target'' \<mapsto> target]"

definition burn_rule :: "string \<Rightarrow> f64 \<Rightarrow> string \<Rightarrow> RecordingRule" where
  "burn_rule sloName target window =
     (let recordName = ''slo:burn_rate:'' @ sloName @ '':'' @ window in
      if sloName = ''latency_p95'' then
        \<lparr>ru_Record = recordName,
         ru_Expr = raw [
           (0, ''(''),
           (6, ''1 - (''),
           (7, ''sum(rate(http_request_duration_seconds_bucket{job=\"cloudflare-dns-operator\",le=\"'' @ fmt_fixed 3 target
               @ ''\"}['' @ window @ ''])) /''),
           (7, ''sum(rate(http_request_duration_seconds_bucket{job=\"cloudflare-dns-operator\",le=\"+Inf\"}['' @ window @ '']))''),
           (6, '')''),
           (5, '') / (1 - 0.95)'')],
         ru_Labels = burn_labels sloName window (fmt_fixed 3 target)\<rparr>
      else if sloName = ''throughput'' then
        \<lparr>ru_Record = recordName,
         ru_Expr = raw [
           (0, ''(''),
           (6, ''clamp_max(1 - (sli:throughput:rate'' @ window @ '' / '' @ fmt_fixed 2 target @ ''), 1)''),
           (5, '')'')],
         ru_Labels = burn_labels sloName window (fmt_fixed 2 target)\<rparr>
      else
        \<lparr>ru_Record = recordName,
         ru_Expr = raw [
           (0, ''(''),
           (6, ''1 - (sli:'' @ sloName @ '':rate'' @ window @ '' / '' @ fmt_fixed 4 target @ '')''),
           (5, '') / (1 - '' @ fmt_fixed 4 target @ '')'')],
         ru_Labels = burn_labels sloName window (fmt_fixed 4 target)\<rparr>)"

text \<open>\<open>order\<close> is the order in which the range statement visits the names of the targets.\<close>

definition generateSLOBurnRateRules :: "string list \<Rightarrow> SloConfig \<Rightarrow> RecordingRuleGroup" where
  "generateSLOBurnRateRules order config =
     \<lparr>gr_Name = ''cloudflare-dns-operator.slo.burn_rate'', gr_Interval = ''30s'',
      gr_Rules = concat (map (\<lambda>sloName. map (burn_rule sloName (slo_target config sloName)) burn_windows) order)\<rparr>"

section \<open>Error budgets\<close>

definition remaining_rule :: "string \<Rightarrow> f64 \<Rightarrow> RecordingRule" where
  "remaining_rule sloName target =
     \<lparr>ru_Record = ''slo:error_budget_remaining:'' @ sloName @ '':30d'',
      ru_Expr = raw [
        (0, ''(''),
        (4, ''1 - (''),
        (5, ''(1 - avg_over_time(sli:'' @ sloName @ '':rate1h[30d])) / (1 - '' @ fmt_fixed 4 target @ '')''),
        (4, '')''),
        (3, '')'')],
      ru_Labels = [''slo_type'' \<mapsto> sloName, ''window'' \<mapsto> ''30d'', ''target'' \<mapsto> fmt_fixed 4 target,
        ''budget_type'' \<mapsto> ''remaining'']\<rparr>"

definition budget_burn_rule :: "string \<Rightarrow> string \<Rightarrow> string \<Rightarrow> RecordingRule" where
  "budget_burn_rule sloName window factor =
     \<lparr>ru_Record = ''slo:error_budget_burn_rate:'' @ sloName @ '':'' @ window,
      ru_Expr = raw [
        (0, ''(''),
        (4, ''slo:burn_rate:'' @ sloName @ '':'' @ window @ '' * '' @ factor @ '' * 30''),
        (3, '')'')],
      ru_Labels = [''slo_type'' \<mapsto> sloName, ''window'' \<mapsto> window, ''budget_type'' \<mapsto> ''burn_rate'']\<rparr>"

definition generateErrorBudgetRules :: "SloConfig \<Rightarrow> RecordingRuleGroup" where
  "generateErrorBudgetRules config =
     \<lparr>gr_Name = ''cloudflare-dns-operator.slo.error_budget'', gr_Interval = ''1m'', gr_Rules = [
        remaining_rule ''availability'' (tg_Availability (sc_Targets config) / Fin 100),
        remaining_rule ''success_rate'' (tg_SuccessRate (sc_Targets config) / Fin 100),
        budget_burn_rule ''availability'' ''1h'' ''24'',
        budget_burn_rule ''availability'' ''6h'' ''4'',
        budget_burn_rule ''success_rate'' ''1h'' ''24'',
        budget_burn_rule ''success_rate'' ''6h'' ''4'']\<rparr>"

section \<open>Multi-window alerts\<close>

definition page_alerts :: "(string \<times> string \<times> f64) list" where
  "page_alerts = [(''5m'', ''1h'', f64_of_rat (144/10)), (''30m'', ''6h'', Fin 6)]"

definition ticket_alerts :: "(string \<times> string \<times> f64) list" where
  "ticket_alerts = [(''2h'', ''1d'', Fin 3), (''6h'', ''3d'', Fin 1)]"

definition multi_window_rule :: "string \<Rightarrow> string \<Rightarrow> string \<times> string \<times> f64 \<Rightarrow> string \<Rightarrow> RecordingRule" where
  "multi_window_rule severity factor = (\<lambda>(short, long, threshold) sloType.
     \<lparr>ru_Record = ''slo:multi_window_burn_rate:'' @ sloType @ '':'' @ short @ ''_'' @ long,
      ru_Expr = raw [
        (0, ''(''),
        (5, ''slo:burn_rate:'' @ sloType @ '':'' @ short @ '' > ('' @ fmt_fixed 1 threshold @ '' * '' @ factor @ '')''),
        (5, ''and''),
        (5, ''slo:burn_rate:'' @ sloType @ '':'' @ long @ '' > ('' @ fmt_fixed 1 threshold @ '' * '' @ factor @ '')''),
        (4, '')'')],
      ru_Labels = [''slo_type'' \<mapsto> sloType, ''short_window'' \<mapsto> short, ''long_window'' \<mapsto> long,
        ''severity'' \<mapsto> severity, ''threshold'' \<mapsto> fmt_fixed 1 threshold]\<rparr>)"

definition generateMultiWindowRules :: RecordingRuleGroup where
  "generateMultiWindowRules =
     (let sloTypes = [''availability'', ''success_rate''] in
      \<lparr>gr_Name = ''cloudflare-dns-operator.slo.multi_window'', gr_Interval = ''30s'',
       gr_Rules = concat (map (\<lambda>alert. map (multi_window_rule ''page'' ''0.25'' alert) sloTypes) page_alerts)
         @ concat (map (\<lambda>alert. map (multi_window_rule ''ticket'' ''0.1'' alert) sloTypes) ticket_alerts)\<rparr>)"

definition GenerateRecordingRules :: "string list \<Rightarrow> SloConfig \<Rightarrow> PrometheusRulesSpec" where
  "GenerateRecordingRules order config =
     [generateSLIRules, generateSLOBurnRateRules order config, generateErrorBudgetRules config, generateMultiWindowRules]"

section \<open>Output\<close>

record PrometheusRuleCRD =
  crd_apiVersion :: string
  crd_kind :: string
  crd_name :: string
  crd_namespace :: string
  crd_labels :: "string \<rightharpoonup> string"
  crd_spec :: PrometheusRulesSpec

definition GenerateYAML ::
  "(PrometheusRulesSpec \<Rightarrow> go_error + string) \<Rightarrow> string list \<Rightarrow> SloConfig \<Rightarrow> go_error + string" where
  "GenerateYAML marshal order config =
     (case marshal (GenerateRecordingRules order config) of
        Inl e \<Rightarrow> Inl (ErrWrap ''failed to marshal recording rules to YAML: '' e)
      | Inr s \<Rightarrow> Inr s)"

definition GeneratePrometheusRuleCRD ::
  "(PrometheusRuleCRD \<Rightarrow> go_error + string) \<Rightarrow> string list \<Rightarrow> SloConfig \<Rightarrow> string \<Rightarrow> string \<Rightarrow> go_error + string" where
  "GeneratePrometheusRuleCRD marshal order config name namespace =
     (let crd = \<lparr>crd_apiVersion = ''monitoring.coreos.com/v1'', crd_kind = ''PrometheusRule'', crd_name = name,
        crd_namespace = namespace,
        crd_labels = [''app.kubernetes.io/name'' \<mapsto> ''cloudflare-dns-operator'',
          ''app.kubernetes.io/component'' \<mapsto> ''slo-monitoring'', ''prometheus'' \<mapsto> ''kube-prometheus'',
          ''role'' \<mapsto> ''alert-rules''],
        crd_spec = GenerateRecordingRules order config\<rparr>
      in case marshal crd of
           Inl e \<Rightarrow> Inl (ErrWrap ''failed to marshal PrometheusRule CRD to YAML: '' e)
         | Inr s \<Rightarrow> Inr s)"

definition GetRecordingRuleNames :: "string list \<Rightarrow> SloConfig \<Rightarrow> string list" where
  "GetRecordingRuleNames order config =
     concat (map (\<lambda>grp. map ru_Record (gr_Rules grp)) (GenerateRecordingRules order config))"

section \<open>Validation\<close>

definition rule_issues :: "RecordingRuleGroup \<Rightarrow> RecordingRule \<Rightarrow> string list" where
  "rule_issues grp rule =
     (if ru_Record rule = [] then [''empty record name in group '' @ gr_Name grp] else [])
     @ (if ru_Expr rule = [] then [''empty expression for rule '' @ ru_Record rule] else [])
     @ (if CHR '':'' \<notin> set (ru_Record rule)
        then [''rule '' @ ru_Record rule @ '' doesn'' @ [CHR 0x27] @ ''t follow naming convention (missing colon)''] else [])
     @ (if gr_Interval grp \<noteq> [] then
          (case ParseDuration (gr_Interval grp) of
             None \<Rightarrow> [''invalid interval '' @ gr_Interval grp @ '' in group '' @ gr_Name grp]
           | Some interval \<Rightarrow>
               if interval < 10 * Second
               then [''interval '' @ gr_Interval grp @ '' in group '' @ gr_Name grp @ '' is too short''] else [])
        else [])"

definition group_issues :: "RecordingRuleGroup \<Rightarrow> string list" where
  "group_issues grp =
     (if gr_Name grp = [] then [''empty group name found''] else [])
     @ concat (map (rule_issues grp) (gr_Rules grp))"

definition ValidateRecordingRules :: "string list \<Rightarrow> SloConfig \<Rightarrow> string list" where
  "ValidateRecordingRules order config = concat (map group_issues (GenerateRecordingRules order config))"

section \<open>Properties\<close>

lemma raw_nonempty: "raw ((n, CHR ''('' # s) # ls) \<noteq> []" "raw ((n, CHR ''h'' # s) # ls) \<noteq> []"
  by (cases ls; simp)+

lemma intervals_parse: "ParseDuration ''30s'' = Some (30 * Second)" "ParseDuration ''1m'' = Some Minute"
  by (simp_all add: ParseDuration_def has_prefix_def duration_term_def fraction_part_def term_value_def unit_part_def
      duration_unit_def is_digit_def digit_val_def Let_def)

end
