(* ===== verification/RecordingRulesProps.thy ===== *)
theory RecordingRulesProps
  imports RecordingRules "HOL-Library.Multiset" "HOL-Library.Sublist"
begin

text \<open>
  The generated rules pass their own validation and have distinct names, whatever the order in which the targets are
  visited; but some of them read series that no rule records, and targets above 99.995 percent are printed as 1.
\<close>

definition all_rules :: "string list \<Rightarrow> SloConfig \<Rightarrow> RecordingRule list" where
  "all_rules order config = concat (map gr_Rules (GenerateRecordingRules order config))"

lemma names_of_rules: "GetRecordingRuleNames order config = map ru_Record (all_rules order config)"
  by (simp add: GetRecordingRuleNames_def all_rules_def map_concat comp_def)

lemmas rule_group_defs = GenerateRecordingRules_def generateSLIRules_def generateSLOBurnRateRules_def
  generateErrorBudgetRules_def generateMultiWindowRules_def page_alerts_def ticket_alerts_def Let_def

lemma raw_open [simp]: "raw ((0, c # s) # ls) \<noteq> []"
  by (cases ls) auto

lemma burn_rule_record [simp]: "ru_Record (burn_rule n t w) = ''slo:burn_rate:'' @ n @ '':'' @ w"
  by (simp add: burn_rule_def Let_def)

lemma burn_rule_expr: "ru_Expr (burn_rule n t w) \<noteq> []"
  by (simp add: burn_rule_def Let_def)

section \<open>Validation\<close>

text \<open>The generated rules have no issues, for every configuration and every order of the targets.\<close>

theorem generated_rules_valid: "ValidateRecordingRules order config = []"
proof -
  note i = rule_issues_def intervals_parse
  have "concat (map (rule_issues g) rs) = []" if "\<forall>r \<in> set rs. rule_issues g r = []" for g rs
    using that by simp
  moreover have "rule_issues (generateSLOBurnRateRules order config) r = []"
    if "r \<in> set (gr_Rules (generateSLOBurnRateRules order config))" for r
    using that by (auto simp: i generateSLOBurnRateRules_def burn_rule_expr)
  ultimately have b: "group_issues (generateSLOBurnRateRules order config) = []"
    by (simp add: group_issues_def) (simp add: generateSLOBurnRateRules_def)
  have "group_issues generateSLIRules = []"
    by (simp add: group_issues_def generateSLIRules_def i sli_rule_def availability_expr_def success_rate_expr_def
        latency_expr_def throughput_expr_def)
  moreover have "group_issues (generateErrorBudgetRules config) = []"
    by (simp add: group_issues_def generateErrorBudgetRules_def i remaining_rule_def budget_burn_rule_def)
  moreover have "group_issues generateMultiWindowRules = []"
    by (simp add: group_issues_def generateMultiWindowRules_def i multi_window_rule_def page_alerts_def
        ticket_alerts_def Let_def)
  ultimately show ?thesis using b by (simp add: ValidateRecordingRules_def GenerateRecordingRules_def)
qed

section \<open>Names\<close>

lemma record_names [simp]:
  "ru_Record (sli_rule r e ty w) = r" "ru_Record (remaining_rule n t) = ''slo:error_budget_remaining:'' @ n @ '':30d''"
  "ru_Record (budget_burn_rule n w f) = ''slo:error_budget_burn_rate:'' @ n @ '':'' @ w"
  "ru_Record (multi_window_rule sev f (a, b, x) n) = ''slo:multi_window_burn_rate:'' @ n @ '':'' @ a @ ''_'' @ b"
  by (simp_all add: sli_rule_def remaining_rule_def budget_burn_rule_def multi_window_rule_def)

definition burn_names :: "string list \<Rightarrow> string list" where
  "burn_names order = concat (map (\<lambda>n. map (\<lambda>w. ''slo:burn_rate:'' @ n @ '':'' @ w) burn_windows) order)"

definition other_names :: "string list \<times> string list" where
  "other_names =
     (map ru_Record (gr_Rules generateSLIRules),
      map ru_Record (gr_Rules (generateErrorBudgetRules slo_DefaultConfig)) @ map ru_Record (gr_Rules generateMultiWindowRules))"

lemma names_split:
  "GetRecordingRuleNames order config = fst other_names @ burn_names order @ snd other_names"
proof -
  have "map ru_Record (gr_Rules (generateSLOBurnRateRules order config)) = burn_names order"
    by (simp add: generateSLOBurnRateRules_def burn_names_def map_concat comp_def)
  moreover have "map ru_Record (gr_Rules (generateErrorBudgetRules config))
    = map ru_Record (gr_Rules (generateErrorBudgetRules slo_DefaultConfig))"
    by (simp add: generateErrorBudgetRules_def)
  ultimately show ?thesis by (simp add: GetRecordingRuleNames_def GenerateRecordingRules_def other_names_def)
qed

lemma other_names_list:
  "fst other_names =
     [''sli:availability:rate5m'', ''sli:availability:rate30m'', ''sli:availability:rate1h'',
      ''sli:success_rate:rate5m'', ''sli:success_rate:rate30m'', ''sli:success_rate:rate1h'',
      ''sli:latency_p95:5m'', ''sli:latency_p95:30m'', ''sli:latency_p95:1h'',
      ''sli:throughput:rate5m'', ''sli:throughput:rate30m'', ''sli:throughput:rate1h'']"
  "snd other_names =
     [''slo:error_budget_remaining:availability:30d'', ''slo:error_budget_remaining:success_rate:30d'',
      ''slo:error_budget_burn_rate:availability:1h'', ''slo:error_budget_burn_rate:availability:6h'',
      ''slo:error_budget_burn_rate:success_rate:1h'', ''slo:error_budget_burn_rate:success_rate:6h'',
      ''slo:multi_window_burn_rate:availability:5m_1h'', ''slo:multi_window_burn_rate:success_rate:5m_1h'',
      ''slo:multi_window_burn_rate:availability:30m_6h'', ''slo:multi_window_burn_rate:success_rate:30m_6h'',
      ''slo:multi_window_burn_rate:availability:2h_1d'', ''slo:multi_window_burn_rate:success_rate:2h_1d'',
      ''slo:multi_window_burn_rate:availability:6h_3d'', ''slo:multi_window_burn_rate:success_rate:6h_3d'']"
  by (simp_all add: other_names_def generateSLIRules_def generateErrorBudgetRules_def generateMultiWindowRules_def
      page_alerts_def ticket_alerts_def Let_def)

lemma names_distinct_listed: "distinct (fst other_names @ burn_names slo_names @ snd other_names)"
  "length (fst other_names @ burn_names slo_names @ snd other_names) = 46"
  by (simp_all add: other_names_list burn_names_def slo_names_def burn_windows_def)

lemma burn_names_order: "mset order = mset slo_names \<Longrightarrow> mset (burn_names order) = mset (burn_names slo_names)"
  unfolding burn_names_def mset_concat map_map comp_def
  by (metis (no_types, lifting) mset_map sum_mset_sum_list)

text \<open>The recorded names are distinct, 46 of them, and the same for every order in which the targets are visited.\<close>

theorem rule_names_distinct:
  assumes "mset order = mset slo_names"
  shows "distinct (GetRecordingRuleNames order config) \<and> length (GetRecordingRuleNames order config) = 46
    \<and> set (GetRecordingRuleNames order config) = set (GetRecordingRuleNames slo_names slo_DefaultConfig)"
proof -
  have m: "mset (GetRecordingRuleNames order config) = mset (GetRecordingRuleNames slo_names slo_DefaultConfig)"
    using burn_names_order [OF assms] by (simp add: names_split)
  have d: "distinct (GetRecordingRuleNames slo_names slo_DefaultConfig)"
    "length (GetRecordingRuleNames slo_names slo_DefaultConfig) = 46"
    unfolding names_split by (rule names_distinct_listed)+
  show ?thesis using d mset_eq_imp_distinct_iff [OF m] mset_eq_length [OF m] mset_eq_setD [OF m] by simp
qed

theorem rule_names_distinct_witness:
  "distinct (GetRecordingRuleNames (rev slo_names) slo_DefaultConfig)"
  using rule_names_distinct [of "rev slo_names" slo_DefaultConfig] by simp

section \<open>Series that nobody records\<close>

lemma raw_mentions: "(k, a @ s @ b) \<in> set ls \<Longrightarrow> sublist s (raw ls)"
proof (induction ls rule: raw.induct)
  case (2 n t)
  then show ?case by (auto simp: sublist_def) (metis append.assoc)
next
  case (3 n t l ls)
  show ?case
  proof (cases "(k, a @ s @ b) \<in> set (l # ls)")
    case True
    from 3(1) [OF this] obtain u v where uv: "raw (l # ls) = u @ s @ v" by (auto simp: sublist_def)
    show ?thesis unfolding raw.simps uv sublist_def
      by (rule exI [of _ "replicate n (CHR 0x09) @ t @ [CHR 0x0A] @ u"], rule exI [of _ v]) simp
  next
    case False
    with 3(2) have "t = a @ s @ b" by simp
    then show ?thesis unfolding raw.simps sublist_def
      by (intro exI [of _ "replicate n (CHR 0x09) @ a"] exI [of _ "b @ [CHR 0x0A] @ raw (l # ls)"]) simp
  qed
qed simp

lemma burn_rule_reads:
  assumes "n = ''availability'' \<or> n = ''success_rate''"
  shows "sublist (''sli:'' @ n @ '':rate'' @ w @ '' '') (ru_Expr (burn_rule n t w))"
proof -
  have "(6, ''1 - ('' @ (''sli:'' @ n @ '':rate'' @ w @ '' '') @ ''/ '' @ fmt_fixed 4 t @ '')'') \<in> set
    [(0, ''(''), (6, ''1 - (sli:'' @ n @ '':rate'' @ w @ '' / '' @ fmt_fixed 4 t @ '')''),
     (5, '') / (1 - '' @ fmt_fixed 4 t @ '')'')]" by simp
  from raw_mentions [OF this] show ?thesis using assms by (auto simp: burn_rule_def Let_def)
qed

lemma multi_window_reads:
  assumes "c = a \<or> c = b"
  shows "sublist (''slo:burn_rate:'' @ n @ '':'' @ c @ '' '') (ru_Expr (multi_window_rule sev f (a, b, t) n))"
proof -
  let ?x = "''> ('' @ fmt_fixed 1 t @ '' * '' @ f @ '')''"
  have "(5, [] @ (''slo:burn_rate:'' @ n @ '':'' @ c @ '' '') @ ?x) \<in> set
    [(0, ''(''), (5, ''slo:burn_rate:'' @ n @ '':'' @ a @ '' '' @ ?x), (5, ''and''),
     (5, ''slo:burn_rate:'' @ n @ '':'' @ b @ '' '' @ ?x), (4, '')'')]" using assms by auto
  from raw_mentions [OF this] show ?thesis by (simp add: multi_window_rule_def)
qed

definition reads_unrecorded :: "string list \<Rightarrow> SloConfig \<Rightarrow> string \<Rightarrow> string \<Rightarrow> bool" where
  "reads_unrecorded order config recordName series \<longleftrightarrow>
     (\<exists>r \<in> set (all_rules order config). ru_Record r = recordName \<and> sublist (series @ '' '') (ru_Expr r))
     \<and> series \<notin> set (GetRecordingRuleNames order config)"

lemma burn_rule_generated:
  "n \<in> set order \<Longrightarrow> w \<in> set burn_windows \<Longrightarrow> burn_rule n (slo_target config n) w \<in> set (all_rules order config)"
  by (auto simp: all_rules_def GenerateRecordingRules_def generateSLOBurnRateRules_def)

lemma ticket_rule_generated:
  "n \<in> {''availability'', ''success_rate''} \<Longrightarrow> alert \<in> set ticket_alerts \<Longrightarrow>
   multi_window_rule ''ticket'' ''0.1'' alert n \<in> set (all_rules order config)"
  by (auto simp: all_rules_def GenerateRecordingRules_def generateMultiWindowRules_def Let_def)

text \<open>The 6h and 24h burn rates read SLI series of these windows, and the ticket alerts read burn rates of 2h, 1d and 3d:
  no rule records any of them, so these rules never have a value. (The throughput rules of 6h and 24h are alike.)\<close>

theorem long_window_rules_read_nothing:
  assumes "set order = set slo_names" and "n \<in> {''availability'', ''success_rate''}"
  shows "(\<forall>w \<in> {''6h'', ''24h''}.
      reads_unrecorded order config (''slo:burn_rate:'' @ n @ '':'' @ w) (''sli:'' @ n @ '':rate'' @ w))
    \<and> (\<forall>w \<in> {''2h'', ''1d''}.
      reads_unrecorded order config (''slo:multi_window_burn_rate:'' @ n @ '':2h_1d'') (''slo:burn_rate:'' @ n @ '':'' @ w))
    \<and> reads_unrecorded order config (''slo:multi_window_burn_rate:'' @ n @ '':6h_3d'') (''slo:burn_rate:'' @ n @ '':3d'')"
proof -
  have names: "set (GetRecordingRuleNames order config) = set (fst other_names @ burn_names slo_names @ snd other_names)"
    using assms(1) by (simp add: names_split burn_names_def)
  have missing: "''sli:'' @ n @ '':rate'' @ w \<notin> set (GetRecordingRuleNames order config)" if "w \<in> {''6h'', ''24h''}" for w
    using assms(2) that unfolding names other_names_list burn_names_def slo_names_def burn_windows_def by auto
  have missing': "''slo:burn_rate:'' @ n @ '':'' @ w \<notin> set (GetRecordingRuleNames order config)" if "w \<in> {''2h'', ''1d'', ''3d''}" for w
    using assms(2) that unfolding names other_names_list burn_names_def slo_names_def burn_windows_def by auto
  have n: "n \<in> set order" using assms by (auto simp: slo_names_def)
  have "reads_unrecorded order config (''slo:burn_rate:'' @ n @ '':'' @ w) (''sli:'' @ n @ '':rate'' @ w)"
    if "w \<in> {''6h'', ''24h''}" for w
  proof -
    have "w \<in> set burn_windows" using that by (auto simp: burn_windows_def)
    from burn_rule_generated [OF n this, of config] burn_rule_reads [of n w] missing [OF that] assms(2)
    show ?thesis unfolding reads_unrecorded_def by (intro conjI bexI) auto
  qed
  moreover have "reads_unrecorded order config (''slo:multi_window_burn_rate:'' @ n @ '':'' @ a @ ''_'' @ b) (''slo:burn_rate:'' @ n @ '':'' @ c)"
    if "(a, b, t) \<in> set ticket_alerts" "c = a \<or> c = b" "c \<in> {''2h'', ''1d'', ''3d''}" for a b c t
    using ticket_rule_generated [OF assms(2) that(1), of order config] multi_window_reads [OF that(2)] missing' [OF that(3)]
    unfolding reads_unrecorded_def by (intro conjI bexI) auto
  note this [of "''2h''" "''1d''" "Fin 3"] this [of "''6h''" "''3d''" "Fin 1" "''3d''"]
  ultimately show ?thesis by (auto simp: ticket_alerts_def)
qed

theorem long_window_rules_read_nothing_witness:
  "reads_unrecorded slo_names slo_DefaultConfig ''slo:burn_rate:availability:6h'' ''sli:availability:rate6h''"
  using long_window_rules_read_nothing [of slo_names "''availability''" slo_DefaultConfig] by simp

section \<open>Targets that print as 1\<close>

lemma digits: "char_of (49 :: nat) = CHR ''1''" "char_of (48 :: nat) = CHR ''0''"
  "replicate 3 c = [c, c, c]"
  by code_simp (code_simp, simp add: numeral_3_eq_3)

lemma fmt_one:
  assumes "99995 / 100000 \<le> q" and "q < 1"
  shows "fmt_fixed 4 (Fin q) = ''1.0000''"
proof -
  define x where "x = q * 10 ^ 4"
  have x: "9999 + 1/2 \<le> x" "x < 10000" using assms by (simp_all add: x_def)
  then have "\<lfloor>x\<rfloor> = 9999" by (simp add: floor_unique)
  then have "round_half_even x = 10000" using x by (simp add: round_half_even_def Let_def)
  moreover have "\<bar>q\<bar> * 10 ^ 4 = x" "\<not> q < 0" using assms by (simp_all add: x_def)
  ultimately show ?thesis
    by (simp add: fmt_fixed_def Let_def pad_zeros_def show_nat.simps digit_char_def digits)
qed

text \<open>A target of 99.995 percent or more (below 100) prints as 1.0000 in the expressions, which then divide by
  \<open>1 - 1.0000\<close>: the burn rates and the remaining budget of such a target are never finite.\<close>

theorem strict_targets_divide_by_zero:
  assumes "n \<in> {''availability'', ''success_rate''}" and "slo_target config n = Fin q"
    and "99995 / 100000 \<le> q" and "q < 1"
  shows "(\<forall>w \<in> set burn_windows. let r = burn_rule n (slo_target config n) w in
      ru_Labels r ''target'' = Some ''1.0000'' \<and> (\<exists>p. ru_Expr r = p @ '') / (1 - 1.0000)''))
    \<and> sublist ''/ (1 - 1.0000)'' (ru_Expr (remaining_rule n (slo_target config n)))"
proof -
  note f = fmt_one [OF assms(3,4)]
  have "(5, (''(1 - avg_over_time(sli:'' @ n @ '':rate1h[30d])) '') @ ''/ (1 - 1.0000)'' @ []) \<in> set
    [(0, ''(''), (4, ''1 - (''), (5, ''(1 - avg_over_time(sli:'' @ n @ '':rate1h[30d])) / (1 - '' @ fmt_fixed 4 (Fin q) @ '')''),
     (4, '')''), (3, '')'')]" by (simp add: f)
  from raw_mentions [OF this] have "sublist ''/ (1 - 1.0000)'' (ru_Expr (remaining_rule n (Fin q)))"
    by (simp add: remaining_rule_def)
  moreover have "\<exists>p. ru_Expr (burn_rule n (Fin q) w) = p @ '') / (1 - 1.0000)''" for w
    using assms(1) by (intro exI [of _ "raw [(0, ''(''), (6, ''1 - (sli:'' @ n @ '':rate'' @ w @ '' / 1.0000)'')] @ [CHR 0x0A] @ replicate 5 (CHR 0x09)"])
      (auto simp: burn_rule_def f Let_def)
  moreover have "ru_Labels (burn_rule n (Fin q) w) ''target'' = Some ''1.0000''" for w
    using assms(1) by (auto simp: burn_rule_def burn_labels_def f Let_def)
  ultimately show ?thesis by (simp add: assms(2) Let_def)
qed

definition strict_config :: SloConfig where
  "strict_config = slo_DefaultConfig\<lparr>sc_Targets := (sc_Targets slo_DefaultConfig)\<lparr>tg_Availability := Fin (100 * (1 - 1 / 2 ^ 20))\<rparr>\<rparr>"

theorem strict_targets_divide_by_zero_witness:
  "sublist ''/ (1 - 1.0000)'' (ru_Expr (remaining_rule ''availability'' (slo_target strict_config ''availability'')))"
proof -
  have e: "1048575 / 1048576 = (of_int 1048575 * 2 powi (- 20) :: rat)" by (simp add: power_int_minus)
  have "representable (1048575 / 1048576)"
    unfolding representable_def by (rule exI [of _ 1048575], rule exI [of _ "- 20"], intro conjI e) simp_all
  then have "representable (1 - 1 / 2 ^ 20)" by simp
  moreover have "\<bar>1 - 1 / 2 ^ 20\<bar> \<le> max_f64" by (rule order_trans [of _ 1]) simp_all
  ultimately have "f64_of_rat (1 - 1 / 2 ^ 20) = Fin (1 - 1 / 2 ^ 20)" by (rule f64_of_rat_exact)
  then have "slo_target strict_config ''availability'' = Fin (1 - 1 / 2 ^ 20)"
    by (simp add: slo_target_def strict_config_def)
  then show ?thesis
    using strict_targets_divide_by_zero [of "''availability''" strict_config "1 - 1 / 2 ^ 20"] by simp
qed

end
