(* ===== verification/Spec2Isabelle.thy ===== *)
theory Spec2Isabelle
  imports BreakerProps RetryProps RetryDelays RateBound Reliability Metrics OperatorRun ConfigEnvironment DeepCopyProps Startup
    SloManagerProps RecordingRulesProps
begin

text \<open>
  A verification library for the Kubernetes operator that manages DNS records at Cloudflare: the Go code under
  \<open>src/cmd\<close>, \<open>src/api/v1\<close> and \<open>src/internal\<close>.

  \<^bold>\<open>The program.\<close> \<open>cmd/main.go\<close> reads flags and the environment, sets up loggers and tracing, loads the operator's
  configuration through the configuration manager, creates the controller, starts a goroutine that watches the
  configuration, adds the health checks and runs. The controller reconciles CloudflareRecord objects: it adds a
  finalizer, records metrics, writes the status, and removes the finalizer of a deleted object; it asks the
  configuration manager for a feature flag first. The reliability package (circuit breaker, retry, rate limiter, and
  their composition) and the SLO package (error budgets, SLI calculator, manager, recording rules) are libraries of
  the operator that main does not start yet.

  \<^bold>\<open>Foundations.\<close> \<open>Prelude\<close> has 64-bit integers with their wrap-around, truncating division, strings, errors that wrap
  errors, runs of operations, and the locale \<open>invariant_machine\<close> of a component that keeps an invariant.
  \<open>Float64\<close> is Go's \<open>float64\<close> (IEEE binary64, to nearest even, over the rationals) with its infinities and NaN, and
  the facts about rounding; the locale \<open>rounding\<close> is interpreted on it. \<open>GoRuntime\<close> has times, durations and the
  calls made on Prometheus collectors; \<open>GoParse\<close> the parsers of \<open>strconv\<close>, \<open>time\<close> and the paths of \<open>filepath\<close>;
  \<open>GoDuration\<close> prints durations and proves that parsing inverts it, for numbers and switches as well.

  \<^bold>\<open>Reliability\<close> (\<open>internal/reliability\<close>).
  \<^item> \<open>CircuitBreaker\<close> is \<open>circuit_breaker.go\<close>: the state of the struct as a record, one definition per method.
    \<open>BreakerMachine\<close> interleaves the two halves of any number of calls of \<open>Execute\<close> and keeps an invariant of breaker
    and calls in flight; \<open>BreakerProps\<close> draws from it that the counts balance, that the reported changes of state
    refine the three-state automaton, that a half-open breaker is not stuck and recovers, when it trips and rejects.
  \<^item> \<open>Retry\<close> is \<open>retry.go\<close> with the caller's world as the state of its function, clock and random source. \<open>RetryProps\<close>:
    the number of attempts, the three ways to end, transient failures, error classification by substrings.
    \<open>RetryDelays\<close>: the delays lie within their limits for every \<open>float64\<close> multiplier, and are exact for doubling.
  \<^item> \<open>RateLimiter\<close> is \<open>rate_limiter.go\<close>. \<open>RateLimiterProps\<close>: the tokens stay between 0 and the burst, bursts are exact,
    \<open>Wait\<close> ends for three reasons, and settings that starve a caller or do nothing. \<open>RateBound\<close>: over any period no
    more is admitted than the burst and what the rate yields, with the rounding errors of every refill accounted for.
  \<^item> \<open>Reliability\<close> is \<open>reliability_integration_example.go\<close>: the retryer around the limiter around the breaker.

  \<^bold>\<open>Configuration\<close> (\<open>internal/config\<close>).
  \<^item> \<open>ConfigTypes\<close> (\<open>types.go\<close>, \<open>constants.go\<close>): records, defaults, \<open>Copy\<close> and \<open>Merge\<close>. \<open>ConfigLayers\<close>: the locales
    \<open>layered_field\<close> and \<open>layered_switch\<close> are the contracts of a part of a configuration with \<open>Merge\<close>, interpreted on
    the fields; the last layer wins, switches are sticky.
  \<^item> \<open>ConfigValidation\<close> (\<open>validation.go\<close>) and \<open>ConfigValidationProps\<close>: what validation accepts, defaults are valid.
  \<^item> \<open>FeatureFlagManager\<close> (\<open>feature_flags.go\<close>): every method and their laws.
  \<^item> \<open>ConfigLoader\<close> (\<open>loader.go\<close>), \<open>ConfigLoaderProps\<close>: loading from a file, a Secret, a ConfigMap and the environment is
    a layering in this order, and what each source can and cannot say.
  \<^item> \<open>ConfigManager\<close> (\<open>manager.go\<close>), \<open>ConfigManagerProps\<close>: never an invalid configuration, atomic loads, stable reloads,
    at most one reload loop. \<open>ConfigWatcher\<close>: what \<open>WatchConfig\<close> of \<open>loader.go\<close> sends and when it ends.
  \<^item> \<open>ConfigEnvironment\<close>: a configuration that is written to the environment is read back by the loader, exactly.

  \<^bold>\<open>Operator.\<close>
  \<^item> \<open>Metrics\<close> (\<open>internal/metrics\<close>): collectors, recorders and getters over the log of calls; the locale \<open>metric_store\<close> is
    what the library keeps of them.
  \<^item> \<open>Controller\<close> (\<open>internal/controller\<close>, \<open>api/v1\<close>), \<open>ControllerProps\<close>: an arbitrary API server with the laws
    \<open>server_laws\<close> (an error leaves the object, an update stores it); a reconciliation reaches its goal, is stable,
    releases deleted objects, and fails without harm; what its metrics say.
  \<^item> \<open>OperatorRun\<close>: the step relation \<open>op_step\<close> interleaves reconciliations, failing ones included, with users and other
    controllers; rule induction over its runs shows that the finalizer guards a record, that no record is forgotten,
    and that a record which is left alone converges.
  \<^item> \<open>DeepCopy\<close> (\<open>zz_generated.deepcopy.go\<close>), \<open>DeepCopyProps\<close>: the API types with their pointers and slices as addresses
    of a heap. The locale \<open>deep_copier\<close> is the contract of a deep copy, interpreted on the copies of pointers, slices
    and structs; a record and a list of records are copied to the same value, and nothing is shared.
  \<^item> \<open>Logging\<close>, \<open>Tracing\<close>, \<open>Health\<close>: configuration and construction of loggers, contexts and middleware; of the tracing
    provider, and spans; health checks with missing and panicking clients, graceful shutdown, profiling.
  \<^item> \<open>Startup\<close> (\<open>cmd/main.go\<close>): the scheme of the API types (\<open>groupversion_info.go\<close>), the controller's
    registration, the start as a list of steps of which each may fail, the hot reload, and what follows
    from their combination with the controller.

  \<^bold>\<open>SLO\<close> (\<open>internal/slo\<close>).
  \<^item> \<open>SloConfig\<close> (\<open>config.go\<close>), \<open>ErrorBudget\<close> (\<open>error_budget.go\<close>), \<open>SloManager\<close> (\<open>calculator.go\<close>, \<open>slo.go\<close>),
    \<open>RecordingRules\<close> (\<open>recording_rules.go\<close>) with their \<open>Props\<close>: budgets are percentages and the three computations of
    them agree, histories hold the last thousand snapshots, every window has its own states (behind addresses, since
    the code shares them), a started manager stops, generated rules are valid and distinct, and what they read.
    The life cycle of the manager's channels is the step relation \<open>life_step\<close>.

  \<^bold>\<open>Conventions.\<close> A lock that a method holds throughout makes it one step. Clocks, random numbers, the API server, the file
  system, decoders, zap, OpenTelemetry and the registerer are parameters; log lines are left out unless something
  depends on them. Errors are values that keep what they wrap, so that \<open>errors.Is\<close> and messages are functions of them.
  A panic is a value where the code can meet one (nil clients, closed channels, wrong label counts).

  \<^bold>\<open>Loops.\<close> The retry loop, the loop of \<open>math.Pow\<close> for integers and the substring search terminate and are functions with
  a measure. \<open>Wait\<close> may wait for ever: its loop has fuel, the results are proved for every fuel that gives one, and that
  a granted call needs only one turn. The terms of a duration have the length of the text as fuel, which is enough
  (\<open>duration_fuel\<close>). The loops of goroutines are their turns. Token counts up to \<open>2 ^ 53\<close>, where integers are exact
  as floats, are the bound on burst sizes.

  \<^bold>\<open>Not modelled.\<close> JSON and YAML encodings (the standard library and struct tags decide them, so they are parameters);
  the format of times and of request identifiers; the builder of controller-runtime and the scheme, which are
  parameters as well; helpers that are aliases of OpenTelemetry or zap (attributes, \<open>Sync\<close>). The remaining lines outside
  the definitions are imports, comments and declarations without behaviour.
\<close>

end
